(* ===== verification/Prelude.thy ===== *)
theory Prelude
  imports Main "HOL-Library.Multiset" "HOL-Library.AList"
begin

text \<open>
  Shared vocabulary of the development: the theorem collections the component
  theories fill, text as a sequence of newline-terminated lines (the shape of the
  generated 3proxy configuration and of every file the daemon reads line by
  line), and generic lemmas on lists and association lists that the component
  proofs use through \<open>simp\<close>.
\<close>

named_theorems js_simps "evaluation rules of the JavaScript runtime model"
named_theorems render_simps "rules that unfold the rendered configuration text"

subsection \<open>Text as lines\<close>

definition nl :: string where
  "nl = [CHR 0x0A]"

definition nl_free :: "string \<Rightarrow> bool" where
  "nl_free s \<longleftrightarrow> CHR 0x0A \<notin> set s"

text \<open>\<open>lines_text\<close> writes each line followed by a newline, as a template literal
  whose lines all end in a line break does.\<close>

definition lines_text :: "string list \<Rightarrow> string" where
  "lines_text ls = concat (map (\<lambda>l. l @ nl) ls)"

text \<open>\<open>split_lines\<close> reads text back the way a line-oriented configuration
  reader does: a line ends at each newline; a final piece without a newline is a
  line of its own.\<close>

fun split_lines_acc :: "string \<Rightarrow> string \<Rightarrow> string list" where
  "split_lines_acc cur [] = (if cur = [] then [] else [rev cur])"
| "split_lines_acc cur (c # cs) =
     (if c = CHR 0x0A then rev cur # split_lines_acc [] cs
      else split_lines_acc (c # cur) cs)"

definition split_lines :: "string \<Rightarrow> string list" where
  "split_lines s = split_lines_acc [] s"

lemma lines_text_Nil [simp]: "lines_text [] = []"
  by (simp add: lines_text_def)

lemma lines_text_Cons [simp]: "lines_text (l # ls) = l @ nl @ lines_text ls"
  by (simp add: lines_text_def)

lemma lines_text_append [simp]: "lines_text (xs @ ys) = lines_text xs @ lines_text ys"
  by (simp add: lines_text_def)

lemma lines_text_concat [simp]: "lines_text (concat xss) = concat (map lines_text xss)"
  by (induction xss) simp_all

lemma nl_free_append [simp]: "nl_free (xs @ ys) \<longleftrightarrow> nl_free xs \<and> nl_free ys"
  by (auto simp: nl_free_def)

lemma split_lines_acc_line:
  "nl_free l \<Longrightarrow> split_lines_acc cur (l @ nl @ rest) = (rev cur @ l) # split_lines_acc [] rest"
  by (induction l arbitrary: cur) (auto simp: nl_free_def nl_def)

lemma split_lines_lines_text:
  "\<forall>l \<in> set ls. nl_free l \<Longrightarrow> split_lines (lines_text ls) = ls"
proof (induction ls)
  case Nil
  then show ?case by (simp add: split_lines_def)
next
  case (Cons l ls)
  then show ?case
    by (simp add: split_lines_def split_lines_acc_line)
qed

lemma split_lines_acc_append_nl:
  "split_lines_acc cur (s @ nl @ rest) = split_lines_acc cur (s @ nl) @ split_lines_acc [] rest"
  by (induction s arbitrary: cur) (simp_all add: nl_def)

lemma split_lines_lines_text_pieces:
  "split_lines (lines_text ls) = concat (map (\<lambda>l. split_lines (l @ nl)) ls)"
proof (induction ls)
  case Nil
  then show ?case by (simp add: split_lines_def)
next
  case (Cons l ls)
  have "split_lines (l @ nl @ lines_text ls) = split_lines (l @ nl) @ split_lines (lines_text ls)"
    unfolding split_lines_def by (rule split_lines_acc_append_nl)
  with Cons show ?case by simp
qed

lemma split_lines_lines_text_append:
  "\<forall>l \<in> set ls. nl_free l \<Longrightarrow> split_lines (lines_text ls @ rest) = ls @ split_lines rest"
  by (induction ls) (simp_all add: split_lines_def split_lines_acc_line)

lemma split_lines_line: "nl_free l \<Longrightarrow> split_lines (l @ nl) = [l]"
  using split_lines_acc_line [of l "[]" "[]"] by (simp add: split_lines_def)

lemma split_lines_member:
  "l \<in> set ls \<Longrightarrow> set (split_lines (l @ nl)) \<subseteq> set (split_lines (lines_text ls))"
  by (auto simp: split_lines_lines_text_pieces)

subsection \<open>Association lists\<close>

text \<open>A JSON object's properties as parsed: distinct keys, looked up with
  \<open>map_of\<close>; the order of the pairs does not matter for lookup.\<close>

lemma map_of_mset_eq:
  assumes "distinct (map fst xs)" and "mset xs = mset ys"
  shows "map_of xs = map_of ys"
proof -
  have "set xs = set ys" using assms(2) by (metis set_mset_mset)
  moreover have "distinct (map fst ys)"
    using assms by (metis mset_map mset_eq_imp_distinct_iff)
  ultimately show ?thesis using assms(1) by (simp add: map_of_inject_set)
qed

subsection \<open>Lists\<close>

lemma concat_map_concat:
  "concat (map (\<lambda>x. concat (map f (g x))) xs) = concat (map f (concat (map g xs)))"
  by (induction xs) simp_all

lemma take_Suc_append_nth:
  "k < length xs \<Longrightarrow> take (Suc k) xs = take k xs @ [xs ! k]"
  by (simp add: take_Suc_conv_app_nth)

end
