(* ===== verification/Js.thy ===== *)
theory Js
  imports Prelude
begin

text \<open>
  The part of the JavaScript runtime that the server code relies on: JSON values
  as axios hands them over (\<open>response.data\<close>), property access with
  \<open>undefined\<close> for a missing property, truthiness (the guard of every
  \<open>if (x)\<close>, \<open>x || d\<close> and \<open>x && y\<close> in the sources), strict equality
  \<open>===\<close>, \<open>String(v)\<close>, the decimal rendering of integers in template
  literals and \<open>parseInt\<close> without a radix (ECMA-262, parseInt).
  Numbers are modelled by their integer values: the JSON the modems send and the
  database columns are integers; fractional and exponent-form numbers are not
  modelled, nor is the loss of precision above \<open>2^53\<close>.
  Strings are byte strings; the Unicode white space that \<open>parseInt\<close> skips
  beyond ASCII is not modelled.
\<close>

subsection \<open>Values\<close>

datatype jsval =
    JNull
  | JBool bool
  | JNum int
  | JStr string
  | JArr "jsval list"
  | JObj "(string \<times> jsval) list"

text \<open>The result of \<open>parseInt\<close>: an integer or \<open>NaN\<close>.\<close>

datatype jsnum = NaN | Num int

text \<open>\<open>v.k\<close>: the property of an object, \<open>None\<close> for \<open>undefined\<close>.
  Strings, numbers, booleans and arrays have none of the properties the code reads.\<close>

definition get_prop :: "jsval \<Rightarrow> string \<Rightarrow> jsval option" where
  "get_prop v k = (case v of JObj kvs \<Rightarrow> map_of kvs k | _ \<Rightarrow> None)"

fun truthy :: "jsval \<Rightarrow> bool" where
  "truthy JNull = False"
| "truthy (JBool b) = b"
| "truthy (JNum n) = (n \<noteq> 0)"
| "truthy (JStr s) = (s \<noteq> [])"
| "truthy (JArr _) = True"
| "truthy (JObj _) = True"

definition truthy_opt :: "jsval option \<Rightarrow> bool" where
  "truthy_opt v = (case v of None \<Rightarrow> False | Some x \<Rightarrow> truthy x)"

text \<open>\<open>===\<close>: primitives compare by value; objects and arrays by reference. The
  objects the code compares come from distinct HTTP responses, so they are never
  the same reference.\<close>

fun strict_eq :: "jsval \<Rightarrow> jsval \<Rightarrow> bool" where
  "strict_eq JNull y = (y = JNull)"
| "strict_eq (JBool a) y = (y = JBool a)"
| "strict_eq (JNum a) y = (y = JNum a)"
| "strict_eq (JStr a) y = (y = JStr a)"
| "strict_eq (JArr _) _ = False"
| "strict_eq (JObj _) _ = False"

text \<open>Truthiness of the nullable columns and optional fields the code tests.\<close>

definition str_truthy :: "string option \<Rightarrow> bool" where
  "str_truthy s = (case s of None \<Rightarrow> False | Some x \<Rightarrow> x \<noteq> [])"

definition int_truthy :: "int option \<Rightarrow> bool" where
  "int_truthy n = (case n of None \<Rightarrow> False | Some x \<Rightarrow> x \<noteq> 0)"

text \<open>\<open>s || d\<close> on a nullable string and on a nullable number.\<close>

definition str_or :: "string option \<Rightarrow> string \<Rightarrow> string" where
  "str_or s d = (if str_truthy s then the s else d)"

definition int_or :: "int option \<Rightarrow> int \<Rightarrow> int" where
  "int_or n d = (if int_truthy n then the n else d)"

subsection \<open>Integers as text\<close>

definition digit_char :: "nat \<Rightarrow> char" where
  "digit_char d = ''0123456789'' ! d"

fun nat_digits :: "nat \<Rightarrow> nat list" where
  "nat_digits n = (if n < 10 then [n] else nat_digits (n div 10) @ [n mod 10])"

declare nat_digits.simps [simp del]

definition nat_str :: "nat \<Rightarrow> string" where
  "nat_str n = map digit_char (nat_digits n)"

text \<open>\<open>`${n}`\<close> for an integer \<open>n\<close>.\<close>

definition int_str :: "int \<Rightarrow> string" where
  "int_str i = (if i < 0 then CHR ''-'' # nat_str (nat (- i)) else nat_str (nat i))"

text \<open>\<open>`${x}`\<close> for a nullable column: a database \<open>NULL\<close> prints as \<open>null\<close>.\<close>

definition tmpl_str :: "string option \<Rightarrow> string" where
  "tmpl_str s = (case s of None \<Rightarrow> ''null'' | Some x \<Rightarrow> x)"

definition tmpl_int :: "int option \<Rightarrow> string" where
  "tmpl_int n = (case n of None \<Rightarrow> ''null'' | Some x \<Rightarrow> int_str x)"

fun join_with :: "string \<Rightarrow> string list \<Rightarrow> string" where
  "join_with sep [] = []"
| "join_with sep [x] = x"
| "join_with sep (x # xs) = x @ sep @ join_with sep xs"

text \<open>\<open>String(v)\<close>; \<open>Array.prototype.join\<close> prints \<open>null\<close> elements as empty.\<close>

fun to_string :: "jsval \<Rightarrow> string" where
  "to_string JNull = ''null''"
| "to_string (JBool b) = (if b then ''true'' else ''false'')"
| "to_string (JNum n) = int_str n"
| "to_string (JStr s) = s"
| "to_string (JArr xs) = join_with '','' (map (\<lambda>x. if x = JNull then [] else to_string x) xs)"
| "to_string (JObj _) = ''[object Object]''"

subsection \<open>parseInt\<close>

definition is_ws :: "char \<Rightarrow> bool" where
  "is_ws c \<longleftrightarrow> c \<in> set [CHR 0x09, CHR 0x0A, CHR 0x0B, CHR 0x0C, CHR 0x0D, CHR 0x20]"

text \<open>The value of a character as a digit of radix \<open>r\<close> (letters of either case
  stand for 10 to 35), \<open>None\<close> when it is no such digit.\<close>

definition digit_val :: "nat \<Rightarrow> char \<Rightarrow> nat option" where
  "digit_val r c =
     (let k = (of_char c :: nat);
          v = (if 48 \<le> k \<and> k \<le> 57 then k - 48
               else if 97 \<le> k \<and> k \<le> 122 then k - 87
               else if 65 \<le> k \<and> k \<le> 90 then k - 55 else 36)
      in if v < r then Some v else None)"

text \<open>The longest prefix of radix-\<open>r\<close> digits, as digit values.\<close>

fun digit_run :: "nat \<Rightarrow> string \<Rightarrow> nat list" where
  "digit_run r [] = []"
| "digit_run r (c # cs) = (case digit_val r c of None \<Rightarrow> [] | Some v \<Rightarrow> v # digit_run r cs)"

definition radix_value :: "nat \<Rightarrow> nat list \<Rightarrow> nat" where
  "radix_value r vs = foldl (\<lambda>acc v. acc * r + v) 0 vs"

text \<open>ECMA-262 parseInt(string, undefined): skip leading white space, take a
  sign, strip a \<open>0x\<close>/\<open>0X\<close> prefix (radix 16, else 10), read the longest
  digit prefix; no digit gives \<open>NaN\<close>.\<close>

definition parseInt_str :: "string \<Rightarrow> jsnum" where
  "parseInt_str s0 =
     (let s = dropWhile is_ws s0;
          sign = (if s \<noteq> [] \<and> hd s = CHR ''-'' then -1 else (1::int));
          s = (if s \<noteq> [] \<and> (hd s = CHR ''+'' \<or> hd s = CHR ''-'') then tl s else s);
          (r, s) = (if take 2 s = ''0x'' \<or> take 2 s = ''0X'' then (16, drop 2 s) else (10, s));
          vs = digit_run r s
      in if vs = [] then NaN else Num (sign * int (radix_value r vs)))"

definition parseInt :: "jsval \<Rightarrow> jsnum" where
  "parseInt v = parseInt_str (to_string v)"

text \<open>\<open>`${n}`\<close> of a number that \<open>parseInt\<close> returned, and
  \<open>parseInt(x) || d\<close>: \<open>NaN\<close> and 0 are falsy.\<close>

definition num_text :: "jsnum \<Rightarrow> string" where
  "num_text n = (case n of NaN \<Rightarrow> ''NaN'' | Num i \<Rightarrow> int_str i)"

definition num_or :: "jsnum \<Rightarrow> int \<Rightarrow> int" where
  "num_or n d = (case n of NaN \<Rightarrow> d | Num i \<Rightarrow> if i = 0 then d else i)"

text \<open>\<open>String.prototype.trim\<close> on ASCII text.\<close>

definition js_trim :: "string \<Rightarrow> string" where
  "js_trim s = rev (dropWhile is_ws (rev (dropWhile is_ws s)))"

subsection \<open>Map and Array.prototype.slice\<close>

text \<open>A JavaScript \<open>Map\<close>: its entries in insertion order.  \<open>set\<close> on a
  present key replaces the value in place, on a new key appends the entry;
  \<open>delete\<close> removes the entry and says whether there was one.\<close>

type_synonym ('k, 'v) jsmap = "('k \<times> 'v) list"

definition jsmap_get :: "('k, 'v) jsmap \<Rightarrow> 'k \<Rightarrow> 'v option" where
  "jsmap_get m k = map_of m k"

definition jsmap_set :: "'k \<Rightarrow> 'v \<Rightarrow> ('k, 'v) jsmap \<Rightarrow> ('k, 'v) jsmap" where
  "jsmap_set k v m = AList.update k v m"

definition jsmap_delete :: "'k \<Rightarrow> ('k, 'v) jsmap \<Rightarrow> bool \<times> ('k, 'v) jsmap" where
  "jsmap_delete k m = (k \<in> fst ` set m, AList.delete k m)"

definition jsmap_values :: "('k, 'v) jsmap \<Rightarrow> 'v list" where
  "jsmap_values m = map snd m"

text \<open>\<open>xs.slice(0, n)\<close>: a negative end counts from the end.\<close>

definition js_slice0 :: "int \<Rightarrow> 'a list \<Rightarrow> 'a list" where
  "js_slice0 n xs = (if 0 \<le> n then take (nat n) xs else take (length xs - nat (- n)) xs)"

subsection \<open>Lemmas\<close>

lemma nat_digits_small [simp, js_simps]: "n < 10 \<Longrightarrow> nat_digits n = [n]"
  by (simp add: nat_digits.simps)

lemma nat_digits_big [simp, js_simps]:
  "\<not> n < 10 \<Longrightarrow> nat_digits n = nat_digits (n div 10) @ [n mod 10]"
  by (subst nat_digits.simps) simp

lemma digit_char_simps [simp, js_simps]:
  "digit_char 0 = CHR ''0''" "digit_char 1 = CHR ''1''" "digit_char 2 = CHR ''2''"
  "digit_char 3 = CHR ''3''" "digit_char 4 = CHR ''4''" "digit_char 5 = CHR ''5''"
  "digit_char 6 = CHR ''6''" "digit_char 7 = CHR ''7''" "digit_char 8 = CHR ''8''"
  "digit_char 9 = CHR ''9''" "digit_char (Suc 0) = CHR ''1''"
  by (simp_all add: digit_char_def)

lemma truthy_opt_simps [simp, js_simps]:
  "truthy_opt None = False" "truthy_opt (Some v) = truthy v"
  by (simp_all add: truthy_opt_def)

lemma get_prop_JObj [simp, js_simps]: "get_prop (JObj kvs) k = map_of kvs k"
  by (simp add: get_prop_def)

lemma str_truthy_simps [simp, js_simps]:
  "str_truthy None = False" "str_truthy (Some s) = (s \<noteq> [])"
  by (simp_all add: str_truthy_def)

lemma int_truthy_simps [simp, js_simps]:
  "int_truthy None = False" "int_truthy (Some n) = (n \<noteq> 0)"
  by (simp_all add: int_truthy_def)

lemma tmpl_simps [simp, js_simps]:
  "tmpl_str None = ''null''" "tmpl_str (Some s) = s"
  "tmpl_int None = ''null''" "tmpl_int (Some n) = int_str n"
  by (simp_all add: tmpl_str_def tmpl_int_def)

lemma strict_eq_refl_prim:
  "\<lbrakk>\<forall>xs. v \<noteq> JArr xs; \<forall>kvs. v \<noteq> JObj kvs\<rbrakk> \<Longrightarrow> strict_eq v v"
  by (cases v) auto

lemma strict_eq_imp_eq: "strict_eq a b \<Longrightarrow> a = b"
  by (cases a) auto

lemma nat_digits_lt: "d \<in> set (nat_digits n) \<Longrightarrow> d < 10"
proof (induction n rule: nat_digits.induct)
  case (1 n)
  then show ?case by (cases "n < 10") auto
qed

lemma nat_digits_ne [simp]: "nat_digits n \<noteq> []"
  by (cases "n < 10") auto

lemma radix_value_snoc: "radix_value r (vs @ [v]) = radix_value r vs * r + v"
  by (simp add: radix_value_def)

lemma radix_value_nat_digits: "radix_value 10 (nat_digits n) = n"
proof (induction n rule: nat_digits.induct)
  case (1 n)
  then show ?case by (cases "n < 10") (auto simp: radix_value_def radix_value_snoc)
qed

lemma digit_val_digit_char: "d < 10 \<Longrightarrow> digit_val 10 (digit_char d) = Some d"
  by (simp add: digit_char_def digit_val_def less_Suc_eq numeral_eq_Suc) (elim disjE; simp)

lemma digit_char_not_sign:
  "d < 10 \<Longrightarrow> digit_char d \<noteq> CHR ''-'' \<and> digit_char d \<noteq> CHR ''+'' \<and>
     \<not> is_ws (digit_char d) \<and> digit_char d \<noteq> CHR ''x'' \<and> digit_char d \<noteq> CHR ''X''"
  by (simp add: digit_char_def is_ws_def less_Suc_eq numeral_eq_Suc) (elim disjE; simp)

lemma digit_run_digits:
  "\<forall>d \<in> set ds. d < 10 \<Longrightarrow> digit_run 10 (map digit_char ds) = ds"
  by (induction ds) (auto simp: digit_val_digit_char)

lemma nat_str_props:
  assumes "c \<in> set (nat_str n)"
  shows "c \<noteq> CHR ''-'' \<and> c \<noteq> CHR ''+'' \<and> \<not> is_ws c \<and> c \<noteq> CHR ''x'' \<and> c \<noteq> CHR ''X''"
proof -
  from assms have "c \<in> digit_char ` set (nat_digits n)"
    by (simp only: nat_str_def set_map)
  then obtain d where d: "d \<in> set (nat_digits n)" and c: "c = digit_char d"
    by blast
  from d have "d < 10" by (rule nat_digits_lt)
  then have "digit_char d \<noteq> CHR ''-'' \<and> digit_char d \<noteq> CHR ''+'' \<and>
      \<not> is_ws (digit_char d) \<and> digit_char d \<noteq> CHR ''x'' \<and> digit_char d \<noteq> CHR ''X''"
    by (rule digit_char_not_sign)
  then show ?thesis unfolding c .
qed

lemma nat_str_ne [simp]: "nat_str n \<noteq> []"
  by (simp add: nat_str_def)

lemma int_str_ne [simp]: "int_str i \<noteq> []"
  by (simp add: int_str_def)

lemma take2_not_hex:
  assumes "\<forall>c \<in> set s. c \<noteq> CHR ''x'' \<and> c \<noteq> CHR ''X''"
  shows "take 2 s \<noteq> ''0x'' \<and> take 2 s \<noteq> ''0X''"
proof -
  have "CHR ''x'' \<notin> set (take 2 s)" "CHR ''X'' \<notin> set (take 2 s)"
    using assms in_set_takeD by fastforce+
  then show ?thesis by auto
qed

lemma nat_str_chars:
  "\<forall>c \<in> set (nat_str n). c \<noteq> CHR ''-'' \<and> c \<noteq> CHR ''+'' \<and> \<not> is_ws c \<and>
     c \<noteq> CHR ''x'' \<and> c \<noteq> CHR ''X''"
proof
  fix c
  assume "c \<in> set (nat_str n)"
  then show "c \<noteq> CHR ''-'' \<and> c \<noteq> CHR ''+'' \<and> \<not> is_ws c \<and> c \<noteq> CHR ''x'' \<and> c \<noteq> CHR ''X''"
    by (rule nat_str_props)
qed

lemma dropWhile_ws_nat_str: "dropWhile is_ws (nat_str n) = nat_str n"
proof (cases "nat_str n")
  case Nil
  then show ?thesis by simp
next
  case (Cons c cs)
  then have "\<not> is_ws c" using nat_str_chars [of n] by simp
  with Cons show ?thesis by simp
qed

lemma hd_nat_str: "hd (nat_str n) \<noteq> CHR ''-'' \<and> hd (nat_str n) \<noteq> CHR ''+''"
proof -
  have "hd (nat_str n) \<in> set (nat_str n)" by simp
  then show ?thesis using nat_str_chars [of n] by blast
qed

lemma digit_run_nat_str: "digit_run 10 (nat_str n) = nat_digits n"
  unfolding nat_str_def by (rule digit_run_digits) (blast intro: nat_digits_lt)

lemma take2_nat_str: "take 2 (nat_str n) \<noteq> ''0x'' \<and> take 2 (nat_str n) \<noteq> ''0X''"
  by (rule take2_not_hex) (simp add: nat_str_chars)

text \<open>Reading back the digits of a rendered natural number, after an optional sign
  that the caller has already consumed.\<close>

lemma parseInt_str_digits:
  assumes "dropWhile is_ws s0 = s" and "sign = (if s \<noteq> [] \<and> hd s = CHR ''-'' then -1 else (1::int))"
    and "(if s \<noteq> [] \<and> (hd s = CHR ''+'' \<or> hd s = CHR ''-'') then tl s else s) = nat_str n"
  shows "parseInt_str s0 = Num (sign * int n)"
  unfolding parseInt_str_def using assms take2_nat_str digit_run_nat_str
  by (simp only: Let_def if_False if_True split: prod.split) (simp add: radix_value_nat_digits)

lemma parseInt_str_nat_str: "parseInt_str (nat_str n) = Num (int n)"
proof -
  have "parseInt_str (nat_str n) = Num (1 * int n)"
    by (rule parseInt_str_digits) (use dropWhile_ws_nat_str hd_nat_str in auto)
  then show ?thesis by simp
qed

lemma parseInt_str_neg_nat_str: "parseInt_str (CHR ''-'' # nat_str n) = Num (- int n)"
proof -
  have "parseInt_str (CHR ''-'' # nat_str n) = Num ((-1) * int n)"
  proof (rule parseInt_str_digits)
    show "dropWhile is_ws (CHR ''-'' # nat_str n) = CHR ''-'' # nat_str n"
      by (simp add: is_ws_def)
  qed simp_all
  then show ?thesis by simp
qed

lemma parseInt_str_int_str: "parseInt_str (int_str i) = Num i"
  by (simp add: int_str_def parseInt_str_nat_str parseInt_str_neg_nat_str)

text \<open>An integer rendered by a template literal reads back to the same integer
  with \<open>parseInt\<close>, whether it arrives as a JSON number or as its decimal text.\<close>

lemma parseInt_roundtrip: "parseInt (JNum n) = Num n \<and> parseInt (JStr (int_str n)) = Num n"
  by (simp add: parseInt_def parseInt_str_int_str)

lemma dropWhile_ws_nat_str_rev: "dropWhile is_ws (rev (nat_str n)) = rev (nat_str n)"
proof -
  have "\<forall>c \<in> set (rev (nat_str n)). \<not> is_ws c" using nat_str_chars by simp
  then show ?thesis by (cases "rev (nat_str n)") simp_all
qed

lemma js_trim_nat_str_nl: "js_trim (nat_str n @ [CHR 0x0A]) = nat_str n"
proof -
  have h: "hd (nat_str n) \<in> set (nat_str n)" by simp
  moreover have "\<not> is_ws (hd (nat_str n))" using nat_str_chars h by blast
  ultimately have "dropWhile is_ws (nat_str n @ [CHR 0x0A]) = nat_str n @ [CHR 0x0A]"
    using dropWhile_append1 [of "hd (nat_str n)" "nat_str n" is_ws "[CHR 0x0A]"]
    by (simp add: dropWhile_ws_nat_str)
  moreover have "is_ws (CHR 0x0A)" by (simp add: is_ws_def)
  ultimately show ?thesis by (simp add: js_trim_def dropWhile_ws_nat_str_rev)
qed

lemma jsmap_get_set [simp]:
  "jsmap_get (jsmap_set k v m) k' = (if k' = k then Some v else jsmap_get m k')"
  by (simp add: jsmap_get_def jsmap_set_def update_conv')

lemma jsmap_keys_set [simp]: "fst ` set (jsmap_set k v m) = insert k (fst ` set m)"
  by (simp add: jsmap_set_def dom_update)

lemma jsmap_distinct_set [simp]:
  "distinct (map fst m) \<Longrightarrow> distinct (map fst (jsmap_set k v m))"
  by (simp add: jsmap_set_def distinct_update)

lemma jsmap_set_fresh: "k \<notin> fst ` set m \<Longrightarrow> jsmap_set k v m = m @ [(k, v)]"
  by (induction m) (auto simp: jsmap_set_def)

lemma jsmap_get_delete [simp]:
  "jsmap_get (snd (jsmap_delete k m)) k' = (if k' = k then None else jsmap_get m k')"
  by (simp add: jsmap_get_def jsmap_delete_def delete_conv')

lemma jsmap_get_None: "jsmap_get m k = None \<longleftrightarrow> k \<notin> fst ` set m"
  by (simp add: jsmap_get_def map_of_eq_None_iff)

lemma jsmap_delete_found: "fst (jsmap_delete k m) \<longleftrightarrow> jsmap_get m k \<noteq> None"
  by (simp add: jsmap_delete_def jsmap_get_None)

lemma jsmap_get_in_values: "jsmap_get m k = Some v \<Longrightarrow> v \<in> set (jsmap_values m)"
  by (force simp: jsmap_get_def jsmap_values_def dest: map_of_SomeD)

lemma length_js_slice0: "0 \<le> n \<Longrightarrow> length (js_slice0 n xs) \<le> nat n"
  by (simp add: js_slice0_def)

end
