(* ===== verification/Schema.thy ===== *)
theory Schema
  imports Js
begin

text \<open>
  The records of \<^verbatim>\<open>src/shared/schema.ts\<close> as the server reads them back from
  the database: a nullable column is an \<open>option\<close> (\<open>None\<close> for SQL
  \<open>NULL\<close>), an integer column is \<open>int\<close>, a text column \<open>string\<close>, a
  timestamp a number of milliseconds.  A nullable boolean column is \<open>bool\<close>: every
  use in the code only tests its truthiness, and \<open>NULL\<close> and \<open>false\<close> are both
  falsy.  Field names carry a prefix where two tables share a column name.
\<close>

type_synonym timestamp = nat

text \<open>The \<open>users\<close> table.\<close>

record user =
  u_id :: int
  u_username :: string
  u_password :: string

text \<open>The \<open>modems\<close> table; \<open>m_status\<close> holds one of \<open>connected\<close>,
  \<open>disconnected\<close>, \<open>reconnecting\<close>, \<open>error\<close>, \<open>rebooting\<close> by convention
  only: the column is free text.\<close>

record modem =
  m_id :: int
  m_name :: string
  imei :: string
  localIp :: "string option"
  m_publicIp :: "string option"
  m_status :: string
  m_signalStrength :: "int option"
  m_downloadSpeed :: "int option"
  m_uploadSpeed :: "int option"
  m_provider :: "string option"
  m_connectionType :: "string option"
  model :: "string option"
  m_firmware :: "string option"
  adminUsername :: "string option"
  adminPassword :: "string option"
  apnName :: "string option"
  apnUsername :: "string option"
  apnPassword :: "string option"
  autoIpRotation :: bool
  ipRotationInterval :: "int option"
  portsAssigned :: bool
  openvpnConfigPath :: "string option"
  openvpnConfigUrl :: "string option"
  m_isActive :: bool
  lastSeen :: "timestamp option"
  lastReboot :: "timestamp option"
  m_createdAt :: "timestamp option"
  m_updatedAt :: "timestamp option"

text \<open>The \<open>proxy_configuration\<close> table.\<close>

record proxy_configuration =
  pc_id :: int
  modemId :: "int option"
  httpPort :: "int option"
  socksPort :: "int option"
  authentication :: bool
  username :: "string option"
  password :: "string option"
  pc_isActive :: bool
  maxConnections :: "int option"
  connectionTimeout :: "int option"
  keepAlive :: bool
  allowedIps :: "string list option"
  blockedIps :: "string list option"
  bandwidthLimit :: "int option"
  dailyTrafficLimit :: "int option"
  protocol :: "string option"
  sslEnabled :: bool
  logLevel :: "string option"
  rotateOnDisconnect :: bool
  customHeaders :: "string option"
  pc_createdAt :: "timestamp option"
  pc_updatedAt :: "timestamp option"

text \<open>A \<open>proxy_configuration\<close> row as the database inserts it when the insert
  names no column but the serial id: every \<open>.default(...)\<close> of the table
  applied, \<open>defaultNow()\<close> the time \<open>now\<close>, the other columns \<open>NULL\<close>.\<close>

definition proxy_configuration_defaults :: "int \<Rightarrow> timestamp \<Rightarrow> proxy_configuration" where
  "proxy_configuration_defaults i now =
     \<lparr>pc_id = i, modemId = None, httpPort = None, socksPort = None, authentication = False,
      username = None, password = None, pc_isActive = True, maxConnections = Some 100,
      connectionTimeout = Some 30, keepAlive = True, allowedIps = None, blockedIps = None,
      bandwidthLimit = None, dailyTrafficLimit = None, protocol = Some ''both'', sslEnabled = False,
      logLevel = Some ''info'', rotateOnDisconnect = False, customHeaders = None,
      pc_createdAt = Some now, pc_updatedAt = Some now\<rparr>"

text \<open>The \<open>vpn_connections\<close>, \<open>ip_rotation_logs\<close> and \<open>system_logs\<close> tables.\<close>

record vpn_connection =
  vpn_id :: int
  vpn_modemId :: "int option"
  clientName :: string
  configPath :: "string option"
  vpn_status :: string
  connectedAt :: "timestamp option"
  disconnectedAt :: "timestamp option"
  vpn_createdAt :: "timestamp option"

record ip_rotation_log =
  log_id :: int
  log_modemId :: "int option"
  log_oldIp :: "string option"
  log_newIp :: "string option"
  log_success :: bool
  log_error :: "string option"
  rotatedAt :: "timestamp option"

record system_log =
  sl_id :: int
  level :: string
  message :: string
  details :: "string option"
  source :: "string option"
  sourceId :: "int option"
  sl_createdAt :: "timestamp option"

text \<open>The \<open>analytics\<close> table.\<close>

record analytics =
  an_id :: int
  an_modemId :: "int option"
  bandwidth :: "int option"
  connections :: "int option"
  rotations :: "int option"
  uptime :: "int option"
  recordedAt :: "timestamp option"

end
