(* ===== verification/Storage.thy ===== *)
theory Storage
  imports Schema
begin

text \<open>
  The in-memory storage of \<^verbatim>\<open>src/server/storage.ts\<close> (\<open>MemStorage\<close>,
  lines 51--427): seven JavaScript \<open>Map\<close>s keyed by id and one counter
  \<open>currentId\<close> shared by all of them, the seed data of
  \<open>initializeDefaultData\<close>, and one function per method.  \<open>new Date()\<close> is the
  parameter \<open>now\<close> (milliseconds); a property the object literal leaves out is
  \<open>None\<close> (or \<open>False\<close> for a boolean), as \<open>undefined\<close> reads.
\<close>

definition seed_modem :: "timestamp \<Rightarrow> int \<Rightarrow> string \<Rightarrow> string \<Rightarrow> string option \<Rightarrow> string \<Rightarrow>
                         int \<Rightarrow> int \<Rightarrow> int \<Rightarrow> nat \<Rightarrow> modem" where
  "seed_modem now i name im pub st sig down up rebooted_ago =
     \<lparr>m_id = i, m_name = name, imei = im, localIp = Some ''192.168.1.1'', m_publicIp = pub,
      m_status = st, m_signalStrength = Some sig, m_downloadSpeed = Some down,
      m_uploadSpeed = Some up, m_provider = Some ''Vodafone'', m_connectionType = Some ''4G'',
      model = Some ''M300z'', m_firmware = Some ''BD_M300zV1.1'', adminUsername = Some ''admin'',
      adminPassword = Some ''admin'', apnName = None, apnUsername = None, apnPassword = None,
      autoIpRotation = False, ipRotationInterval = None, portsAssigned = False,
      openvpnConfigPath = None, openvpnConfigUrl = None, m_isActive = True, lastSeen = Some now,
      lastReboot = Some (now - rebooted_ago), m_createdAt = Some now, m_updatedAt = Some now\<rparr>"

definition seed_modems :: "timestamp \<Rightarrow> modem list" where
  "seed_modems now =
     [seed_modem now 1 ''M300z-001'' ''356938035643809'' (Some ''203.0.113.45'') ''connected''
        (-65) 45 12 (24 * 60 * 60 * 1000),
      seed_modem now 2 ''M300z-002'' ''356938035643810'' (Some ''203.0.113.46'') ''connected''
        (-78) 32 8 (12 * 60 * 60 * 1000),
      seed_modem now 3 ''M300z-003'' ''356938035643811'' None ''reconnecting''
        (-95) 0 0 (6 * 60 * 60 * 1000),
      seed_modem now 4 ''M300z-004'' ''356938035643812'' (Some ''203.0.113.47'') ''connected''
        (-58) 67 18 (3 * 60 * 60 * 1000)]"

text \<open>Lines 164--195.\<close>

definition seed_vpn_connections :: "timestamp \<Rightarrow> vpn_connection list" where
  "seed_vpn_connections now =
     [\<lparr>vpn_id = 1, vpn_modemId = Some 1, clientName = ''vpn-client-001'',
       configPath = Some ''/etc/openvpn/client001.conf'', vpn_status = ''active'',
       connectedAt = Some now, disconnectedAt = None, vpn_createdAt = Some now\<rparr>,
      \<lparr>vpn_id = 2, vpn_modemId = Some 2, clientName = ''vpn-client-002'',
       configPath = Some ''/etc/openvpn/client002.conf'', vpn_status = ''active'',
       connectedAt = Some now, disconnectedAt = None, vpn_createdAt = Some now\<rparr>,
      \<lparr>vpn_id = 3, vpn_modemId = Some 4, clientName = ''vpn-client-003'',
       configPath = Some ''/etc/openvpn/client003.conf'', vpn_status = ''active'',
       connectedAt = Some now, disconnectedAt = None, vpn_createdAt = Some now\<rparr>]"

text \<open>Lines 202--230.\<close>

definition seed_system_logs :: "timestamp \<Rightarrow> system_log list" where
  "seed_system_logs now =
     [\<lparr>sl_id = 1, level = ''info'', message = ''Modem-001 IP rotated successfully'',
       details = Some ''New IP: 203.0.113.48'', source = Some ''modem'', sourceId = Some 1,
       sl_createdAt = Some (now - 2 * 60 * 1000)\<rparr>,
      \<lparr>sl_id = 2, level = ''info'', message = ''OpenVPN config generated for Modem-004'',
       details = Some ''Client: vpn-client-001'', source = Some ''vpn'', sourceId = Some 4,
       sl_createdAt = Some (now - 5 * 60 * 1000)\<rparr>,
      \<lparr>sl_id = 3, level = ''warn'', message = ''Modem-003 connection unstable'',
       details = Some ''Signal strength: -95 dBm'', source = Some ''modem'', sourceId = Some 3,
       sl_createdAt = Some (now - 12 * 60 * 1000)\<rparr>]"

subsection \<open>The store\<close>

record mem_storage =
  st_users :: "(int, user) jsmap"
  st_modems :: "(int, modem) jsmap"
  st_vpnConnections :: "(int, vpn_connection) jsmap"
  st_ipRotationLogs :: "(int, ip_rotation_log) jsmap"
  st_systemLogs :: "(int, system_log) jsmap"
  st_proxyConfigurations :: "(int, proxy_configuration) jsmap"
  st_analytics :: "(int, analytics) jsmap"
  currentId :: int

text \<open>Lines 61--64 and 66--237: the constructor seeds the maps with
  \<open>forEach(x => map.set(x.id, x))\<close> and sets \<open>currentId\<close> to 5.\<close>

definition initializeDefaultData :: "timestamp \<Rightarrow> mem_storage" where
  "initializeDefaultData now =
     \<lparr>st_users = [],
      st_modems = foldl (\<lambda>m x. jsmap_set (m_id x) x m) [] (seed_modems now),
      st_vpnConnections = foldl (\<lambda>m x. jsmap_set (vpn_id x) x m) [] (seed_vpn_connections now),
      st_ipRotationLogs = [],
      st_systemLogs = foldl (\<lambda>m x. jsmap_set (sl_id x) x m) [] (seed_system_logs now),
      st_proxyConfigurations = [], st_analytics = [],
      currentId = 5\<rparr>"

text \<open>\<open>const id = this.currentId++\<close>.\<close>

definition next_id :: "mem_storage \<Rightarrow> int \<times> mem_storage" where
  "next_id st = (currentId st, st\<lparr>currentId := currentId st + 1\<rparr>)"

subsubsection \<open>Users (lines 240--253)\<close>

definition getUser :: "int \<Rightarrow> mem_storage \<Rightarrow> user option" where
  "getUser i st = jsmap_get (st_users st) i"

definition getUserByUsername :: "string \<Rightarrow> mem_storage \<Rightarrow> user option" where
  "getUserByUsername name st = find (\<lambda>u. u_username u = name) (jsmap_values (st_users st))"

definition createUser :: "user \<Rightarrow> mem_storage \<Rightarrow> user \<times> mem_storage" where
  "createUser ins st =
     (case next_id st of (i, st1) \<Rightarrow>
        (let u = ins\<lparr>u_id := i\<rparr> in (u, st1\<lparr>st_users := jsmap_set i u (st_users st1)\<rparr>)))"

subsubsection \<open>Modems (lines 256--298)\<close>

definition getModems :: "mem_storage \<Rightarrow> modem list" where
  "getModems st = jsmap_values (st_modems st)"

definition getModem :: "int \<Rightarrow> mem_storage \<Rightarrow> modem option" where
  "getModem i st = jsmap_get (st_modems st) i"

definition getModemByName :: "string \<Rightarrow> mem_storage \<Rightarrow> modem option" where
  "getModemByName name st = find (\<lambda>m. m_name m = name) (jsmap_values (st_modems st))"

text \<open>The insert object arrives as a \<open>modem\<close> whose id and timestamps are
  ignored; a missing \<open>status\<close> is the empty string.\<close>

definition createModem :: "modem \<Rightarrow> timestamp \<Rightarrow> mem_storage \<Rightarrow> modem \<times> mem_storage" where
  "createModem ins now st =
     (case next_id st of (i, st1) \<Rightarrow>
        (let m = ins\<lparr>m_id := i, m_status := (if m_status ins = [] then ''disconnected'' else m_status ins),
                     m_createdAt := Some now, m_updatedAt := Some now\<rparr>
         in (m, st1\<lparr>st_modems := jsmap_set i m (st_modems st1)\<rparr>)))"

text \<open>\<open>{...existing, ...updates, updatedAt: new Date()}\<close>: the updates are the
  function that overwrites the properties the request carries.\<close>

definition updateModem :: "int \<Rightarrow> (modem \<Rightarrow> modem) \<Rightarrow> timestamp \<Rightarrow> mem_storage \<Rightarrow> modem option \<times> mem_storage" where
  "updateModem i updates now st =
     (case jsmap_get (st_modems st) i of
        None \<Rightarrow> (None, st)
      | Some existing \<Rightarrow>
          (let m = (updates existing)\<lparr>m_updatedAt := Some now\<rparr>
           in (Some m, st\<lparr>st_modems := jsmap_set i m (st_modems st)\<rparr>)))"

definition deleteModem :: "int \<Rightarrow> mem_storage \<Rightarrow> bool \<times> mem_storage" where
  "deleteModem i st =
     (case jsmap_delete i (st_modems st) of (found, m) \<Rightarrow> (found, st\<lparr>st_modems := m\<rparr>))"

subsubsection \<open>VPN connections (lines 301--328)\<close>

definition getVpnConnections :: "mem_storage \<Rightarrow> vpn_connection list" where
  "getVpnConnections st = jsmap_values (st_vpnConnections st)"

definition getVpnConnectionsByModem :: "int \<Rightarrow> mem_storage \<Rightarrow> vpn_connection list" where
  "getVpnConnectionsByModem mid st = filter (\<lambda>c. vpn_modemId c = Some mid) (jsmap_values (st_vpnConnections st))"

definition createVpnConnection :: "vpn_connection \<Rightarrow> timestamp \<Rightarrow> mem_storage \<Rightarrow> vpn_connection \<times> mem_storage" where
  "createVpnConnection ins now st =
     (case next_id st of (i, st1) \<Rightarrow>
        (let c = ins\<lparr>vpn_id := i, vpn_status := (if vpn_status ins = [] then ''disconnected'' else vpn_status ins),
                     vpn_createdAt := Some now\<rparr>
         in (c, st1\<lparr>st_vpnConnections := jsmap_set i c (st_vpnConnections st1)\<rparr>)))"

definition updateVpnConnection ::
  "int \<Rightarrow> (vpn_connection \<Rightarrow> vpn_connection) \<Rightarrow> mem_storage \<Rightarrow> vpn_connection option \<times> mem_storage" where
  "updateVpnConnection i updates st =
     (case jsmap_get (st_vpnConnections st) i of
        None \<Rightarrow> (None, st)
      | Some existing \<Rightarrow>
          (let c = updates existing in (Some c, st\<lparr>st_vpnConnections := jsmap_set i c (st_vpnConnections st)\<rparr>)))"

subsubsection \<open>Rotation and system logs (lines 331--379)\<close>

text \<open>\<open>sort((a, b) => (b.t || new Date(0)) - (a.t || new Date(0)))\<close>: newest first,
  a stable sort, a missing time counting as 0.\<close>

definition newest_first :: "('a \<Rightarrow> timestamp option) \<Rightarrow> 'a list \<Rightarrow> 'a list" where
  "newest_first t xs = sort_key (\<lambda>x. - int (case t x of None \<Rightarrow> 0 | Some v \<Rightarrow> v)) xs"

definition getIpRotationLogs :: "int \<Rightarrow> mem_storage \<Rightarrow> ip_rotation_log list" where
  "getIpRotationLogs limit st = js_slice0 limit (newest_first rotatedAt (jsmap_values (st_ipRotationLogs st)))"

definition getIpRotationLogsByModem :: "int \<Rightarrow> int \<Rightarrow> mem_storage \<Rightarrow> ip_rotation_log list" where
  "getIpRotationLogsByModem mid limit st =
     js_slice0 limit (newest_first rotatedAt
       (filter (\<lambda>l. log_modemId l = Some mid) (jsmap_values (st_ipRotationLogs st))))"

definition createIpRotationLog :: "ip_rotation_log \<Rightarrow> timestamp \<Rightarrow> mem_storage \<Rightarrow> ip_rotation_log \<times> mem_storage" where
  "createIpRotationLog ins now st =
     (case next_id st of (i, st1) \<Rightarrow>
        (let l = ins\<lparr>log_id := i,
                     log_modemId := (if int_truthy (log_modemId ins) then log_modemId ins else None),
                     log_oldIp := (if str_truthy (log_oldIp ins) then log_oldIp ins else None),
                     log_newIp := (if str_truthy (log_newIp ins) then log_newIp ins else None),
                     log_success := log_success ins,
                     log_error := (if str_truthy (log_error ins) then log_error ins else None),
                     rotatedAt := Some now\<rparr>
         in (l, st1\<lparr>st_ipRotationLogs := jsmap_set i l (st_ipRotationLogs st1)\<rparr>)))"

definition getSystemLogs :: "int \<Rightarrow> mem_storage \<Rightarrow> system_log list" where
  "getSystemLogs limit st = js_slice0 limit (newest_first sl_createdAt (jsmap_values (st_systemLogs st)))"

definition createSystemLog :: "system_log \<Rightarrow> timestamp \<Rightarrow> mem_storage \<Rightarrow> system_log \<times> mem_storage" where
  "createSystemLog ins now st =
     (case next_id st of (i, st1) \<Rightarrow>
        (let l = ins\<lparr>sl_id := i,
                     details := (if str_truthy (details ins) then details ins else None),
                     source := (if str_truthy (source ins) then source ins else None),
                     sourceId := (if int_truthy (sourceId ins) then sourceId ins else None),
                     sl_createdAt := Some now\<rparr>
         in (l, st1\<lparr>st_systemLogs := jsmap_set i l (st_systemLogs st1)\<rparr>)))"

subsubsection \<open>Proxy configurations (lines 382--405)\<close>

definition getProxyConfigurations :: "mem_storage \<Rightarrow> proxy_configuration list" where
  "getProxyConfigurations st = jsmap_values (st_proxyConfigurations st)"

definition getProxyConfigurationByModem :: "int \<Rightarrow> mem_storage \<Rightarrow> proxy_configuration option" where
  "getProxyConfigurationByModem mid st =
     find (\<lambda>c. modemId c = Some mid) (jsmap_values (st_proxyConfigurations st))"

definition createProxyConfiguration ::
  "proxy_configuration \<Rightarrow> timestamp \<Rightarrow> mem_storage \<Rightarrow> proxy_configuration \<times> mem_storage" where
  "createProxyConfiguration ins now st =
     (case next_id st of (i, st1) \<Rightarrow>
        (let c = ins\<lparr>pc_id := i, pc_createdAt := Some now, pc_updatedAt := Some now\<rparr>
         in (c, st1\<lparr>st_proxyConfigurations := jsmap_set i c (st_proxyConfigurations st1)\<rparr>)))"

definition updateProxyConfiguration ::
  "int \<Rightarrow> (proxy_configuration \<Rightarrow> proxy_configuration) \<Rightarrow> timestamp \<Rightarrow> mem_storage \<Rightarrow>
   proxy_configuration option \<times> mem_storage" where
  "updateProxyConfiguration i updates now st =
     (case jsmap_get (st_proxyConfigurations st) i of
        None \<Rightarrow> (None, st)
      | Some existing \<Rightarrow>
          (let c = (updates existing)\<lparr>pc_updatedAt := Some now\<rparr>
           in (Some c, st\<lparr>st_proxyConfigurations := jsmap_set i c (st_proxyConfigurations st)\<rparr>)))"

subsubsection \<open>Analytics (lines 408--426)\<close>

text \<open>\<open>b.recordedAt.getTime() - a.recordedAt.getTime()\<close>: every stored row has a
  time, set by \<open>createAnalytics\<close>.\<close>

definition getAnalytics :: "int \<Rightarrow> mem_storage \<Rightarrow> analytics list" where
  "getAnalytics limit st = js_slice0 limit (newest_first recordedAt (jsmap_values (st_analytics st)))"

definition getAnalyticsByModem :: "int \<Rightarrow> int \<Rightarrow> mem_storage \<Rightarrow> analytics list" where
  "getAnalyticsByModem mid limit st =
     js_slice0 limit (newest_first recordedAt (filter (\<lambda>a. an_modemId a = Some mid) (jsmap_values (st_analytics st))))"

definition createAnalytics :: "analytics \<Rightarrow> timestamp \<Rightarrow> mem_storage \<Rightarrow> analytics \<times> mem_storage" where
  "createAnalytics ins now st =
     (case next_id st of (i, st1) \<Rightarrow>
        (let a = ins\<lparr>an_id := i, recordedAt := Some now\<rparr>
         in (a, st1\<lparr>st_analytics := jsmap_set i a (st_analytics st1)\<rparr>)))"

subsection \<open>Well-formed stores\<close>

text \<open>Each map has distinct keys, every row is stored under its own id, and
  every id is positive and below \<open>currentId\<close>.\<close>

definition table_wf :: "('v \<Rightarrow> int) \<Rightarrow> (int, 'v) jsmap \<Rightarrow> int \<Rightarrow> bool" where
  "table_wf idf m cur \<longleftrightarrow>
     distinct (map fst m) \<and> (\<forall>e \<in> set m. idf (snd e) = fst e \<and> 0 < fst e \<and> fst e < cur)"

definition mem_wf :: "mem_storage \<Rightarrow> bool" where
  "mem_wf st \<longleftrightarrow>
     0 < currentId st \<and>
     table_wf u_id (st_users st) (currentId st) \<and>
     table_wf m_id (st_modems st) (currentId st) \<and>
     table_wf vpn_id (st_vpnConnections st) (currentId st) \<and>
     table_wf log_id (st_ipRotationLogs st) (currentId st) \<and>
     table_wf sl_id (st_systemLogs st) (currentId st) \<and>
     table_wf pc_id (st_proxyConfigurations st) (currentId st) \<and>
     table_wf an_id (st_analytics st) (currentId st)"

text \<open>The state-changing methods, as the routes and any other caller may issue
  them; an update is admitted when it leaves the id alone.\<close>

datatype mem_op =
    OpCreateUser user
  | OpCreateModem modem
  | OpUpdateModem int "modem \<Rightarrow> modem"
  | OpDeleteModem int
  | OpCreateVpnConnection vpn_connection
  | OpUpdateVpnConnection int "vpn_connection \<Rightarrow> vpn_connection"
  | OpCreateIpRotationLog ip_rotation_log
  | OpCreateSystemLog system_log
  | OpCreateProxyConfiguration proxy_configuration
  | OpUpdateProxyConfiguration int "proxy_configuration \<Rightarrow> proxy_configuration"
  | OpCreateAnalytics analytics

fun mem_apply :: "mem_op \<Rightarrow> timestamp \<Rightarrow> mem_storage \<Rightarrow> mem_storage" where
  "mem_apply (OpCreateUser u) now st = snd (createUser u st)"
| "mem_apply (OpCreateModem m) now st = snd (createModem m now st)"
| "mem_apply (OpUpdateModem i f) now st = snd (updateModem i f now st)"
| "mem_apply (OpDeleteModem i) now st = snd (deleteModem i st)"
| "mem_apply (OpCreateVpnConnection c) now st = snd (createVpnConnection c now st)"
| "mem_apply (OpUpdateVpnConnection i f) now st = snd (updateVpnConnection i f st)"
| "mem_apply (OpCreateIpRotationLog l) now st = snd (createIpRotationLog l now st)"
| "mem_apply (OpCreateSystemLog l) now st = snd (createSystemLog l now st)"
| "mem_apply (OpCreateProxyConfiguration c) now st = snd (createProxyConfiguration c now st)"
| "mem_apply (OpUpdateProxyConfiguration i f) now st = snd (updateProxyConfiguration i f now st)"
| "mem_apply (OpCreateAnalytics a) now st = snd (createAnalytics a now st)"

fun op_ok :: "mem_op \<Rightarrow> bool" where
  "op_ok (OpUpdateModem i f) \<longleftrightarrow> (\<forall>m. m_id (f m) = m_id m)"
| "op_ok (OpUpdateVpnConnection i f) \<longleftrightarrow> (\<forall>c. vpn_id (f c) = vpn_id c)"
| "op_ok (OpUpdateProxyConfiguration i f) \<longleftrightarrow> (\<forall>c. pc_id (f c) = pc_id c)"
| "op_ok _ \<longleftrightarrow> True"

inductive mem_reach :: "mem_storage \<Rightarrow> bool" where
  reach_init: "mem_reach (initializeDefaultData t)"
| reach_step: "mem_reach st \<Longrightarrow> op_ok op \<Longrightarrow> mem_reach (mem_apply op now st)"

subsection \<open>Lemmas\<close>

lemma table_wf_fresh:
  assumes "table_wf idf m cur" and "idf v = cur" and "0 < cur"
  shows "table_wf idf (jsmap_set cur v m) (cur + 1)"
proof -
  have "cur \<notin> fst ` set m" using assms(1) by (auto simp: table_wf_def)
  then show ?thesis using assms by (auto simp: table_wf_def jsmap_set_fresh)
qed

lemma table_wf_mono: "table_wf idf m cur \<Longrightarrow> cur \<le> cur' \<Longrightarrow> table_wf idf m cur'"
  by (fastforce simp: table_wf_def)

lemma table_wf_succ: "table_wf idf m cur \<Longrightarrow> table_wf idf m (cur + 1)"
  by (erule table_wf_mono) simp

lemma table_wf_update:
  assumes "table_wf idf m cur" and "jsmap_get m k = Some old" and "idf v = idf old"
  shows "table_wf idf (jsmap_set k v m) cur"
proof -
  have ko: "(k, old) \<in> set m" using assms(2) by (simp add: jsmap_get_def map_of_SomeD)
  then have k: "idf old = k" "0 < k" "k < cur" using assms(1) by (auto simp: table_wf_def)
  have "set (jsmap_set k v m) \<subseteq> insert (k, v) (set m)"
    unfolding jsmap_set_def by (induction m) auto
  with assms(1,3) k show ?thesis by (fastforce simp: table_wf_def jsmap_set_def distinct_update)
qed

lemma table_wf_delete: "table_wf idf m cur \<Longrightarrow> table_wf idf (AList.delete k m) cur"
  by (auto simp: table_wf_def AList.delete_eq distinct_delete [unfolded AList.delete_eq])

lemma next_id_simps [simp]:
  "fst (next_id st) = currentId st" "currentId (snd (next_id st)) = currentId st + 1"
  by (simp_all add: next_id_def)

lemmas storage_defs =
  createUser_def createModem_def updateModem_def deleteModem_def createVpnConnection_def
  updateVpnConnection_def createIpRotationLog_def createSystemLog_def createProxyConfiguration_def
  updateProxyConfiguration_def createAnalytics_def next_id_def

lemma mem_wf_step:
  assumes "mem_wf st" and "op_ok op"
  shows "mem_wf (mem_apply op now st)"
proof -
  let ?c = "currentId st"
  have pos: "0 < ?c" using assms(1) by (simp add: mem_wf_def)
  show ?thesis
  proof (cases op)
    case (OpUpdateModem i f)
    with assms show ?thesis
      by (auto simp: mem_wf_def updateModem_def Let_def intro: table_wf_update split: option.split)
  next
    case (OpUpdateVpnConnection i f)
    with assms show ?thesis
      by (auto simp: mem_wf_def updateVpnConnection_def Let_def intro: table_wf_update split: option.split)
  next
    case (OpUpdateProxyConfiguration i f)
    with assms show ?thesis
      by (auto simp: mem_wf_def updateProxyConfiguration_def Let_def intro: table_wf_update split: option.split)
  next
    case (OpDeleteModem i)
    with assms show ?thesis
      by (simp add: mem_wf_def deleteModem_def jsmap_delete_def table_wf_delete)
  qed (use assms pos in \<open>auto simp: mem_wf_def storage_defs Let_def intro: table_wf_fresh table_wf_succ\<close>)
qed

lemma mem_wf_init: "mem_wf (initializeDefaultData t)"
  by (simp add: mem_wf_def initializeDefaultData_def table_wf_def seed_modems_def seed_modem_def
      seed_vpn_connections_def seed_system_logs_def jsmap_set_def)

lemma createModem_eq:
  "createModem ins now st =
     (ins\<lparr>m_id := currentId st, m_status := (if m_status ins = [] then ''disconnected'' else m_status ins),
          m_createdAt := Some now, m_updatedAt := Some now\<rparr>,
      st\<lparr>currentId := currentId st + 1,
         st_modems := jsmap_set (currentId st)
           (ins\<lparr>m_id := currentId st, m_status := (if m_status ins = [] then ''disconnected'' else m_status ins),
                m_createdAt := Some now, m_updatedAt := Some now\<rparr>) (st_modems st)\<rparr>)"
  by (simp add: createModem_def next_id_def Let_def)

lemma deleteModem_eq:
  "deleteModem i st = (jsmap_get (st_modems st) i \<noteq> None, st\<lparr>st_modems := snd (jsmap_delete i (st_modems st))\<rparr>)"
proof (cases "jsmap_delete i (st_modems st)")
  case (Pair b m')
  then have "b = (jsmap_get (st_modems st) i \<noteq> None)"
    using jsmap_delete_found [of i "st_modems st"] by simp
  with Pair show ?thesis by (simp add: deleteModem_def)
qed

subsection \<open>Properties\<close>

text \<open>C30. Every store the methods can reach from the seeded one is well formed,
  as long as no update rewrites an id: keys distinct, each row under its own id,
  every id positive and below \<open>currentId\<close>.\<close>

theorem storage_invariant:
  assumes "mem_reach st"
  shows "mem_wf st"
  using assms by (induction rule: mem_reach.induct) (simp_all add: mem_wf_init mem_wf_step)

theorem storage_invariant_witness:
  "mem_wf (mem_apply (OpCreateModem (hd (seed_modems 0))) 0 (initializeDefaultData 0))"
proof -
  have h: "mem_reach (mem_apply (OpCreateModem (hd (seed_modems 0))) 0 (initializeDefaultData 0))"
    by (rule reach_step [OF reach_init]) simp
  show ?thesis using storage_invariant [OF h] .
qed

text \<open>\<open>createModem\<close> on a well-formed store hands out the fresh id
  \<open>currentId\<close>, and a lookup of that id returns the created modem while every
  other id reads as before.\<close>

theorem createModem_getModem:
  assumes "mem_wf st" and "createModem ins now st = (m, st')"
  shows "m_id m = currentId st \<and> getModem (m_id m) st = None \<and> getModem (m_id m) st' = Some m \<and>
         (\<forall>k. k \<noteq> m_id m \<longrightarrow> getModem k st' = getModem k st)"
proof -
  have "currentId st \<notin> fst ` set (st_modems st)"
    using assms(1) by (auto simp: mem_wf_def table_wf_def)
  then have "jsmap_get (st_modems st) (currentId st) = None" by (simp add: jsmap_get_None)
  with assms(2) show ?thesis by (auto simp: createModem_eq getModem_def)
qed

theorem createModem_getModem_witness:
  "m_id (fst (createModem (hd (seed_modems 0)) 0 (initializeDefaultData 0))) = currentId (initializeDefaultData 0) \<and>
   getModem (m_id (fst (createModem (hd (seed_modems 0)) 0 (initializeDefaultData 0)))) (initializeDefaultData 0) = None \<and>
   getModem (m_id (fst (createModem (hd (seed_modems 0)) 0 (initializeDefaultData 0))))
     (snd (createModem (hd (seed_modems 0)) 0 (initializeDefaultData 0))) =
     Some (fst (createModem (hd (seed_modems 0)) 0 (initializeDefaultData 0))) \<and>
   getModem 2 (snd (createModem (hd (seed_modems 0)) 0 (initializeDefaultData 0))) = getModem 2 (initializeDefaultData 0)"
proof -
  have h1: "mem_wf (initializeDefaultData 0)" by (rule mem_wf_init)
  have h2: "createModem (hd (seed_modems 0)) 0 (initializeDefaultData 0) =
      (fst (createModem (hd (seed_modems 0)) 0 (initializeDefaultData 0)),
       snd (createModem (hd (seed_modems 0)) 0 (initializeDefaultData 0)))" by simp
  have h3: "(2::int) \<noteq> m_id (fst (createModem (hd (seed_modems 0)) 0 (initializeDefaultData 0)))"
    by (simp add: createModem_def next_id_def Let_def initializeDefaultData_def)
  show ?thesis using createModem_getModem [OF h1 h2] h3 by blast
qed

text \<open>An update whose body carries an \<open>id\<close> (the \<open>PUT /api/modems/:id\<close>
  route passes the request body unvalidated) stores the row under its old key
  with a different id, and the store is no longer well formed.\<close>

theorem updateModem_id_breaks_store:
  "getModem 1 (snd (updateModem 1 (\<lambda>m. m\<lparr>m_id := 7\<rparr>) now (initializeDefaultData t))) \<noteq> None \<and>
   map_option m_id (getModem 1 (snd (updateModem 1 (\<lambda>m. m\<lparr>m_id := 7\<rparr>) now (initializeDefaultData t)))) = Some 7 \<and>
   \<not> mem_wf (snd (updateModem 1 (\<lambda>m. m\<lparr>m_id := 7\<rparr>) now (initializeDefaultData t)))"
  by (simp add: updateModem_def getModem_def initializeDefaultData_def seed_modems_def seed_modem_def
      jsmap_set_def jsmap_get_def mem_wf_def table_wf_def Let_def)

text \<open>\<open>deleteModem\<close> reports whether the modem existed and removes it, and
  nothing else: its proxy configurations and VPN connections stay, now
  referring to no modem.\<close>

theorem deleteModem_no_cascade:
  assumes "deleteModem i st = (found, st')"
  shows "found = (getModem i st \<noteq> None) \<and> getModem i st' = None \<and>
         getProxyConfigurations st' = getProxyConfigurations st \<and> getVpnConnections st' = getVpnConnections st"
  using assms by (auto simp: deleteModem_eq getModem_def getProxyConfigurations_def getVpnConnections_def)

theorem deleteModem_no_cascade_witness:
  "fst (deleteModem 1 (initializeDefaultData 0)) = (getModem 1 (initializeDefaultData 0) \<noteq> None) \<and>
   getModem 1 (snd (deleteModem 1 (initializeDefaultData 0))) = None \<and>
   getProxyConfigurations (snd (deleteModem 1 (initializeDefaultData 0))) = getProxyConfigurations (initializeDefaultData 0) \<and>
   getVpnConnections (snd (deleteModem 1 (initializeDefaultData 0))) = getVpnConnections (initializeDefaultData 0)"
proof -
  have h: "deleteModem 1 (initializeDefaultData 0) =
      (fst (deleteModem 1 (initializeDefaultData 0)), snd (deleteModem 1 (initializeDefaultData 0)))" by simp
  show ?thesis using deleteModem_no_cascade [OF h] .
qed

text \<open>A non-negative limit bounds the rotation log listing, which is
  sorted newest first and holds only stored rows.\<close>

theorem getIpRotationLogs_bounded:
  assumes "0 \<le> limit"
  shows "length (getIpRotationLogs limit st) \<le> nat limit \<and>
         sorted (map (\<lambda>l. - int (case rotatedAt l of None \<Rightarrow> 0 | Some v \<Rightarrow> v)) (getIpRotationLogs limit st)) \<and>
         set (getIpRotationLogs limit st) \<subseteq> set (jsmap_values (st_ipRotationLogs st))"
proof -
  let ?f = "\<lambda>l. - int (case rotatedAt l of None \<Rightarrow> 0 | Some v \<Rightarrow> v)"
  let ?xs = "sort_key ?f (jsmap_values (st_ipRotationLogs st))"
  have r: "getIpRotationLogs limit st = take (nat limit) ?xs"
    using assms by (simp add: getIpRotationLogs_def js_slice0_def newest_first_def)
  have "sorted (map ?f ?xs)" by (rule sorted_sort_key)
  then have "sorted (take (nat limit) (map ?f ?xs))" by (rule sorted_wrt_take)
  moreover have "set (take (nat limit) ?xs) \<subseteq> set (jsmap_values (st_ipRotationLogs st))"
    using set_take_subset by fastforce
  ultimately show ?thesis by (simp add: r take_map)
qed

theorem getIpRotationLogs_bounded_witness:
  "length (getIpRotationLogs 24 (initializeDefaultData 0)) \<le> nat 24 \<and>
   sorted (map (\<lambda>l. - int (case rotatedAt l of None \<Rightarrow> 0 | Some v \<Rightarrow> v)) (getIpRotationLogs 24 (initializeDefaultData 0))) \<and>
   set (getIpRotationLogs 24 (initializeDefaultData 0)) \<subseteq> set (jsmap_values (st_ipRotationLogs (initializeDefaultData 0)))"
proof -
  have h: "(0::int) \<le> 24" by simp
  show ?thesis using getIpRotationLogs_bounded [OF h] .
qed

text \<open>A negative limit is not rejected: \<open>slice(0, -1)\<close> drops the oldest
  entry, so \<open>?limit=-1\<close> on the seeded store lists two of the three logs.\<close>

theorem getSystemLogs_negative_limit:
  "map sl_id (getSystemLogs (-1) (initializeDefaultData t)) = [1, 2]"
  by (simp add: getSystemLogs_def js_slice0_def newest_first_def initializeDefaultData_def
      seed_system_logs_def jsmap_set_def jsmap_values_def; arith)

end
