(* ===== verification/Db_Storage.thy ===== *)
theory Db_Storage
  imports Storage "HOL-Library.Product_Lexorder"
begin

text \<open>
  The storage the server actually uses: \<open>export const storage = new
  DatabaseStorage()\<close> (\<^verbatim>\<open>src/server/storage.ts\<close>, lines 430--600), whose
  methods issue drizzle queries against PostgreSQL.  The database is modelled
  by what those queries rely on: one row list per table of
  \<^verbatim>\<open>src/shared/schema.ts\<close>, one \<open>serial\<close> sequence per table, the column
  defaults, the primary-key, unique and foreign-key constraints, and the
  \<open>integer\<close> (int4) conversion of query parameters.  A statement that violates
  a constraint or cannot convert a parameter aborts with an error and leaves the
  tables unchanged; the sequence value it has drawn stays drawn, as \<open>nextval\<close>
  is never rolled back.  Insert and update payloads are functions overwriting
  the columns they name, applied to the default row (inserts) or to the stored
  row (updates).
\<close>

subsection \<open>PostgreSQL\<close>

datatype db_error =
    UniqueViolation string
  | ForeignKeyViolation string
  | InvalidInteger string
  | IntegerOutOfRange
  | InvalidBoolean string
  | NotNullViolation string
  | ValueEncoding string
  | EmptySet
  | SequenceExhausted

text \<open>The type \<open>integer\<close> of the id columns and of the \<open>serial\<close> sequences.\<close>

definition in_int4 :: "int \<Rightarrow> bool" where
  "in_int4 n \<longleftrightarrow> - 2147483648 \<le> n \<and> n \<le> 2147483647"

text \<open>A query parameter as the JavaScript caller passes it: \<open>NaN\<close> (a failed
  \<open>parseInt\<close>) or a JSON value.  node-postgres sends it as text, and the
  server's \<open>int4\<close> input function (\<open>pg_strtoint32\<close>) accepts blanks, an
  optional sign and at least one decimal digit, then blanks, for an integer in
  range; \<open>null\<close> compares equal to nothing.  The non-decimal prefixes and digit
  separators that PostgreSQL 16 added are not modelled.\<close>

datatype idarg = IdNaN | IdVal jsval

definition arg_of_num :: "jsnum \<Rightarrow> idarg" where
  "arg_of_num n = (case n of NaN \<Rightarrow> IdNaN | Num i \<Rightarrow> IdVal (JNum i))"

definition int4_of :: "int \<Rightarrow> db_error + int option" where
  "int4_of n = (if in_int4 n then Inr (Some n) else Inl IntegerOutOfRange)"

definition pg_int_text :: "string \<Rightarrow> int option" where
  "pg_int_text s0 =
     (let s = js_trim s0;
          sign = (if s \<noteq> [] \<and> hd s = CHR ''-'' then -1 else (1::int));
          ds = (if s \<noteq> [] \<and> (hd s = CHR ''+'' \<or> hd s = CHR ''-'') then tl s else s);
          vs = digit_run 10 ds
      in if ds \<noteq> [] \<and> length vs = length ds then Some (sign * int (radix_value 10 vs)) else None)"

fun pg_int4 :: "idarg \<Rightarrow> db_error + int option" where
  "pg_int4 IdNaN = Inl (InvalidInteger ''NaN'')"
| "pg_int4 (IdVal JNull) = Inr None"
| "pg_int4 (IdVal (JNum n)) = int4_of n"
| "pg_int4 (IdVal (JStr s)) =
     (case pg_int_text s of Some n \<Rightarrow> int4_of n | None \<Rightarrow> Inl (InvalidInteger s))"
| "pg_int4 (IdVal v) = Inl (InvalidInteger (to_string v))"

text \<open>\<open>ORDER BY t DESC\<close>: PostgreSQL puts \<open>NULL\<close> first in descending order.
  The order of rows with equal keys is left open by PostgreSQL; the model keeps
  table order for them.\<close>

definition desc_nulls_first :: "('a \<Rightarrow> timestamp option) \<Rightarrow> 'a list \<Rightarrow> 'a list" where
  "desc_nulls_first t xs =
     sort_key (\<lambda>x. case t x of None \<Rightarrow> (0::nat, 0::int) | Some v \<Rightarrow> (1, - int v)) xs"

text \<open>\<open>.limit(n)\<close>: drizzle renders \<open>LIMIT n\<close> only for \<open>n \<ge> 0\<close>
  (\<open>PgDialect.buildSelectQuery\<close> of the releases with the
  \<open>drizzle({ client })\<close> constructor the bundle uses); a negative count
  gives no LIMIT clause and every row.\<close>

definition pg_limit :: "int \<Rightarrow> 'a list \<Rightarrow> db_error + 'a list" where
  "pg_limit n xs = (if n < 0 then Inr xs else Inr (take (nat n) xs))"

text \<open>\<open>const [row] = rows; return row || undefined\<close>.\<close>

definition first_row :: "'a list \<Rightarrow> 'a option" where
  "first_row rows = (case rows of [] \<Rightarrow> None | r # _ \<Rightarrow> Some r)"

subsection \<open>The database\<close>

datatype table = TUsers | TModems | TVpnConnections | TIpRotationLogs | TSystemLogs
  | TProxyConfiguration | TAnalytics

record db =
  db_users :: "user list"
  db_modems :: "modem list"
  db_vpnConnections :: "vpn_connection list"
  db_ipRotationLogs :: "ip_rotation_log list"
  db_systemLogs :: "system_log list"
  db_proxyConfiguration :: "proxy_configuration list"
  db_analytics :: "analytics list"
  db_seq :: "table \<Rightarrow> int"

definition empty_db :: db where
  "empty_db = \<lparr>db_users = [], db_modems = [], db_vpnConnections = [], db_ipRotationLogs = [],
     db_systemLogs = [], db_proxyConfiguration = [], db_analytics = [], db_seq = (\<lambda>_. 0)\<rparr>"

text \<open>\<open>nextval\<close> of a \<open>serial\<close> sequence: 1, 2, ... up to the int4 maximum.\<close>

definition nextval :: "table \<Rightarrow> db \<Rightarrow> db_error + int \<times> db" where
  "nextval t d =
     (if 2147483647 \<le> db_seq d t then Inl SequenceExhausted
      else Inr (db_seq d t + 1, d\<lparr>db_seq := (db_seq d)(t := db_seq d t + 1)\<rparr>))"

text \<open>The constraints of \<^verbatim>\<open>schema.ts\<close>: every \<open>primaryKey()\<close>, the
  \<open>unique()\<close> username and IMEI, and the four \<open>modem_id\<close> columns that
  \<open>references(() => modems.id)\<close>, by drizzle's constraint names.\<close>

definition refs_ok :: "db \<Rightarrow> int option list \<Rightarrow> bool" where
  "refs_ok d rs = list_all (\<lambda>r. case r of None \<Rightarrow> True | Some k \<Rightarrow> k \<in> set (map m_id (db_modems d))) rs"

definition db_violation :: "db \<Rightarrow> db_error option" where
  "db_violation d =
     (if \<not> distinct (map u_id (db_users d)) then Some (UniqueViolation ''users_pkey'')
      else if \<not> distinct (map u_username (db_users d)) then Some (UniqueViolation ''users_username_unique'')
      else if \<not> distinct (map m_id (db_modems d)) then Some (UniqueViolation ''modems_pkey'')
      else if \<not> distinct (map imei (db_modems d)) then Some (UniqueViolation ''modems_imei_unique'')
      else if \<not> distinct (map vpn_id (db_vpnConnections d)) then Some (UniqueViolation ''vpn_connections_pkey'')
      else if \<not> distinct (map log_id (db_ipRotationLogs d)) then Some (UniqueViolation ''ip_rotation_logs_pkey'')
      else if \<not> distinct (map sl_id (db_systemLogs d)) then Some (UniqueViolation ''system_logs_pkey'')
      else if \<not> distinct (map pc_id (db_proxyConfiguration d)) then Some (UniqueViolation ''proxy_configuration_pkey'')
      else if \<not> distinct (map an_id (db_analytics d)) then Some (UniqueViolation ''analytics_pkey'')
      else if \<not> refs_ok d (map vpn_modemId (db_vpnConnections d))
        then Some (ForeignKeyViolation ''vpn_connections_modem_id_modems_id_fk'')
      else if \<not> refs_ok d (map log_modemId (db_ipRotationLogs d))
        then Some (ForeignKeyViolation ''ip_rotation_logs_modem_id_modems_id_fk'')
      else if \<not> refs_ok d (map modemId (db_proxyConfiguration d))
        then Some (ForeignKeyViolation ''proxy_configuration_modem_id_modems_id_fk'')
      else if \<not> refs_ok d (map an_modemId (db_analytics d))
        then Some (ForeignKeyViolation ''analytics_modem_id_modems_id_fk'')
      else None)"

text \<open>A write statement: the candidate state is kept when it satisfies every
  constraint, else the statement fails and the old state stays.\<close>

definition commit :: "'a \<Rightarrow> db \<Rightarrow> db \<Rightarrow> (db_error + 'a) \<times> db" where
  "commit r d d' = (case db_violation d' of None \<Rightarrow> (Inr r, d') | Some e \<Rightarrow> (Inl e, d))"

text \<open>\<open>INSERT ... RETURNING\<close>: draw the id, build the row from the defaults and
  the payload, append it.\<close>

definition insert_row ::
  "table \<Rightarrow> (int \<Rightarrow> 'r) \<Rightarrow> (db \<Rightarrow> 'r list) \<Rightarrow> ('r list \<Rightarrow> db \<Rightarrow> db) \<Rightarrow> db \<Rightarrow> (db_error + 'r) \<times> db" where
  "insert_row t mk get put d =
     (case nextval t d of
        Inl e \<Rightarrow> (Inl e, d)
      | Inr (i, d1) \<Rightarrow> commit (mk i) d1 (put (get d1 @ [mk i]) d1))"

text \<open>\<open>UPDATE ... SET ... WHERE id = p RETURNING\<close>.\<close>

definition update_row ::
  "('r \<Rightarrow> int) \<Rightarrow> idarg \<Rightarrow> ('r \<Rightarrow> 'r) \<Rightarrow> (db \<Rightarrow> 'r list) \<Rightarrow> ('r list \<Rightarrow> db \<Rightarrow> db) \<Rightarrow> db \<Rightarrow>
   (db_error + 'r option) \<times> db" where
  "update_row idf p upd get put d =
     (case pg_int4 p of
        Inl e \<Rightarrow> (Inl e, d)
      | Inr None \<Rightarrow> (Inr None, d)
      | Inr (Some k) \<Rightarrow>
          commit (map_option upd (find (\<lambda>r. idf r = k) (get d)))
                 d (put (map (\<lambda>r. if idf r = k then upd r else r) (get d)) d))"

text \<open>\<open>SELECT * FROM t WHERE id = p\<close>.\<close>

definition select_id :: "('r \<Rightarrow> int) \<Rightarrow> idarg \<Rightarrow> 'r list \<Rightarrow> db_error + 'r option" where
  "select_id idf p rows =
     (case pg_int4 p of
        Inl e \<Rightarrow> Inl e
      | Inr None \<Rightarrow> Inr None
      | Inr (Some k) \<Rightarrow> Inr (first_row (filter (\<lambda>r. idf r = k) rows)))"

text \<open>\<open>SELECT * FROM t WHERE modem_id = m ORDER BY t DESC LIMIT n\<close>.\<close>

definition select_modem_limit ::
  "('r \<Rightarrow> int option) \<Rightarrow> ('r \<Rightarrow> timestamp option) \<Rightarrow> int \<Rightarrow> int \<Rightarrow> 'r list \<Rightarrow> db_error + 'r list" where
  "select_modem_limit mf t mid n rows =
     (case pg_int4 (IdVal (JNum mid)) of
        Inl e \<Rightarrow> Inl e
      | Inr k \<Rightarrow> pg_limit n (desc_nulls_first t (filter (\<lambda>r. mf r = k) rows)))"

subsection \<open>Column defaults\<close>

text \<open>The row an \<open>INSERT\<close> builds before the payload: every \<open>.default(...)\<close>
  and \<open>defaultNow()\<close> of the table; \<open>NULL\<close> elsewhere, and the empty string
  for the \<open>notNull()\<close> text columns without default, which every insert of the
  code names.\<close>

definition modem_defaults :: "timestamp \<Rightarrow> modem" where
  "modem_defaults now =
     \<lparr>m_id = 0, m_name = [], imei = [], localIp = Some ''192.168.1.1'', m_publicIp = None,
      m_status = ''disconnected'', m_signalStrength = None, m_downloadSpeed = None, m_uploadSpeed = None,
      m_provider = None, m_connectionType = None, model = Some ''M300z'', m_firmware = None,
      adminUsername = Some ''admin'', adminPassword = Some ''admin'', apnName = None, apnUsername = None,
      apnPassword = None, autoIpRotation = False, ipRotationInterval = Some 30, portsAssigned = False,
      openvpnConfigPath = None, openvpnConfigUrl = None, m_isActive = True, lastSeen = Some now,
      lastReboot = None, m_createdAt = Some now, m_updatedAt = Some now\<rparr>"

definition vpn_defaults :: "timestamp \<Rightarrow> vpn_connection" where
  "vpn_defaults now =
     \<lparr>vpn_id = 0, vpn_modemId = None, clientName = [], configPath = None, vpn_status = ''inactive'',
      connectedAt = None, disconnectedAt = None, vpn_createdAt = Some now\<rparr>"

definition rotation_log_defaults :: "timestamp \<Rightarrow> ip_rotation_log" where
  "rotation_log_defaults now =
     \<lparr>log_id = 0, log_modemId = None, log_oldIp = None, log_newIp = None, log_success = True,
      log_error = None, rotatedAt = Some now\<rparr>"

definition system_log_defaults :: "timestamp \<Rightarrow> system_log" where
  "system_log_defaults now =
     \<lparr>sl_id = 0, level = [], message = [], details = None, source = None, sourceId = None,
      sl_createdAt = Some now\<rparr>"

definition analytics_defaults :: "timestamp \<Rightarrow> analytics" where
  "analytics_defaults now =
     \<lparr>an_id = 0, an_modemId = None, bandwidth = None, connections = None, rotations = None,
      uptime = None, recordedAt = Some now\<rparr>"

definition user_defaults :: user where
  "user_defaults = \<lparr>u_id = 0, u_username = [], u_password = []\<rparr>"

subsection \<open>The methods of \<open>DatabaseStorage\<close>\<close>

text \<open>Reads return a value or the error the query raises; writes also return
  the database.\<close>

definition db_getUser :: "int \<Rightarrow> db \<Rightarrow> db_error + user option" where
  "db_getUser i d = select_id u_id (IdVal (JNum i)) (db_users d)"

definition db_getUserByUsername :: "string \<Rightarrow> db \<Rightarrow> db_error + user option" where
  "db_getUserByUsername name d = Inr (first_row (filter (\<lambda>u. u_username u = name) (db_users d)))"

definition db_createUser :: "(user \<Rightarrow> user) \<Rightarrow> db \<Rightarrow> (db_error + user) \<times> db" where
  "db_createUser ins d =
     insert_row TUsers (\<lambda>i. (ins user_defaults)\<lparr>u_id := i\<rparr>) db_users (\<lambda>rs d. d\<lparr>db_users := rs\<rparr>) d"

definition db_getModems :: "db \<Rightarrow> db_error + modem list" where
  "db_getModems d = Inr (desc_nulls_first m_createdAt (db_modems d))"

definition db_getModem :: "idarg \<Rightarrow> db \<Rightarrow> db_error + modem option" where
  "db_getModem p d = select_id m_id p (db_modems d)"

definition db_getModemByName :: "string \<Rightarrow> db \<Rightarrow> db_error + modem option" where
  "db_getModemByName name d = Inr (first_row (filter (\<lambda>m. m_name m = name) (db_modems d)))"

definition db_createModem :: "(modem \<Rightarrow> modem) \<Rightarrow> timestamp \<Rightarrow> db \<Rightarrow> (db_error + modem) \<times> db" where
  "db_createModem ins now d =
     insert_row TModems (\<lambda>i. (ins (modem_defaults now))\<lparr>m_id := i\<rparr>) db_modems
       (\<lambda>rs d. d\<lparr>db_modems := rs\<rparr>) d"

text \<open>\<open>.set(updates)\<close> writes the named columns only: unlike
  \<open>MemStorage.updateModem\<close> it leaves \<open>updatedAt\<close> as it was.\<close>

definition db_updateModem :: "idarg \<Rightarrow> (modem \<Rightarrow> modem) \<Rightarrow> db \<Rightarrow> (db_error + modem option) \<times> db" where
  "db_updateModem p upd d = update_row m_id p upd db_modems (\<lambda>rs d. d\<lparr>db_modems := rs\<rparr>) d"

text \<open>\<open>result.rowCount !== null && result.rowCount > 0\<close>; a modem that a
  row of another table references cannot be deleted (\<open>ON DELETE NO ACTION\<close>).\<close>

definition db_deleteModem :: "idarg \<Rightarrow> db \<Rightarrow> (db_error + bool) \<times> db" where
  "db_deleteModem p d =
     (case pg_int4 p of
        Inl e \<Rightarrow> (Inl e, d)
      | Inr None \<Rightarrow> (Inr False, d)
      | Inr (Some k) \<Rightarrow>
          commit (k \<in> set (map m_id (db_modems d))) d
                 (d\<lparr>db_modems := filter (\<lambda>m. m_id m \<noteq> k) (db_modems d)\<rparr>))"

definition db_getVpnConnections :: "db \<Rightarrow> db_error + vpn_connection list" where
  "db_getVpnConnections d = Inr (desc_nulls_first vpn_createdAt (db_vpnConnections d))"

definition db_getVpnConnectionsByModem :: "int \<Rightarrow> db \<Rightarrow> db_error + vpn_connection list" where
  "db_getVpnConnectionsByModem mid d =
     (case pg_int4 (IdVal (JNum mid)) of
        Inl e \<Rightarrow> Inl e
      | Inr k \<Rightarrow> Inr (filter (\<lambda>c. vpn_modemId c = k) (db_vpnConnections d)))"

definition db_createVpnConnection ::
  "(vpn_connection \<Rightarrow> vpn_connection) \<Rightarrow> timestamp \<Rightarrow> db \<Rightarrow> (db_error + vpn_connection) \<times> db" where
  "db_createVpnConnection ins now d =
     insert_row TVpnConnections (\<lambda>i. (ins (vpn_defaults now))\<lparr>vpn_id := i\<rparr>) db_vpnConnections
       (\<lambda>rs d. d\<lparr>db_vpnConnections := rs\<rparr>) d"

definition db_updateVpnConnection ::
  "idarg \<Rightarrow> (vpn_connection \<Rightarrow> vpn_connection) \<Rightarrow> db \<Rightarrow> (db_error + vpn_connection option) \<times> db" where
  "db_updateVpnConnection p upd d =
     update_row vpn_id p upd db_vpnConnections (\<lambda>rs d. d\<lparr>db_vpnConnections := rs\<rparr>) d"

definition db_getIpRotationLogs :: "int \<Rightarrow> db \<Rightarrow> db_error + ip_rotation_log list" where
  "db_getIpRotationLogs n d = pg_limit n (desc_nulls_first rotatedAt (db_ipRotationLogs d))"

definition db_getIpRotationLogsByModem :: "int \<Rightarrow> int \<Rightarrow> db \<Rightarrow> db_error + ip_rotation_log list" where
  "db_getIpRotationLogsByModem mid n d = select_modem_limit log_modemId rotatedAt mid n (db_ipRotationLogs d)"

definition db_createIpRotationLog ::
  "(ip_rotation_log \<Rightarrow> ip_rotation_log) \<Rightarrow> timestamp \<Rightarrow> db \<Rightarrow> (db_error + ip_rotation_log) \<times> db" where
  "db_createIpRotationLog ins now d =
     insert_row TIpRotationLogs (\<lambda>i. (ins (rotation_log_defaults now))\<lparr>log_id := i\<rparr>) db_ipRotationLogs
       (\<lambda>rs d. d\<lparr>db_ipRotationLogs := rs\<rparr>) d"

definition db_getSystemLogs :: "int \<Rightarrow> db \<Rightarrow> db_error + system_log list" where
  "db_getSystemLogs n d = pg_limit n (desc_nulls_first sl_createdAt (db_systemLogs d))"

definition db_createSystemLog :: "(system_log \<Rightarrow> system_log) \<Rightarrow> timestamp \<Rightarrow> db \<Rightarrow> (db_error + system_log) \<times> db" where
  "db_createSystemLog ins now d =
     insert_row TSystemLogs (\<lambda>i. (ins (system_log_defaults now))\<lparr>sl_id := i\<rparr>) db_systemLogs
       (\<lambda>rs d. d\<lparr>db_systemLogs := rs\<rparr>) d"

definition db_getProxyConfigurations :: "db \<Rightarrow> db_error + proxy_configuration list" where
  "db_getProxyConfigurations d = Inr (desc_nulls_first pc_createdAt (db_proxyConfiguration d))"

definition db_getProxyConfigurationByModem :: "int \<Rightarrow> db \<Rightarrow> db_error + proxy_configuration option" where
  "db_getProxyConfigurationByModem mid d =
     (case pg_int4 (IdVal (JNum mid)) of
        Inl e \<Rightarrow> Inl e
      | Inr k \<Rightarrow> Inr (first_row (filter (\<lambda>c. modemId c = k) (db_proxyConfiguration d))))"

definition db_createProxyConfiguration ::
  "(proxy_configuration \<Rightarrow> proxy_configuration) \<Rightarrow> timestamp \<Rightarrow> db \<Rightarrow> (db_error + proxy_configuration) \<times> db" where
  "db_createProxyConfiguration ins now d =
     insert_row TProxyConfiguration (\<lambda>i. (ins (proxy_configuration_defaults 0 now))\<lparr>pc_id := i\<rparr>)
       db_proxyConfiguration (\<lambda>rs d. d\<lparr>db_proxyConfiguration := rs\<rparr>) d"

definition db_updateProxyConfiguration ::
  "idarg \<Rightarrow> (proxy_configuration \<Rightarrow> proxy_configuration) \<Rightarrow> db \<Rightarrow> (db_error + proxy_configuration option) \<times> db" where
  "db_updateProxyConfiguration p upd d =
     update_row pc_id p upd db_proxyConfiguration (\<lambda>rs d. d\<lparr>db_proxyConfiguration := rs\<rparr>) d"

definition db_getAnalytics :: "int \<Rightarrow> db \<Rightarrow> db_error + analytics list" where
  "db_getAnalytics n d = pg_limit n (desc_nulls_first recordedAt (db_analytics d))"

definition db_getAnalyticsByModem :: "int \<Rightarrow> int \<Rightarrow> db \<Rightarrow> db_error + analytics list" where
  "db_getAnalyticsByModem mid n d = select_modem_limit an_modemId recordedAt mid n (db_analytics d)"

definition db_createAnalytics :: "(analytics \<Rightarrow> analytics) \<Rightarrow> timestamp \<Rightarrow> db \<Rightarrow> (db_error + analytics) \<times> db" where
  "db_createAnalytics ins now d =
     insert_row TAnalytics (\<lambda>i. (ins (analytics_defaults now))\<lparr>an_id := i\<rparr>) db_analytics
       (\<lambda>rs d. d\<lparr>db_analytics := rs\<rparr>) d"

subsection \<open>Well-formed databases\<close>

text \<open>The constraints hold, every sequence is within int4, and every id of a
  table is positive and at most the last value drawn from its sequence, so a
  fresh id never collides.  The write statements as a datatype, an update
  admitted when its payload leaves the id alone, and the databases reachable
  from the empty one.\<close>

definition ids_below :: "('r \<Rightarrow> int) \<Rightarrow> 'r list \<Rightarrow> int \<Rightarrow> bool" where
  "ids_below idf rs n \<longleftrightarrow> list_all (\<lambda>r. 0 < idf r \<and> idf r \<le> n) rs"

definition db_wf :: "db \<Rightarrow> bool" where
  "db_wf d \<longleftrightarrow>
     db_violation d = None \<and>
     list_all (\<lambda>t. 0 \<le> db_seq d t \<and> db_seq d t \<le> 2147483647)
       [TUsers, TModems, TVpnConnections, TIpRotationLogs, TSystemLogs, TProxyConfiguration, TAnalytics] \<and>
     ids_below u_id (db_users d) (db_seq d TUsers) \<and>
     ids_below m_id (db_modems d) (db_seq d TModems) \<and>
     ids_below vpn_id (db_vpnConnections d) (db_seq d TVpnConnections) \<and>
     ids_below log_id (db_ipRotationLogs d) (db_seq d TIpRotationLogs) \<and>
     ids_below sl_id (db_systemLogs d) (db_seq d TSystemLogs) \<and>
     ids_below pc_id (db_proxyConfiguration d) (db_seq d TProxyConfiguration) \<and>
     ids_below an_id (db_analytics d) (db_seq d TAnalytics)"

datatype db_op =
    DbCreateUser "user \<Rightarrow> user"
  | DbCreateModem "modem \<Rightarrow> modem"
  | DbUpdateModem idarg "modem \<Rightarrow> modem"
  | DbDeleteModem idarg
  | DbCreateVpnConnection "vpn_connection \<Rightarrow> vpn_connection"
  | DbUpdateVpnConnection idarg "vpn_connection \<Rightarrow> vpn_connection"
  | DbCreateIpRotationLog "ip_rotation_log \<Rightarrow> ip_rotation_log"
  | DbCreateSystemLog "system_log \<Rightarrow> system_log"
  | DbCreateProxyConfiguration "proxy_configuration \<Rightarrow> proxy_configuration"
  | DbUpdateProxyConfiguration idarg "proxy_configuration \<Rightarrow> proxy_configuration"
  | DbCreateAnalytics "analytics \<Rightarrow> analytics"

fun db_apply :: "db_op \<Rightarrow> timestamp \<Rightarrow> db \<Rightarrow> db" where
  "db_apply (DbCreateUser u) now d = snd (db_createUser u d)"
| "db_apply (DbCreateModem m) now d = snd (db_createModem m now d)"
| "db_apply (DbUpdateModem p f) now d = snd (db_updateModem p f d)"
| "db_apply (DbDeleteModem p) now d = snd (db_deleteModem p d)"
| "db_apply (DbCreateVpnConnection c) now d = snd (db_createVpnConnection c now d)"
| "db_apply (DbUpdateVpnConnection p f) now d = snd (db_updateVpnConnection p f d)"
| "db_apply (DbCreateIpRotationLog l) now d = snd (db_createIpRotationLog l now d)"
| "db_apply (DbCreateSystemLog l) now d = snd (db_createSystemLog l now d)"
| "db_apply (DbCreateProxyConfiguration c) now d = snd (db_createProxyConfiguration c now d)"
| "db_apply (DbUpdateProxyConfiguration p f) now d = snd (db_updateProxyConfiguration p f d)"
| "db_apply (DbCreateAnalytics a) now d = snd (db_createAnalytics a now d)"

definition modem_referenced :: "db \<Rightarrow> int \<Rightarrow> bool" where
  "modem_referenced d k \<longleftrightarrow>
     Some k \<in> set (map vpn_modemId (db_vpnConnections d)) \<or> Some k \<in> set (map log_modemId (db_ipRotationLogs d)) \<or>
     Some k \<in> set (map modemId (db_proxyConfiguration d)) \<or> Some k \<in> set (map an_modemId (db_analytics d))"

fun db_op_ok :: "db_op \<Rightarrow> bool" where
  "db_op_ok (DbUpdateModem p f) \<longleftrightarrow> (\<forall>m. m_id (f m) = m_id m)"
| "db_op_ok (DbUpdateVpnConnection p f) \<longleftrightarrow> (\<forall>c. vpn_id (f c) = vpn_id c)"
| "db_op_ok (DbUpdateProxyConfiguration p f) \<longleftrightarrow> (\<forall>c. pc_id (f c) = pc_id c)"
| "db_op_ok _ \<longleftrightarrow> True"

inductive db_reach :: "db \<Rightarrow> bool" where
  db_reach_init: "db_reach empty_db"
| db_reach_step: "db_reach d \<Longrightarrow> db_op_ok op \<Longrightarrow> db_reach (db_apply op now d)"

subsection \<open>Lemmas\<close>

lemma ids_below_mono: "ids_below idf rs n \<Longrightarrow> n \<le> n' \<Longrightarrow> ids_below idf rs n'"
  by (auto simp: ids_below_def list_all_iff)

lemma ids_below_snoc: "ids_below idf rs n \<Longrightarrow> 0 \<le> n \<Longrightarrow> idf r = n + 1 \<Longrightarrow> ids_below idf (rs @ [r]) (n + 1)"
  by (auto simp: ids_below_def list_all_iff)

lemma ids_below_filter: "ids_below idf rs n \<Longrightarrow> ids_below idf (filter P rs) n"
  by (auto simp: ids_below_def list_all_iff)

lemma ids_below_map_same:
  "ids_below idf rs n \<Longrightarrow> \<forall>r. idf (f r) = idf r \<Longrightarrow> ids_below idf (map (\<lambda>r. if P r then f r else r) rs) n"
  by (auto simp: ids_below_def list_all_iff)

lemma db_violation_seq [simp]: "db_violation (d\<lparr>db_seq := s\<rparr>) = db_violation d"
  by (simp add: db_violation_def refs_ok_def)

lemma commit_cases:
  "snd (commit r d d') = d \<or> (snd (commit r d d') = d' \<and> db_violation d' = None)"
  by (auto simp: commit_def split: option.split)

lemma db_wf_seq_step:
  "db_wf d \<Longrightarrow> db_seq d t < 2147483647 \<Longrightarrow> db_wf (d\<lparr>db_seq := (db_seq d)(t := db_seq d t + 1)\<rparr>)"
  by (cases t) (auto simp: db_wf_def elim: ids_below_mono)

lemma ids_below_fresh: "ids_below idf rs n \<Longrightarrow> n + 1 \<notin> set (map idf rs)"
  by (auto simp: ids_below_def list_all_iff)

lemma db_wf_commit:
  "db_wf d \<Longrightarrow> (db_violation d' = None \<Longrightarrow> db_wf d') \<Longrightarrow> db_wf (snd (commit r d d'))"
  by (auto simp: commit_def split: option.split)

lemma db_wf_createModem: "db_wf d \<Longrightarrow> db_wf (snd (db_createModem ins now d))"
  unfolding db_createModem_def insert_row_def nextval_def
  apply (auto intro!: db_wf_commit)
  apply (auto simp: db_wf_def intro: ids_below_mono ids_below_snoc)
  done

lemma db_wf_createUser: "db_wf d \<Longrightarrow> db_wf (snd (db_createUser ins d))"
  unfolding db_createUser_def insert_row_def nextval_def
  by (auto intro!: db_wf_commit) (auto simp: db_wf_def intro: ids_below_mono ids_below_snoc)

lemma db_wf_createVpnConnection: "db_wf d \<Longrightarrow> db_wf (snd (db_createVpnConnection ins now d))"
  unfolding db_createVpnConnection_def insert_row_def nextval_def
  by (auto intro!: db_wf_commit) (auto simp: db_wf_def intro: ids_below_mono ids_below_snoc)

lemma db_wf_createIpRotationLog: "db_wf d \<Longrightarrow> db_wf (snd (db_createIpRotationLog ins now d))"
  unfolding db_createIpRotationLog_def insert_row_def nextval_def
  by (auto intro!: db_wf_commit) (auto simp: db_wf_def intro: ids_below_mono ids_below_snoc)

lemma db_wf_createSystemLog: "db_wf d \<Longrightarrow> db_wf (snd (db_createSystemLog ins now d))"
  unfolding db_createSystemLog_def insert_row_def nextval_def
  by (auto intro!: db_wf_commit) (auto simp: db_wf_def intro: ids_below_mono ids_below_snoc)

lemma db_wf_createProxyConfiguration: "db_wf d \<Longrightarrow> db_wf (snd (db_createProxyConfiguration ins now d))"
  unfolding db_createProxyConfiguration_def insert_row_def nextval_def
  by (auto intro!: db_wf_commit) (auto simp: db_wf_def intro: ids_below_mono ids_below_snoc)

lemma db_wf_createAnalytics: "db_wf d \<Longrightarrow> db_wf (snd (db_createAnalytics ins now d))"
  unfolding db_createAnalytics_def insert_row_def nextval_def
  by (auto intro!: db_wf_commit) (auto simp: db_wf_def intro: ids_below_mono ids_below_snoc)

lemma db_wf_updateModem:
  "db_wf d \<Longrightarrow> \<forall>r. m_id (f r) = m_id r \<Longrightarrow> db_wf (snd (db_updateModem p f d))"
  unfolding db_updateModem_def update_row_def
  by (auto split: sum.split option.split intro!: db_wf_commit)
     (auto simp: db_wf_def intro: ids_below_map_same)

lemma db_wf_updateVpnConnection:
  "db_wf d \<Longrightarrow> \<forall>r. vpn_id (f r) = vpn_id r \<Longrightarrow> db_wf (snd (db_updateVpnConnection p f d))"
  unfolding db_updateVpnConnection_def update_row_def
  by (auto split: sum.split option.split intro!: db_wf_commit)
     (auto simp: db_wf_def intro: ids_below_map_same)

lemma db_wf_updateProxyConfiguration:
  "db_wf d \<Longrightarrow> \<forall>r. pc_id (f r) = pc_id r \<Longrightarrow> db_wf (snd (db_updateProxyConfiguration p f d))"
  unfolding db_updateProxyConfiguration_def update_row_def
  by (auto split: sum.split option.split intro!: db_wf_commit)
     (auto simp: db_wf_def intro: ids_below_map_same)

lemma db_wf_deleteModem: "db_wf d \<Longrightarrow> db_wf (snd (db_deleteModem p d))"
  unfolding db_deleteModem_def
  by (auto split: sum.split option.split intro!: db_wf_commit)
     (auto simp: db_wf_def intro: ids_below_filter)

lemma db_wf_empty: "db_wf empty_db"
  by (simp add: db_wf_def empty_db_def db_violation_def ids_below_def refs_ok_def)

lemma db_wf_step: "db_wf d \<Longrightarrow> db_op_ok op \<Longrightarrow> db_wf (db_apply op now d)"
  by (cases op) (simp_all add: db_wf_createUser db_wf_createModem db_wf_updateModem db_wf_deleteModem
     db_wf_createVpnConnection db_wf_updateVpnConnection db_wf_createIpRotationLog db_wf_createSystemLog
     db_wf_createProxyConfiguration db_wf_updateProxyConfiguration db_wf_createAnalytics)

lemma refs_ok_more_modems:
  "refs_ok d rs \<Longrightarrow> set (map m_id (db_modems d)) \<subseteq> set (map m_id (db_modems d')) \<Longrightarrow> refs_ok d' rs"
  unfolding refs_ok_def list_all_iff by (fastforce split: option.splits)

lemma db_violation_add_modem:
  assumes none: "db_violation d = None" and fresh: "m_id m \<notin> set (map m_id (db_modems d))"
  shows "db_violation (d\<lparr>db_modems := db_modems d @ [m]\<rparr>) =
    (if imei m \<in> set (map imei (db_modems d)) then Some (UniqueViolation ''modems_imei_unique'') else None)"
proof -
  have mono: "refs_ok (d\<lparr>db_modems := db_modems d @ [m]\<rparr>) rs" if "refs_ok d rs" for rs
    using that by (rule refs_ok_more_modems) auto
  have pk: "distinct (map m_id (db_modems d @ [m]))" using none fresh
    by (simp add: db_violation_def split: if_splits)
  show ?thesis
  proof (cases "imei m \<in> set (map imei (db_modems d))")
    case True
    then show ?thesis using none pk by (simp add: db_violation_def split: if_splits)
  next
    case False
    then show ?thesis using none pk by (simp add: db_violation_def mono split: if_splits)
  qed
qed

lemma db_createModem_spec:
  assumes wf: "db_wf d"
  shows "db_createModem ins now d =
    (if 2147483647 \<le> db_seq d TModems then (Inl SequenceExhausted, d)
     else let m = (ins (modem_defaults now))\<lparr>m_id := db_seq d TModems + 1\<rparr>;
              d1 = d\<lparr>db_seq := (db_seq d)(TModems := db_seq d TModems + 1)\<rparr> in
          if imei m \<in> set (map imei (db_modems d)) then (Inl (UniqueViolation ''modems_imei_unique''), d1)
          else (Inr m, d1\<lparr>db_modems := db_modems d @ [m]\<rparr>))"
proof (cases "2147483647 \<le> db_seq d TModems")
  case True
  then show ?thesis by (simp add: db_createModem_def insert_row_def nextval_def)
next
  case False
  define m where "m = (ins (modem_defaults now))\<lparr>m_id := db_seq d TModems + 1\<rparr>"
  define d1 where "d1 = d\<lparr>db_seq := (db_seq d)(TModems := db_seq d TModems + 1)\<rparr>"
  have none: "db_violation d1 = None" using wf by (simp add: d1_def db_wf_def)
  have fresh: "m_id m \<notin> set (map m_id (db_modems d1))"
    using wf ids_below_fresh[of m_id "db_modems d" "db_seq d TModems"]
    by (simp add: db_wf_def m_def d1_def)
  have ins: "db_createModem ins now d = commit m d1 (d1\<lparr>db_modems := db_modems d1 @ [m]\<rparr>)"
    using False by (simp add: db_createModem_def insert_row_def nextval_def m_def d1_def)
  show ?thesis
    using False db_violation_add_modem[OF none fresh]
    by (simp add: ins commit_def Let_def flip: m_def d1_def) (simp add: d1_def)
qed

lemma refs_ok_drop_modem:
  "refs_ok d rs \<Longrightarrow>
   refs_ok (d\<lparr>db_modems := filter (\<lambda>m. m_id m \<noteq> k) (db_modems d)\<rparr>) rs \<longleftrightarrow> Some k \<notin> set rs"
  unfolding refs_ok_def list_all_iff by (fastforce split: option.splits)

lemma db_deleteModem_spec:
  assumes wf: "db_wf d" and rng: "in_int4 k"
  shows "(modem_referenced d k \<longrightarrow>
            (\<exists>c. db_deleteModem (IdVal (JNum k)) d = (Inl (ForeignKeyViolation c), d))) \<and>
         (\<not> modem_referenced d k \<longrightarrow>
            db_deleteModem (IdVal (JNum k)) d =
              (Inr (k \<in> set (map m_id (db_modems d))), d\<lparr>db_modems := filter (\<lambda>m. m_id m \<noteq> k) (db_modems d)\<rparr>))"
proof -
  define d' where "d' = d\<lparr>db_modems := filter (\<lambda>m. m_id m \<noteq> k) (db_modems d)\<rparr>"
  have none: "db_violation d = None" using wf by (simp add: db_wf_def)
  have eq: "db_deleteModem (IdVal (JNum k)) d = commit (k \<in> set (map m_id (db_modems d))) d d'"
    using rng by (simp add: db_deleteModem_def int4_of_def d'_def)
  have refs: "refs_ok d (map vpn_modemId (db_vpnConnections d))" "refs_ok d (map log_modemId (db_ipRotationLogs d))"
    "refs_ok d (map modemId (db_proxyConfiguration d))" "refs_ok d (map an_modemId (db_analytics d))"
    using none by (simp_all add: db_violation_def split: if_splits)
  have dist: "distinct (map m_id (db_modems d'))" "distinct (map imei (db_modems d'))"
    using none by (simp_all add: d'_def db_violation_def distinct_map_filter split: if_splits)
  have viol: "db_violation d' =
    (if Some k \<in> set (map vpn_modemId (db_vpnConnections d)) then Some (ForeignKeyViolation ''vpn_connections_modem_id_modems_id_fk'')
     else if Some k \<in> set (map log_modemId (db_ipRotationLogs d)) then Some (ForeignKeyViolation ''ip_rotation_logs_modem_id_modems_id_fk'')
     else if Some k \<in> set (map modemId (db_proxyConfiguration d)) then Some (ForeignKeyViolation ''proxy_configuration_modem_id_modems_id_fk'')
     else if Some k \<in> set (map an_modemId (db_analytics d)) then Some (ForeignKeyViolation ''analytics_modem_id_modems_id_fk'')
     else None)"
    using none dist unfolding d'_def
    by (simp add: db_violation_def refs_ok_drop_modem[OF refs(1)] refs_ok_drop_modem[OF refs(2)]
        refs_ok_drop_modem[OF refs(3)] refs_ok_drop_modem[OF refs(4)] del: set_map split: if_splits)
  show ?thesis
    by (simp add: eq commit_def viol modem_referenced_def del: set_map) (simp add: d'_def)
qed

subsection \<open>Properties\<close>

text \<open>Every database the \<open>DatabaseStorage\<close> methods can reach from the empty
  one, with updates that leave ids alone, satisfies the constraints, keeps its
  sequences in int4 range and all ids at most their sequence value.\<close>

theorem db_storage_invariant: "db_reach d \<Longrightarrow> db_wf d"
  by (induction rule: db_reach.induct) (simp_all add: db_wf_empty db_wf_step)

theorem db_storage_invariant_witness:
  "db_reach (db_apply (DbCreateModem (\<lambda>m. m\<lparr>imei := ''1''\<rparr>)) 0 empty_db) \<and>
   db_wf (db_apply (DbCreateModem (\<lambda>m. m\<lparr>imei := ''1''\<rparr>)) 0 empty_db)"
proof -
  have r: "db_reach (db_apply (DbCreateModem (\<lambda>m. m\<lparr>imei := ''1''\<rparr>)) 0 empty_db)"
    by (rule db_reach_step[OF db_reach_init]) simp
  show ?thesis using r db_storage_invariant[OF r] by simp
qed

text \<open>C10. On a well-formed database, \<open>createModem\<close> draws the next id of the
  modems sequence and either appends the row built from the column defaults and
  the payload, or, when the IMEI is taken, fails with the unique violation while
  the drawn id stays consumed; it never fails on the primary key.\<close>

theorem db_createModem_result:
  assumes "db_wf d"
  shows "db_createModem ins now d =
    (if 2147483647 \<le> db_seq d TModems then (Inl SequenceExhausted, d)
     else let m = (ins (modem_defaults now))\<lparr>m_id := db_seq d TModems + 1\<rparr>;
              d1 = d\<lparr>db_seq := (db_seq d)(TModems := db_seq d TModems + 1)\<rparr> in
          if imei m \<in> set (map imei (db_modems d)) then (Inl (UniqueViolation ''modems_imei_unique''), d1)
          else (Inr m, d1\<lparr>db_modems := db_modems d @ [m]\<rparr>))"
  using assms by (rule db_createModem_spec)

theorem db_createModem_result_witness:
  "db_wf empty_db \<and>
   fst (db_createModem (\<lambda>m. m\<lparr>imei := ''1''\<rparr>) 7 empty_db) = Inr ((modem_defaults 7)\<lparr>imei := ''1'', m_id := 1\<rparr>)"
  using db_createModem_result[OF db_wf_empty, of "\<lambda>m. m\<lparr>imei := ''1''\<rparr>" 7] db_wf_empty
  by (simp add: empty_db_def Let_def)

text \<open>C11. On a well-formed database, \<open>deleteModem\<close> of an id in int4 range
  fails with a foreign-key violation, changing nothing, whenever a VPN
  connection, rotation log, proxy configuration or analytics row references the
  modem; otherwise it removes the row and reports whether there was one.\<close>

theorem db_deleteModem_result:
  assumes "db_wf d" and "in_int4 k"
  shows "(modem_referenced d k \<longrightarrow>
            (\<exists>c. db_deleteModem (IdVal (JNum k)) d = (Inl (ForeignKeyViolation c), d))) \<and>
         (\<not> modem_referenced d k \<longrightarrow>
            db_deleteModem (IdVal (JNum k)) d =
              (Inr (k \<in> set (map m_id (db_modems d))), d\<lparr>db_modems := filter (\<lambda>m. m_id m \<noteq> k) (db_modems d)\<rparr>))"
  using assms by (rule db_deleteModem_spec)

theorem db_deleteModem_result_witness:
  "db_wf empty_db \<and> in_int4 3 \<and> \<not> modem_referenced empty_db 3 \<and>
   db_deleteModem (IdVal (JNum 3)) empty_db = (Inr False, empty_db)"
  using db_deleteModem_result[OF db_wf_empty, of 3] db_wf_empty
  by (simp add: empty_db_def in_int4_def modem_referenced_def)

end
