(* ===== verification/Status_Parser.thy ===== *)
theory Status_Parser
  imports Js
begin

text \<open>
  The Modem Status Parser: \<open>VodafoneM300zController.parseStatusResponse\<close>
  (\<^verbatim>\<open>src/server/modem-controller.ts\<close>, lines 99--141) and the status record it
  fills (\<open>ModemStatus\<close>, lines 4--13).  The parser starts from a default record
  and applies one guarded assignment per vendor alias, \<open>if (data.k) status.f = g(data.k)\<close>,
  in source order; a later alias therefore overwrites an earlier one.  The
  abstract specification \<open>status_spec\<close> states the result field by field as
  ``the value of the last alias that is present and truthy'', and
  \<open>parse_status_spec\<close> proves that the code computes it.
  The record keeps the runtime types: \<open>parseInt\<close> may give \<open>NaN\<close>, and the
  string fields receive the raw JSON value of the alias, whatever its type.
\<close>

subsection \<open>The status record and the parser\<close>

record modem_status =
  connected :: bool
  signalStrength :: jsnum
  downloadSpeed :: jsnum
  uploadSpeed :: jsnum
  publicIp :: jsval
  connectionType :: jsval
  provider :: jsval
  firmware :: jsval

definition default_status :: modem_status where
  "default_status =
     \<lparr>connected = True, signalStrength = Num (-70), downloadSpeed = Num 0, uploadSpeed = Num 0,
      publicIp = JNull, connectionType = JStr ''4G'', provider = JStr ''Vodafone'',
      firmware = JStr ''Unknown''\<rparr>"

text \<open>\<open>if (data.k) status = upd(data.k, status)\<close>.\<close>

definition when_truthy :: "jsval \<Rightarrow> string \<Rightarrow> (jsval \<Rightarrow> 's \<Rightarrow> 's) \<Rightarrow> 's \<Rightarrow> 's" where
  "when_truthy data k upd s =
     (case get_prop data k of None \<Rightarrow> s | Some v \<Rightarrow> if truthy v then upd v s else s)"

definition parseStatusResponse :: "jsval \<Rightarrow> modem_status" where
  "parseStatusResponse data =
     (let status = default_status;
          status = when_truthy data ''SignalStrength'' (\<lambda>v s. s\<lparr>signalStrength := parseInt v\<rparr>) status;
          status = when_truthy data ''signal_strength'' (\<lambda>v s. s\<lparr>signalStrength := parseInt v\<rparr>) status;
          status = when_truthy data ''rssi'' (\<lambda>v s. s\<lparr>signalStrength := parseInt v\<rparr>) status;
          status = when_truthy data ''CurrentDownloadRate'' (\<lambda>v s. s\<lparr>downloadSpeed := parseInt v\<rparr>) status;
          status = when_truthy data ''CurrentUploadRate'' (\<lambda>v s. s\<lparr>uploadSpeed := parseInt v\<rparr>) status;
          status = when_truthy data ''WanIPAddress'' (\<lambda>v s. s\<lparr>publicIp := v\<rparr>) status;
          status = when_truthy data ''wan_ip'' (\<lambda>v s. s\<lparr>publicIp := v\<rparr>) status;
          status = when_truthy data ''ipv4_addr'' (\<lambda>v s. s\<lparr>publicIp := v\<rparr>) status;
          status = when_truthy data ''NetworkType'' (\<lambda>v s. s\<lparr>connectionType := v\<rparr>) status;
          status = when_truthy data ''network_type'' (\<lambda>v s. s\<lparr>connectionType := v\<rparr>) status;
          status = when_truthy data ''Provider'' (\<lambda>v s. s\<lparr>provider := v\<rparr>) status;
          status = when_truthy data ''provider'' (\<lambda>v s. s\<lparr>provider := v\<rparr>) status;
          status = when_truthy data ''SoftwareVersion'' (\<lambda>v s. s\<lparr>firmware := v\<rparr>) status;
          status = when_truthy data ''firmware'' (\<lambda>v s. s\<lparr>firmware := v\<rparr>) status;
          status =
            (if get_prop data ''ConnectionStatus'' = Some (JStr ''Connected'') \<or>
                get_prop data ''connection_status'' = Some (JStr ''connected'')
             then status\<lparr>connected := True\<rparr>
             else if get_prop data ''ConnectionStatus'' = Some (JStr ''Disconnected'') \<or>
                     get_prop data ''connection_status'' = Some (JStr ''disconnected'')
             then status\<lparr>connected := False\<rparr>
             else status)
      in status)"

subsection \<open>Specification\<close>

text \<open>The value of the last alias of \<open>ks\<close> whose value is present and truthy.\<close>

fun last_alias :: "jsval \<Rightarrow> string list \<Rightarrow> jsval option" where
  "last_alias data [] = None"
| "last_alias data (k # ks) =
     (case last_alias data ks of
        Some v \<Rightarrow> Some v
      | None \<Rightarrow> if truthy_opt (get_prop data k) then get_prop data k else None)"

definition connected_token :: "jsval \<Rightarrow> bool" where
  "connected_token data \<longleftrightarrow>
     get_prop data ''ConnectionStatus'' = Some (JStr ''Connected'') \<or>
     get_prop data ''connection_status'' = Some (JStr ''connected'')"

definition disconnected_token :: "jsval \<Rightarrow> bool" where
  "disconnected_token data \<longleftrightarrow>
     get_prop data ''ConnectionStatus'' = Some (JStr ''Disconnected'') \<or>
     get_prop data ''connection_status'' = Some (JStr ''disconnected'')"

definition num_field :: "jsval \<Rightarrow> string list \<Rightarrow> int \<Rightarrow> jsnum" where
  "num_field data ks d = (case last_alias data ks of None \<Rightarrow> Num d | Some v \<Rightarrow> parseInt v)"

definition raw_field :: "jsval \<Rightarrow> string list \<Rightarrow> jsval \<Rightarrow> jsval" where
  "raw_field data ks d = (case last_alias data ks of None \<Rightarrow> d | Some v \<Rightarrow> v)"

definition status_spec :: "jsval \<Rightarrow> modem_status" where
  "status_spec data =
     \<lparr>connected = (connected_token data \<or> \<not> disconnected_token data),
      signalStrength = num_field data [''SignalStrength'', ''signal_strength'', ''rssi''] (-70),
      downloadSpeed = num_field data [''CurrentDownloadRate''] 0,
      uploadSpeed = num_field data [''CurrentUploadRate''] 0,
      publicIp = raw_field data [''WanIPAddress'', ''wan_ip'', ''ipv4_addr''] JNull,
      connectionType = raw_field data [''NetworkType'', ''network_type''] (JStr ''4G''),
      provider = raw_field data [''Provider'', ''provider''] (JStr ''Vodafone''),
      firmware = raw_field data [''SoftwareVersion'', ''firmware''] (JStr ''Unknown'')\<rparr>"

subsection \<open>The alias table\<close>

text \<open>The fourteen guarded assignments of lines 113--131 as a table, in source
  order: the alias read and the field it sets.  \<open>parseStatusResponse_table\<close>
  shows that the parser is the left fold of this table followed by the
  connection-status override of lines 134--138.\<close>

datatype status_field =
  SignalStrengthF | DownloadSpeedF | UploadSpeedF | PublicIpF | ConnectionTypeF | ProviderF | FirmwareF

fun assign_field :: "status_field \<Rightarrow> jsval \<Rightarrow> modem_status \<Rightarrow> modem_status" where
  "assign_field SignalStrengthF v s = s\<lparr>signalStrength := parseInt v\<rparr>"
| "assign_field DownloadSpeedF v s = s\<lparr>downloadSpeed := parseInt v\<rparr>"
| "assign_field UploadSpeedF v s = s\<lparr>uploadSpeed := parseInt v\<rparr>"
| "assign_field PublicIpF v s = s\<lparr>publicIp := v\<rparr>"
| "assign_field ConnectionTypeF v s = s\<lparr>connectionType := v\<rparr>"
| "assign_field ProviderF v s = s\<lparr>provider := v\<rparr>"
| "assign_field FirmwareF v s = s\<lparr>firmware := v\<rparr>"

definition status_aliases :: "(string \<times> status_field) list" where
  "status_aliases =
     [(''SignalStrength'', SignalStrengthF), (''signal_strength'', SignalStrengthF),
      (''rssi'', SignalStrengthF), (''CurrentDownloadRate'', DownloadSpeedF),
      (''CurrentUploadRate'', UploadSpeedF), (''WanIPAddress'', PublicIpF),
      (''wan_ip'', PublicIpF), (''ipv4_addr'', PublicIpF), (''NetworkType'', ConnectionTypeF),
      (''network_type'', ConnectionTypeF), (''Provider'', ProviderF), (''provider'', ProviderF),
      (''SoftwareVersion'', FirmwareF), (''firmware'', FirmwareF)]"

definition apply_alias :: "jsval \<Rightarrow> modem_status \<Rightarrow> string \<times> status_field \<Rightarrow> modem_status" where
  "apply_alias data s kf = when_truthy data (fst kf) (assign_field (snd kf)) s"

definition connection_override :: "jsval \<Rightarrow> modem_status \<Rightarrow> modem_status" where
  "connection_override data s =
     (if connected_token data then s\<lparr>connected := True\<rparr>
      else if disconnected_token data then s\<lparr>connected := False\<rparr> else s)"

subsection \<open>Lemmas\<close>

lemma assign_field_fun:
  "assign_field SignalStrengthF = (\<lambda>v s. s\<lparr>signalStrength := parseInt v\<rparr>)"
  "assign_field DownloadSpeedF = (\<lambda>v s. s\<lparr>downloadSpeed := parseInt v\<rparr>)"
  "assign_field UploadSpeedF = (\<lambda>v s. s\<lparr>uploadSpeed := parseInt v\<rparr>)"
  "assign_field PublicIpF = (\<lambda>v s. s\<lparr>publicIp := v\<rparr>)"
  "assign_field ConnectionTypeF = (\<lambda>v s. s\<lparr>connectionType := v\<rparr>)"
  "assign_field ProviderF = (\<lambda>v s. s\<lparr>provider := v\<rparr>)"
  "assign_field FirmwareF = (\<lambda>v s. s\<lparr>firmware := v\<rparr>)"
  by (simp_all add: fun_eq_iff)

lemma assign_field_sel:
  "signalStrength (assign_field G v s) = (if G = SignalStrengthF then parseInt v else signalStrength s)"
  "downloadSpeed (assign_field G v s) = (if G = DownloadSpeedF then parseInt v else downloadSpeed s)"
  "uploadSpeed (assign_field G v s) = (if G = UploadSpeedF then parseInt v else uploadSpeed s)"
  "publicIp (assign_field G v s) = (if G = PublicIpF then v else publicIp s)"
  "connectionType (assign_field G v s) = (if G = ConnectionTypeF then v else connectionType s)"
  "provider (assign_field G v s) = (if G = ProviderF then v else provider s)"
  "firmware (assign_field G v s) = (if G = FirmwareF then v else firmware s)"
  "connected (assign_field G v s) = connected s"
  by (cases G; simp)+

lemma parseStatusResponse_table:
  "parseStatusResponse data =
     connection_override data (foldl (apply_alias data) default_status status_aliases)"
  by (simp add: parseStatusResponse_def Let_def connection_override_def status_aliases_def
      apply_alias_def connected_token_def disconnected_token_def assign_field_fun)

text \<open>Reading one field after the whole table: only the rows that set it matter,
  and among them the last truthy one wins.\<close>

lemma foldl_apply_alias_sel:
  assumes "\<And>G v s. sel (assign_field G v s) = (if G = F then g v else sel s)"
  shows "sel (foldl (apply_alias data) s0 xs) =
     foldl (\<lambda>acc kf. if snd kf = F \<and> truthy_opt (get_prop data (fst kf))
                     then g (the (get_prop data (fst kf))) else acc) (sel s0) xs"
proof (induction xs arbitrary: s0)
  case Nil
  then show ?case by simp
next
  case (Cons kf xs)
  have "sel (apply_alias data s0 kf) =
     (if snd kf = F \<and> truthy_opt (get_prop data (fst kf))
      then g (the (get_prop data (fst kf))) else sel s0)"
    using assms by (auto simp: apply_alias_def when_truthy_def split: option.split)
  with Cons show ?case by simp
qed

lemma foldl_apply_alias_connected:
  "connected (foldl (apply_alias data) s0 xs) = connected s0"
  by (induction xs arbitrary: s0)
     (simp_all add: apply_alias_def when_truthy_def assign_field_sel split: option.split)

lemma last_alias_case:
  "(case last_alias d ks of None \<Rightarrow> a | Some v \<Rightarrow> g v) =
     foldl (\<lambda>acc k. if truthy_opt (get_prop d k) then g (the (get_prop d k)) else acc) a ks"
proof (induction ks arbitrary: a)
  case Nil
  then show ?case by simp
next
  case (Cons k ks)
  then show ?case
    by (auto simp: truthy_opt_def split: option.split)
qed

lemmas alias_field_rules =
  foldl_apply_alias_sel [OF assign_field_sel(1)] foldl_apply_alias_sel [OF assign_field_sel(2)]
  foldl_apply_alias_sel [OF assign_field_sel(3)] foldl_apply_alias_sel [OF assign_field_sel(4)]
  foldl_apply_alias_sel [OF assign_field_sel(5)] foldl_apply_alias_sel [OF assign_field_sel(6)]
  foldl_apply_alias_sel [OF assign_field_sel(7)]

lemma connection_override_sel [simp]:
  "signalStrength (connection_override d s) = signalStrength s"
  "downloadSpeed (connection_override d s) = downloadSpeed s"
  "uploadSpeed (connection_override d s) = uploadSpeed s"
  "publicIp (connection_override d s) = publicIp s"
  "connectionType (connection_override d s) = connectionType s"
  "provider (connection_override d s) = provider s"
  "firmware (connection_override d s) = firmware s"
  "connected (connection_override d s) = (connected_token d \<or> (\<not> disconnected_token d \<and> connected s))"
  by (simp_all add: connection_override_def)

lemma parse_status_spec: "parseStatusResponse data = status_spec data"
proof (rule modem_status.equality)
  let ?t = "foldl (apply_alias data) default_status status_aliases"
  have tab: "parseStatusResponse data = connection_override data ?t"
    by (rule parseStatusResponse_table)
  show "connected (parseStatusResponse data) = connected (status_spec data)"
    by (simp add: tab foldl_apply_alias_connected status_spec_def default_status_def)
  show "signalStrength (parseStatusResponse data) = signalStrength (status_spec data)"
    unfolding tab connection_override_sel alias_field_rules status_spec_def num_field_def last_alias_case
    by (simp add: status_aliases_def default_status_def)
  show "downloadSpeed (parseStatusResponse data) = downloadSpeed (status_spec data)"
    unfolding tab connection_override_sel alias_field_rules status_spec_def num_field_def last_alias_case
    by (simp add: status_aliases_def default_status_def)
  show "uploadSpeed (parseStatusResponse data) = uploadSpeed (status_spec data)"
    unfolding tab connection_override_sel alias_field_rules status_spec_def num_field_def last_alias_case
    by (simp add: status_aliases_def default_status_def)
  show "publicIp (parseStatusResponse data) = publicIp (status_spec data)"
    unfolding tab connection_override_sel alias_field_rules status_spec_def raw_field_def last_alias_case
    by (simp add: status_aliases_def default_status_def)
  show "connectionType (parseStatusResponse data) = connectionType (status_spec data)"
    unfolding tab connection_override_sel alias_field_rules status_spec_def raw_field_def last_alias_case
    by (simp add: status_aliases_def default_status_def)
  show "provider (parseStatusResponse data) = provider (status_spec data)"
    unfolding tab connection_override_sel alias_field_rules status_spec_def raw_field_def last_alias_case
    by (simp add: status_aliases_def default_status_def)
  show "firmware (parseStatusResponse data) = firmware (status_spec data)"
    unfolding tab connection_override_sel alias_field_rules status_spec_def raw_field_def last_alias_case
    by (simp add: status_aliases_def default_status_def)
  show "more (parseStatusResponse data) = more (status_spec data)"
    by simp
qed

lemma status_spec_sel:
  "signalStrength (status_spec d) = num_field d [''SignalStrength'', ''signal_strength'', ''rssi''] (-70)"
  "downloadSpeed (status_spec d) = num_field d [''CurrentDownloadRate''] 0"
  "uploadSpeed (status_spec d) = num_field d [''CurrentUploadRate''] 0"
  "publicIp (status_spec d) = raw_field d [''WanIPAddress'', ''wan_ip'', ''ipv4_addr''] JNull"
  by (simp_all only: status_spec_def modem_status.select_convs)

lemma last_alias_cong:
  "get_prop d1 = get_prop d2 \<Longrightarrow> last_alias d1 ks = last_alias d2 ks"
  by (induction ks) (simp_all split: option.split)

lemma status_spec_cong:
  assumes "get_prop d1 = get_prop d2"
  shows "status_spec d1 = status_spec d2"
  unfolding status_spec_def num_field_def raw_field_def connected_token_def
    disconnected_token_def last_alias_cong [OF assms] assms ..

lemma last_alias_last:
  "get_prop data k = Some v \<Longrightarrow> truthy v \<Longrightarrow> last_alias data (ks @ [k]) = Some v"
  by (induction ks) (simp_all add: truthy_opt_def)

lemma last_alias_single:
  "last_alias data [k] = (if truthy_opt (get_prop data k) then get_prop data k else None)"
  by simp

text \<open>C1. The parser computes its specification: every field of the result is the
  value of the last vendor alias for it that is present and truthy (through
  \<open>parseInt\<close> for the numeric fields), or the default when there is none; the
  connection flag is the default \<open>true\<close> unless a recognised
  ``disconnected'' token is present and no ``connected'' token is.\<close>

theorem parseStatusResponse_refines: "parseStatusResponse data = status_spec data"
  by (rule parse_status_spec)


text \<open>A later vendor alias overrides an earlier one: when the response has a
  truthy \<open>rssi\<close> property, the signal strength is \<open>parseInt\<close> of it,
  whatever \<open>SignalStrength\<close> and \<open>signal_strength\<close> say.\<close>

theorem signal_alias_precedence:
  assumes "get_prop data ''rssi'' = Some r" and "truthy r"
  shows "signalStrength (parseStatusResponse data) = parseInt r"
proof -
  have "last_alias data ([''SignalStrength'', ''signal_strength''] @ [''rssi'']) = Some r"
    using assms by (rule last_alias_last)
  then have "last_alias data [''SignalStrength'', ''signal_strength'', ''rssi''] = Some r" by simp
  then show ?thesis unfolding parse_status_spec status_spec_sel num_field_def by simp
qed

theorem signal_alias_precedence_witness:
  "signalStrength (parseStatusResponse
      (JObj [(''SignalStrength'', JNum (-60)), (''rssi'', JStr ''-71'')])) = parseInt (JStr ''-71'')"
proof -
  have h1: "get_prop (JObj [(''SignalStrength'', JNum (-60)), (''rssi'', JStr ''-71'')]) ''rssi'' =
      Some (JStr ''-71'')"
    by (simp add: get_prop_def)
  have h2: "truthy (JStr ''-71'')" by simp
  show ?thesis using signal_alias_precedence [OF h1 h2] .
qed

text \<open>The parsed status depends only on the properties of the response, not
  on the order in which the modem sent them.\<close>

theorem parse_key_order_independent:
  assumes "distinct (map fst ps)" and "mset ps = mset qs"
  shows "parseStatusResponse (JObj ps) = parseStatusResponse (JObj qs)"
proof -
  have "map_of ps = map_of qs" using assms by (rule map_of_mset_eq)
  then have "get_prop (JObj ps) = get_prop (JObj qs)" by (intro ext) (simp add: get_prop_def)
  then show ?thesis unfolding parse_status_spec by (rule status_spec_cong)
qed

theorem parse_key_order_independent_witness:
  "parseStatusResponse (JObj [(''rssi'', JNum (-80)), (''wan_ip'', JStr ''203.0.113.9'')]) =
   parseStatusResponse (JObj (rev [(''rssi'', JNum (-80)), (''wan_ip'', JStr ''203.0.113.9'')]))"
proof -
  have h1: "distinct (map fst [(''rssi'', JNum (-80)), (''wan_ip'', JStr ''203.0.113.9'')])" by simp
  have h2: "mset [(''rssi'', JNum (-80)), (''wan_ip'', JStr ''203.0.113.9'')] =
      mset (rev [(''rssi'', JNum (-80)), (''wan_ip'', JStr ''203.0.113.9'')])"
    by (rule mset_rev [symmetric])
  show ?thesis using parse_key_order_independent [OF h1 h2] .
qed

text \<open>A download rate the modem reports as an integer, as a JSON number or as
  its decimal string, is read back exactly (a rate of 0 as a number is falsy and
  leaves the default 0, the same value).\<close>

theorem download_rate_exact:
  assumes "get_prop data ''CurrentDownloadRate'' = Some (JNum n) \<or>
           get_prop data ''CurrentDownloadRate'' = Some (JStr (int_str n))"
  shows "downloadSpeed (parseStatusResponse data) = Num n"
proof -
  have "num_field data [''CurrentDownloadRate''] 0 = Num n"
    using assms
    by (auto simp: num_field_def truthy_opt_def parseInt_roundtrip)
  then show ?thesis unfolding parse_status_spec status_spec_sel .
qed

theorem download_rate_exact_witness:
  "downloadSpeed (parseStatusResponse (JObj [(''CurrentDownloadRate'', JStr (int_str 1250))])) = Num 1250"
proof -
  have h: "get_prop (JObj [(''CurrentDownloadRate'', JStr (int_str 1250))]) ''CurrentDownloadRate'' =
        Some (JNum 1250) \<or>
      get_prop (JObj [(''CurrentDownloadRate'', JStr (int_str 1250))]) ''CurrentDownloadRate'' =
        Some (JStr (int_str 1250))"
    by (simp add: get_prop_def)
  show ?thesis using download_rate_exact [OF h] .
qed

text \<open>A rate the modem reports as text that is not a number (``n/a'') does not
  keep the default 0: \<open>parseInt\<close> gives \<open>NaN\<close>, which the status carries.\<close>

theorem parse_rate_text_gives_nan:
  "downloadSpeed (parseStatusResponse (JObj ((''CurrentDownloadRate'', JStr ''n/a'') # ps))) = NaN"
  unfolding parse_status_spec status_spec_sel num_field_def
  by (simp add: get_prop_def truthy_opt_def parseInt_def parseInt_str_def is_ws_def digit_val_def)

end
