(* ===== verification/Modem_Controller.thy ===== *)
theory Modem_Controller
  imports Status_Parser Storage
begin

text \<open>
  The Modem Controller of \<^verbatim>\<open>src/server/modem-controller.ts\<close>: the axios client
  built by the \<open>VodafoneM300zController\<close> constructor, \<open>getStatus\<close>,
  \<open>rotateIp\<close>, \<open>reboot\<close>, the random documentation address and
  \<open>ModemControllerFactory.create\<close>.

  The modem's management interface is an oracle \<open>env :: net\<close>: given the events
  so far (every request sent and every sleep, in order), the client and the
  request, it answers with \<open>Response data\<close> (axios resolves with
  \<open>response.data\<close>) or \<open>Failure\<close> (axios rejects: network error, timeout,
  non-2xx status).  Because the answer may depend on the whole history, the
  oracle covers a modem whose state changes with the commands it receives.  Each
  operation threads the event list through and returns it extended with what it
  did, so the order and number of hardware requests are part of the result.
  \<open>process.env.NODE_ENV === 'development'\<close> is the parameter \<open>dev\<close>, and
  \<open>Math.floor(Math.random() * 254)\<close> is the parameter \<open>rnd\<close> (a value in
  0..253).  The outer \<open>catch\<close> blocks of \<open>rotateIp\<close> and \<open>reboot\<close> are
  not modelled as branches: nothing in their \<open>try\<close> blocks can throw, since
  \<open>getStatus\<close> catches everything and every request sits in its own
  \<open>try\<close>/\<open>catch\<close>.
\<close>

subsection \<open>HTTP client, requests and the event trace\<close>

record axios_client =
  baseURL :: string
  timeout :: nat
  auth_username :: string
  auth_password :: string
  headers :: "(string \<times> string) list"

datatype http_method = GET | POST

record http_request =
  req_method :: http_method
  url :: string
  req_data :: "jsval option"

datatype response = Response jsval | Failure

datatype event = Http axios_client http_request | Sleep nat

type_synonym net = "event list \<Rightarrow> axios_client \<Rightarrow> http_request \<Rightarrow> response"

record controller =
  ctl_modem :: modem
  client :: axios_client

definition VodafoneM300zController :: "modem \<Rightarrow> controller" where
  "VodafoneM300zController m =
     \<lparr>ctl_modem = m,
      client = \<lparr>baseURL = ''http://'' @ tmpl_str (localIp m), timeout = 10000,
                auth_username = str_or (adminUsername m) ''admin'',
                auth_password = str_or (adminPassword m) ''admin'',
                headers = [(''Content-Type'', ''application/json''),
                           (''User-Agent'', ''Mozilla/5.0 (Windows NT 10.0; Win64; x64) AppleWebKit/537.36'')]\<rparr>\<rparr>"

definition http :: "net \<Rightarrow> axios_client \<Rightarrow> http_request \<Rightarrow> event list \<Rightarrow> response \<times> event list" where
  "http env c r tr = (env tr c r, tr @ [Http c r])"

definition sleep :: "nat \<Rightarrow> event list \<Rightarrow> event list" where
  "sleep ms tr = tr @ [Sleep ms]"

definition get_req :: "string \<Rightarrow> http_request" where
  "get_req u = \<lparr>req_method = GET, url = u, req_data = None\<rparr>"

definition post_req :: "string \<Rightarrow> jsval \<Rightarrow> http_request" where
  "post_req u d = \<lparr>req_method = POST, url = u, req_data = Some d\<rparr>"

text \<open>The loop that every operation uses: send the candidates in order, each in its
  own \<open>try\<close>; \<open>accept\<close> says whether an answer ends the loop (\<open>break\<close>) and
  what it yields; a rejected request or an answer not accepted goes on to the next
  candidate (\<open>continue\<close>).\<close>

fun probe :: "net \<Rightarrow> axios_client \<Rightarrow> (response \<Rightarrow> 'a option) \<Rightarrow> http_request list \<Rightarrow>
              event list \<Rightarrow> 'a option \<times> event list" where
  "probe env c accept [] tr = (None, tr)"
| "probe env c accept (r # rs) tr =
     (case http env c r tr of
        (resp, tr') \<Rightarrow>
          (case accept resp of
             Some a \<Rightarrow> (Some a, tr')
           | None \<Rightarrow> probe env c accept rs tr'))"

declare probe.simps(2) [simp del]

text \<open>\<open>if (response.data) { statusData = response.data; break; }\<close>\<close>

fun status_data :: "response \<Rightarrow> jsval option" where
  "status_data (Response d) = (if truthy d then Some d else None)"
| "status_data Failure = None"

text \<open>\<open>await this.client.request(...); ...; break;\<close>: any answer that resolves.\<close>

fun request_ok :: "response \<Rightarrow> unit option" where
  "request_ok (Response _) = Some ()"
| "request_ok Failure = None"

subsection \<open>Endpoints\<close>

definition status_endpoints :: "http_request list" where
  "status_endpoints =
     map get_req [''/api/device/information'', ''/api/device/status'', ''/api/system/status'',
                  ''/goform/goform_get_status'', ''/api/monitoring/status'']"

definition disconnectEndpoints :: "http_request list" where
  "disconnectEndpoints =
     [post_req ''/api/dialup/mobile_connect'' (JObj [(''Action'', JNum 0)]),
      post_req ''/goform/goform_set_cmd_process''
        (JObj [(''isTest'', JStr ''false''), (''goformId'', JStr ''DISCONNECT_NETWORK'')]),
      post_req ''/api/net/disconnect'' (JObj []),
      post_req ''/api/connection/disconnect'' (JObj [])]"

definition connectEndpoints :: "http_request list" where
  "connectEndpoints =
     [post_req ''/api/dialup/mobile_connect'' (JObj [(''Action'', JNum 1)]),
      post_req ''/goform/goform_set_cmd_process''
        (JObj [(''isTest'', JStr ''false''), (''goformId'', JStr ''CONNECT_NETWORK'')]),
      post_req ''/api/net/connect'' (JObj []),
      post_req ''/api/connection/connect'' (JObj [])]"

definition rebootEndpoints :: "http_request list" where
  "rebootEndpoints =
     [post_req ''/api/device/control'' (JObj [(''Control'', JNum 1)]),
      post_req ''/api/system/reboot'' (JObj []),
      post_req ''/goform/goform_set_cmd_process''
        (JObj [(''isTest'', JStr ''false''), (''goformId'', JStr ''REBOOT_DEVICE'')]),
      post_req ''/api/device/reboot'' (JObj []),
      post_req ''/api/management/reboot'' (JObj [])]"

subsection \<open>getStatus\<close>

text \<open>The literal of lines 70--79 (no endpoint gave data, the root path answered)
  and of lines 86--95 (the root path failed too).\<close>

definition reachable_status :: modem_status where
  "reachable_status =
     \<lparr>connected = True, signalStrength = Num (-70), downloadSpeed = Num 0, uploadSpeed = Num 0,
      publicIp = JNull, connectionType = JStr ''4G'', provider = JStr ''Vodafone'',
      firmware = JStr ''Unknown''\<rparr>"

definition unreachable_status :: modem_status where
  "unreachable_status =
     \<lparr>connected = False, signalStrength = Num (-999), downloadSpeed = Num 0, uploadSpeed = Num 0,
      publicIp = JNull, connectionType = JStr ''Unknown'', provider = JStr ''Vodafone'',
      firmware = JStr ''Unknown''\<rparr>"

definition getStatus :: "net \<Rightarrow> controller \<Rightarrow> event list \<Rightarrow> modem_status \<times> event list" where
  "getStatus env ctl tr =
     (case probe env (client ctl) status_data status_endpoints tr of
        (Some d, tr1) \<Rightarrow> (parseStatusResponse d, tr1)
      | (None, tr1) \<Rightarrow>
          (case http env (client ctl) (get_req ''/'') tr1 of
             (Failure, tr2) \<Rightarrow> (unreachable_status, tr2)
           | (Response _, tr2) \<Rightarrow> (reachable_status, tr2)))"

subsection \<open>rotateIp and reboot\<close>

text \<open>The result object \<open>{success, oldIp?, newIp?, error?}\<close>; \<open>None\<close> is an
  absent property.\<close>

record ctl_result =
  success :: bool
  oldIp :: "jsval option"
  newIp :: "jsval option"
  error :: "string option"

definition failed :: "string \<Rightarrow> ctl_result" where
  "failed e = \<lparr>success = False, oldIp = None, newIp = None, error = Some e\<rparr>"

definition generateRandomIp :: "nat \<Rightarrow> string" where
  "generateRandomIp rnd = ''203.0.113.'' @ nat_str (rnd + 1)"

text \<open>Lines 229--235: the verdict on the address read after reconnecting.\<close>

definition rotate_verdict :: "jsval \<Rightarrow> jsval \<Rightarrow> ctl_result" where
  "rotate_verdict old_ip new_ip =
     (if truthy new_ip \<and> \<not> strict_eq new_ip old_ip
      then \<lparr>success = True, oldIp = Some old_ip, newIp = Some new_ip, error = None\<rparr>
      else if strict_eq new_ip old_ip then failed ''Carrier assigned the same IP address''
      else failed ''Unable to obtain new IP address after reconnection'')"

definition rotateIp :: "bool \<Rightarrow> nat \<Rightarrow> net \<Rightarrow> controller \<Rightarrow> event list \<Rightarrow> ctl_result \<times> event list" where
  "rotateIp dev rnd env ctl tr =
     (case getStatus env ctl tr of
        (oldStatus, tr1) \<Rightarrow>
          (let old_ip = publicIp oldStatus in
           if dev then
             (let new_ip = generateRandomIp rnd in
              (\<lparr>success = True,
                oldIp = Some (if truthy old_ip then old_ip else JStr ''203.0.113.45''),
                newIp = Some (JStr new_ip), error = None\<rparr>, sleep 2000 tr1))
           else
             (case probe env (client ctl) request_ok disconnectEndpoints tr1 of
                (None, tr2) \<Rightarrow> (failed ''Failed to disconnect from 4G service'', tr2)
              | (Some _, tr2) \<Rightarrow>
                  (case probe env (client ctl) request_ok connectEndpoints (sleep 5000 tr2) of
                     (None, tr3) \<Rightarrow> (failed ''Failed to reconnect to 4G service'', tr3)
                   | (Some _, tr3) \<Rightarrow>
                       (case getStatus env ctl (sleep 15000 tr3) of
                          (newStatus, tr4) \<Rightarrow> (rotate_verdict old_ip (publicIp newStatus), tr4))))))"

definition reboot :: "bool \<Rightarrow> net \<Rightarrow> controller \<Rightarrow> event list \<Rightarrow> ctl_result \<times> event list" where
  "reboot dev env ctl tr =
     (if dev then (\<lparr>success = True, oldIp = None, newIp = None, error = None\<rparr>, sleep 3000 tr)
      else
        (case probe env (client ctl) request_ok rebootEndpoints tr of
           (Some _, tr1) \<Rightarrow> (\<lparr>success = True, oldIp = None, newIp = None, error = None\<rparr>, tr1)
         | (None, tr1) \<Rightarrow> (failed ''No reboot endpoint responded successfully'', tr1)))"

subsection \<open>Controller factory\<close>

text \<open>\<open>switch (modem.model) { case 'M300z': default: return new VodafoneM300zController(modem); }\<close>\<close>

definition ModemControllerFactory_create :: "modem \<Rightarrow> controller" where
  "ModemControllerFactory_create m =
     (if model m = Some ''M300z'' then VodafoneM300zController m else VodafoneM300zController m)"

subsection \<open>Observations used in the statements\<close>

text \<open>The answer to the \<open>i\<close>-th candidate of \<open>rs\<close> when the loop starts after
  the events \<open>tr\<close> and every earlier candidate has been tried.\<close>

definition nth_response :: "net \<Rightarrow> axios_client \<Rightarrow> event list \<Rightarrow> http_request list \<Rightarrow> nat \<Rightarrow> response" where
  "nth_response env c tr rs i = env (tr @ map (Http c) (take i rs)) c (rs ! i)"

text \<open>Analysis environments: a modem that answers nothing, and one that accepts
  every command but whose status endpoints and root path all fail.\<close>

definition dead_env :: net where
  "dead_env tr c r = Failure"

definition commands_only_env :: net where
  "commands_only_env tr c r = (if req_method r = POST then Response (JObj []) else Failure)"

text \<open>A modem of the ZTE kind that answers only the \<open>goform\<close> command endpoint.\<close>

definition goform_env :: net where
  "goform_env tr c r = (if url r = ''/goform/goform_set_cmd_process'' then Response (JObj []) else Failure)"

text \<open>A modem that accepts every command and reports one address before the
  reconnect settle delay and another after it.\<close>

definition rotating_env :: net where
  "rotating_env tr c r =
     (if req_method r = POST then Response (JObj [])
      else if Sleep 15000 \<in> set tr then Response (JObj [(''wan_ip'', JStr ''203.0.113.7'')])
      else Response (JObj [(''wan_ip'', JStr ''203.0.113.45'')]))"

text \<open>A modem that accepts every command and always reports the same address.\<close>

definition sticky_env :: net where
  "sticky_env tr c r =
     (if req_method r = POST then Response (JObj [])
      else Response (JObj [(''wan_ip'', JStr ''203.0.113.45'')]))"

text \<open>A modem that accepts commands until the disconnect settle delay and answers
  nothing afterwards.\<close>

definition drops_after_disconnect_env :: net where
  "drops_after_disconnect_env tr c r =
     (if req_method r = POST \<and> Sleep 5000 \<notin> set tr then Response (JObj []) else Failure)"

text \<open>The controller the factory builds for the first seeded modem.\<close>

definition seed_controller :: controller where
  "seed_controller = ModemControllerFactory_create (hd (seed_modems 0))"

text \<open>Measures of an event trace: the number of requests sent to the modem, and
  the longest the operation can take, every request running into the axios
  timeout of its client and every sleep taken in full.\<close>

fun is_request :: "event \<Rightarrow> bool" where
  "is_request (Http _ _) = True"
| "is_request (Sleep _) = False"

fun event_ms :: "event \<Rightarrow> nat" where
  "event_ms (Http c _) = timeout c"
| "event_ms (Sleep ms) = ms"

fun request_count :: "event list \<Rightarrow> nat" where
  "request_count [] = 0"
| "request_count (Http _ _ # es) = Suc (request_count es)"
| "request_count (Sleep _ # es) = request_count es"

fun worst_case_ms :: "event list \<Rightarrow> nat" where
  "worst_case_ms [] = 0"
| "worst_case_ms (e # es) = event_ms e + worst_case_ms es"

subsection \<open>Lemmas: the probing loop\<close>

lemma nth_response_0 [simp]: "nth_response env c tr (r # rs) 0 = env tr c r"
  by (simp add: nth_response_def)

lemma nth_response_Suc [simp]:
  "nth_response env c tr (r # rs) (Suc i) = nth_response env c (tr @ [Http c r]) rs i"
  by (simp add: nth_response_def)

lemma probe_Cons_hit:
  "accept (env tr c r) = Some a \<Longrightarrow> probe env c accept (r # rs) tr = (Some a, tr @ [Http c r])"
  by (simp add: http_def probe.simps(2))

lemma probe_Cons_miss:
  "accept (env tr c r) = None \<Longrightarrow> probe env c accept (r # rs) tr = probe env c accept rs (tr @ [Http c r])"
  by (simp add: http_def probe.simps(2))

lemma probe_first_hit:
  assumes "k < length rs"
    and "\<forall>i < k. accept (nth_response env c tr rs i) = None"
    and "accept (nth_response env c tr rs k) = Some a"
  shows "probe env c accept rs tr = (Some a, tr @ map (Http c) (take (Suc k) rs))"
  using assms
proof (induction rs arbitrary: tr k)
  case Nil
  then show ?case by simp
next
  case (Cons r rs)
  show ?case
  proof (cases k)
    case 0
    with Cons.prems show ?thesis by (simp add: probe_Cons_hit)
  next
    case (Suc k')
    from Cons.prems Suc have miss: "accept (env tr c r) = None"
      by (metis nth_response_0 zero_less_Suc)
    from Cons.prems Suc have "probe env c accept rs (tr @ [Http c r]) =
        (Some a, (tr @ [Http c r]) @ map (Http c) (take (Suc k') rs))"
      by (intro Cons.IH) auto
    with miss Suc show ?thesis by (simp add: probe_Cons_miss)
  qed
qed

lemma probe_all_miss:
  assumes "\<forall>i < length rs. accept (nth_response env c tr rs i) = None"
  shows "probe env c accept rs tr = (None, tr @ map (Http c) rs)"
  using assms
proof (induction rs arbitrary: tr)
  case Nil
  then show ?case by simp
next
  case (Cons r rs)
  from Cons.prems have miss: "accept (env tr c r) = None"
    by (metis nth_response_0 zero_less_Suc length_Cons)
  from Cons.prems have "probe env c accept rs (tr @ [Http c r]) = (None, (tr @ [Http c r]) @ map (Http c) rs)"
    by (intro Cons.IH) auto
  with miss show ?case by (simp add: probe_Cons_miss)
qed

text \<open>Whatever the answers, the loop sends a prefix of the candidates, in order, and
  stops right after the one it accepts.\<close>

lemma probe_trace:
  "probe env c accept rs tr = (x, tr') \<Longrightarrow>
     (x = None \<and> tr' = tr @ map (Http c) rs) \<or>
     (\<exists>k < length rs. x \<noteq> None \<and> tr' = tr @ map (Http c) (take (Suc k) rs))"
proof (induction rs arbitrary: tr)
  case Nil
  then show ?case by simp
next
  case (Cons r rs)
  show ?case
  proof (cases "accept (env tr c r)")
    case None
    with Cons.prems have "probe env c accept rs (tr @ [Http c r]) = (x, tr')"
      by (simp add: probe_Cons_miss)
    from Cons.IH [OF this] show ?thesis
    proof
      assume "x = None \<and> tr' = (tr @ [Http c r]) @ map (Http c) rs"
      then show ?thesis by simp
    next
      assume "\<exists>k < length rs. x \<noteq> None \<and> tr' = (tr @ [Http c r]) @ map (Http c) (take (Suc k) rs)"
      then obtain k where "k < length rs" "x \<noteq> None" "tr' = (tr @ [Http c r]) @ map (Http c) (take (Suc k) rs)"
        by blast
      then show ?thesis by (intro disjI2 exI [of _ "Suc k"]) simp
    qed
  next
    case (Some a)
    with Cons.prems have "x = Some a" and "tr' = tr @ map (Http c) (take (Suc 0) (r # rs))"
      by (simp_all add: probe_Cons_hit)
    then show ?thesis by (intro disjI2 exI [of _ 0]) simp
  qed
qed

lemma probe_Some_trace:
  "probe env c accept rs tr = (Some a, tr') \<Longrightarrow>
     \<exists>k < length rs. tr' = tr @ map (Http c) (take (Suc k) rs)"
  using probe_trace by fastforce

lemma probe_bounded:
  assumes "probe env c accept rs tr = (x, tr')"
  obtains xs where "tr' = tr @ map (Http c) xs" "length xs \<le> length rs"
proof -
  from probe_trace [OF assms] consider "tr' = tr @ map (Http c) rs"
    | k where "tr' = tr @ map (Http c) (take (Suc k) rs)" by blast
  then show thesis
  proof cases
    case 1
    then show thesis by (rule that) simp
  next
    case (2 k)
    then show thesis by (rule that) simp
  qed
qed

lemma getStatus_bounded:
  assumes "getStatus env ctl tr = (st, tr')"
  obtains xs where "tr' = tr @ map (Http (client ctl)) xs" "length xs \<le> 6"
proof -
  obtain x tr1 where p: "probe env (client ctl) status_data status_endpoints tr = (x, tr1)"
    by (rule prod.exhaust)
  have l: "length status_endpoints = 5" by (simp add: status_endpoints_def)
  obtain ys where ys: "tr1 = tr @ map (Http (client ctl)) ys" "length ys \<le> 5"
    by (rule probe_bounded [OF p]) (simp add: l)
  show ?thesis
  proof (cases x)
    case None
    with assms p have "tr' = tr1 @ [Http (client ctl) (get_req ''/'')]"
      by (auto simp: getStatus_def http_def split: response.splits)
    with ys show ?thesis by (intro that [of "ys @ [get_req ''/'']"]) simp_all
  next
    case (Some d)
    with assms p have "tr' = tr1" by (simp add: getStatus_def)
    with ys show ?thesis by (intro that [of ys]) simp_all
  qed
qed

lemma request_count_append [simp]: "request_count (xs @ ys) = request_count xs + request_count ys"
  by (induction xs rule: request_count.induct) simp_all

lemma worst_case_ms_append [simp]: "worst_case_ms (xs @ ys) = worst_case_ms xs + worst_case_ms ys"
  by (induction xs) simp_all

lemma request_count_http [simp]: "request_count (map (Http c) rs) = length rs"
  by (induction rs) simp_all

lemma worst_case_ms_http [simp]: "worst_case_ms (map (Http c) rs) = length rs * timeout c"
  by (induction rs) simp_all

lemma http_trace_bound:
  assumes "new = map (Http c) xs @ map Sleep ms" "length xs \<le> 20" "sum_list ms \<le> 20000"
  shows "request_count new \<le> 20 \<and> worst_case_ms new \<le> 20 * timeout c + 20000"
proof -
  have s: "request_count (map Sleep ms) = 0" "worst_case_ms (map Sleep ms) = sum_list ms"
    by (induction ms) simp_all
  have "length xs * timeout c + sum_list ms \<le> 20 * timeout c + 20000"
    using mult_le_mono1 [OF assms(2)] assms(3) by (rule add_mono)
  then show ?thesis using assms(1,2) s by simp
qed

lemma rotateIp_bounded:
  "\<exists>new. snd (rotateIp dev rnd env ctl tr) = tr @ new \<and> request_count new \<le> 20 \<and>
     worst_case_ms new \<le> 20 * timeout (client ctl) + 20000"
proof -
  let ?c = "client ctl"
  obtain st0 tr1 where g0: "getStatus env ctl tr = (st0, tr1)" by (rule prod.exhaust)
  obtain xs0 where x0: "tr1 = tr @ map (Http ?c) xs0" "length xs0 \<le> 6" by (rule getStatus_bounded [OF g0])
  show ?thesis
  proof (cases dev)
    case True
    then have "snd (rotateIp dev rnd env ctl tr) = tr @ (map (Http ?c) xs0 @ [Sleep 2000])"
      by (simp add: rotateIp_def Let_def g0 x0 sleep_def)
    moreover have "request_count (map (Http ?c) xs0 @ map Sleep [2000]) \<le> 20 \<and>
        worst_case_ms (map (Http ?c) xs0 @ map Sleep [2000]) \<le> 20 * timeout ?c + 20000"
      by (rule http_trace_bound [OF refl]) (use x0 in simp_all)
    ultimately show ?thesis by (intro exI conjI) (assumption, simp_all add: add_mult_distrib)
  next
    case False
    obtain d tr2 where p1: "probe env ?c request_ok disconnectEndpoints tr1 = (d, tr2)" by (rule prod.exhaust)
    obtain xs1 where x1: "tr2 = tr1 @ map (Http ?c) xs1" "length xs1 \<le> 4"
      by (rule probe_bounded [OF p1]) (simp add: disconnectEndpoints_def)
    show ?thesis
    proof (cases d)
      case None
      with False p1 g0 have "snd (rotateIp dev rnd env ctl tr) = tr @ map (Http ?c) (xs0 @ xs1)"
        by (simp add: rotateIp_def Let_def x0 x1)
      moreover have "request_count (map (Http ?c) (xs0 @ xs1) @ map Sleep []) \<le> 20 \<and>
          worst_case_ms (map (Http ?c) (xs0 @ xs1) @ map Sleep []) \<le> 20 * timeout ?c + 20000"
        by (rule http_trace_bound [OF refl]) (use x0 x1 in simp_all)
      ultimately show ?thesis by (intro exI conjI) (assumption, simp_all add: add_mult_distrib)
    next
      case (Some u)
      obtain d' tr3 where p2: "probe env ?c request_ok connectEndpoints (sleep 5000 tr2) = (d', tr3)"
        by (rule prod.exhaust)
      obtain xs2 where x2: "tr3 = (tr2 @ [Sleep 5000]) @ map (Http ?c) xs2" "length xs2 \<le> 4"
        by (rule probe_bounded [OF p2 [unfolded sleep_def]]) (simp add: connectEndpoints_def)
      show ?thesis
      proof (cases d')
        case None
        with False Some p1 p2 g0 have "snd (rotateIp dev rnd env ctl tr) =
            tr @ (map (Http ?c) (xs0 @ xs1) @ [Sleep 5000] @ map (Http ?c) xs2)"
          by (simp add: rotateIp_def Let_def x0 x1 x2 sleep_def)
        moreover have "request_count (map (Http ?c) (xs0 @ xs1 @ xs2) @ map Sleep [5000]) \<le> 20 \<and>
            worst_case_ms (map (Http ?c) (xs0 @ xs1 @ xs2) @ map Sleep [5000]) \<le> 20 * timeout ?c + 20000"
          by (rule http_trace_bound [OF refl]) (use x0 x1 x2 in simp_all)
        ultimately show ?thesis by (intro exI conjI) (assumption, simp_all add: add_mult_distrib)
      next
        case (Some u')
        obtain st1 tr4 where g1: "getStatus env ctl (sleep 15000 tr3) = (st1, tr4)" by (rule prod.exhaust)
        obtain xs3 where x3: "tr4 = (tr3 @ [Sleep 15000]) @ map (Http ?c) xs3" "length xs3 \<le> 6"
          by (rule getStatus_bounded [OF g1 [unfolded sleep_def]])
        from False \<open>d = Some u\<close> Some p1 p2 g0 g1 have "snd (rotateIp dev rnd env ctl tr) =
            tr @ (map (Http ?c) (xs0 @ xs1) @ [Sleep 5000] @ map (Http ?c) xs2 @ [Sleep 15000] @ map (Http ?c) xs3)"
          by (simp add: rotateIp_def Let_def x0 x1 x2 x3 sleep_def)
        moreover have "request_count (map (Http ?c) (xs0 @ xs1 @ xs2 @ xs3) @ map Sleep [5000, 15000]) \<le> 20 \<and>
            worst_case_ms (map (Http ?c) (xs0 @ xs1 @ xs2 @ xs3) @ map Sleep [5000, 15000]) \<le> 20 * timeout ?c + 20000"
          by (rule http_trace_bound [OF refl]) (use x0 x1 x2 x3 in simp_all)
        ultimately show ?thesis by (intro exI conjI) (assumption, simp_all add: add_mult_distrib)
      qed
    qed
  qed
qed

lemma method_status_endpoints: "\<forall>r \<in> set status_endpoints. req_method r = GET"
  by (simp add: status_endpoints_def get_req_def)

lemma getStatus_GET_trace:
  assumes "getStatus env ctl tr = (st, tr')"
  shows "\<exists>xs. tr' = tr @ map (Http (client ctl)) xs \<and> (\<forall>r \<in> set xs. req_method r = GET)"
proof (cases "probe env (client ctl) status_data status_endpoints tr")
  case (Pair x tr1)
  from probe_trace [OF Pair] show ?thesis
  proof
    assume n: "x = None \<and> tr1 = tr @ map (Http (client ctl)) status_endpoints"
    with assms Pair have "tr' = tr1 @ [Http (client ctl) (get_req ''/'')]"
      by (auto simp: getStatus_def http_def split: response.splits)
    with n method_status_endpoints show ?thesis
      by (intro exI [of _ "status_endpoints @ [get_req ''/'']"]) (simp add: get_req_def)
  next
    assume "\<exists>k < length status_endpoints. x \<noteq> None \<and>
              tr1 = tr @ map (Http (client ctl)) (take (Suc k) status_endpoints)"
    then obtain k where k: "x \<noteq> None" "tr1 = tr @ map (Http (client ctl)) (take (Suc k) status_endpoints)"
      by blast
    with assms Pair have "tr' = tr1" by (auto simp: getStatus_def)
    with k method_status_endpoints show ?thesis
      by (intro exI [of _ "take (Suc k) status_endpoints"]) (auto dest: in_set_takeD)
  qed
qed

lemma getStatus_simps_concrete:
  "getStatus env ctl tr =
     (case probe env (client ctl) status_data status_endpoints tr of
        (Some d, tr1) \<Rightarrow> (status_spec d, tr1)
      | (None, tr1) \<Rightarrow>
          (case env tr1 (client ctl) (get_req ''/'') of
             Failure \<Rightarrow> (unreachable_status, tr1 @ [Http (client ctl) (get_req ''/'')])
           | Response _ \<Rightarrow> (reachable_status, tr1 @ [Http (client ctl) (get_req ''/'')])))"
  by (simp add: getStatus_def http_def parse_status_spec split: option.split prod.split response.split)

lemmas controller_eval =
  getStatus_simps_concrete rotateIp_def reboot_def status_endpoints_def disconnectEndpoints_def
  connectEndpoints_def rebootEndpoints_def http_def sleep_def get_req_def post_req_def probe.simps(2)
  status_spec_def raw_field_def num_field_def rotate_verdict_def failed_def generateRandomIp_def
  unreachable_status_def reachable_status_def nth_response_def

lemma rotate_verdict_success:
  "success (rotate_verdict a b) \<longleftrightarrow> truthy b \<and> \<not> strict_eq b a"
  by (simp add: rotate_verdict_def failed_def)

lemma rotate_verdict_ips:
  "success (rotate_verdict a b) \<Longrightarrow> oldIp (rotate_verdict a b) = Some a \<and> newIp (rotate_verdict a b) = Some b"
  by (auto simp: rotate_verdict_def failed_def split: if_splits)

lemma rotate_verdict_same:
  "strict_eq b a \<Longrightarrow> rotate_verdict a b = failed ''Carrier assigned the same IP address''"
  by (simp add: rotate_verdict_def)

text \<open>The non-development path, phase by phase.\<close>

lemma rotateIp_after_reconnect:
  assumes "getStatus env ctl tr = (st0, tr1)"
    and "probe env (client ctl) request_ok disconnectEndpoints tr1 = (Some u, tr2)"
    and "probe env (client ctl) request_ok connectEndpoints (tr2 @ [Sleep 5000]) = (Some u', tr3)"
    and "getStatus env ctl (tr3 @ [Sleep 15000]) = (st1, tr4)"
  shows "rotateIp False rnd env ctl tr = (rotate_verdict (publicIp st0) (publicIp st1), tr4)"
  using assms by (simp add: rotateIp_def sleep_def)

lemma rotateIp_disconnect_phase:
  assumes "getStatus env ctl tr = (st0, tr1)"
    and "probe env (client ctl) request_ok disconnectEndpoints tr1 = (None, tr2)"
  shows "rotateIp False rnd env ctl tr = (failed ''Failed to disconnect from 4G service'', tr2)"
  using assms by (simp add: rotateIp_def)

lemma rotateIp_connect_phase:
  assumes "getStatus env ctl tr = (st0, tr1)"
    and "probe env (client ctl) request_ok disconnectEndpoints tr1 = (Some u, tr2)"
    and "probe env (client ctl) request_ok connectEndpoints (tr2 @ [Sleep 5000]) = (None, tr3)"
  shows "rotateIp False rnd env ctl tr = (failed ''Failed to reconnect to 4G service'', tr3)"
  using assms by (simp add: rotateIp_def sleep_def)

lemma probe_first_request:
  "probe env c accept (r # rs) tr = (x, tr') \<Longrightarrow> \<exists>rest. tr' = tr @ Http c r # rest"
  using probe_trace [of env c accept "r # rs" tr x tr'] by auto

lemma getStatus_first_request:
  "\<exists>rest. snd (getStatus env ctl tr) = tr @ Http (client ctl) (get_req ''/api/device/information'') # rest"
proof -
  obtain x tr1 where p: "probe env (client ctl) status_data status_endpoints tr = (x, tr1)"
    by (rule prod.exhaust)
  have "status_endpoints = get_req ''/api/device/information'' # tl status_endpoints"
    by (simp add: status_endpoints_def)
  with p obtain rest where tr1: "tr1 = tr @ Http (client ctl) (get_req ''/api/device/information'') # rest"
    using probe_first_request by metis
  show ?thesis
  proof (cases x)
    case None
    with p tr1 show ?thesis
      by (auto simp: getStatus_def http_def split: response.split)
  next
    case (Some d)
    with p tr1 show ?thesis by (simp add: getStatus_def)
  qed
qed

lemma rotateIp_dev:
  "rotateIp True rnd env ctl tr =
     (\<lparr>success = True,
       oldIp = Some (if truthy (publicIp (fst (getStatus env ctl tr))) then publicIp (fst (getStatus env ctl tr))
                     else JStr ''203.0.113.45''),
       newIp = Some (JStr (generateRandomIp rnd)), error = None\<rparr>,
      snd (getStatus env ctl tr) @ [Sleep 2000])"
  by (simp add: rotateIp_def sleep_def split: prod.split)

subsection \<open>Properties\<close>

text \<open>C3. The probing loop stops at the first candidate that succeeds: if the
  candidates before position \<open>k\<close> all fail and the \<open>k\<close>-th succeeds, exactly
  \<open>k + 1\<close> requests are sent, in list order, and the result is what the \<open>k\<close>-th
  answer yields.\<close>

theorem probe_stops_at_first_success:
  assumes "k < length rs"
    and "\<forall>i < k. accept (nth_response env c tr rs i) = None"
    and "accept (nth_response env c tr rs k) = Some a"
  shows "probe env c accept rs tr = (Some a, tr @ map (Http c) (take (Suc k) rs))"
  using assms by (rule probe_first_hit)

theorem probe_stops_at_first_success_witness:
  "1 < length disconnectEndpoints \<and>
   request_ok (nth_response goform_env (client seed_controller) [] disconnectEndpoints 0) = None \<and>
   request_ok (nth_response goform_env (client seed_controller) [] disconnectEndpoints 1) = Some () \<and>
   probe goform_env (client seed_controller) request_ok disconnectEndpoints [] =
     (Some (), map (Http (client seed_controller)) (take 2 disconnectEndpoints))"
proof -
  have h1: "1 < length disconnectEndpoints" by (simp add: disconnectEndpoints_def)
  have h2: "\<forall>i < 1. request_ok (nth_response goform_env (client seed_controller) [] disconnectEndpoints i) = None"
    by (simp add: nth_response_def goform_env_def disconnectEndpoints_def post_req_def)
  have h3: "request_ok (nth_response goform_env (client seed_controller) [] disconnectEndpoints 1) = Some ()"
    by (simp add: nth_response_def goform_env_def disconnectEndpoints_def post_req_def)
  show ?thesis
    using h1 h2 h3 probe_stops_at_first_success [OF h1 h2 h3] by (simp add: numeral_2_eq_2)
qed

text \<open>When every candidate fails, all of them are tried, in order, and the
  loop yields nothing.\<close>

theorem probe_all_fail:
  assumes "\<forall>i < length rs. accept (nth_response env c tr rs i) = None"
  shows "probe env c accept rs tr = (None, tr @ map (Http c) rs)"
  using assms by (rule probe_all_miss)

theorem probe_all_fail_witness:
  "probe dead_env (client seed_controller) request_ok rebootEndpoints [] =
     (None, map (Http (client seed_controller)) rebootEndpoints)"
proof -
  have h: "\<forall>i < length rebootEndpoints.
      request_ok (nth_response dead_env (client seed_controller) [] rebootEndpoints i) = None"
    by (simp add: nth_response_def dead_env_def)
  show ?thesis using probe_all_fail [OF h] by simp
qed

text \<open>\<open>getStatus\<close> never fails: when no status endpoint yields data it
  probes the root path, and reports the default connected status if that answers
  and the ``unreadable'' status (disconnected, signal -999) if it does not, after
  exactly the five status requests and the root request.\<close>

theorem getStatus_fallback:
  assumes "\<forall>i < length status_endpoints. status_data (nth_response env (client ctl) tr status_endpoints i) = None"
  shows "getStatus env ctl tr =
           ((case env (tr @ map (Http (client ctl)) status_endpoints) (client ctl) (get_req ''/'') of
               Failure \<Rightarrow> unreachable_status
             | Response _ \<Rightarrow> reachable_status),
            tr @ map (Http (client ctl)) (status_endpoints @ [get_req ''/'']))"
  using probe_all_miss [OF assms] by (simp add: getStatus_def http_def split: response.split)

theorem getStatus_fallback_witness:
  "getStatus dead_env seed_controller [] =
     (unreachable_status, map (Http (client seed_controller)) (status_endpoints @ [get_req ''/'']))"
proof -
  have h: "\<forall>i < length status_endpoints.
      status_data (nth_response dead_env (client seed_controller) [] status_endpoints i) = None"
    unfolding nth_response_def dead_env_def by simp
  show ?thesis using getStatus_fallback [OF h] unfolding dead_env_def by simp
qed

text \<open>C2. A rotation reported as successful carries both addresses, the new one
  present and different (under \<open>===\<close>) from the old one, and its trace is, in
  order: status reads, the disconnect commands up to the first that answered, the
  5 s settle delay, the connect commands up to the first that answered, the 15 s
  delay, and status reads again.\<close>

theorem rotateIp_success_sound:
  assumes run: "rotateIp False rnd env ctl tr = (res, tr')" and ok: "success res"
  shows "\<exists>a b s0 i j s1. oldIp res = Some a \<and> newIp res = Some b \<and> truthy b \<and> \<not> strict_eq b a \<and>
           i < length disconnectEndpoints \<and> j < length connectEndpoints \<and>
           tr' = tr @ map (Http (client ctl)) s0 @
                 map (Http (client ctl)) (take (Suc i) disconnectEndpoints) @ [Sleep 5000] @
                 map (Http (client ctl)) (take (Suc j) connectEndpoints) @ [Sleep 15000] @
                 map (Http (client ctl)) s1 \<and>
           (\<forall>r \<in> set (s0 @ s1). req_method r = GET)"
proof -
  let ?c = "client ctl"
  obtain st0 tr1 where g0: "getStatus env ctl tr = (st0, tr1)" by (rule prod.exhaust)
  obtain d tr2 where p1: "probe env ?c request_ok disconnectEndpoints tr1 = (d, tr2)"
    by (rule prod.exhaust)
  obtain cn tr3 where p2: "probe env ?c request_ok connectEndpoints (tr2 @ [Sleep 5000]) = (cn, tr3)"
    by (rule prod.exhaust)
  obtain st1 tr4 where g1: "getStatus env ctl (tr3 @ [Sleep 15000]) = (st1, tr4)"
    by (rule prod.exhaust)
  have "d \<noteq> None"
  proof
    assume "d = None"
    with p1 have "probe env ?c request_ok disconnectEndpoints tr1 = (None, tr2)" by simp
    from rotateIp_disconnect_phase [OF g0 this] run
    have "res = failed ''Failed to disconnect from 4G service''" by simp
    with ok show False by (simp add: failed_def)
  qed
  then obtain u where du: "d = Some u" by blast
  have "cn \<noteq> None"
  proof
    assume "cn = None"
    with p2 have "probe env ?c request_ok connectEndpoints (tr2 @ [Sleep 5000]) = (None, tr3)" by simp
    from rotateIp_connect_phase [OF g0 p1 [unfolded du] this] run
    have "res = failed ''Failed to reconnect to 4G service''" by simp
    with ok show False by (simp add: failed_def)
  qed
  then obtain u' where cu: "cn = Some u'" by blast
  from rotateIp_after_reconnect [OF g0 p1 [unfolded du] p2 [unfolded cu] g1] run
  have res: "res = rotate_verdict (publicIp st0) (publicIp st1)" and tr4: "tr' = tr4"
    by simp_all
  from ok res have v: "truthy (publicIp st1) \<and> \<not> strict_eq (publicIp st1) (publicIp st0)"
    by (simp add: rotate_verdict_success)
  from ok res have ips: "oldIp res = Some (publicIp st0) \<and> newIp res = Some (publicIp st1)"
    using rotate_verdict_ips by simp
  obtain s0 where s0: "tr1 = tr @ map (Http ?c) s0" "\<forall>r \<in> set s0. req_method r = GET"
    using getStatus_GET_trace [OF g0] by blast
  obtain i where i: "i < length disconnectEndpoints"
      "tr2 = tr1 @ map (Http ?c) (take (Suc i) disconnectEndpoints)"
    using probe_Some_trace [OF p1 [unfolded du]] by blast
  obtain j where j: "j < length connectEndpoints"
      "tr3 = (tr2 @ [Sleep 5000]) @ map (Http ?c) (take (Suc j) connectEndpoints)"
    using probe_Some_trace [OF p2 [unfolded cu]] by blast
  obtain s1 where s1: "tr4 = (tr3 @ [Sleep 15000]) @ map (Http ?c) s1" "\<forall>r \<in> set s1. req_method r = GET"
    using getStatus_GET_trace [OF g1] by blast
  have tr': "tr' = tr @ map (Http ?c) s0 @
                 map (Http ?c) (take (Suc i) disconnectEndpoints) @ [Sleep 5000] @
                 map (Http ?c) (take (Suc j) connectEndpoints) @ [Sleep 15000] @ map (Http ?c) s1"
    using tr4 s0(1) i(2) j(2) s1(1) by simp
  have gets: "\<forall>r \<in> set (s0 @ s1). req_method r = GET"
    using s0(2) s1(2) by auto
  show ?thesis
    using v ips i(1) j(1) tr' gets by blast
qed

theorem rotateIp_success_sound_witness:
  "success (fst (rotateIp False 0 rotating_env seed_controller [])) \<and>
   oldIp (fst (rotateIp False 0 rotating_env seed_controller [])) = Some (JStr ''203.0.113.45'') \<and>
   newIp (fst (rotateIp False 0 rotating_env seed_controller [])) = Some (JStr ''203.0.113.7'') \<and>
   (\<exists>a b s0 i j s1. oldIp (fst (rotateIp False 0 rotating_env seed_controller [])) = Some a \<and>
      newIp (fst (rotateIp False 0 rotating_env seed_controller [])) = Some b \<and> truthy b \<and>
      \<not> strict_eq b a \<and> i < length disconnectEndpoints \<and> j < length connectEndpoints \<and>
      snd (rotateIp False 0 rotating_env seed_controller []) =
        [] @ map (Http (client seed_controller)) s0 @
        map (Http (client seed_controller)) (take (Suc i) disconnectEndpoints) @ [Sleep 5000] @
        map (Http (client seed_controller)) (take (Suc j) connectEndpoints) @ [Sleep 15000] @
        map (Http (client seed_controller)) s1 \<and>
      (\<forall>r \<in> set (s0 @ s1). req_method r = GET))"
proof -
  have val: "fst (rotateIp False 0 rotating_env seed_controller []) =
      \<lparr>success = True, oldIp = Some (JStr ''203.0.113.45''), newIp = Some (JStr ''203.0.113.7''), error = None\<rparr>"
    by (simp add: controller_eval rotating_env_def)
  then have ok: "success (fst (rotateIp False 0 rotating_env seed_controller []))" by simp
  show ?thesis
    using val rotateIp_success_sound [OF prod.collapse [symmetric] ok] by simp
qed

text \<open>C4. A rotation whose phases all get through but after which the modem
  reports the same public address (under \<open>===\<close>) fails with the error ``Carrier
  assigned the same IP address'' rather than reporting success.\<close>

theorem rotateIp_same_ip:
  assumes "getStatus env ctl tr = (st0, tr1)"
    and "probe env (client ctl) request_ok disconnectEndpoints tr1 = (Some u, tr2)"
    and "probe env (client ctl) request_ok connectEndpoints (tr2 @ [Sleep 5000]) = (Some u', tr3)"
    and "getStatus env ctl (tr3 @ [Sleep 15000]) = (st1, tr4)"
    and "strict_eq (publicIp st1) (publicIp st0)"
  shows "rotateIp False rnd env ctl tr =
           (\<lparr>success = False, oldIp = None, newIp = None,
             error = Some ''Carrier assigned the same IP address''\<rparr>, tr4)"
  using rotateIp_after_reconnect [OF assms(1-4)] rotate_verdict_same [OF assms(5)]
  by (simp add: failed_def)

theorem rotateIp_same_ip_witness:
  "fst (rotateIp False 0 sticky_env seed_controller []) =
     \<lparr>success = False, oldIp = None, newIp = None, error = Some ''Carrier assigned the same IP address''\<rparr>"
proof -
  let ?c = "client seed_controller"
  let ?st = "status_spec (JObj [(''wan_ip'', JStr ''203.0.113.45'')])"
  let ?t0 = "[Http ?c (hd status_endpoints)]"
  let ?t1 = "?t0 @ [Http ?c (hd disconnectEndpoints)]"
  let ?t2 = "(?t1 @ [Sleep 5000]) @ [Http ?c (hd connectEndpoints)]"
  let ?t3 = "(?t2 @ [Sleep 15000]) @ [Http ?c (hd status_endpoints)]"
  have h1: "getStatus sticky_env seed_controller [] = (?st, ?t0)"
    by (simp add: controller_eval sticky_env_def)
  have h2: "probe sticky_env ?c request_ok disconnectEndpoints ?t0 = (Some (), ?t1)"
    by (simp add: controller_eval sticky_env_def)
  have h3: "probe sticky_env ?c request_ok connectEndpoints (?t1 @ [Sleep 5000]) = (Some (), ?t2)"
    by (simp add: controller_eval sticky_env_def)
  have h4: "getStatus sticky_env seed_controller (?t2 @ [Sleep 15000]) = (?st, ?t3)"
    by (simp add: controller_eval sticky_env_def)
  have h5: "strict_eq (publicIp ?st) (publicIp ?st)"
    by (simp add: status_spec_def raw_field_def)
  show ?thesis using rotateIp_same_ip [OF h1 h2 h3 h4 h5] by simp
qed

text \<open>C5. When no disconnect endpoint answers, the rotation fails with ``Failed to
  disconnect from 4G service'' right after trying all four of them in order: no
  settle delay, no connect request and no second status read follow.\<close>

theorem rotateIp_disconnect_failure:
  assumes "getStatus env ctl tr = (st0, tr1)"
    and "\<forall>i < length disconnectEndpoints.
           nth_response env (client ctl) tr1 disconnectEndpoints i = Failure"
  shows "rotateIp False rnd env ctl tr =
           (failed ''Failed to disconnect from 4G service'',
            tr1 @ map (Http (client ctl)) disconnectEndpoints)"
proof -
  have "\<forall>i < length disconnectEndpoints.
          request_ok (nth_response env (client ctl) tr1 disconnectEndpoints i) = None"
    using assms(2) by simp
  from rotateIp_disconnect_phase [OF assms(1) probe_all_miss [OF this]] show ?thesis .
qed

theorem rotateIp_disconnect_failure_witness:
  "rotateIp False 0 dead_env seed_controller [] =
     (failed ''Failed to disconnect from 4G service'',
      map (Http (client seed_controller)) (status_endpoints @ [get_req ''/'']) @
      map (Http (client seed_controller)) disconnectEndpoints)"
proof -
  let ?c = "client seed_controller"
  let ?t1 = "map (Http ?c) (status_endpoints @ [get_req ''/''])"
  have h1: "getStatus dead_env seed_controller [] = (unreachable_status, ?t1)"
    by (simp add: controller_eval dead_env_def)
  have h2: "\<forall>i < length disconnectEndpoints. nth_response dead_env ?c ?t1 disconnectEndpoints i = Failure"
    unfolding nth_response_def dead_env_def by simp
  show ?thesis using rotateIp_disconnect_failure [OF h1 h2] by simp
qed

text \<open>C6. Every rotation ends, whatever the modem answers: it sends at most 20
  requests to the modem (two status reads of at most six requests, four
  disconnect and four connect candidates) and, with the 10 s axios timeout of
  the controllers the factory builds, takes at most 220 s including the 5 s
  and 15 s settle delays.\<close>

theorem rotateIp_terminates:
  "\<exists>new. snd (rotateIp dev rnd env (ModemControllerFactory_create m) tr) = tr @ new \<and>
     request_count new \<le> 20 \<and> worst_case_ms new \<le> 220000"
  using rotateIp_bounded [of dev rnd env "ModemControllerFactory_create m" tr]
  by (simp add: ModemControllerFactory_create_def VodafoneM300zController_def)
text \<open>A rotation whose disconnect got through but whose reconnect did not
  fails with ``Failed to reconnect to 4G service''; the trace shows the accepted
  disconnect command, the settle delay and all four connect attempts, and nothing
  after them: the modem is left disconnected and nothing tries to restore it.\<close>

theorem rotateIp_reconnect_failure:
  assumes "getStatus env ctl tr = (st0, tr1)"
    and "k < length disconnectEndpoints"
    and "\<forall>i < k. nth_response env (client ctl) tr1 disconnectEndpoints i = Failure"
    and "nth_response env (client ctl) tr1 disconnectEndpoints k \<noteq> Failure"
    and "\<forall>i < length connectEndpoints.
           nth_response env (client ctl) (tr1 @ map (Http (client ctl)) (take (Suc k) disconnectEndpoints) @ [Sleep 5000])
             connectEndpoints i = Failure"
  shows "rotateIp False rnd env ctl tr =
           (failed ''Failed to reconnect to 4G service'',
            tr1 @ map (Http (client ctl)) (take (Suc k) disconnectEndpoints) @ [Sleep 5000] @
            map (Http (client ctl)) connectEndpoints)"
proof -
  let ?c = "client ctl"
  let ?t2 = "tr1 @ map (Http ?c) (take (Suc k) disconnectEndpoints)"
  have "\<forall>i < k. request_ok (nth_response env ?c tr1 disconnectEndpoints i) = None"
    using assms(3) by simp
  moreover have "request_ok (nth_response env ?c tr1 disconnectEndpoints k) = Some ()"
    using assms(4) by (cases "nth_response env ?c tr1 disconnectEndpoints k") simp_all
  ultimately have p1: "probe env ?c request_ok disconnectEndpoints tr1 = (Some (), ?t2)"
    by (rule probe_first_hit [OF assms(2)])
  have "\<forall>i < length connectEndpoints.
          request_ok (nth_response env ?c (?t2 @ [Sleep 5000]) connectEndpoints i) = None"
    using assms(5) by simp
  from probe_all_miss [OF this]
  have p2: "probe env ?c request_ok connectEndpoints (?t2 @ [Sleep 5000]) =
              (None, (?t2 @ [Sleep 5000]) @ map (Http ?c) connectEndpoints)" .
  show ?thesis using rotateIp_connect_phase [OF assms(1) p1 p2] by simp
qed

theorem rotateIp_reconnect_failure_witness:
  "rotateIp False 0 drops_after_disconnect_env seed_controller [] =
     (failed ''Failed to reconnect to 4G service'',
      map (Http (client seed_controller)) (status_endpoints @ [get_req ''/'']) @
      map (Http (client seed_controller)) (take 1 disconnectEndpoints) @ [Sleep 5000] @
      map (Http (client seed_controller)) connectEndpoints)"
proof -
  let ?c = "client seed_controller"
  let ?t1 = "map (Http ?c) (status_endpoints @ [get_req ''/''])"
  have h1: "getStatus drops_after_disconnect_env seed_controller [] = (unreachable_status, ?t1)"
    by (simp add: controller_eval drops_after_disconnect_env_def)
  have h2: "0 < length disconnectEndpoints" by (simp add: disconnectEndpoints_def)
  have h3: "\<forall>i < 0. nth_response drops_after_disconnect_env ?c ?t1 disconnectEndpoints i = Failure"
    by simp
  have h4: "nth_response drops_after_disconnect_env ?c ?t1 disconnectEndpoints 0 \<noteq> Failure"
    by (simp add: controller_eval drops_after_disconnect_env_def)
  have h5: "\<forall>i < length connectEndpoints.
      nth_response drops_after_disconnect_env ?c (?t1 @ map (Http ?c) (take (Suc 0) disconnectEndpoints) @ [Sleep 5000])
        connectEndpoints i = Failure"
    unfolding nth_response_def drops_after_disconnect_env_def by simp
  show ?thesis using rotateIp_reconnect_failure [OF h1 h2 h3 h4 h5] by simp
qed

text \<open>A modem whose status cannot be read (no status endpoint and not the
  root path answers) but which accepts the disconnect and connect commands gets
  its rotation reported as ``Carrier assigned the same IP address'': both reads
  give \<open>null\<close>, and \<open>null === null\<close> is taken for an unchanged address,
  although no address was obtained at all.\<close>

theorem rotateIp_unreadable_status_same_ip:
  "fst (rotateIp False rnd commands_only_env ctl tr) = failed ''Carrier assigned the same IP address''"
  by (simp add: controller_eval commands_only_env_def)

text \<open>In development mode \<open>rotateIp\<close> still reads the modem's status over
  the network before simulating: its first event is a request to the first status
  endpoint, whatever the modem answers.\<close>

theorem rotateIp_dev_sends_requests:
  "\<exists>rest. snd (rotateIp True rnd env ctl tr) =
     tr @ Http (client ctl) (get_req ''/api/device/information'') # rest"
proof -
  obtain rest where "snd (getStatus env ctl tr) = tr @ Http (client ctl) (get_req ''/api/device/information'') # rest"
    using getStatus_first_request by blast
  then show ?thesis by (simp add: rotateIp_dev)
qed

text \<open>The simulated rotation of development mode may report success with the
  new address equal to the old one: for an unreachable modem it reports the old
  address as 203.0.113.45, and the random draw 44 gives 203.0.113.45 again.\<close>

theorem rotateIp_dev_may_repeat_ip:
  "fst (rotateIp True 44 dead_env ctl tr) =
     \<lparr>success = True, oldIp = Some (JStr ''203.0.113.45''), newIp = Some (JStr ''203.0.113.45''),
      error = None\<rparr>"
  by (simp add: rotateIp_dev controller_eval dead_env_def nat_str_def)

text \<open>A reboot succeeds exactly at the first reboot endpoint that answers:
  the endpoints before it are tried in order and none after it.\<close>

theorem reboot_first_success:
  assumes "k < length rebootEndpoints"
    and "\<forall>i < k. nth_response env (client ctl) tr rebootEndpoints i = Failure"
    and "nth_response env (client ctl) tr rebootEndpoints k \<noteq> Failure"
  shows "reboot False env ctl tr =
           (\<lparr>success = True, oldIp = None, newIp = None, error = None\<rparr>,
            tr @ map (Http (client ctl)) (take (Suc k) rebootEndpoints))"
proof -
  have "\<forall>i < k. request_ok (nth_response env (client ctl) tr rebootEndpoints i) = None"
    using assms(2) by simp
  moreover have "request_ok (nth_response env (client ctl) tr rebootEndpoints k) = Some ()"
    using assms(3) by (cases "nth_response env (client ctl) tr rebootEndpoints k") simp_all
  ultimately have "probe env (client ctl) request_ok rebootEndpoints tr =
      (Some (), tr @ map (Http (client ctl)) (take (Suc k) rebootEndpoints))"
    by (rule probe_first_hit [OF assms(1)])
  then show ?thesis by (simp add: reboot_def)
qed

theorem reboot_first_success_witness:
  "reboot False goform_env seed_controller [] =
     (\<lparr>success = True, oldIp = None, newIp = None, error = None\<rparr>,
      map (Http (client seed_controller)) (take 3 rebootEndpoints))"
proof -
  let ?c = "client seed_controller"
  have h1: "2 < length rebootEndpoints" by (simp add: rebootEndpoints_def)
  have h2: "\<forall>i < 2. nth_response goform_env ?c [] rebootEndpoints i = Failure"
    by (simp add: nth_response_def goform_env_def rebootEndpoints_def post_req_def less_Suc_eq numeral_2_eq_2)
  have h3: "nth_response goform_env ?c [] rebootEndpoints 2 \<noteq> Failure"
    by (simp add: nth_response_def goform_env_def rebootEndpoints_def post_req_def numeral_2_eq_2)
  show ?thesis using reboot_first_success [OF h1 h2 h3] by (simp add: numeral_3_eq_3 numeral_2_eq_2)
qed

text \<open>When no reboot endpoint answers, the reboot fails with ``No reboot
  endpoint responded successfully'' after trying all five in order.\<close>

theorem reboot_no_endpoint:
  assumes "\<forall>i < length rebootEndpoints. nth_response env (client ctl) tr rebootEndpoints i = Failure"
  shows "reboot False env ctl tr =
           (failed ''No reboot endpoint responded successfully'',
            tr @ map (Http (client ctl)) rebootEndpoints)"
proof -
  have "\<forall>i < length rebootEndpoints. request_ok (nth_response env (client ctl) tr rebootEndpoints i) = None"
    using assms by simp
  from probe_all_miss [OF this] show ?thesis by (simp add: reboot_def)
qed

theorem reboot_no_endpoint_witness:
  "reboot False dead_env seed_controller [] =
     (failed ''No reboot endpoint responded successfully'',
      map (Http (client seed_controller)) rebootEndpoints)"
proof -
  have h: "\<forall>i < length rebootEndpoints. nth_response dead_env (client seed_controller) [] rebootEndpoints i = Failure"
    unfolding nth_response_def dead_env_def by simp
  show ?thesis using reboot_no_endpoint [OF h] by simp
qed

text \<open>In development mode a reboot sends no request at all: it only waits
  3 s and reports success.\<close>

theorem reboot_dev_no_requests:
  "reboot True env ctl tr = (\<lparr>success = True, oldIp = None, newIp = None, error = None\<rparr>, tr @ [Sleep 3000])"
  by (simp add: reboot_def sleep_def)

end
