(* ===== verification/Proxy_Config.thy ===== *)
theory Proxy_Config
  imports Storage
begin

text \<open>
  The 3proxy configuration generator, \<open>ProxyManager.generateConfig\<close> of
  \<^verbatim>\<open>src/server/proxy-manager.ts\<close> (lines 53--131).  The routes call it with the
  rows of the \<open>modems\<close> and \<open>proxy_configuration\<close> tables, so its inputs are the
  records of \<open>Schema\<close>; \<open>new Date().toISOString()\<close> is the parameter \<open>now\<close>.

  The code builds the file by string concatenation: \<open>generateConfig\<close> below
  is that concatenation, one template literal per definition.  The abstract
  specification lists the listeners an input yields (\<open>listeners\<close>) and renders
  each as configuration lines (\<open>render_listener\<close>); \<open>generateConfig_text\<close>
  shows that the concatenation is the rendering of that list.
\<close>

subsection \<open>Fixed paths\<close>

definition configDir :: string where
  "configDir = ''/tmp/3proxy''"

definition configFile :: string where
  "configFile = ''/tmp/3proxy/3proxy.cfg''"

definition pidFile :: string where
  "pidFile = ''/tmp/3proxy/3proxy.pid''"

subsection \<open>The generator as the code writes it\<close>

definition dq :: string where
  "dq = [CHR 0x22]"

text \<open>The preamble template of lines 54--75.\<close>

definition preamble :: "string \<Rightarrow> string" where
  "preamble now =
     ''# 3proxy configuration for 4G proxy server'' @ nl @
     ''# Generated: '' @ now @ nl @ nl @
     ''# Logging'' @ nl @
     ''log /tmp/3proxy/3proxy.log D'' @ nl @
     ''logformat '' @ dq @ ''- +_L%t.%. %N.%p %E %U %C:%c %R:%r %O %I %h %T'' @ dq @ nl @ nl @
     ''# System settings'' @ nl @
     ''daemon'' @ nl @
     ''pidfile '' @ pidFile @ nl @
     ''nserver 8.8.8.8'' @ nl @
     ''nserver 8.8.4.4'' @ nl @
     ''nscache 65536'' @ nl @
     ''timeouts 1 5 30 60 180 1800 15 60'' @ nl @ nl @
     ''# Users and authentication'' @ nl @
     ''users admin:CL:password'' @ nl @ nl @
     ''# Access control'' @ nl @
     ''allow admin'' @ nl @ nl"

text \<open>Lines 82--84.\<close>

definition authSection :: "proxy_configuration \<Rightarrow> string" where
  "authSection pc =
     (if authentication pc \<and> str_truthy (username pc) \<and> str_truthy (password pc)
      then ''auth strong'' @ nl @ ''users '' @ the (username pc) @ '':CL:'' @ the (password pc) @ nl @
           ''allow '' @ the (username pc) @ nl
      else ''auth none'' @ nl @ ''allow *'' @ nl)"

text \<open>Lines 92--102: \<open>ipFiltering += ...\<close> inside two \<open>forEach\<close> loops.\<close>

definition ipFiltering :: "proxy_configuration \<Rightarrow> string" where
  "ipFiltering pc =
     (let f = [];
          f = (case allowedIps pc of
                 Some ips \<Rightarrow> if 0 < length ips then foldl (\<lambda>acc ip. acc @ ''allow '' @ ip @ nl) f ips else f
               | None \<Rightarrow> f);
          f = (case blockedIps pc of
                 Some ips \<Rightarrow> if 0 < length ips then foldl (\<lambda>acc ip. acc @ ''deny '' @ ip @ nl) f ips else f
               | None \<Rightarrow> f)
      in f)"

text \<open>Line 105.\<close>

definition bandwidth_directive :: "proxy_configuration \<Rightarrow> string" where
  "bandwidth_directive pc =
     (if int_truthy (bandwidthLimit pc) then ''bandlim '' @ int_str (the (bandwidthLimit pc)) @ nl else [])"

text \<open>The guards of lines 108 and 119: \<open>protocol === 'http' || protocol === 'both' ||
  !protocol\<close> and its SOCKS5 twin.\<close>

definition http_enabled :: "string option \<Rightarrow> bool" where
  "http_enabled p \<longleftrightarrow> p = Some ''http'' \<or> p = Some ''both'' \<or> \<not> str_truthy p"

definition socks_enabled :: "string option \<Rightarrow> bool" where
  "socks_enabled p \<longleftrightarrow> p = Some ''socks5'' \<or> p = Some ''both'' \<or> \<not> str_truthy p"

text \<open>The body of the \<open>forEach\<close> callback (lines 79--127): the text it appends
  to \<open>config\<close> for one proxy configuration.  \<open>connectionTimeout\<close> and
  \<open>logLevel\<close> (lines 88--89) are computed there but never used.\<close>

definition entry_config :: "modem list \<Rightarrow> proxy_configuration \<Rightarrow> string" where
  "entry_config ms pc =
     (case find (\<lambda>m. modemId pc = Some (m_id m)) ms of
        None \<Rightarrow> []
      | Some m \<Rightarrow>
          if \<not> pc_isActive pc then [] else
          (let auth = authSection pc;
               maxc = int_or (maxConnections pc) 100;
               ipf = ipFiltering pc;
               bw = bandwidth_directive pc;
               http = (if http_enabled (protocol pc) then
                         nl @ ''# HTTP proxy for '' @ m_name m @ '' ('' @ tmpl_str (m_publicIp m) @ '')'' @ nl @
                         ''proxy -p'' @ tmpl_int (httpPort pc) @ '' -i127.0.0.1 -e'' @ tmpl_str (m_publicIp m) @ nl @
                         ''maxconn '' @ int_str maxc @ nl @
                         auth @ ipf @ bw @ ''flush'' @ nl @ nl
                       else []);
               socks = (if socks_enabled (protocol pc) then
                         nl @ ''# SOCKS5 proxy for '' @ m_name m @ '' ('' @ tmpl_str (m_publicIp m) @ '')'' @ nl @
                         ''socks -p'' @ tmpl_int (socksPort pc) @ '' -i127.0.0.1 -e'' @ tmpl_str (m_publicIp m) @ nl @
                         ''maxconn '' @ int_str maxc @ nl @
                         auth @ ipf @ bw @ ''flush'' @ nl @ nl
                       else [])
           in http @ socks))"

definition generateConfig :: "string \<Rightarrow> modem list \<Rightarrow> proxy_configuration list \<Rightarrow> string" where
  "generateConfig now ms pcs = foldl (\<lambda>config pc. config @ entry_config ms pc) (preamble now) pcs"

subsection \<open>Specification: the listeners and their lines\<close>

datatype listener_kind = HttpListener | Socks5Listener

record listener =
  l_kind :: listener_kind
  l_name :: string
  l_port :: "int option"
  l_egress :: "string option"
  l_maxconn :: int
  l_user :: "(string \<times> string) option"
  l_allow :: "string list"
  l_deny :: "string list"
  l_bandlim :: "int option"

definition preamble_lines :: "string \<Rightarrow> string list" where
  "preamble_lines now =
     [''# 3proxy configuration for 4G proxy server'', ''# Generated: '' @ now, '''',
      ''# Logging'', ''log /tmp/3proxy/3proxy.log D'',
      ''logformat '' @ dq @ ''- +_L%t.%. %N.%p %E %U %C:%c %R:%r %O %I %h %T'' @ dq, '''',
      ''# System settings'', ''daemon'', ''pidfile '' @ pidFile, ''nserver 8.8.8.8'', ''nserver 8.8.4.4'',
      ''nscache 65536'', ''timeouts 1 5 30 60 180 1800 15 60'', '''',
      ''# Users and authentication'', ''users admin:CL:password'', '''',
      ''# Access control'', ''allow admin'', '''']"

fun kind_label :: "listener_kind \<Rightarrow> string" where
  "kind_label HttpListener = ''HTTP''"
| "kind_label Socks5Listener = ''SOCKS5''"

fun kind_directive :: "listener_kind \<Rightarrow> string" where
  "kind_directive HttpListener = ''proxy''"
| "kind_directive Socks5Listener = ''socks''"

fun auth_lines :: "(string \<times> string) option \<Rightarrow> string list" where
  "auth_lines None = [''auth none'', ''allow *'']"
| "auth_lines (Some (u, p)) = [''auth strong'', ''users '' @ u @ '':CL:'' @ p, ''allow '' @ u]"

definition render_listener :: "listener \<Rightarrow> string list" where
  "render_listener l =
     ['''', ''# '' @ kind_label (l_kind l) @ '' proxy for '' @ l_name l @ '' ('' @ tmpl_str (l_egress l) @ '')'',
      kind_directive (l_kind l) @ '' -p'' @ tmpl_int (l_port l) @ '' -i127.0.0.1 -e'' @ tmpl_str (l_egress l),
      ''maxconn '' @ int_str (l_maxconn l)] @
     auth_lines (l_user l) @
     map (\<lambda>ip. ''allow '' @ ip) (l_allow l) @ map (\<lambda>ip. ''deny '' @ ip) (l_deny l) @
     (case l_bandlim l of None \<Rightarrow> [] | Some b \<Rightarrow> [''bandlim '' @ int_str b]) @
     [''flush'', '''']"

definition config_lines :: "string \<Rightarrow> listener list \<Rightarrow> string list" where
  "config_lines now ls = preamble_lines now @ concat (map render_listener ls)"

text \<open>What one proxy configuration asks for: nothing when its modem is missing or
  it is inactive, otherwise a listener for each protocol it enables, with the
  credentials only when authentication is on and both are non-empty.\<close>

definition entry_listeners :: "modem list \<Rightarrow> proxy_configuration \<Rightarrow> listener list" where
  "entry_listeners ms pc =
     (case find (\<lambda>m. modemId pc = Some (m_id m)) ms of
        None \<Rightarrow> []
      | Some m \<Rightarrow>
          if \<not> pc_isActive pc then [] else
          (let mk = (\<lambda>k port.
                 \<lparr>l_kind = k, l_name = m_name m, l_port = port, l_egress = m_publicIp m,
                  l_maxconn = int_or (maxConnections pc) 100,
                  l_user = (if authentication pc \<and> str_truthy (username pc) \<and> str_truthy (password pc)
                            then Some (the (username pc), the (password pc)) else None),
                  l_allow = (case allowedIps pc of None \<Rightarrow> [] | Some ips \<Rightarrow> ips),
                  l_deny = (case blockedIps pc of None \<Rightarrow> [] | Some ips \<Rightarrow> ips),
                  l_bandlim = (if int_truthy (bandwidthLimit pc) then bandwidthLimit pc else None)\<rparr>)
           in (if http_enabled (protocol pc) then [mk HttpListener (httpPort pc)] else []) @
              (if socks_enabled (protocol pc) then [mk Socks5Listener (socksPort pc)] else [])))"

definition listeners :: "modem list \<Rightarrow> proxy_configuration list \<Rightarrow> listener list" where
  "listeners ms pcs = concat (map (entry_listeners ms) pcs)"

text \<open>The listeners a protocol setting asks for.  The spec names \<open>http\<close>,
  \<open>socks5\<close>, \<open>both\<close> and unset; any other value asks for none.\<close>

definition protocol_kinds :: "string option \<Rightarrow> listener_kind list" where
  "protocol_kinds p =
     (if p = Some ''http'' then [HttpListener]
      else if p = Some ''socks5'' then [Socks5Listener]
      else if p = Some ''both'' \<or> \<not> str_truthy p then [HttpListener, Socks5Listener]
      else [])"

text \<open>The input strings that reach the file, free of line breaks.\<close>

definition inputs_nl_free :: "string \<Rightarrow> modem list \<Rightarrow> proxy_configuration list \<Rightarrow> bool" where
  "inputs_nl_free now ms pcs \<longleftrightarrow>
     nl_free now \<and>
     (\<forall>m \<in> set ms. nl_free (m_name m) \<and> nl_free (tmpl_str (m_publicIp m))) \<and>
     (\<forall>pc \<in> set pcs. nl_free (tmpl_str (username pc)) \<and> nl_free (tmpl_str (password pc)) \<and>
        (\<forall>ip \<in> set (case allowedIps pc of None \<Rightarrow> [] | Some ips \<Rightarrow> ips). nl_free ip) \<and>
        (\<forall>ip \<in> set (case blockedIps pc of None \<Rightarrow> [] | Some ips \<Rightarrow> ips). nl_free ip))"

subsection \<open>Example inputs\<close>

text \<open>Scenario B of the specification: modems 1 and 2 of the seed data, one
  proxy configuration each, protocol \<open>both\<close>, no authentication, as the
  database stores them.\<close>

definition scenario_B_configs :: "timestamp \<Rightarrow> proxy_configuration list" where
  "scenario_B_configs t =
     [(proxy_configuration_defaults 5 t)\<lparr>modemId := Some 1, httpPort := Some 51001, socksPort := Some 51002\<rparr>,
      (proxy_configuration_defaults 6 t)\<lparr>modemId := Some 2, httpPort := Some 51003, socksPort := Some 51004\<rparr>]"

text \<open>Scenario C: one configuration with authentication for user \<open>u\<close>.\<close>

definition scenario_C_configs :: "timestamp \<Rightarrow> proxy_configuration list" where
  "scenario_C_configs t =
     [(proxy_configuration_defaults 5 t)\<lparr>modemId := Some 1, httpPort := Some 51001, socksPort := Some 51002,
        authentication := True, username := Some ''u'', password := Some ''p''\<rparr>]"

subsection \<open>The concatenation renders the specification\<close>

lemma foldl_append_concat:
  "foldl (\<lambda>acc x. acc @ f x) a xs = a @ concat (map f xs)"
  by (induction xs arbitrary: a) simp_all

lemma preamble_text: "preamble now = lines_text (preamble_lines now)"
  by (simp add: preamble_def preamble_lines_def)

lemma authSection_text:
  "authSection pc = lines_text (auth_lines
     (if authentication pc \<and> str_truthy (username pc) \<and> str_truthy (password pc)
      then Some (the (username pc), the (password pc)) else None))"
  by (simp add: authSection_def)

lemma ipFiltering_text:
  "ipFiltering pc =
     lines_text (map (\<lambda>ip. ''allow '' @ ip) (case allowedIps pc of None \<Rightarrow> [] | Some ips \<Rightarrow> ips) @
                 map (\<lambda>ip. ''deny '' @ ip) (case blockedIps pc of None \<Rightarrow> [] | Some ips \<Rightarrow> ips))"
  by (simp add: ipFiltering_def foldl_append_concat lines_text_def comp_def split: option.split)

lemma bandwidth_directive_text:
  "bandwidth_directive pc =
     lines_text (case (if int_truthy (bandwidthLimit pc) then bandwidthLimit pc else None) of
                   None \<Rightarrow> [] | Some b \<Rightarrow> [''bandlim '' @ int_str b])"
  by (auto simp: bandwidth_directive_def int_truthy_def split: option.split)

lemma entry_config_text:
  "entry_config ms pc = lines_text (concat (map render_listener (entry_listeners ms pc)))"
  by (simp add: entry_config_def entry_listeners_def render_listener_def Let_def
      authSection_text ipFiltering_text bandwidth_directive_text split: option.split)

lemma generateConfig_lines:
  "generateConfig now ms pcs = lines_text (config_lines now (listeners ms pcs))"
  by (simp add: generateConfig_def foldl_append_concat preamble_text entry_config_text
      config_lines_def listeners_def concat_map_concat)

lemma generateConfig_split:
  "generateConfig now ms pcs = preamble now @ concat (map (entry_config ms) pcs)"
  by (simp add: generateConfig_def foldl_append_concat)

lemma entry_config_skipped:
  "find (\<lambda>m. modemId pc = Some (m_id m)) ms = None \<or> \<not> pc_isActive pc \<Longrightarrow> entry_config ms pc = []"
  by (auto simp: entry_config_def split: option.split)

lemma entry_listeners_found:
  "find (\<lambda>m. modemId pc = Some (m_id m)) ms = Some m \<Longrightarrow> pc_isActive pc \<Longrightarrow>
   map l_kind (entry_listeners ms pc) =
     (if http_enabled (protocol pc) then [HttpListener] else []) @
     (if socks_enabled (protocol pc) then [Socks5Listener] else [])"
  by (simp add: entry_listeners_def Let_def)

subsubsection \<open>Line breaks\<close>

lemma nl_free_Cons [simp]: "nl_free (c # s) \<longleftrightarrow> c \<noteq> CHR 0x0A \<and> nl_free s"
  by (auto simp: nl_free_def)

lemma nl_free_Nil [simp]: "nl_free []"
  by (simp add: nl_free_def)

lemma nl_free_nat_str [simp]: "nl_free (nat_str n)"
  using nat_str_chars by (auto simp: nl_free_def is_ws_def)

lemma nl_free_int_str [simp]: "nl_free (int_str i)"
  by (simp add: int_str_def)

lemma nl_free_tmpl_int [simp]: "nl_free (tmpl_int n)"
  by (simp add: tmpl_int_def split: option.split)

lemma nl_free_dq [simp]: "nl_free dq"
  by (simp add: dq_def)

lemma nl_free_kind [simp]: "nl_free (kind_label k)" "nl_free (kind_directive k)"
  by (cases k; simp)+

lemma nl_free_auth_lines:
  "(case u of None \<Rightarrow> True | Some (a, b) \<Rightarrow> nl_free a \<and> nl_free b) \<Longrightarrow>
   \<forall>x \<in> set (auth_lines u). nl_free x"
  by (cases u) auto

lemma nl_free_render_listener:
  assumes "nl_free (l_name l)" and "nl_free (tmpl_str (l_egress l))"
    and "case l_user l of None \<Rightarrow> True | Some (a, b) \<Rightarrow> nl_free a \<and> nl_free b"
    and "\<forall>ip \<in> set (l_allow l). nl_free ip" and "\<forall>ip \<in> set (l_deny l). nl_free ip"
  shows "\<forall>x \<in> set (render_listener l). nl_free x"
  using assms nl_free_auth_lines [OF assms(3)]
  by (auto simp: render_listener_def split: option.split)

lemma find_in_set: "find P xs = Some x \<Longrightarrow> x \<in> set xs"
  by (induction xs) (auto split: if_splits)

lemma entry_listener_fields:
  assumes "l \<in> set (entry_listeners ms pc)"
  shows "\<exists>m. find (\<lambda>m. modemId pc = Some (m_id m)) ms = Some m \<and>
           l_name l = m_name m \<and> l_egress l = m_publicIp m \<and>
           l_allow l = (case allowedIps pc of None \<Rightarrow> [] | Some ips \<Rightarrow> ips) \<and>
           l_deny l = (case blockedIps pc of None \<Rightarrow> [] | Some ips \<Rightarrow> ips) \<and>
           (l_user l = None \<or>
            l_user l = Some (the (username pc), the (password pc)) \<and>
            str_truthy (username pc) \<and> str_truthy (password pc))"
proof (cases "find (\<lambda>m. modemId pc = Some (m_id m)) ms")
  case None
  with assms show ?thesis by (simp add: entry_listeners_def)
next
  case (Some m)
  with assms show ?thesis by (auto simp: entry_listeners_def Let_def split: if_splits)
qed

lemma nl_free_entry_lines:
  assumes "inputs_nl_free now ms pcs" and "pc \<in> set pcs" and "l \<in> set (entry_listeners ms pc)"
  shows "\<forall>x \<in> set (render_listener l). nl_free x"
proof -
  obtain m where m: "find (\<lambda>m. modemId pc = Some (m_id m)) ms = Some m"
    and f: "l_name l = m_name m" "l_egress l = m_publicIp m"
      "l_allow l = (case allowedIps pc of None \<Rightarrow> [] | Some ips \<Rightarrow> ips)"
      "l_deny l = (case blockedIps pc of None \<Rightarrow> [] | Some ips \<Rightarrow> ips)"
    and u: "l_user l = None \<or> l_user l = Some (the (username pc), the (password pc)) \<and>
              str_truthy (username pc) \<and> str_truthy (password pc)"
    using entry_listener_fields [OF assms(3)] by blast
  have "m \<in> set ms" using m by (rule find_in_set)
  with assms(1,2) have mf: "nl_free (m_name m)" "nl_free (tmpl_str (m_publicIp m))"
    and pf: "nl_free (tmpl_str (username pc))" "nl_free (tmpl_str (password pc))"
      "\<forall>ip \<in> set (case allowedIps pc of None \<Rightarrow> [] | Some ips \<Rightarrow> ips). nl_free ip"
      "\<forall>ip \<in> set (case blockedIps pc of None \<Rightarrow> [] | Some ips \<Rightarrow> ips). nl_free ip"
    unfolding inputs_nl_free_def by blast+
  have "case l_user l of None \<Rightarrow> True | Some (a, b) \<Rightarrow> nl_free a \<and> nl_free b"
    using u pf(1,2) by (auto simp: str_truthy_def tmpl_str_def split: option.splits)
  then show ?thesis
    using mf pf(3,4) by (intro nl_free_render_listener) (simp_all add: f)
qed

lemma nl_free_preamble_lines: "nl_free now \<Longrightarrow> \<forall>l \<in> set (preamble_lines now). nl_free l"
  by (simp add: preamble_lines_def pidFile_def)

lemma nl_free_config_lines:
  assumes "inputs_nl_free now ms pcs"
  shows "\<forall>l \<in> set (config_lines now (listeners ms pcs)). nl_free l"
  using nl_free_preamble_lines [of now] nl_free_entry_lines [OF assms] assms
  unfolding config_lines_def listeners_def inputs_nl_free_def by fastforce

lemma generateConfig_read_back:
  "inputs_nl_free now ms pcs \<Longrightarrow> split_lines (generateConfig now ms pcs) = config_lines now (listeners ms pcs)"
  by (simp add: generateConfig_lines split_lines_lines_text nl_free_config_lines)

lemma generateConfig_line_member:
  assumes "l \<in> set (config_lines now (listeners ms pcs))"
  shows "set (split_lines (l @ nl)) \<subseteq> set (split_lines (generateConfig now ms pcs))"
  unfolding generateConfig_lines using assms by (rule split_lines_member)

lemma listener_line_in_config:
  assumes "pc \<in> set pcs" "l \<in> set (entry_listeners ms pc)" "x \<in> set (render_listener l)"
  shows "set (split_lines (x @ nl)) \<subseteq> set (split_lines (generateConfig now ms pcs))"
proof -
  have "x \<in> set (config_lines now (listeners ms pcs))"
    using assms by (auto simp: config_lines_def listeners_def)
  then show ?thesis by (rule generateConfig_line_member)
qed

text \<open>The listener a usable entry gets for each protocol it enables.\<close>

lemma entry_listeners_kind:
  assumes "find (\<lambda>m. modemId pc = Some (m_id m)) ms = Some m" "pc_isActive pc"
    and "k = HttpListener \<and> http_enabled (protocol pc) \<and> port = httpPort pc \<or>
         k = Socks5Listener \<and> socks_enabled (protocol pc) \<and> port = socksPort pc"
  shows "\<exists>l \<in> set (entry_listeners ms pc). l_kind l = k \<and> l_port l = port \<and> l_egress l = m_publicIp m \<and>
           l_user l = (if authentication pc \<and> str_truthy (username pc) \<and> str_truthy (password pc)
                       then Some (the (username pc), the (password pc)) else None)"
  using assms by (auto simp: entry_listeners_def Let_def)

lemma split_lines_last_line: "nl_free d \<Longrightarrow> d \<in> set (split_lines (a @ nl @ d @ nl))"
  using split_lines_acc_append_nl [of "[]" a "d @ nl"] split_lines_line [of d]
  by (simp add: split_lines_def)

lemmas scenario_simps =
  seed_modems_def seed_modem_def proxy_configuration_defaults_def scenario_B_configs_def
  scenario_C_configs_def listeners_def entry_listeners_def http_enabled_def socks_enabled_def
  int_or_def int_truthy_def str_truthy_def

subsection \<open>Properties\<close>

text \<open>C7. The text the generator concatenates is the rendering of its listener
  list: the preamble, then for each proxy configuration in input order the
  blocks of the listeners it asks for.\<close>

theorem generateConfig_refines:
  "generateConfig now ms pcs = lines_text (config_lines now (listeners ms pcs))"
  by (rule generateConfig_lines)

text \<open>C27. A proxy configuration whose modem is missing, or which is inactive,
  contributes nothing: with only such entries the file is the preamble alone.\<close>

theorem generateConfig_skips_unusable:
  assumes "\<forall>pc \<in> set pcs. find (\<lambda>m. modemId pc = Some (m_id m)) ms = None \<or> \<not> pc_isActive pc"
  shows "generateConfig now ms pcs = preamble now"
proof -
  have "\<forall>pc \<in> set pcs. entry_config ms pc = []"
    using assms entry_config_skipped by blast
  then show ?thesis by (simp add: generateConfig_split)
qed

theorem generateConfig_skips_unusable_witness:
  "generateConfig ''2025-01-01T00:00:00.000Z'' (seed_modems 0)
     [(proxy_configuration_defaults 5 0)\<lparr>modemId := Some 1, pc_isActive := False\<rparr>,
      (proxy_configuration_defaults 6 0)\<lparr>modemId := Some 9\<rparr>] = preamble ''2025-01-01T00:00:00.000Z''"
proof -
  have h: "\<forall>pc \<in> set [(proxy_configuration_defaults 5 0)\<lparr>modemId := Some 1, pc_isActive := False\<rparr>,
                       (proxy_configuration_defaults 6 0)\<lparr>modemId := Some 9\<rparr>].
             find (\<lambda>m. modemId pc = Some (m_id m)) (seed_modems 0) = None \<or> \<not> pc_isActive pc"
    by (simp add: seed_modems_def seed_modem_def proxy_configuration_defaults_def)
  show ?thesis using generateConfig_skips_unusable [OF h] .
qed

text \<open>C26. Protocol gating: a usable proxy configuration yields an HTTP listener
  for \<open>http\<close>, a SOCKS5 listener for \<open>socks5\<close>, both for \<open>both\<close> or an
  unset protocol, and nothing for any other value.\<close>

theorem protocol_gating:
  assumes "find (\<lambda>m. modemId pc = Some (m_id m)) ms = Some m" and "pc_isActive pc"
  shows "\<exists>ls. entry_config ms pc = lines_text (concat (map render_listener ls)) \<and>
              map l_kind ls = protocol_kinds (protocol pc)"
proof -
  have "map l_kind (entry_listeners ms pc) = protocol_kinds (protocol pc)"
    using entry_listeners_found [OF assms]
    by (auto simp: protocol_kinds_def http_enabled_def socks_enabled_def)
  then show ?thesis using entry_config_text by blast
qed

theorem protocol_gating_witness:
  "\<exists>ls. entry_config (seed_modems 0) ((proxy_configuration_defaults 5 0)\<lparr>modemId := Some 1, protocol := Some ''http''\<rparr>) =
         lines_text (concat (map render_listener ls)) \<and> map l_kind ls = [HttpListener]"
proof -
  let ?pc = "(proxy_configuration_defaults 5 0)\<lparr>modemId := Some 1, protocol := Some ''http''\<rparr>"
  have h1: "find (\<lambda>m. modemId ?pc = Some (m_id m)) (seed_modems 0) = Some (hd (seed_modems 0))"
    by (simp add: seed_modems_def seed_modem_def proxy_configuration_defaults_def)
  have h2: "pc_isActive ?pc" by (simp add: proxy_configuration_defaults_def)
  show ?thesis using protocol_gating [OF h1 h2] by (simp add: protocol_kinds_def)
qed

text \<open>A protocol value other than \<open>http\<close>, \<open>socks5\<close> and \<open>both\<close> (the
  column is free text; \<open>HTTP\<close> in upper case is one) makes the entry yield no
  listener at all, silently.\<close>

theorem unknown_protocol_no_listener:
  assumes "str_truthy (protocol pc)" and "protocol pc \<notin> {Some ''http'', Some ''socks5'', Some ''both''}"
  shows "entry_config ms pc = []"
  using assms
  by (simp add: entry_config_text entry_listeners_def http_enabled_def socks_enabled_def Let_def
      split: option.split)

theorem unknown_protocol_no_listener_witness:
  "entry_config (seed_modems 0) ((proxy_configuration_defaults 5 0)\<lparr>modemId := Some 1, protocol := Some ''HTTP''\<rparr>) = []"
proof -
  have h1: "str_truthy (protocol ((proxy_configuration_defaults 5 0)\<lparr>modemId := Some 1, protocol := Some ''HTTP''\<rparr>))"
    by (simp add: str_truthy_def)
  have h2: "protocol ((proxy_configuration_defaults 5 0)\<lparr>modemId := Some 1, protocol := Some ''HTTP''\<rparr>)
             \<notin> {Some ''http'', Some ''socks5'', Some ''both''}"
    by simp
  show ?thesis using unknown_protocol_no_listener [OF h1 h2] .
qed

text \<open>The output is not a function of the modems and proxy configurations
  alone: two calls at different times give different files, because of the
  \<open># Generated:\<close> timestamp line.\<close>

theorem generateConfig_time_dependent:
  assumes "now1 \<noteq> now2"
  shows "generateConfig now1 ms pcs \<noteq> generateConfig now2 ms pcs"
  using assms by (simp add: generateConfig_split preamble_def)

theorem generateConfig_time_dependent_witness:
  "generateConfig ''2025-01-01T00:00:00.000Z'' [] [] \<noteq> generateConfig ''2025-01-01T00:00:01.000Z'' [] []"
proof -
  have h: "''2025-01-01T00:00:00.000Z'' \<noteq> ''2025-01-01T00:00:01.000Z''" by simp
  show ?thesis using generateConfig_time_dependent [OF h] .
qed

text \<open>Scenario B: two usable configurations with protocol \<open>both\<close> and no
  authentication give four listeners, HTTP and SOCKS5 for each modem on its
  ports, every one open (\<open>auth none\<close>, \<open>allow *\<close>) and none with \<open>bandlim\<close>.\<close>

theorem scenario_B_listeners:
  "map l_kind (listeners (seed_modems t) (scenario_B_configs t')) =
     [HttpListener, Socks5Listener, HttpListener, Socks5Listener] \<and>
   map l_port (listeners (seed_modems t) (scenario_B_configs t')) =
     [Some 51001, Some 51002, Some 51003, Some 51004] \<and>
   map l_user (listeners (seed_modems t) (scenario_B_configs t')) = [None, None, None, None] \<and>
   map l_bandlim (listeners (seed_modems t) (scenario_B_configs t')) = [None, None, None, None]"
  by (simp add: scenario_simps)

text \<open>Scenario C: with authentication on and user \<open>u\<close>, password \<open>p\<close>, the
  file has the lines \<open>auth strong\<close>, \<open>users u:CL:p\<close> and \<open>allow u\<close>, and
  no \<open>auth none\<close> line.\<close>

theorem scenario_C_auth:
  assumes "nl_free now"
  shows "{''auth strong'', ''users u:CL:p'', ''allow u''} \<subseteq>
           set (split_lines (generateConfig now (seed_modems t) (scenario_C_configs t'))) \<and>
         ''auth none'' \<notin> set (split_lines (generateConfig now (seed_modems t) (scenario_C_configs t')))"
proof -
  have "inputs_nl_free now (seed_modems t) (scenario_C_configs t')"
    using assms by (simp add: inputs_nl_free_def seed_modems_def seed_modem_def scenario_C_configs_def
        proxy_configuration_defaults_def tmpl_str_def)
  then show ?thesis
    using assms
    by (simp add: generateConfig_read_back config_lines_def preamble_lines_def render_listener_def
        scenario_simps nl_free_def)
qed

theorem scenario_C_auth_witness:
  "{''auth strong'', ''users u:CL:p'', ''allow u''} \<subseteq>
     set (split_lines (generateConfig ''2025-01-01T00:00:00.000Z'' (seed_modems 0) (scenario_C_configs 0))) \<and>
   ''auth none'' \<notin> set (split_lines (generateConfig ''2025-01-01T00:00:00.000Z'' (seed_modems 0) (scenario_C_configs 0)))"
proof -
  have h: "nl_free ''2025-01-01T00:00:00.000Z''" by simp
  show ?thesis using scenario_C_auth [OF h] .
qed

text \<open>C33. A modem whose public address is unknown (\<open>NULL\<close>, as seeded modem 3
  is) still gets its listeners: every usable entry for it that enables HTTP
  writes a \<open>proxy\<close> directive whose egress address is the literal host
  \<open>null\<close>.\<close>

theorem null_public_ip_egress:
  assumes "pc \<in> set pcs" and "find (\<lambda>m. modemId pc = Some (m_id m)) ms = Some m"
    and "pc_isActive pc" and "http_enabled (protocol pc)"
    and "m_publicIp m = None" and "httpPort pc = Some port"
  shows "''proxy -p'' @ int_str port @ '' -i127.0.0.1 -enull'' \<in> set (split_lines (generateConfig now ms pcs))"
proof -
  obtain l where l: "l \<in> set (entry_listeners ms pc)" "l_kind l = HttpListener"
      "l_port l = Some port" "l_egress l = None"
    using entry_listeners_kind [of pc ms m HttpListener "httpPort pc"] assms(2-6) by auto
  let ?x = "''proxy -p'' @ int_str port @ '' -i127.0.0.1 -enull''"
  have "?x \<in> set (render_listener l)" using l by (simp add: render_listener_def tmpl_str_def tmpl_int_def)
  moreover have "split_lines (?x @ nl) = [?x]" by (rule split_lines_line) simp
  ultimately show ?thesis using listener_line_in_config [OF assms(1) l(1)] by (metis insert_subset list.set(2))
qed

theorem null_public_ip_egress_witness:
  "''proxy -p'' @ int_str 51005 @ '' -i127.0.0.1 -enull'' \<in>
     set (split_lines (generateConfig ''2025-01-01T00:00:00.000Z'' (seed_modems 0)
       [(proxy_configuration_defaults 5 0)\<lparr>modemId := Some 3, httpPort := Some 51005, socksPort := Some 51006\<rparr>]))"
proof -
  let ?pc = "(proxy_configuration_defaults 5 0)\<lparr>modemId := Some 3, httpPort := Some 51005, socksPort := Some 51006\<rparr>"
  have h1: "find (\<lambda>m. modemId ?pc = Some (m_id m)) (seed_modems 0) = Some (seed_modems 0 ! 2)"
    by (simp add: seed_modems_def seed_modem_def proxy_configuration_defaults_def)
  have h2: "pc_isActive ?pc" "http_enabled (protocol ?pc)"
    by (simp_all add: proxy_configuration_defaults_def http_enabled_def)
  have h3: "m_publicIp (seed_modems 0 ! 2) = None" by (simp add: seed_modems_def seed_modem_def)
  show ?thesis by (rule null_public_ip_egress [OF _ h1 h2 h3]) simp_all
qed

text \<open>C34. Credentials are written unescaped: for every usable entry with
  authentication whose password holds a line break, the text after the last
  break becomes a directive line of its own, so a password ending in a line
  \<open>allow *\<close> opens a listener that is meant to require authentication.\<close>

theorem credential_newline_injection:
  assumes "pc \<in> set pcs" and "find (\<lambda>m. modemId pc = Some (m_id m)) ms = Some m"
    and "pc_isActive pc" and "http_enabled (protocol pc) \<or> socks_enabled (protocol pc)"
    and "authentication pc" and "username pc = Some u" and "u \<noteq> []"
    and "password pc = Some (p @ nl @ d)" and "nl_free d"
  shows "d \<in> set (split_lines (generateConfig now ms pcs))"
proof -
  have k: "HttpListener = HttpListener \<and> http_enabled (protocol pc) \<and> httpPort pc = httpPort pc \<or>
      Socks5Listener = Socks5Listener \<and> socks_enabled (protocol pc) \<and> socksPort pc = socksPort pc"
    using assms(4) by blast
  obtain kd port where "kd = HttpListener \<and> http_enabled (protocol pc) \<and> port = httpPort pc \<or>
      kd = Socks5Listener \<and> socks_enabled (protocol pc) \<and> port = socksPort pc"
    using k by blast
  from entry_listeners_kind [OF assms(2,3) this] obtain l where
    l: "l \<in> set (entry_listeners ms pc)" "l_user l = Some (u, p @ nl @ d)"
    using assms(5-8) by (auto simp: str_truthy_def nl_def)
  let ?x = "(''users '' @ u @ '':CL:'' @ p) @ nl @ d"
  have "?x \<in> set (render_listener l)" using l(2) by (simp add: render_listener_def)
  moreover have "d \<in> set (split_lines (?x @ nl))"
    using split_lines_last_line [OF assms(9), of "''users '' @ u @ '':CL:'' @ p"] by simp
  ultimately show ?thesis using listener_line_in_config [OF assms(1) l(1)] by blast
qed

theorem credential_newline_injection_witness:
  "''allow *'' \<in> set (split_lines (generateConfig ''2025-01-01T00:00:00.000Z'' (seed_modems 0)
       [(proxy_configuration_defaults 5 0)\<lparr>modemId := Some 1, httpPort := Some 51001, socksPort := Some 51002,
          authentication := True, username := Some ''u'', password := Some (''p'' @ nl @ ''allow *'')\<rparr>]))"
proof -
  let ?pc = "(proxy_configuration_defaults 5 0)\<lparr>modemId := Some 1, httpPort := Some 51001, socksPort := Some 51002,
          authentication := True, username := Some ''u'', password := Some (''p'' @ nl @ ''allow *'')\<rparr>"
  have h1: "find (\<lambda>m. modemId ?pc = Some (m_id m)) (seed_modems 0) = Some (hd (seed_modems 0))"
    by (simp add: seed_modems_def seed_modem_def proxy_configuration_defaults_def)
  have h2: "pc_isActive ?pc" "http_enabled (protocol ?pc) \<or> socks_enabled (protocol ?pc)" "authentication ?pc"
    by (simp_all add: proxy_configuration_defaults_def http_enabled_def)
  have h3: "''u'' \<noteq> []" by simp
  show ?thesis by (rule credential_newline_injection [OF _ h1 h2 _ h3]) simp_all
qed

end
