(* ===== verification/Proxy_Supervisor.thy ===== *)
theory Proxy_Supervisor
  imports Proxy_Config
begin

text \<open>
  The process half of \<open>ProxyManager\<close> (\<^verbatim>\<open>src/server/proxy-manager.ts\<close>, lines
  136--270): \<open>writeConfig\<close>, \<open>start\<close>, \<open>stop\<close>, \<open>restart\<close>, \<open>isRunning\<close>,
  \<open>getStatus\<close>, \<open>updateConfiguration\<close>, \<open>getLogs\<close> and \<open>testProxy\<close>.

  The machine they act on is the record \<open>os\<close>: the files by path and the process
  table, a list of pid and process.  A pid is allocated as the least one not in
  use, so that the pid of a process that died can be handed to the next one.
  The shell commands the code runs through \<open>execAsync\<close> are functions on
  \<open>os\<close> returning \<open>Inl\<close> for a rejected promise: \<open>kill\<close>, \<open>kill -0\<close>
  and \<open>3proxy <file>\<close>.  Whether 3proxy accepts a configuration is the
  parameter \<open>accepts\<close>; an accepted configuration daemonizes (\<open>daemon\<close>),
  and the daemon writes its pid to the file its \<open>pidfile\<close> directive names.
  A daemon that exits leaves its pid file behind.  A thrown error is \<open>Inl\<close>.
\<close>

subsection \<open>The machine\<close>

datatype process = Daemon string | Other string

record os =
  fs :: "string \<rightharpoonup> string"
  procs :: "(nat \<times> process) list"

definition logFile :: string where
  "logFile = ''/tmp/3proxy/3proxy.log''"

definition alive :: "os \<Rightarrow> nat \<Rightarrow> bool" where
  "alive os p \<longleftrightarrow> p \<in> fst ` set (procs os)"

definition fresh_pid :: "os \<Rightarrow> nat" where
  "fresh_pid os = hd (filter (\<lambda>p. p \<notin> fst ` set (procs os)) [1..<length (procs os) + 2])"

definition daemons :: "os \<Rightarrow> (nat \<times> process) list" where
  "daemons os = filter (\<lambda>q. case snd q of Daemon _ \<Rightarrow> True | Other _ \<Rightarrow> False) (procs os)"

text \<open>A shell word naming a pid: decimal digits only.\<close>

definition pid_of :: "string \<Rightarrow> nat option" where
  "pid_of s = (if s \<noteq> [] \<and> length (digit_run 10 s) = length s then Some (radix_value 10 (digit_run 10 s)) else None)"

text \<open>\<open>kill pid\<close> and \<open>kill -0 pid\<close> (\<open>probe\<close>): fail unless the word is a pid of
  a live process.\<close>

definition sh_kill :: "bool \<Rightarrow> string \<Rightarrow> os \<Rightarrow> string + os" where
  "sh_kill probe w os =
     (case pid_of w of
        None \<Rightarrow> Inl ''kill: illegal pid''
      | Some p \<Rightarrow>
          if alive os p then Inr (if probe then os else os\<lparr>procs := filter (\<lambda>q. fst q \<noteq> p) (procs os)\<rparr>)
          else Inl ''kill: no such process'')"

text \<open>The path of the first \<open>pidfile\<close> directive of a configuration.\<close>

definition pidfile_directive :: "string \<Rightarrow> string option" where
  "pidfile_directive cfg =
     map_option (drop 8) (find (\<lambda>l. take 8 l = ''pidfile '') (split_lines cfg))"

text \<open>\<open>3proxy path\<close>: read the configuration, reject it, or daemonize.\<close>

definition sh_3proxy :: "(string \<Rightarrow> bool) \<Rightarrow> string \<Rightarrow> os \<Rightarrow> string + os" where
  "sh_3proxy accepts path os =
     (case fs os path of
        None \<Rightarrow> Inl ''3proxy: cannot open configuration''
      | Some cfg \<Rightarrow>
          if \<not> accepts cfg then Inl ''3proxy: invalid configuration''
          else
            (let p = fresh_pid os in
             Inr (os\<lparr>procs := procs os @ [(p, Daemon cfg)],
                     fs := (case pidfile_directive cfg of
                              None \<Rightarrow> fs os
                            | Some f \<Rightarrow> (fs os)(f \<mapsto> nat_str p @ nl))\<rparr>)))"

subsection \<open>The supervisor\<close>

text \<open>Lines 136--138.\<close>

definition writeConfig :: "string \<Rightarrow> os \<Rightarrow> os" where
  "writeConfig config os = os\<lparr>fs := (fs os)(configFile \<mapsto> config)\<rparr>"

text \<open>Lines 162--175: every error is swallowed.\<close>

definition stop :: "os \<Rightarrow> os" where
  "stop os =
     (case fs os pidFile of
        None \<Rightarrow> os
      | Some t \<Rightarrow>
          (let pid = js_trim t in
           if pid = [] then os
           else (case sh_kill False pid os of Inl _ \<Rightarrow> os | Inr os' \<Rightarrow> os')))"

text \<open>Lines 143--157: stop, then launch; a failed launch is rethrown.\<close>

definition start :: "(string \<Rightarrow> bool) \<Rightarrow> os \<Rightarrow> (string + unit) \<times> os" where
  "start accepts os =
     (let os1 = stop os in
      case sh_3proxy accepts configFile os1 of
        Inl e \<Rightarrow> (Inl e, os1)
      | Inr os2 \<Rightarrow> (Inr (), os2))"

text \<open>Lines 180--183.\<close>

definition restart :: "(string \<Rightarrow> bool) \<Rightarrow> os \<Rightarrow> (string + unit) \<times> os" where
  "restart accepts os = start accepts (stop os)"

text \<open>Lines 188--201.\<close>

definition isRunning :: "os \<Rightarrow> bool" where
  "isRunning os =
     (case fs os pidFile of
        None \<Rightarrow> False
      | Some t \<Rightarrow>
          (let pid = js_trim t in
           if pid = [] then False
           else (case sh_kill True pid os of Inl _ \<Rightarrow> False | Inr _ \<Rightarrow> True)))"

text \<open>Lines 206--225.\<close>

record proxy_status =
  running :: bool
  st_pid :: "string option"
  st_configFile :: string
  st_logFile :: string

definition proxy_getStatus :: "os \<Rightarrow> proxy_status" where
  "proxy_getStatus os =
     (let r = isRunning os in
      \<lparr>running = r,
       st_pid = (if r \<and> fs os pidFile \<noteq> None then Some (js_trim (the (fs os pidFile))) else None),
       st_configFile = configFile, st_logFile = ''/tmp/3proxy/3proxy.log''\<rparr>)"

text \<open>Lines 230--239.\<close>

definition updateConfiguration ::
  "(string \<Rightarrow> bool) \<Rightarrow> string \<Rightarrow> modem list \<Rightarrow> proxy_configuration list \<Rightarrow> os \<Rightarrow> (string + unit) \<times> os" where
  "updateConfiguration accepts now ms pcs os =
     (let config = generateConfig now ms pcs;
          os1 = writeConfig config os
      in if isRunning os1 then restart accepts os1 else start accepts os1)"

text \<open>Lines 244--254, with \<open>tail -n N\<close> printing the last \<open>|N|\<close> lines.\<close>

definition tail_lines :: "int \<Rightarrow> string \<Rightarrow> string" where
  "tail_lines n text =
     (let ls = split_lines text in lines_text (drop (length ls - nat \<bar>n\<bar>) ls))"

definition getLogs :: "int \<Rightarrow> os \<Rightarrow> string" where
  "getLogs lines os =
     (case fs os logFile of None \<Rightarrow> [] | Some text \<Rightarrow> tail_lines lines text)"

text \<open>Lines 259--270; \<open>curl\<close> is an oracle from the command line to its output,
  \<open>Inl\<close> when it exits with an error.\<close>

definition testProxy :: "(string \<Rightarrow> string + string) \<Rightarrow> jsnum \<Rightarrow> string \<Rightarrow> bool" where
  "testProxy curl port type =
     (let testCommand =
            (if type = ''http''
             then ''curl -x http://127.0.0.1:'' @ num_text port @ '' -s -o /dev/null -w '' @ dq @
                  ''%{http_code}'' @ dq @ '' http://httpbin.org/ip''
             else ''curl --socks5 127.0.0.1:'' @ num_text port @ '' -s -o /dev/null -w '' @ dq @
                  ''%{http_code}'' @ dq @ '' http://httpbin.org/ip'')
      in case curl testCommand of Inl _ \<Rightarrow> False | Inr stdout \<Rightarrow> js_trim stdout = ''200'')"

subsection \<open>The supervision invariant\<close>

text \<open>The pid file names every 3proxy daemon (so there is at most one), pids are
  distinct, and the configuration file, when present, tells the daemon to write
  that pid file.\<close>

definition supervised :: "os \<Rightarrow> bool" where
  "supervised os \<longleftrightarrow>
     distinct (map fst (procs os)) \<and>
     (\<forall>q \<in> set (daemons os). fs os pidFile = Some (nat_str (fst q) @ nl)) \<and>
     (case fs os configFile of None \<Rightarrow> True | Some cfg \<Rightarrow> pidfile_directive cfg = Some pidFile)"

subsection \<open>Runs of the supervisor\<close>

text \<open>Calls made one after the other, as a single caller makes them.  An update
  is called with a timestamp of \<open>toISOString\<close>, which has no line break.\<close>

datatype sup_call = CallStart | CallStop | CallRestart | CallUpdate string "modem list" "proxy_configuration list"

fun sup_exec :: "(string \<Rightarrow> bool) \<Rightarrow> sup_call \<Rightarrow> os \<Rightarrow> os" where
  "sup_exec accepts CallStart os = snd (start accepts os)"
| "sup_exec accepts CallStop os = stop os"
| "sup_exec accepts CallRestart os = snd (restart accepts os)"
| "sup_exec accepts (CallUpdate now ms pcs) os = snd (updateConfiguration accepts now ms pcs os)"

fun call_ok :: "sup_call \<Rightarrow> bool" where
  "call_ok (CallUpdate now ms pcs) = nl_free now"
| "call_ok _ = True"

inductive serial_run :: "(string \<Rightarrow> bool) \<Rightarrow> os \<Rightarrow> os \<Rightarrow> bool" for accepts where
  serial_refl: "serial_run accepts os os"
| serial_step: "serial_run accepts os0 os \<Longrightarrow> call_ok c \<Longrightarrow> serial_run accepts os0 (sup_exec accepts c os)"

text \<open>The atomic pieces of \<open>updateConfiguration\<close> between two \<open>await\<close>s: the
  synchronous write, the \<open>kill -0\<close> of \<open>isRunning\<close>, the \<open>kill\<close> of a
  \<open>stop\<close> (its file reads are synchronous with it) and the launch of 3proxy.
  The check decides which pieces follow.\<close>

datatype micro = MWrite string | MCheck | MStop | MLaunch

fun micro_step :: "(string \<Rightarrow> bool) \<Rightarrow> micro \<Rightarrow> os \<Rightarrow> micro list \<times> os" where
  "micro_step accepts (MWrite c) os = ([], writeConfig c os)"
| "micro_step accepts MCheck os = (if isRunning os then [MStop, MStop, MLaunch] else [MStop, MLaunch], os)"
| "micro_step accepts MStop os = ([], stop os)"
| "micro_step accepts MLaunch os = ([], case sh_3proxy accepts configFile os of Inl _ \<Rightarrow> os | Inr os' \<Rightarrow> os')"

definition update_thread :: "string \<Rightarrow> modem list \<Rightarrow> proxy_configuration list \<Rightarrow> micro list" where
  "update_thread now ms pcs = [MWrite (generateConfig now ms pcs), MCheck]"

fun micro_weight :: "micro \<Rightarrow> nat" where
  "micro_weight MCheck = 4"
| "micro_weight _ = 1"

function run_micro :: "(string \<Rightarrow> bool) \<Rightarrow> micro list \<Rightarrow> os \<Rightarrow> os" where
  "run_micro accepts [] os = os"
| "run_micro accepts (m # rest) os =
     (case micro_step accepts m os of (k, os') \<Rightarrow> run_micro accepts (k @ rest) os')"
  by pat_completeness auto
termination
proof (relation "measure (\<lambda>(a, ms, os). sum_list (map micro_weight ms))", goal_cases)
  case 1
  show ?case by simp
next
  case (2 accepts m rest os x k)
  then show ?case by (cases m) (auto split: if_splits)
qed

text \<open>Concurrent callers: each thread is the list of its pending pieces; a step
  runs the next piece of any thread.\<close>

inductive interleave :: "(string \<Rightarrow> bool) \<Rightarrow> os \<times> micro list list \<Rightarrow> os \<times> micro list list \<Rightarrow> bool"
  for accepts where
  "i < length ts \<Longrightarrow> ts ! i = m # rest \<Longrightarrow> micro_step accepts m os = (k, os') \<Longrightarrow>
   interleave accepts (os, ts) (os', ts[i := k @ rest])"

text \<open>Events the supervisor does not cause: a process exits, another program
  starts and gets the least free pid.\<close>

datatype ext_event = Crash nat | Spawn string

fun ext_step :: "ext_event \<Rightarrow> os \<Rightarrow> os" where
  "ext_step (Crash p) os = os\<lparr>procs := filter (\<lambda>q. fst q \<noteq> p) (procs os)\<rparr>"
| "ext_step (Spawn c) os = os\<lparr>procs := procs os @ [(fresh_pid os, Other c)]\<rparr>"

text \<open>A schedule runs the next piece of the thread it names, if it has one.\<close>

definition sched_step :: "(string \<Rightarrow> bool) \<Rightarrow> os \<times> micro list list \<Rightarrow> nat \<Rightarrow> os \<times> micro list list" where
  "sched_step accepts st i =
     (case st of (os, ts) \<Rightarrow>
        if i < length ts then
          (case ts ! i of
             [] \<Rightarrow> (os, ts)
           | m # rest \<Rightarrow> (case micro_step accepts m os of (k, os') \<Rightarrow> (os', ts[i := k @ rest])))
        else (os, ts))"

definition run_schedule :: "(string \<Rightarrow> bool) \<Rightarrow> nat list \<Rightarrow> os \<times> micro list list \<Rightarrow> os \<times> micro list list" where
  "run_schedule accepts sched st = foldl (sched_step accepts) st sched"

definition idle_os :: os where
  "idle_os = \<lparr>fs = Map.empty, procs = []\<rparr>"

subsection \<open>Lemmas\<close>

lemma pid_of_nat_str [simp]: "pid_of (nat_str p) = Some p"
proof -
  have "length (nat_str p) = length (nat_digits p)" by (simp add: nat_str_def)
  then show ?thesis
    by (simp add: pid_of_def digit_run_nat_str radix_value_nat_digits)
qed

lemma stop_not_running: "\<not> isRunning (stop os)"
  by (auto simp: stop_def isRunning_def sh_kill_def alive_def Let_def
      split: option.split sum.split if_splits)

lemma stop_idle: "\<not> isRunning os \<Longrightarrow> stop os = os"
  by (auto simp: stop_def isRunning_def sh_kill_def Let_def split: option.splits sum.splits if_splits)

lemma nat_str_inj: "nat_str p = nat_str q \<Longrightarrow> p = q"
  by (metis option.inject pid_of_nat_str)

lemma js_trim_pid_line [simp]: "js_trim (nat_str p @ nl) = nat_str p"
  by (simp add: nl_def js_trim_nat_str_nl)

lemma configFile_ne_pidFile [simp]: "configFile \<noteq> pidFile" "pidFile \<noteq> configFile"
  by (simp_all add: configFile_def pidFile_def)

lemma fresh_pid_free: "\<not> alive os (fresh_pid os)"
proof -
  let ?used = "fst ` set (procs os)"
  let ?cands = "[1..<length (procs os) + 2]"
  have used: "card ?used \<le> length (procs os)"
    by (metis card_image_le card_length List.finite_set le_trans)
  have "\<not> set ?cands \<subseteq> ?used"
  proof
    assume "set ?cands \<subseteq> ?used"
    then have "card (set ?cands) \<le> card ?used"
      by (rule card_mono [OF finite_imageI [OF List.finite_set]])
    moreover have "card (set ?cands) = length (procs os) + 1"
      by (simp only: distinct_card [OF distinct_upt] length_upt)
    ultimately show False using used by linarith
  qed
  then have "filter (\<lambda>p. p \<notin> ?used) ?cands \<noteq> []" by (auto simp: filter_empty_conv)
  then have "hd (filter (\<lambda>p. p \<notin> ?used) ?cands) \<in> set (filter (\<lambda>p. p \<notin> ?used) ?cands)"
    by (rule hd_in_set)
  then have "hd (filter (\<lambda>p. p \<notin> ?used) ?cands) \<in> {x \<in> set ?cands. x \<notin> ?used}"
    by (simp only: set_filter)
  then have "hd (filter (\<lambda>p. p \<notin> ?used) ?cands) \<notin> ?used" by blast
  then show ?thesis unfolding fresh_pid_def alive_def .
qed

lemma daemons_filter: "daemons (os\<lparr>procs := filter P (procs os)\<rparr>) = filter P (daemons os)"
  by (simp add: daemons_def filter_filter conj_commute)

lemma supervised_daemon_pid:
  assumes "supervised os" and "q \<in> set (daemons os)"
  shows "fs os pidFile = Some (nat_str (fst q) @ nl)"
  using assms by (simp add: supervised_def)

lemma supervised_same_pid:
  assumes "supervised os" and "q \<in> set (daemons os)" and "r \<in> set (daemons os)"
  shows "fst q = fst r"
proof -
  have "Some (nat_str (fst q) @ nl) = Some (nat_str (fst r) @ nl)"
    using supervised_daemon_pid [OF assms(1,2)] supervised_daemon_pid [OF assms(1,3)] by simp
  then show ?thesis by (simp add: nat_str_inj)
qed

lemma supervised_one_daemon:
  assumes "supervised os"
  shows "length (daemons os) \<le> 1"
proof (rule ccontr)
  assume "\<not> length (daemons os) \<le> 1"
  then obtain a b rest where ab: "daemons os = a # b # rest"
    by (cases "daemons os" rule: remdups_adj.cases) auto
  have "distinct (map fst (procs os))" using assms by (simp add: supervised_def)
  then have "distinct (map fst (daemons os))" unfolding daemons_def by (rule distinct_map_filter)
  with ab have "fst a \<noteq> fst b" by simp
  moreover have "fst a = fst b" using supervised_same_pid [OF assms, of a b] ab by simp
  ultimately show False by simp
qed

lemma stop_cases: "stop os = os \<or> (\<exists>p. stop os = os\<lparr>procs := filter (\<lambda>q. fst q \<noteq> p) (procs os)\<rparr>)"
  unfolding stop_def sh_kill_def Let_def
  by (simp split: option.split sum.split) blast

text \<open>\<open>stop\<close> on a supervised machine kills the daemon if there is one and
  touches no file.\<close>

lemma stop_supervised:
  assumes "supervised os"
  shows "daemons (stop os) = [] \<and> fs (stop os) = fs os \<and> supervised (stop os)"
proof (cases "daemons os")
  case Nil
  obtain P where "stop os = os \<or> stop os = os\<lparr>procs := filter P (procs os)\<rparr>"
    using stop_cases by blast
  with Nil assms show ?thesis
    by (auto simp: daemons_filter supervised_def distinct_map_filter)
next
  case (Cons q rest)
  then have q: "q \<in> set (daemons os)" by simp
  have pf: "fs os pidFile = Some (nat_str (fst q) @ nl)"
    using supervised_daemon_pid [OF assms q] .
  have "alive os (fst q)" using q by (auto simp: alive_def daemons_def)
  then have st: "stop os = os\<lparr>procs := filter (\<lambda>r. fst r \<noteq> fst q) (procs os)\<rparr>"
    by (simp add: stop_def pf sh_kill_def)
  have "\<forall>r \<in> set (daemons os). fst r = fst q"
    using supervised_same_pid [OF assms _ q] by blast
  then have "filter (\<lambda>r. fst r \<noteq> fst q) (daemons os) = []" by (simp add: filter_empty_conv)
  with st assms show ?thesis
    by (auto simp: daemons_filter supervised_def distinct_map_filter)
qed

text \<open>Launching 3proxy on a machine without daemon whose configuration names the
  pid file gives exactly one daemon, named by the pid file.\<close>

lemma launch_supervised:
  assumes "supervised os" and "daemons os = []" and "fs os configFile = Some cfg"
    and "accepts cfg"
  shows "\<exists>p os'. sh_3proxy accepts configFile os = Inr os' \<and>
           daemons os' = [(p, Daemon cfg)] \<and> fs os' = (fs os)(pidFile \<mapsto> nat_str p @ nl) \<and>
           supervised os' \<and> alive os' p"
proof -
  have pd: "pidfile_directive cfg = Some pidFile" using assms(1,3) by (simp add: supervised_def)
  let ?p = "fresh_pid os"
  let ?os' = "os\<lparr>procs := procs os @ [(?p, Daemon cfg)], fs := (fs os)(pidFile \<mapsto> nat_str ?p @ nl)\<rparr>"
  have run: "sh_3proxy accepts configFile os = Inr ?os'"
    using assms(3,4) pd by (simp add: sh_3proxy_def Let_def)
  have free: "?p \<notin> fst ` set (procs os)" using fresh_pid_free by (simp add: alive_def)
  have d: "daemons ?os' = [(?p, Daemon cfg)]" using assms(2) by (simp add: daemons_def)
  have "supervised ?os'" using assms(1,3) free d pd by (simp add: supervised_def)
  moreover have "alive ?os' ?p" by (simp add: alive_def)
  ultimately show ?thesis using run d by fastforce
qed

lemma start_supervised:
  assumes "supervised os" and "fs os configFile = Some cfg"
  shows "case start accepts os of
           (Inl e, os') \<Rightarrow> \<not> accepts cfg \<and> supervised os' \<and> daemons os' = []
         | (Inr u, os') \<Rightarrow> accepts cfg \<and> supervised os' \<and> map snd (daemons os') = [Daemon cfg] \<and> isRunning os'"
proof -
  have s: "daemons (stop os) = []" "fs (stop os) = fs os" "supervised (stop os)"
    using stop_supervised [OF assms(1)] by simp_all
  show ?thesis
  proof (cases "accepts cfg")
    case True
    have cfg: "fs (stop os) configFile = Some cfg" using s(2) assms(2) by simp
    obtain p os' where l: "sh_3proxy accepts configFile (stop os) = Inr os'"
      and d: "daemons os' = [(p, Daemon cfg)]" and f: "fs os' = (fs (stop os))(pidFile \<mapsto> nat_str p @ nl)"
      and sv: "supervised os'" and al: "alive os' p"
      using launch_supervised [of "stop os" cfg accepts, OF s(3) s(1) cfg True] by blast
    have "isRunning os'" using f al by (simp add: isRunning_def sh_kill_def)
    with l d sv True show ?thesis by (simp add: start_def)
  next
    case False
    then have "sh_3proxy accepts configFile (stop os) = Inl ''3proxy: invalid configuration''"
      using s(2) assms(2) by (simp add: sh_3proxy_def)
    with False s show ?thesis by (simp add: start_def)
  qed
qed

lemma writeConfig_supervised:
  "supervised os \<Longrightarrow> pidfile_directive cfg = Some pidFile \<Longrightarrow> supervised (writeConfig cfg os)"
  by (simp add: supervised_def writeConfig_def daemons_def)

lemma pidfile_directive_generateConfig:
  assumes "nl_free now"
  shows "pidfile_directive (generateConfig now ms pcs) = Some pidFile"
proof -
  have "generateConfig now ms pcs = lines_text (preamble_lines now) @ concat (map (entry_config ms) pcs)"
    by (simp add: generateConfig_split preamble_text)
  then have "split_lines (generateConfig now ms pcs) =
               preamble_lines now @ split_lines (concat (map (entry_config ms) pcs))"
    using split_lines_lines_text_append nl_free_preamble_lines [OF assms] by simp
  then show ?thesis
    by (simp add: pidfile_directive_def preamble_lines_def pidFile_def)
qed

lemma start_keeps_supervised:
  assumes "supervised os"
  shows "supervised (snd (start accepts os))"
proof (cases "fs os configFile")
  case None
  have s: "fs (stop os) = fs os" "supervised (stop os)" using stop_supervised [OF assms] by simp_all
  with None show ?thesis by (simp add: start_def sh_3proxy_def)
next
  case (Some cfg)
  from start_supervised [OF assms Some, of accepts] show ?thesis
    by (auto split: prod.splits sum.splits)
qed

lemma update_outcome:
  assumes "supervised os" and "nl_free now"
  shows "case updateConfiguration accepts now ms pcs os of
           (Inl e, os') \<Rightarrow> \<not> accepts (generateConfig now ms pcs) \<and> supervised os' \<and> daemons os' = []
         | (Inr u, os') \<Rightarrow> accepts (generateConfig now ms pcs) \<and> supervised os' \<and>
                           map snd (daemons os') = [Daemon (generateConfig now ms pcs)] \<and> isRunning os'"
proof -
  let ?cfg = "generateConfig now ms pcs"
  let ?os1 = "writeConfig ?cfg os"
  have s1: "supervised ?os1"
    using writeConfig_supervised [OF assms(1) pidfile_directive_generateConfig [OF assms(2)]] .
  have c1: "fs ?os1 configFile = Some ?cfg" by (simp add: writeConfig_def)
  show ?thesis
  proof (cases "isRunning ?os1")
    case True
    have s2: "supervised (stop ?os1)" "fs (stop ?os1) configFile = Some ?cfg"
      using stop_supervised [OF s1] c1 by simp_all
    with True show ?thesis
      using start_supervised [OF s2, of accepts] by (simp add: updateConfiguration_def restart_def)
  next
    case False
    with start_supervised [OF s1 c1, of accepts] show ?thesis
      by (simp add: updateConfiguration_def)
  qed
qed

lemma sup_exec_supervised:
  assumes "supervised os" and "call_ok c"
  shows "supervised (sup_exec accepts c os)"
proof (cases c)
  case (CallUpdate now ms pcs)
  with assms have "nl_free now" by simp
  from update_outcome [OF assms(1) this, of accepts ms pcs] CallUpdate show ?thesis
    by (auto split: prod.splits sum.splits)
qed (use assms stop_supervised start_keeps_supervised in \<open>simp_all add: restart_def\<close>)

lemma sched_step_interleave: "(interleave accepts)\<^sup>*\<^sup>* st (sched_step accepts st i)"
proof -
  obtain os ts where st: "st = (os, ts)" by (rule prod.exhaust)
  show ?thesis
  proof (cases "i < length ts")
    case True
    show ?thesis
    proof (cases "ts ! i")
      case Nil
      with st True show ?thesis by (simp add: sched_step_def)
    next
      case (Cons m rest)
      obtain k os' where ms: "micro_step accepts m os = (k, os')" by (rule prod.exhaust)
      have "interleave accepts (os, ts) (os', ts[i := k @ rest])"
        using True Cons ms by (rule interleave.intros)
      with st True Cons ms show ?thesis by (simp add: sched_step_def)
    qed
  next
    case False
    with st show ?thesis by (simp add: sched_step_def)
  qed
qed

lemma run_schedule_interleave: "(interleave accepts)\<^sup>*\<^sup>* st (run_schedule accepts sched st)"
proof (induction sched arbitrary: st)
  case Nil
  then show ?case by (simp add: run_schedule_def)
next
  case (Cons i sched)
  have "(interleave accepts)\<^sup>*\<^sup>* (sched_step accepts st i) (run_schedule accepts sched (sched_step accepts st i))"
    by (rule Cons.IH)
  with sched_step_interleave show ?case
    by (simp add: run_schedule_def) (meson rtranclp_trans)
qed

lemmas os_eval =
  idle_os_def writeConfig_def isRunning_def stop_def sh_3proxy_def fresh_pid_def daemons_def
  sh_kill_def alive_def update_thread_def sched_step_def run_schedule_def

subsection \<open>Properties\<close>

text \<open>C8. \<open>updateConfiguration\<close> on a supervised machine: when 3proxy accepts
  the generated configuration, the machine stays supervised and its one daemon
  runs exactly that configuration; when 3proxy rejects it, the error is thrown
  and no daemon is left, the old one included.\<close>

theorem updateConfiguration_installs:
  assumes "supervised os" and "nl_free now"
  shows "case updateConfiguration accepts now ms pcs os of
           (Inl e, os') \<Rightarrow> \<not> accepts (generateConfig now ms pcs) \<and> supervised os' \<and> daemons os' = []
         | (Inr u, os') \<Rightarrow> accepts (generateConfig now ms pcs) \<and> supervised os' \<and>
                           map snd (daemons os') = [Daemon (generateConfig now ms pcs)] \<and> isRunning os'"
  using assms by (rule update_outcome)

theorem updateConfiguration_installs_witness:
  "case updateConfiguration (\<lambda>_. True) ''2025-01-01T00:00:00.000Z'' (seed_modems 0) (scenario_B_configs 0) idle_os of
     (Inl e, os') \<Rightarrow> \<not> (\<lambda>_. True) (generateConfig ''2025-01-01T00:00:00.000Z'' (seed_modems 0) (scenario_B_configs 0)) \<and>
                     supervised os' \<and> daemons os' = []
   | (Inr u, os') \<Rightarrow> (\<lambda>_. True) (generateConfig ''2025-01-01T00:00:00.000Z'' (seed_modems 0) (scenario_B_configs 0)) \<and>
                     supervised os' \<and>
                     map snd (daemons os') = [Daemon (generateConfig ''2025-01-01T00:00:00.000Z'' (seed_modems 0) (scenario_B_configs 0))] \<and>
                     isRunning os'"
proof -
  have h1: "supervised idle_os" by (simp add: supervised_def idle_os_def daemons_def)
  have h2: "nl_free ''2025-01-01T00:00:00.000Z''" by simp
  show ?thesis using updateConfiguration_installs [OF h1 h2] .
qed

text \<open>C9. Calls made one after the other keep the machine supervised: whatever
  sequence of \<open>start\<close>, \<open>stop\<close>, \<open>restart\<close> and \<open>updateConfiguration\<close>
  runs, at most one 3proxy daemon exists and the pid file names it.\<close>

theorem serial_run_supervised:
  assumes "supervised os0" and "serial_run accepts os0 os"
  shows "supervised os \<and> length (daemons os) \<le> 1"
proof -
  from assms(2,1) have "supervised os"
    by (induction rule: serial_run.induct) (simp_all add: sup_exec_supervised)
  then show ?thesis using supervised_one_daemon by blast
qed

theorem serial_run_supervised_witness:
  "supervised (sup_exec (\<lambda>_. True) (CallUpdate ''2025-01-01T00:00:00.000Z'' [] []) idle_os) \<and>
   length (daemons (sup_exec (\<lambda>_. True) (CallUpdate ''2025-01-01T00:00:00.000Z'' [] []) idle_os)) \<le> 1"
proof -
  have h1: "supervised idle_os" by (simp add: supervised_def idle_os_def daemons_def)
  have h2: "serial_run (\<lambda>_. True) idle_os (sup_exec (\<lambda>_. True) (CallUpdate ''2025-01-01T00:00:00.000Z'' [] []) idle_os)"
    by (rule serial_step [OF serial_refl]) simp
  show ?thesis using serial_run_supervised [OF h1 h2] .
qed

text \<open>Cutting \<open>updateConfiguration\<close> at its \<open>await\<close>s is faithful: its
  pieces, run alone, have the effect of the whole call.\<close>

theorem update_thread_sequential:
  "run_micro accepts (update_thread now ms pcs) os = snd (updateConfiguration accepts now ms pcs os)"
  by (simp add: update_thread_def updateConfiguration_def restart_def start_def Let_def
      split: sum.split)

text \<open>C28. Nothing serializes concurrent calls: two \<open>updateConfiguration\<close>
  requests that interleave at their \<open>await\<close>s both find no daemon running and
  both launch 3proxy, leaving two daemons of which the pid file names only the
  second; the first can no longer be stopped.\<close>

theorem concurrent_updates_two_daemons:
  "\<exists>os'. (interleave (\<lambda>_. True))\<^sup>*\<^sup>*
           (idle_os, [update_thread ''2025-01-01T00:00:00.000Z'' ms pcs,
                      update_thread ''2025-01-01T00:00:00.000Z'' ms' pcs'])
           (os', [[], []]) \<and>
         length (daemons os') = 2 \<and> \<not> isRunning (stop os') \<and> length (daemons (stop os')) = 1"
proof -
  let ?st = "(idle_os, [update_thread ''2025-01-01T00:00:00.000Z'' ms pcs,
                        update_thread ''2025-01-01T00:00:00.000Z'' ms' pcs'])"
  let ?r = "run_schedule (\<lambda>_. True) [0, 0, 1, 1, 0, 1, 0, 1] ?st"
  have nl: "nl_free ''2025-01-01T00:00:00.000Z''" by simp
  have r: "snd ?r = [[], []] \<and> length (daemons (fst ?r)) = 2 \<and> \<not> isRunning (stop (fst ?r)) \<and>
           length (daemons (stop (fst ?r))) = 1"
    by (simp add: os_eval pidfile_directive_generateConfig [OF nl])
  have "(interleave (\<lambda>_. True))\<^sup>*\<^sup>* ?st (fst ?r, snd ?r)"
    using run_schedule_interleave by simp
  with r show ?thesis by (metis (no_types, lifting))
qed

text \<open>C29. \<open>stop\<close> and \<open>isRunning\<close> trust the pid file, and \<open>stop\<close>
  never removes it: whatever process holds the pid the file names, a program
  other than 3proxy included, \<open>isRunning\<close> reports the proxy running and
  \<open>stop\<close> kills that process, leaving the pid file for the next call.\<close>

theorem stale_pid_kills_other:
  assumes "fs os pidFile = Some (nat_str p @ nl)" and "(p, Other prog) \<in> set (procs os)"
  shows "isRunning os \<and> \<not> alive (stop os) p \<and> fs (stop os) = fs os"
proof -
  have a: "alive os p" using assms(2) by (force simp: alive_def)
  have "stop os = os\<lparr>procs := filter (\<lambda>q. fst q \<noteq> p) (procs os)\<rparr>"
    using assms(1) a by (simp add: stop_def sh_kill_def)
  moreover have "isRunning os" using assms(1) a by (simp add: isRunning_def sh_kill_def)
  ultimately show ?thesis by (auto simp: alive_def)
qed

theorem stale_pid_kills_other_witness:
  "isRunning \<lparr>fs = [pidFile \<mapsto> nat_str 1 @ nl], procs = [(1, Other ''postgres'')]\<rparr> \<and>
   \<not> alive (stop \<lparr>fs = [pidFile \<mapsto> nat_str 1 @ nl], procs = [(1, Other ''postgres'')]\<rparr>) 1 \<and>
   fs (stop \<lparr>fs = [pidFile \<mapsto> nat_str 1 @ nl], procs = [(1, Other ''postgres'')]\<rparr>) = [pidFile \<mapsto> nat_str 1 @ nl]"
  using stale_pid_kills_other [of "\<lparr>fs = [pidFile \<mapsto> nat_str 1 @ nl], procs = [(1, Other ''postgres'')]\<rparr>" 1 "''postgres''"]
  by simp

text \<open>\<open>stop\<close> never fails and always leaves \<open>isRunning\<close> false.\<close>

theorem stop_not_running_after: "\<not> isRunning (stop os)"
  by (rule stop_not_running)

text \<open>When nothing is running, \<open>stop\<close> changes nothing.\<close>

theorem stop_when_idle:
  assumes "\<not> isRunning os"
  shows "stop os = os"
  using assms by (rule stop_idle)

theorem stop_when_idle_witness: "stop idle_os = idle_os"
proof -
  have h: "\<not> isRunning idle_os" by (simp add: idle_os_def isRunning_def)
  show ?thesis using stop_when_idle [OF h] .
qed

end
