(* ===== verification/Routes.thy ===== *)
theory Routes
  imports Db_Storage Modem_Controller Proxy_Supervisor
begin

text \<open>
  The HTTP API of \<^verbatim>\<open>src/server/routes.ts\<close> (\<open>registerRoutes\<close>): one
  handler per route, composed of the storage methods, the modem controller and
  the proxy supervisor exactly as the handler awaits them.

  The handlers are written once, over \<open>storage_api\<close>, the record of the
  \<open>IStorage\<close> methods they call, and instantiated by \<open>db_api\<close> (the
  \<open>DatabaseStorage\<close> that \<open>storage.ts\<close> exports and the server runs on)
  and by \<open>mem_api\<close> (\<open>MemStorage\<close>).  A handler maps a request and the
  server state (the store, the proxy host, the trace of modem requests and the
  WebSocket messages broadcast so far) to the HTTP reply and the new state.
  Inside a handler, a value \<open>Inl\<close> leaves it early: an explicit
  \<open>return res.status(404)...\<close> or an exception, which the handler's
  \<open>catch\<close> turns into its 500 (or 400) reply.  Everything outside the
  request (the clock, \<open>NODE_ENV\<close>, \<open>Math.random\<close>, the modem network, the
  3proxy binary, \<open>curl\<close>, the Host header) is the \<open>world\<close> of the request.
\<close>

subsection \<open>The storage interface\<close>

text \<open>The \<open>IStorage\<close> methods the routes call.  Keys are passed as the
  caller has them (\<open>idarg\<close>); insert and update payloads are functions that
  write the properties of the object literal.\<close>

record 's storage_api =
  api_getModems :: "'s \<Rightarrow> db_error + modem list"
  api_getModem :: "idarg \<Rightarrow> 's \<Rightarrow> db_error + modem option"
  api_getModemByName :: "string \<Rightarrow> 's \<Rightarrow> db_error + modem option"
  api_createModem :: "(modem \<Rightarrow> modem) \<Rightarrow> timestamp \<Rightarrow> 's \<Rightarrow> (db_error + modem) \<times> 's"
  api_updateModem :: "idarg \<Rightarrow> (modem \<Rightarrow> modem) \<Rightarrow> timestamp \<Rightarrow> 's \<Rightarrow> (db_error + modem option) \<times> 's"
  api_deleteModem :: "idarg \<Rightarrow> 's \<Rightarrow> (db_error + bool) \<times> 's"
  api_getVpnConnections :: "'s \<Rightarrow> db_error + vpn_connection list"
  api_createVpnConnection ::
    "(vpn_connection \<Rightarrow> vpn_connection) \<Rightarrow> timestamp \<Rightarrow> 's \<Rightarrow> (db_error + vpn_connection) \<times> 's"
  api_getIpRotationLogs :: "int \<Rightarrow> 's \<Rightarrow> db_error + ip_rotation_log list"
  api_createIpRotationLog ::
    "(ip_rotation_log \<Rightarrow> ip_rotation_log) \<Rightarrow> timestamp \<Rightarrow> 's \<Rightarrow> (db_error + ip_rotation_log) \<times> 's"
  api_getSystemLogs :: "int \<Rightarrow> 's \<Rightarrow> db_error + system_log list"
  api_createSystemLog :: "(system_log \<Rightarrow> system_log) \<Rightarrow> timestamp \<Rightarrow> 's \<Rightarrow> (db_error + system_log) \<times> 's"
  api_getProxyConfigurations :: "'s \<Rightarrow> db_error + proxy_configuration list"
  api_createProxyConfiguration ::
    "(proxy_configuration \<Rightarrow> proxy_configuration) \<Rightarrow> timestamp \<Rightarrow> 's \<Rightarrow> (db_error + proxy_configuration) \<times> 's"
  api_getAnalytics :: "'s \<Rightarrow> db_error + analytics list"

text \<open>\<open>DatabaseStorage\<close>: \<open>updateModem\<close> takes no clock, and
  \<open>getAnalytics()\<close> has the default limit 100.\<close>

definition db_api :: "db storage_api" where
  "db_api =
     \<lparr>api_getModems = db_getModems, api_getModem = db_getModem, api_getModemByName = db_getModemByName,
      api_createModem = db_createModem, api_updateModem = (\<lambda>p upd now. db_updateModem p upd),
      api_deleteModem = db_deleteModem, api_getVpnConnections = db_getVpnConnections,
      api_createVpnConnection = db_createVpnConnection, api_getIpRotationLogs = db_getIpRotationLogs,
      api_createIpRotationLog = db_createIpRotationLog, api_getSystemLogs = db_getSystemLogs,
      api_createSystemLog = db_createSystemLog, api_getProxyConfigurations = db_getProxyConfigurations,
      api_createProxyConfiguration = db_createProxyConfiguration, api_getAnalytics = db_getAnalytics 100\<rparr>"

text \<open>\<open>MemStorage\<close>: a \<open>Map\<close> finds only the number keys it was filled
  with; the object literal of an insert is written over the empty object, whose
  absent properties read as \<open>None\<close>, \<open>False\<close> or the empty string; no method
  throws.\<close>

definition mem_key :: "idarg \<Rightarrow> int option" where
  "mem_key p = (case p of IdVal (JNum k) \<Rightarrow> Some k | _ \<Rightarrow> None)"

definition blank_modem :: modem where
  "blank_modem =
     \<lparr>m_id = 0, m_name = [], imei = [], localIp = None, m_publicIp = None, m_status = [],
      m_signalStrength = None, m_downloadSpeed = None, m_uploadSpeed = None, m_provider = None,
      m_connectionType = None, model = None, m_firmware = None, adminUsername = None,
      adminPassword = None, apnName = None, apnUsername = None, apnPassword = None,
      autoIpRotation = False, ipRotationInterval = None, portsAssigned = False,
      openvpnConfigPath = None, openvpnConfigUrl = None, m_isActive = False, lastSeen = None,
      lastReboot = None, m_createdAt = None, m_updatedAt = None\<rparr>"

definition blank_vpn :: vpn_connection where
  "blank_vpn = \<lparr>vpn_id = 0, vpn_modemId = None, clientName = [], configPath = None, vpn_status = [],
     connectedAt = None, disconnectedAt = None, vpn_createdAt = None\<rparr>"

definition blank_rotation_log :: ip_rotation_log where
  "blank_rotation_log = \<lparr>log_id = 0, log_modemId = None, log_oldIp = None, log_newIp = None,
     log_success = False, log_error = None, rotatedAt = None\<rparr>"

definition blank_system_log :: system_log where
  "blank_system_log = \<lparr>sl_id = 0, level = [], message = [], details = None, source = None,
     sourceId = None, sl_createdAt = None\<rparr>"

definition blank_proxy_configuration :: proxy_configuration where
  "blank_proxy_configuration =
     \<lparr>pc_id = 0, modemId = None, httpPort = None, socksPort = None, authentication = False,
      username = None, password = None, pc_isActive = False, maxConnections = None,
      connectionTimeout = None, keepAlive = False, allowedIps = None, blockedIps = None,
      bandwidthLimit = None, dailyTrafficLimit = None, protocol = None, sslEnabled = False,
      logLevel = None, rotateOnDisconnect = False, customHeaders = None,
      pc_createdAt = None, pc_updatedAt = None\<rparr>"

definition mem_api :: "mem_storage storage_api" where
  "mem_api =
     \<lparr>api_getModems = (\<lambda>st. Inr (getModems st)),
      api_getModem = (\<lambda>p st. Inr (case mem_key p of None \<Rightarrow> None | Some k \<Rightarrow> getModem k st)),
      api_getModemByName = (\<lambda>n st. Inr (getModemByName n st)),
      api_createModem = (\<lambda>ins now st. apfst Inr (createModem (ins blank_modem) now st)),
      api_updateModem = (\<lambda>p upd now st.
         case mem_key p of None \<Rightarrow> (Inr None, st) | Some k \<Rightarrow> apfst Inr (updateModem k upd now st)),
      api_deleteModem = (\<lambda>p st.
         case mem_key p of None \<Rightarrow> (Inr False, st) | Some k \<Rightarrow> apfst Inr (deleteModem k st)),
      api_getVpnConnections = (\<lambda>st. Inr (getVpnConnections st)),
      api_createVpnConnection = (\<lambda>ins now st. apfst Inr (createVpnConnection (ins blank_vpn) now st)),
      api_getIpRotationLogs = (\<lambda>n st. Inr (getIpRotationLogs n st)),
      api_createIpRotationLog = (\<lambda>ins now st. apfst Inr (createIpRotationLog (ins blank_rotation_log) now st)),
      api_getSystemLogs = (\<lambda>n st. Inr (getSystemLogs n st)),
      api_createSystemLog = (\<lambda>ins now st. apfst Inr (createSystemLog (ins blank_system_log) now st)),
      api_getProxyConfigurations = (\<lambda>st. Inr (getProxyConfigurations st)),
      api_createProxyConfiguration =
        (\<lambda>ins now st. apfst Inr (createProxyConfiguration (ins blank_proxy_configuration) now st)),
      api_getAnalytics = (\<lambda>st. Inr (getAnalytics 100 st))\<rparr>"

subsection \<open>Server state, world and replies\<close>

text \<open>The messages of \<open>broadcast\<close> (lines 32--38), in the order sent; every
  open WebSocket client receives each of them.\<close>

datatype ws_msg =
    ModemCreated modem
  | ModemUpdated modem
  | ModemDeleted jsnum
  | IpRotated jsnum "string option" string
  | VpnConnectionCreated vpn_connection
  | ModemPortsAssigned jsnum proxy_configuration

record 's server =
  sv_store :: 's
  sv_os :: os
  sv_trace :: "event list"
  sv_outbox :: "ws_msg list"

text \<open>\<open>new Date()\<close> as milliseconds and as \<open>toISOString()\<close>, \<open>NODE_ENV\<close>
  being \<open>development\<close>, the draw \<open>Math.floor(Math.random() * 254)\<close>, the
  modem network, whether 3proxy accepts a configuration, \<open>curl\<close>, and the
  request's Host header.\<close>

record world =
  w_now :: timestamp
  w_iso :: string
  w_dev :: bool
  w_rnd :: nat
  w_net :: net
  w_accepts :: "string \<Rightarrow> bool"
  w_curl :: "string \<Rightarrow> string + string"
  w_host :: string

text \<open>The JSON bodies the handlers send, by the object they pass to
  \<open>res.json\<close> or \<open>res.send\<close>.\<close>

datatype body =
    BStats nat int nat nat
  | BModem modem
  | BModems "modem list"
  | BSuccess
  | BCtl ctl_result
  | BRotated "string option" string
  | BVpnConnections "vpn_connection list"
  | BVpnConnection vpn_connection
  | BSystemLogs "system_log list"
  | BRotationLogs "ip_rotation_log list"
  | BProxyConfigs "proxy_configuration list"
  | BPortsAssigned proxy_configuration string
  | BOpenVpn string string
  | BAnalytics "analytics list"
  | BProxyStatus proxy_status
  | BMessage string
  | BLogs string
  | BTest bool

datatype reply = Ok body | Err nat string

subsection \<open>Handler steps\<close>

text \<open>A handler body runs steps over the server state; \<open>Inl\<close> leaves the
  body: \<open>Early\<close> for an explicit \<open>return res.status(...)\<close>, \<open>Thrown\<close> for an
  exception.\<close>

datatype exit = Early reply | Thrown

type_synonym ('a, 's) handler = "'s server \<Rightarrow> (exit + 'a) \<times> 's server"

definition h_ret :: "'a \<Rightarrow> ('a, 's) handler" where
  "h_ret a sv = (Inr a, sv)"

definition h_exit :: "reply \<Rightarrow> ('a, 's) handler" where
  "h_exit r sv = (Inl (Early r), sv)"

definition h_throw :: "('a, 's) handler" where
  "h_throw sv = (Inl Thrown, sv)"

text \<open>\<open>await\<close>: the next step runs on the state the previous one left.\<close>

definition h_bind :: "('a, 's) handler \<Rightarrow> ('a \<Rightarrow> ('b, 's) handler) \<Rightarrow> ('b, 's) handler" where
  "h_bind m f sv = (case m sv of (Inl x, sv') \<Rightarrow> (Inl x, sv') | (Inr a, sv') \<Rightarrow> f a sv')"

definition h_read :: "('s \<Rightarrow> db_error + 'a) \<Rightarrow> ('a, 's) handler" where
  "h_read q sv = (case q (sv_store sv) of Inl _ \<Rightarrow> (Inl Thrown, sv) | Inr a \<Rightarrow> (Inr a, sv))"

definition h_write :: "('s \<Rightarrow> (db_error + 'a) \<times> 's) \<Rightarrow> ('a, 's) handler" where
  "h_write w sv =
     (case w (sv_store sv) of
        (Inl _, s') \<Rightarrow> (Inl Thrown, sv\<lparr>sv_store := s'\<rparr>)
      | (Inr a, s') \<Rightarrow> (Inr a, sv\<lparr>sv_store := s'\<rparr>))"

definition h_modem :: "(event list \<Rightarrow> 'a \<times> event list) \<Rightarrow> ('a, 's) handler" where
  "h_modem c sv = (case c (sv_trace sv) of (a, tr) \<Rightarrow> (Inr a, sv\<lparr>sv_trace := tr\<rparr>))"

definition h_proxy :: "(os \<Rightarrow> (string + 'a) \<times> os) \<Rightarrow> ('a, 's) handler" where
  "h_proxy c sv =
     (case c (sv_os sv) of
        (Inl _, os') \<Rightarrow> (Inl Thrown, sv\<lparr>sv_os := os'\<rparr>)
      | (Inr a, os') \<Rightarrow> (Inr a, sv\<lparr>sv_os := os'\<rparr>))"

definition h_broadcast :: "ws_msg \<Rightarrow> (unit, 's) handler" where
  "h_broadcast m sv = (Inr (), sv\<lparr>sv_outbox := sv_outbox sv @ [m]\<rparr>)"

text \<open>\<open>try { ... } catch (error) { res.status(code).json({ error: msg }) }\<close>.\<close>

definition try_catch :: "nat \<Rightarrow> string \<Rightarrow> (reply, 's) handler \<Rightarrow> 's server \<Rightarrow> reply \<times> 's server" where
  "try_catch code msg h sv =
     (case h sv of
        (Inl (Early r), sv') \<Rightarrow> (r, sv')
      | (Inl Thrown, sv') \<Rightarrow> (Err code msg, sv')
      | (Inr r, sv') \<Rightarrow> (r, sv'))"

subsection \<open>Request values\<close>

text \<open>\<open>parseInt(req.params.id)\<close>; a query parameter that is absent is
  \<open>undefined\<close>, which \<open>parseInt\<close> reads as the text \<open>undefined\<close>.\<close>

definition param_id :: "string \<Rightarrow> jsnum" where
  "param_id p = parseInt_str p"

definition query_num :: "string option \<Rightarrow> jsnum" where
  "query_num q = parseInt_str (case q of None \<Rightarrow> ''undefined'' | Some s \<Rightarrow> s)"

text \<open>A number written to an integer column: \<open>NaN\<close> cannot reach one, since
  every handler that writes an id has found the modem under it first.\<close>

definition num_opt :: "jsnum \<Rightarrow> int option" where
  "num_opt n = (case n of NaN \<Rightarrow> None | Num i \<Rightarrow> Some i)"

text \<open>\<open>x || null\<close> of a property of the controller result, as text.\<close>

definition ip_text :: "jsval option \<Rightarrow> string option" where
  "ip_text v = (case v of None \<Rightarrow> None | Some x \<Rightarrow> if truthy x then Some (to_string x) else None)"

text \<open>\<open>`${v}`\<close> of a property of the request body.\<close>

definition tmpl_val :: "jsval option \<Rightarrow> string" where
  "tmpl_val v = (case v of None \<Rightarrow> ''undefined'' | Some x \<Rightarrow> to_string x)"

text \<open>\<open>s.replace(pat, rep)\<close> with a string pattern replaces its first
  occurrence; \<open>s.split(c)\<close> cuts at every occurrence of \<open>c\<close>.\<close>

fun js_replace_first :: "string \<Rightarrow> string \<Rightarrow> string \<Rightarrow> string" where
  "js_replace_first pat rep [] = (if pat = [] then rep else [])"
| "js_replace_first pat rep (x # xs) =
     (if take (length pat) (x # xs) = pat then rep @ drop (length pat) (x # xs)
      else x # js_replace_first pat rep xs)"

fun js_split :: "char \<Rightarrow> string \<Rightarrow> string list" where
  "js_split c [] = [[]]"
| "js_split c (x # xs) =
     (if x = c then [] # js_split c xs
      else (case js_split c xs of [] \<Rightarrow> [[x]] | p # ps \<Rightarrow> (x # p) # ps))"

text \<open>The body of \<open>POST /api/modems/:id/assign-ports\<close> at the column types;
  \<open>None\<close> for an absent property.\<close>

record ports_body =
  b_httpPort :: "int option"
  b_socksPort :: "int option"
  b_authentication :: bool
  b_username :: "string option"
  b_password :: "string option"

text \<open>How the properties of the body reach the columns of the \<open>INSERT\<close>
  (line 367): node-postgres sends a number or boolean as its text, PostgreSQL
  converts the text to the column type.  An \<open>integer\<close> column converts as
  \<open>pg_int4\<close>; a \<open>text\<close> column takes the text; a \<open>boolean\<close> column
  accepts, trimmed and in any case, a non-empty prefix of \<open>true\<close>, \<open>false\<close>,
  \<open>yes\<close>, \<open>no\<close>, and \<open>on\<close>, \<open>off\<close> (at least two letters), \<open>1\<close>
  and \<open>0\<close> (PostgreSQL \<open>boolin\<close>).  An absent property leaves the column
  default (\<open>authentication\<close> false); \<open>null\<close> stores NULL, which every
  reader of \<open>authentication\<close> treats as false.  Arrays and objects, which
  node-postgres renders as array literals and JSON, are not modelled: here they
  convert by \<open>String(v)\<close>.\<close>

definition col_int4 :: "jsval option \<Rightarrow> db_error + int option" where
  "col_int4 v = (case v of None \<Rightarrow> Inr None | Some x \<Rightarrow> pg_int4 (IdVal x))"

definition col_text :: "jsval option \<Rightarrow> db_error + string option" where
  "col_text v = (case v of None \<Rightarrow> Inr None | Some JNull \<Rightarrow> Inr None | Some x \<Rightarrow> Inr (Some (to_string x)))"

definition lower_char :: "char \<Rightarrow> char" where
  "lower_char c =
     (case map_of (zip ''ABCDEFGHIJKLMNOPQRSTUVWXYZ'' ''abcdefghijklmnopqrstuvwxyz'') c of Some l \<Rightarrow> l | None \<Rightarrow> c)"

definition pg_bool_text :: "string \<Rightarrow> db_error + bool" where
  "pg_bool_text s0 =
     (let s = map lower_char (js_trim s0) in
      if s \<noteq> [] \<and> (s = take (length s) ''true'' \<or> s = take (length s) ''yes'') \<or> s = ''on'' \<or> s = ''1'' then Inr True
      else if s \<noteq> [] \<and> (s = take (length s) ''false'' \<or> s = take (length s) ''no'') \<or> s = ''of'' \<or> s = ''off'' \<or> s = ''0''
      then Inr False
      else Inl (InvalidBoolean s0))"

definition col_bool :: "jsval option \<Rightarrow> db_error + bool" where
  "col_bool v =
     (case v of None \<Rightarrow> Inr False | Some JNull \<Rightarrow> Inr False | Some (JBool b) \<Rightarrow> Inr b
      | Some x \<Rightarrow> pg_bool_text (to_string x))"

definition ports_body_of :: "jsval \<Rightarrow> db_error + ports_body" where
  "ports_body_of body =
     (case col_int4 (get_prop body ''httpPort'') of Inl e \<Rightarrow> Inl e | Inr hp \<Rightarrow>
      case col_int4 (get_prop body ''socksPort'') of Inl e \<Rightarrow> Inl e | Inr sp \<Rightarrow>
      case col_bool (get_prop body ''authentication'') of Inl e \<Rightarrow> Inl e | Inr a \<Rightarrow>
      case col_text (get_prop body ''username'') of Inl e \<Rightarrow> Inl e | Inr u \<Rightarrow>
      case col_text (get_prop body ''password'') of Inl e \<Rightarrow> Inl e | Inr pw \<Rightarrow>
      Inr \<lparr>b_httpPort = hp, b_socksPort = sp, b_authentication = a, b_username = u, b_password = pw\<rparr>)"

subsection \<open>The handlers\<close>

text \<open>Lines 41--61.  \<open>getIpRotationLogs(24)\<close> takes the 24 newest logs.\<close>

definition stats_route :: "'s storage_api \<Rightarrow> 's server \<Rightarrow> reply \<times> 's server" where
  "stats_route api =
     try_catch 500 ''Failed to fetch stats''
       (h_bind (h_read (api_getModems api)) (\<lambda>modems.
        h_bind (h_read (api_getVpnConnections api)) (\<lambda>vpnConnections.
        h_bind (h_read (api_getIpRotationLogs api 24)) (\<lambda>ipRotationLogs.
        h_ret (Ok (BStats (length (filter (\<lambda>m. m_status m = ''connected'') modems))
                          (sum_list (map (\<lambda>m. int_or (m_downloadSpeed m) 0) modems))
                          (length ipRotationLogs)
                          (length (filter (\<lambda>v. vpn_status v = ''active'') vpnConnections))))))))"

text \<open>Lines 64--84.\<close>

definition get_modems_route :: "'s storage_api \<Rightarrow> 's server \<Rightarrow> reply \<times> 's server" where
  "get_modems_route api =
     try_catch 500 ''Failed to fetch modems''
       (h_bind (h_read (api_getModems api)) (\<lambda>modems. h_ret (Ok (BModems modems))))"

definition get_modem_route :: "'s storage_api \<Rightarrow> string \<Rightarrow> 's server \<Rightarrow> reply \<times> 's server" where
  "get_modem_route api p =
     try_catch 500 ''Failed to fetch modem''
       (h_bind (h_read (api_getModem api (arg_of_num (param_id p)))) (\<lambda>modem.
        case modem of
          None \<Rightarrow> h_exit (Err 404 ''Modem not found'')
        | Some m \<Rightarrow> h_ret (Ok (BModem m))))"

text \<open>Lines 86--105: the body is \<open>insertModemSchema.parse(req.body)\<close>,
  \<open>None\<close> when the validation throws.\<close>

definition create_modem_route ::
  "'s storage_api \<Rightarrow> world \<Rightarrow> (modem \<Rightarrow> modem) option \<Rightarrow> 's server \<Rightarrow> reply \<times> 's server" where
  "create_modem_route api w parsed =
     try_catch 400 ''Invalid modem data''
       (case parsed of
          None \<Rightarrow> h_throw
        | Some validatedData \<Rightarrow>
            h_bind (h_write (api_createModem api validatedData (w_now w))) (\<lambda>modem.
            h_bind (h_write (api_createSystemLog api
                      (\<lambda>l. l\<lparr>level := ''info'', message := ''New modem '' @ m_name modem @ '' added'',
                             details := Some (''IMEI: '' @ imei modem), source := Some ''modem'',
                             sourceId := Some (m_id modem)\<rparr>) (w_now w))) (\<lambda>_.
            h_bind (h_broadcast (ModemCreated modem)) (\<lambda>_.
            h_ret (Ok (BModem modem))))))"

text \<open>Lines 107--122: \<open>req.body\<close> goes to \<open>updateModem\<close> unvalidated.\<close>

definition update_modem_route ::
  "'s storage_api \<Rightarrow> world \<Rightarrow> string \<Rightarrow> (modem \<Rightarrow> modem) \<Rightarrow> 's server \<Rightarrow> reply \<times> 's server" where
  "update_modem_route api w p updates =
     try_catch 500 ''Failed to update modem''
       (h_bind (h_write (api_updateModem api (arg_of_num (param_id p)) updates (w_now w))) (\<lambda>modem.
        case modem of
          None \<Rightarrow> h_exit (Err 404 ''Modem not found'')
        | Some m \<Rightarrow> h_bind (h_broadcast (ModemUpdated m)) (\<lambda>_. h_ret (Ok (BModem m)))))"

text \<open>Lines 124--138.\<close>

definition delete_modem_route :: "'s storage_api \<Rightarrow> string \<Rightarrow> 's server \<Rightarrow> reply \<times> 's server" where
  "delete_modem_route api p =
     try_catch 500 ''Failed to delete modem''
       (let id = param_id p in
        h_bind (h_write (api_deleteModem api (arg_of_num id))) (\<lambda>ok.
        if \<not> ok then h_exit (Err 404 ''Modem not found'')
        else h_bind (h_broadcast (ModemDeleted id)) (\<lambda>_. h_ret (Ok BSuccess))))"

text \<open>Lines 141--189.  The broadcast carries \<open>modem\<close> as read before the
  rotation.\<close>

definition rotate_ip_route :: "'s storage_api \<Rightarrow> world \<Rightarrow> string \<Rightarrow> 's server \<Rightarrow> reply \<times> 's server" where
  "rotate_ip_route api w p =
     try_catch 500 ''Internal server error''
       (let id = param_id p in
        h_bind (h_read (api_getModem api (arg_of_num id))) (\<lambda>found.
        case found of
          None \<Rightarrow> h_exit (Err 404 ''Modem not found'')
        | Some modem \<Rightarrow>
            (let controller = ModemControllerFactory_create modem in
             h_bind (h_modem (rotateIp (w_dev w) (w_rnd w) (w_net w) controller)) (\<lambda>result.
             h_bind (h_write (api_createIpRotationLog api
                       (\<lambda>l. l\<lparr>log_modemId := num_opt id, log_oldIp := ip_text (oldIp result),
                              log_newIp := ip_text (newIp result), log_success := success result,
                              log_error := (if str_truthy (error result) then error result else None)\<rparr>)
                       (w_now w))) (\<lambda>_.
             h_bind (h_write (api_createSystemLog api
                       (\<lambda>l. l\<lparr>level := (if success result then ''info'' else ''error''),
                              message := ''IP rotation '' @ (if success result then ''successful'' else ''failed'') @
                                         '' for modem '' @ m_name modem,
                              source := Some ''modem-controller'', sourceId := num_opt id,
                              details := (if str_truthy (error result) then error result else None)\<rparr>)
                       (w_now w))) (\<lambda>_.
             h_bind (if success result \<and> truthy_opt (newIp result)
                     then h_bind (h_write (api_updateModem api (arg_of_num id)
                            (\<lambda>m. m\<lparr>m_publicIp := ip_text (newIp result), lastSeen := Some (w_now w)\<rparr>) (w_now w)))
                            (\<lambda>_. h_ret ())
                     else h_ret ()) (\<lambda>_.
             h_bind (h_broadcast (ModemUpdated modem)) (\<lambda>_.
             h_ret (Ok (BCtl result))))))))))"

text \<open>Lines 192--235.\<close>

definition reboot_route :: "'s storage_api \<Rightarrow> world \<Rightarrow> string \<Rightarrow> 's server \<Rightarrow> reply \<times> 's server" where
  "reboot_route api w p =
     try_catch 500 ''Internal server error''
       (let id = param_id p in
        h_bind (h_read (api_getModem api (arg_of_num id))) (\<lambda>found.
        case found of
          None \<Rightarrow> h_exit (Err 404 ''Modem not found'')
        | Some modem \<Rightarrow>
            (let controller = ModemControllerFactory_create modem in
             h_bind (h_write (api_updateModem api (arg_of_num id)
                       (\<lambda>m. m\<lparr>m_status := ''rebooting'', lastReboot := Some (w_now w)\<rparr>) (w_now w))) (\<lambda>_.
             h_bind (h_modem (reboot (w_dev w) (w_net w) controller)) (\<lambda>result.
             h_bind (h_write (api_createSystemLog api
                       (\<lambda>l. l\<lparr>level := (if success result then ''info'' else ''error''),
                              message := ''Modem reboot '' @ (if success result then ''initiated'' else ''failed'') @
                                         '' for '' @ m_name modem,
                              source := Some ''modem-controller'', sourceId := num_opt id,
                              details := (if str_truthy (error result) then error result else None)\<rparr>)
                       (w_now w))) (\<lambda>_.
             h_bind (h_write (api_updateModem api (arg_of_num id)
                       (\<lambda>m. m\<lparr>m_status := (if success result then ''rebooting'' else ''error''),
                              lastSeen := Some (w_now w)\<rparr>) (w_now w))) (\<lambda>_.
             h_bind (h_broadcast (ModemUpdated modem)) (\<lambda>_.
             h_ret (Ok (BCtl result))))))))))"

text \<open>Lines 238--275: the simulated rotation of the old endpoint.\<close>

definition legacy_rotate_route :: "'s storage_api \<Rightarrow> world \<Rightarrow> string \<Rightarrow> 's server \<Rightarrow> reply \<times> 's server" where
  "legacy_rotate_route api w p =
     try_catch 500 ''Failed to rotate IP''
       (let id = param_id p in
        h_bind (h_read (api_getModem api (arg_of_num id))) (\<lambda>found.
        case found of
          None \<Rightarrow> h_exit (Err 404 ''Modem not found'')
        | Some modem \<Rightarrow>
            (let old_ip = m_publicIp modem; new_ip = ''203.0.113.'' @ nat_str (w_rnd w + 1) in
             h_bind (h_write (api_updateModem api (arg_of_num id) (\<lambda>m. m\<lparr>m_publicIp := Some new_ip\<rparr>) (w_now w))) (\<lambda>_.
             h_bind (h_write (api_createIpRotationLog api
                       (\<lambda>l. l\<lparr>log_modemId := num_opt id, log_oldIp := old_ip, log_newIp := Some new_ip,
                              log_success := True\<rparr>) (w_now w))) (\<lambda>_.
             h_bind (h_write (api_createSystemLog api
                       (\<lambda>l. l\<lparr>level := ''info'', message := m_name modem @ '' IP rotated successfully'',
                              details := Some (''New IP: '' @ new_ip), source := Some ''modem'',
                              sourceId := num_opt id\<rparr>) (w_now w))) (\<lambda>_.
             h_bind (h_broadcast (IpRotated id old_ip new_ip)) (\<lambda>_.
             h_ret (Ok (BRotated old_ip new_ip)))))))))"

text \<open>Lines 278--285.\<close>

definition get_vpn_connections_route :: "'s storage_api \<Rightarrow> 's server \<Rightarrow> reply \<times> 's server" where
  "get_vpn_connections_route api =
     try_catch 500 ''Failed to fetch VPN connections''
       (h_bind (h_read (api_getVpnConnections api)) (\<lambda>cs. h_ret (Ok (BVpnConnections cs))))"

text \<open>Lines 287--321: \<open>modemId\<close> and \<open>clientName\<close> are the raw JSON values
  of the body; the stored \<open>modem_id\<close> is the integer the database reads from
  \<open>modemId\<close>.\<close>

definition vpn_generate_route ::
  "'s storage_api \<Rightarrow> world \<Rightarrow> jsval option \<Rightarrow> jsval option \<Rightarrow> 's server \<Rightarrow> reply \<times> 's server" where
  "vpn_generate_route api w modemId_b clientName_b =
     try_catch 500 ''Failed to generate VPN config''
       (if \<not> truthy_opt modemId_b \<or> \<not> truthy_opt clientName_b
        then h_exit (Err 400 ''modemId and clientName required'')
        else
          (let mid = the modemId_b; cn = to_string (the clientName_b);
               key = (case pg_int4 (IdVal mid) of Inr k \<Rightarrow> k | Inl _ \<Rightarrow> None) in
           h_bind (h_read (api_getModem api (IdVal mid))) (\<lambda>found.
           case found of
             None \<Rightarrow> h_exit (Err 404 ''Modem not found'')
           | Some modem \<Rightarrow>
               h_bind (h_write (api_createVpnConnection api
                         (\<lambda>c. c\<lparr>vpn_modemId := key, clientName := cn,
                                configPath := Some (''/etc/openvpn/'' @ cn @ ''.conf''),
                                vpn_status := ''active'', connectedAt := Some (w_now w)\<rparr>) (w_now w))) (\<lambda>connection.
               h_bind (h_write (api_createSystemLog api
                         (\<lambda>l. l\<lparr>level := ''info'', message := ''OpenVPN config generated for '' @ m_name modem,
                                details := Some (''Client: '' @ cn), source := Some ''vpn'', sourceId := key\<rparr>)
                         (w_now w))) (\<lambda>_.
               h_bind (h_broadcast (VpnConnectionCreated connection)) (\<lambda>_.
               h_ret (Ok (BVpnConnection connection))))))))"

text \<open>Lines 324--343: \<open>parseInt(req.query.limit) || 100\<close> (50 for rotation logs).\<close>

definition logs_route :: "'s storage_api \<Rightarrow> string option \<Rightarrow> 's server \<Rightarrow> reply \<times> 's server" where
  "logs_route api q =
     try_catch 500 ''Failed to fetch logs''
       (h_bind (h_read (api_getSystemLogs api (num_or (query_num q) 100))) (\<lambda>logs. h_ret (Ok (BSystemLogs logs))))"

definition rotation_logs_route :: "'s storage_api \<Rightarrow> string option \<Rightarrow> 's server \<Rightarrow> reply \<times> 's server" where
  "rotation_logs_route api q =
     try_catch 500 ''Failed to fetch rotation logs''
       (h_bind (h_read (api_getIpRotationLogs api (num_or (query_num q) 50))) (\<lambda>logs. h_ret (Ok (BRotationLogs logs))))"

text \<open>Lines 346--353 and, identical, 544--551.\<close>

definition proxy_configs_route :: "'s storage_api \<Rightarrow> 's server \<Rightarrow> reply \<times> 's server" where
  "proxy_configs_route api =
     try_catch 500 ''Failed to fetch proxy configurations''
       (h_bind (h_read (api_getProxyConfigurations api)) (\<lambda>configs. h_ret (Ok (BProxyConfigs configs))))"

text \<open>Lines 356--416: the configuration row, the OpenVPN path and URL, the
  modem update, the VPN connection, then \<open>updateConfiguration\<close> with every
  modem and configuration; nothing is undone when a later step throws.\<close>

definition ovpn_name :: "modem \<Rightarrow> string" where
  "ovpn_name modem = m_name modem @ ''-'' @ imei modem @ ''.ovpn''"

definition assign_ports_route ::
  "'s storage_api \<Rightarrow> world \<Rightarrow> string \<Rightarrow> jsval \<Rightarrow> 's server \<Rightarrow> reply \<times> 's server" where
  "assign_ports_route api w p body =
     try_catch 500 ''Failed to assign ports''
       (let id = param_id p in
        h_bind (h_read (api_getModem api (arg_of_num id))) (\<lambda>found.
        case found of
          None \<Rightarrow> h_exit (Err 404 ''Modem not found'')
        | Some modem \<Rightarrow>
          (case ports_body_of body of
            Inl _ \<Rightarrow> h_throw
          | Inr b \<Rightarrow>
            h_bind (h_write (api_createProxyConfiguration api
                      (\<lambda>c. c\<lparr>modemId := num_opt id, httpPort := b_httpPort b, socksPort := b_socksPort b,
                             authentication := b_authentication b, username := b_username b,
                             password := b_password b, pc_isActive := True\<rparr>) (w_now w))) (\<lambda>proxyConfig.
            (let openvpnConfigPath_v = ''/configs/openvpn/'' @ ovpn_name modem;
                 openvpnConfigUrl_v = ''https://'' @ w_host w @ ''/download/openvpn/'' @ ovpn_name modem in
             h_bind (h_write (api_updateModem api (arg_of_num id)
                       (\<lambda>m. m\<lparr>portsAssigned := True, openvpnConfigPath := Some openvpnConfigPath_v,
                              openvpnConfigUrl := Some openvpnConfigUrl_v\<rparr>) (w_now w))) (\<lambda>_.
             h_bind (h_write (api_createVpnConnection api
                       (\<lambda>c. c\<lparr>vpn_modemId := num_opt id, clientName := m_name modem @ ''-default'',
                              configPath := Some openvpnConfigPath_v, vpn_status := ''active'',
                              connectedAt := Some (w_now w)\<rparr>) (w_now w))) (\<lambda>_.
             h_bind (h_read (api_getModems api)) (\<lambda>allModems.
             h_bind (h_read (api_getProxyConfigurations api)) (\<lambda>allProxyConfigs.
             h_bind (h_proxy (updateConfiguration (w_accepts w) (w_iso w) allModems allProxyConfigs)) (\<lambda>_.
             h_bind (h_write (api_createSystemLog api
                       (\<lambda>l. l\<lparr>level := ''info'',
                              message := ''Ports assigned to '' @ m_name modem @ '' - HTTP: '' @
                                         tmpl_val (get_prop body ''httpPort'') @ '', SOCKS: '' @ tmpl_val (get_prop body ''socksPort''),
                              details := Some (''OpenVPN config available at: '' @ openvpnConfigUrl_v @
                                               ''. 3proxy updated with new configuration.''),
                              source := Some ''modem-management'', sourceId := num_opt id\<rparr>) (w_now w))) (\<lambda>_.
             h_bind (h_broadcast (ModemPortsAssigned id proxyConfig)) (\<lambda>_.
             h_ret (Ok (BPortsAssigned proxyConfig openvpnConfigUrl_v))))))))))))))"

text \<open>Lines 441--473: the client profile, \<open>new Date().toISOString()\<close> being
  \<open>iso\<close>.\<close>

definition generateOpenVPNConfig :: "modem \<Rightarrow> string \<Rightarrow> string" where
  "generateOpenVPNConfig modem now_iso =
     lines_text
       [''client'', ''dev tun'', ''proto udp'',
        ''remote '' @ str_or (m_publicIp modem) ''your-server-ip'' @ '' 1194'',
        ''resolv-retry infinite'', ''nobind'', ''persist-key'', ''persist-tun'', ''ca ca.crt'',
        ''cert '' @ m_name modem @ ''.crt'', ''key '' @ m_name modem @ ''.key'',
        ''cipher AES-256-CBC'', ''auth SHA256'', ''comp-lzo'', ''verb 3'', [],
        ''# Client configuration for '' @ m_name modem, ''# IMEI: '' @ imei modem,
        ''# Generated: '' @ now_iso, [],
        ''# Route all traffic through VPN'', ''redirect-gateway def1 bypass-dhcp'', [],
        ''# DNS servers'', ''dhcp-option DNS 8.8.8.8'', ''dhcp-option DNS 8.8.4.4'', [],
        ''# Keep alive'', ''keepalive 10 120'']"

text \<open>Lines 419--439: \<open>const [modemName, imei] =
  filename.replace('.ovpn', '').split('-')\<close>, then the lookup by name.\<close>

definition download_modem_name :: "string \<Rightarrow> string" where
  "download_modem_name filename = hd (js_split (CHR ''-'') (js_replace_first ''.ovpn'' [] filename))"

definition download_route :: "'s storage_api \<Rightarrow> world \<Rightarrow> string \<Rightarrow> 's server \<Rightarrow> reply \<times> 's server" where
  "download_route api w filename =
     try_catch 500 ''Failed to download OpenVPN configuration''
       (h_bind (h_read (api_getModemByName api (download_modem_name filename))) (\<lambda>found.
        case found of
          None \<Rightarrow> h_exit (Err 404 ''OpenVPN configuration not found'')
        | Some modem \<Rightarrow>
            if \<not> str_truthy (openvpnConfigPath modem) then h_exit (Err 404 ''OpenVPN configuration not found'')
            else h_ret (Ok (BOpenVpn filename (generateOpenVPNConfig modem (w_iso w))))))"

text \<open>Lines 476--483.\<close>

definition analytics_route :: "'s storage_api \<Rightarrow> 's server \<Rightarrow> reply \<times> 's server" where
  "analytics_route api =
     try_catch 500 ''Failed to fetch analytics''
       (h_bind (h_read (api_getAnalytics api)) (\<lambda>a. h_ret (Ok (BAnalytics a))))"

text \<open>Lines 486--541: the proxy supervisor endpoints.\<close>

definition proxy_status_route :: "'s server \<Rightarrow> reply \<times> 's server" where
  "proxy_status_route sv = (Ok (BProxyStatus (proxy_getStatus (sv_os sv))), sv)"

definition proxy_start_route :: "world \<Rightarrow> 's server \<Rightarrow> reply \<times> 's server" where
  "proxy_start_route w =
     try_catch 500 ''Failed to start 3proxy''
       (h_bind (h_proxy (start (w_accepts w))) (\<lambda>_. h_ret (Ok (BMessage ''3proxy started''))))"

definition proxy_stop_route :: "'s server \<Rightarrow> reply \<times> 's server" where
  "proxy_stop_route =
     try_catch 500 ''Failed to stop 3proxy''
       (h_bind (h_proxy (\<lambda>os. (Inr (), stop os))) (\<lambda>_. h_ret (Ok (BMessage ''3proxy stopped''))))"

definition proxy_restart_route :: "world \<Rightarrow> 's server \<Rightarrow> reply \<times> 's server" where
  "proxy_restart_route w =
     try_catch 500 ''Failed to restart 3proxy''
       (h_bind (h_proxy (restart (w_accepts w))) (\<lambda>_. h_ret (Ok (BMessage ''3proxy restarted''))))"

definition proxy_logs_route :: "string option \<Rightarrow> 's server \<Rightarrow> reply \<times> 's server" where
  "proxy_logs_route q sv = (Ok (BLogs (getLogs (num_or (query_num q) 100) (sv_os sv))), sv)"

definition proxy_test_route :: "world \<Rightarrow> string \<Rightarrow> jsval option \<Rightarrow> 's server \<Rightarrow> reply \<times> 's server" where
  "proxy_test_route w p ty sv =
     (Ok (BTest (testProxy (w_curl w) (param_id p) (if truthy_opt ty then to_string (the ty) else ''http''))), sv)"

definition proxy_configurations_route :: "'s storage_api \<Rightarrow> 's server \<Rightarrow> reply \<times> 's server" where
  "proxy_configurations_route api = proxy_configs_route api"

subsection \<open>Requests\<close>

text \<open>The routes registered by \<open>registerRoutes\<close>, with the parts of the
  request each handler reads.\<close>

datatype request =
    GetStats
  | GetModems
  | GetModem string
  | PostModem "(modem \<Rightarrow> modem) option"
  | PutModem string "modem \<Rightarrow> modem"
  | DeleteModem string
  | PostRotateIp string
  | PostReboot string
  | PostRotate string
  | GetVpnConnections
  | PostVpnGenerate "jsval option" "jsval option"
  | GetLogs "string option"
  | GetRotationLogs "string option"
  | GetProxyConfigs
  | PostAssignPorts string jsval
  | GetOpenVpn string
  | GetAnalytics
  | GetProxyStatus
  | PostProxyStart
  | PostProxyStop
  | PostProxyRestart
  | GetProxyLogs "string option"
  | PostProxyTest string "jsval option"
  | GetProxyConfigurations

fun serve :: "'s storage_api \<Rightarrow> world \<Rightarrow> request \<Rightarrow> 's server \<Rightarrow> reply \<times> 's server" where
  "serve api w GetStats = stats_route api"
| "serve api w GetModems = get_modems_route api"
| "serve api w (GetModem p) = get_modem_route api p"
| "serve api w (PostModem b) = create_modem_route api w b"
| "serve api w (PutModem p u) = update_modem_route api w p u"
| "serve api w (DeleteModem p) = delete_modem_route api p"
| "serve api w (PostRotateIp p) = rotate_ip_route api w p"
| "serve api w (PostReboot p) = reboot_route api w p"
| "serve api w (PostRotate p) = legacy_rotate_route api w p"
| "serve api w GetVpnConnections = get_vpn_connections_route api"
| "serve api w (PostVpnGenerate m c) = vpn_generate_route api w m c"
| "serve api w (GetLogs q) = logs_route api q"
| "serve api w (GetRotationLogs q) = rotation_logs_route api q"
| "serve api w GetProxyConfigs = proxy_configs_route api"
| "serve api w (PostAssignPorts p b) = assign_ports_route api w p b"
| "serve api w (GetOpenVpn f) = download_route api w f"
| "serve api w GetAnalytics = analytics_route api"
| "serve api w GetProxyStatus = proxy_status_route"
| "serve api w PostProxyStart = proxy_start_route w"
| "serve api w PostProxyStop = proxy_stop_route"
| "serve api w PostProxyRestart = proxy_restart_route w"
| "serve api w (GetProxyLogs q) = proxy_logs_route q"
| "serve api w (PostProxyTest p t) = proxy_test_route w p t"
| "serve api w GetProxyConfigurations = proxy_configurations_route api"

text \<open>Requests served one after the other, each in its own world.\<close>

fun serve_all :: "'s storage_api \<Rightarrow> (world \<times> request) list \<Rightarrow> 's server \<Rightarrow> reply list \<times> 's server" where
  "serve_all api [] sv = ([], sv)"
| "serve_all api ((w, r) # rs) sv =
     (case serve api w r sv of (x, sv1) \<Rightarrow> (case serve_all api rs sv1 of (xs, sv2) \<Rightarrow> (x # xs, sv2)))"

text \<open>A request whose \<open>PUT\<close> body leaves the id alone, in a world whose
  timestamp text has no line break.\<close>

fun req_ok :: "request \<Rightarrow> bool" where
  "req_ok (PutModem p u) \<longleftrightarrow> (\<forall>m. m_id (u m) = m_id m)"
| "req_ok _ \<longleftrightarrow> True"

definition world_ok :: "world \<Rightarrow> bool" where
  "world_ok w \<longleftrightarrow> nl_free (w_iso w)"

subsection \<open>Preservation through handlers\<close>

text \<open>A handler keeps a property of the store and one of the proxy host; a
  storage implementation keeps a property of its state through every write the
  routes issue.\<close>

definition keeps :: "('s \<Rightarrow> bool) \<Rightarrow> (os \<Rightarrow> bool) \<Rightarrow> ('a, 's) handler \<Rightarrow> bool" where
  "keeps P Q h \<longleftrightarrow>
     (\<forall>sv. P (sv_store sv) \<and> Q (sv_os sv) \<longrightarrow> P (sv_store (snd (h sv))) \<and> Q (sv_os (snd (h sv))))"

definition route_keeps :: "('s \<Rightarrow> bool) \<Rightarrow> (os \<Rightarrow> bool) \<Rightarrow> ('s server \<Rightarrow> reply \<times> 's server) \<Rightarrow> bool" where
  "route_keeps P Q rt \<longleftrightarrow>
     (\<forall>sv. P (sv_store sv) \<and> Q (sv_os sv) \<longrightarrow> P (sv_store (snd (rt sv))) \<and> Q (sv_os (snd (rt sv))))"

definition api_keeps :: "('s \<Rightarrow> bool) \<Rightarrow> 's storage_api \<Rightarrow> bool" where
  "api_keeps P api \<longleftrightarrow>
     (\<forall>ins now s. P s \<longrightarrow> P (snd (api_createModem api ins now s))) \<and>
     (\<forall>p upd now s. (\<forall>m. m_id (upd m) = m_id m) \<longrightarrow> P s \<longrightarrow> P (snd (api_updateModem api p upd now s))) \<and>
     (\<forall>p s. P s \<longrightarrow> P (snd (api_deleteModem api p s))) \<and>
     (\<forall>ins now s. P s \<longrightarrow> P (snd (api_createVpnConnection api ins now s))) \<and>
     (\<forall>ins now s. P s \<longrightarrow> P (snd (api_createIpRotationLog api ins now s))) \<and>
     (\<forall>ins now s. P s \<longrightarrow> P (snd (api_createSystemLog api ins now s))) \<and>
     (\<forall>ins now s. P s \<longrightarrow> P (snd (api_createProxyConfiguration api ins now s)))"

subsection \<open>Analysis scenarios\<close>

text \<open>A database with one modem, a development-mode request world with an
  unreachable modem, and an assign-ports body.\<close>

definition sample_modem :: modem where
  "sample_modem = (modem_defaults 0)\<lparr>m_id := 1, m_name := ''M1'', imei := ''111''\<rparr>"

definition sample_db :: db where
  "sample_db = empty_db\<lparr>db_modems := [sample_modem], db_seq := (\<lambda>_. 0)(TModems := 1)\<rparr>"

definition sample_world :: world where
  "sample_world = \<lparr>w_now = 0, w_iso = ''2025-01-01T00:00:00.000Z'', w_dev = True, w_rnd = 7,
     w_net = dead_env, w_accepts = (\<lambda>_. True), w_curl = (\<lambda>_. Inl []), w_host = ''proxy.example''\<rparr>"

definition sample_server :: "db server" where
  "sample_server = \<lparr>sv_store = sample_db, sv_os = idle_os, sv_trace = [], sv_outbox = []\<rparr>"

definition sample_ports :: jsval where
  "sample_ports = JObj [(''httpPort'', JNum 8080), (''socksPort'', JNum 1080), (''authentication'', JBool False)]"

definition sample_download_modem :: modem where
  "sample_download_modem = sample_modem\<lparr>openvpnConfigPath := Some ''/configs/openvpn/M1-111.ovpn''\<rparr>"

subsection \<open>Lemmas\<close>

lemma keeps_ret [intro!]: "keeps P Q (h_ret a)"
  by (simp add: keeps_def h_ret_def)

lemma keeps_exit [intro!]: "keeps P Q (h_exit r)"
  by (simp add: keeps_def h_exit_def)

lemma keeps_throw [intro!]: "keeps P Q h_throw"
  by (simp add: keeps_def h_throw_def)

lemma keeps_broadcast [intro!]: "keeps P Q (h_broadcast m)"
  by (simp add: keeps_def h_broadcast_def)

lemma keeps_modem [intro!]: "keeps P Q (h_modem c)"
  by (simp add: keeps_def h_modem_def split: prod.split)

lemma keeps_read [intro!]: "keeps P Q (h_read q)"
  by (simp add: keeps_def h_read_def split: sum.split)

lemma keeps_bind [intro!]: "keeps P Q m \<Longrightarrow> (\<And>a. keeps P Q (f a)) \<Longrightarrow> keeps P Q (h_bind m f)"
  unfolding keeps_def h_bind_def by (fastforce split: prod.split sum.split)

lemma keeps_write [intro!]: "(\<And>s. P s \<Longrightarrow> P (snd (w s))) \<Longrightarrow> keeps P Q (h_write w)"
  unfolding keeps_def h_write_def by (fastforce split: prod.split sum.split)

lemma keeps_proxy [intro!]: "(\<And>os. Q os \<Longrightarrow> Q (snd (c os))) \<Longrightarrow> keeps P Q (h_proxy c)"
  unfolding keeps_def h_proxy_def by (fastforce split: prod.split sum.split)

lemma keeps_option [intro!]:
  "keeps P Q a \<Longrightarrow> (\<And>m. keeps P Q (b m)) \<Longrightarrow> keeps P Q (case x of None \<Rightarrow> a | Some m \<Rightarrow> b m)"
  by (cases x) simp_all

lemma keeps_sum [intro!]:
  "(\<And>e. keeps P Q (a e)) \<Longrightarrow> (\<And>x. keeps P Q (b x)) \<Longrightarrow> keeps P Q (case y of Inl e \<Rightarrow> a e | Inr x \<Rightarrow> b x)"
  by (cases y) simp_all

lemma keeps_if [intro!]: "keeps P Q a \<Longrightarrow> keeps P Q b \<Longrightarrow> keeps P Q (if c then a else b)"
  by simp

lemma route_keeps_try_catch: "keeps P Q h \<Longrightarrow> route_keeps P Q (try_catch c msg h)"
  unfolding keeps_def route_keeps_def try_catch_def by (fastforce split: prod.split sum.split exit.split)

lemma supervised_update:
  "nl_free now \<Longrightarrow> supervised os \<Longrightarrow> supervised (snd (updateConfiguration a now ms pcs os))"
  using sup_exec_supervised [of os "CallUpdate now ms pcs" a] by simp

lemma supervised_restart: "supervised os \<Longrightarrow> supervised (snd (restart a os))"
  using sup_exec_supervised [of os CallRestart a] by simp

lemma supervised_stop: "supervised os \<Longrightarrow> supervised (stop os)"
  using stop_supervised by blast

lemmas supervised_calls = supervised_update supervised_restart supervised_stop start_keeps_supervised

lemmas keeps_intros = keeps_ret keeps_exit keeps_throw keeps_broadcast keeps_modem keeps_read
  keeps_bind keeps_write keeps_proxy keeps_option keeps_sum keeps_if

lemma stats_route_keeps:
  assumes "api_keeps P api" and "world_ok w"
  shows "route_keeps P supervised (stats_route api)"
  unfolding stats_route_def Let_def
  by (rule route_keeps_try_catch, (intro keeps_intros allI impI)?; use assms in \<open>auto simp: api_keeps_def world_ok_def supervised_calls\<close>)

lemma get_modems_route_keeps:
  assumes "api_keeps P api" and "world_ok w"
  shows "route_keeps P supervised (get_modems_route api)"
  unfolding get_modems_route_def Let_def
  by (rule route_keeps_try_catch, (intro keeps_intros allI impI)?; use assms in \<open>auto simp: api_keeps_def world_ok_def supervised_calls\<close>)

lemma get_modem_route_keeps:
  assumes "api_keeps P api" and "world_ok w"
  shows "route_keeps P supervised (get_modem_route api p)"
  unfolding get_modem_route_def Let_def
  by (rule route_keeps_try_catch, (intro keeps_intros allI impI)?; use assms in \<open>auto simp: api_keeps_def world_ok_def supervised_calls\<close>)

lemma create_modem_route_keeps:
  assumes "api_keeps P api" and "world_ok w"
  shows "route_keeps P supervised (create_modem_route api w b)"
  unfolding create_modem_route_def Let_def
  by (rule route_keeps_try_catch, (intro keeps_intros allI impI)?; use assms in \<open>auto simp: api_keeps_def world_ok_def supervised_calls\<close>)

lemma update_modem_route_keeps:
  assumes "api_keeps P api" and "world_ok w" and "\<forall>m. m_id (u m) = m_id m"
  shows "route_keeps P supervised (update_modem_route api w p u)"
  unfolding update_modem_route_def Let_def
  by (rule route_keeps_try_catch, (intro keeps_intros allI impI)?; use assms in \<open>auto simp: api_keeps_def world_ok_def supervised_calls\<close>)

lemma delete_modem_route_keeps:
  assumes "api_keeps P api" and "world_ok w"
  shows "route_keeps P supervised (delete_modem_route api p)"
  unfolding delete_modem_route_def Let_def
  by (rule route_keeps_try_catch, (intro keeps_intros allI impI)?; use assms in \<open>auto simp: api_keeps_def world_ok_def supervised_calls\<close>)

lemma rotate_ip_route_keeps:
  assumes "api_keeps P api" and "world_ok w"
  shows "route_keeps P supervised (rotate_ip_route api w p)"
  unfolding rotate_ip_route_def Let_def
  by (rule route_keeps_try_catch, (intro keeps_intros allI impI)?; use assms in \<open>auto simp: api_keeps_def world_ok_def supervised_calls\<close>)

lemma reboot_route_keeps:
  assumes "api_keeps P api" and "world_ok w"
  shows "route_keeps P supervised (reboot_route api w p)"
  unfolding reboot_route_def Let_def
  by (rule route_keeps_try_catch, (intro keeps_intros allI impI)?; use assms in \<open>auto simp: api_keeps_def world_ok_def supervised_calls\<close>)

lemma legacy_rotate_route_keeps:
  assumes "api_keeps P api" and "world_ok w"
  shows "route_keeps P supervised (legacy_rotate_route api w p)"
  unfolding legacy_rotate_route_def Let_def
  by (rule route_keeps_try_catch, (intro keeps_intros allI impI)?; use assms in \<open>auto simp: api_keeps_def world_ok_def supervised_calls\<close>)

lemma get_vpn_connections_route_keeps:
  assumes "api_keeps P api" and "world_ok w"
  shows "route_keeps P supervised (get_vpn_connections_route api)"
  unfolding get_vpn_connections_route_def Let_def
  by (rule route_keeps_try_catch, (intro keeps_intros allI impI)?; use assms in \<open>auto simp: api_keeps_def world_ok_def supervised_calls\<close>)

lemma vpn_generate_route_keeps:
  assumes "api_keeps P api" and "world_ok w"
  shows "route_keeps P supervised (vpn_generate_route api w m c)"
  unfolding vpn_generate_route_def Let_def
  by (rule route_keeps_try_catch, (intro keeps_intros allI impI)?; use assms in \<open>auto simp: api_keeps_def world_ok_def supervised_calls\<close>)

lemma logs_route_keeps:
  assumes "api_keeps P api" and "world_ok w"
  shows "route_keeps P supervised (logs_route api q)"
  unfolding logs_route_def Let_def
  by (rule route_keeps_try_catch, (intro keeps_intros allI impI)?; use assms in \<open>auto simp: api_keeps_def world_ok_def supervised_calls\<close>)

lemma rotation_logs_route_keeps:
  assumes "api_keeps P api" and "world_ok w"
  shows "route_keeps P supervised (rotation_logs_route api q)"
  unfolding rotation_logs_route_def Let_def
  by (rule route_keeps_try_catch, (intro keeps_intros allI impI)?; use assms in \<open>auto simp: api_keeps_def world_ok_def supervised_calls\<close>)

lemma proxy_configs_route_keeps:
  assumes "api_keeps P api" and "world_ok w"
  shows "route_keeps P supervised (proxy_configs_route api)"
  unfolding proxy_configs_route_def Let_def
  by (rule route_keeps_try_catch, (intro keeps_intros allI impI)?; use assms in \<open>auto simp: api_keeps_def world_ok_def supervised_calls\<close>)

lemma assign_ports_route_keeps:
  assumes "api_keeps P api" and "world_ok w"
  shows "route_keeps P supervised (assign_ports_route api w p b)"
  unfolding assign_ports_route_def Let_def
  by (rule route_keeps_try_catch, (intro keeps_intros allI impI)?; use assms in \<open>auto simp: api_keeps_def world_ok_def supervised_calls\<close>)

lemma download_route_keeps:
  assumes "api_keeps P api" and "world_ok w"
  shows "route_keeps P supervised (download_route api w f)"
  unfolding download_route_def Let_def
  by (rule route_keeps_try_catch, (intro keeps_intros allI impI)?; use assms in \<open>auto simp: api_keeps_def world_ok_def supervised_calls\<close>)

lemma analytics_route_keeps:
  assumes "api_keeps P api" and "world_ok w"
  shows "route_keeps P supervised (analytics_route api)"
  unfolding analytics_route_def Let_def
  by (rule route_keeps_try_catch, (intro keeps_intros allI impI)?; use assms in \<open>auto simp: api_keeps_def world_ok_def supervised_calls\<close>)

lemma proxy_start_route_keeps:
  assumes "api_keeps P api" and "world_ok w"
  shows "route_keeps P supervised (proxy_start_route w)"
  unfolding proxy_start_route_def Let_def
  by (rule route_keeps_try_catch, (intro keeps_intros allI impI)?; use assms in \<open>auto simp: api_keeps_def world_ok_def supervised_calls\<close>)

lemma proxy_stop_route_keeps:
  assumes "api_keeps P api" and "world_ok w"
  shows "route_keeps P supervised (proxy_stop_route)"
  unfolding proxy_stop_route_def Let_def
  by (rule route_keeps_try_catch, (intro keeps_intros allI impI)?; use assms in \<open>auto simp: api_keeps_def world_ok_def supervised_calls\<close>)

lemma proxy_restart_route_keeps:
  assumes "api_keeps P api" and "world_ok w"
  shows "route_keeps P supervised (proxy_restart_route w)"
  unfolding proxy_restart_route_def Let_def
  by (rule route_keeps_try_catch, (intro keeps_intros allI impI)?; use assms in \<open>auto simp: api_keeps_def world_ok_def supervised_calls\<close>)

lemma pure_route_keeps:
  "route_keeps P Q proxy_status_route" "route_keeps P Q (proxy_logs_route q)" "route_keeps P Q (proxy_test_route w p t)"
  by (simp_all add: route_keeps_def proxy_status_route_def proxy_logs_route_def proxy_test_route_def)

lemma serve_keeps:
  assumes "api_keeps P api" and "world_ok w" and "req_ok r"
  shows "route_keeps P supervised (serve api w r)"
  using assms
  by (cases r) (simp_all add: stats_route_keeps get_modems_route_keeps get_modem_route_keeps create_modem_route_keeps update_modem_route_keeps delete_modem_route_keeps rotate_ip_route_keeps reboot_route_keeps legacy_rotate_route_keeps get_vpn_connections_route_keeps vpn_generate_route_keeps logs_route_keeps rotation_logs_route_keeps proxy_configs_route_keeps assign_ports_route_keeps download_route_keeps analytics_route_keeps proxy_start_route_keeps proxy_stop_route_keeps proxy_restart_route_keeps pure_route_keeps proxy_configurations_route_def)

lemma serve_all_keeps:
  assumes "api_keeps P api" and "list_all (\<lambda>(w, r). world_ok w \<and> req_ok r) rs"
    and "P (sv_store sv)" and "supervised (sv_os sv)"
  shows "P (sv_store (snd (serve_all api rs sv))) \<and> supervised (sv_os (snd (serve_all api rs sv)))"
  using assms(2-4)
proof (induction rs arbitrary: sv)
  case Nil
  then show ?case by simp
next
  case (Cons wr rs)
  obtain w r where wr: "wr = (w, r)" by (cases wr)
  obtain x sv1 where step: "serve api w r sv = (x, sv1)" by (cases "serve api w r sv")
  have ok: "world_ok w" "req_ok r" using Cons.prems(1) wr by simp_all
  have "P (sv_store sv1) \<and> supervised (sv_os sv1)"
    using serve_keeps [OF assms(1) ok] Cons.prems(2,3) step unfolding route_keeps_def
    by (metis snd_conv)
  then have "P (sv_store (snd (serve_all api rs sv1))) \<and> supervised (sv_os (snd (serve_all api rs sv1)))"
    using Cons.IH Cons.prems(1) wr by simp
  moreover obtain xs sv2 where rest: "serve_all api rs sv1 = (xs, sv2)" by (cases "serve_all api rs sv1")
  ultimately show ?case by (simp add: wr step)
qed

lemma db_api_keeps: "api_keeps db_wf db_api"
  by (simp add: api_keeps_def db_api_def db_wf_createModem db_wf_updateModem db_wf_deleteModem
      db_wf_createVpnConnection db_wf_createIpRotationLog db_wf_createSystemLog db_wf_createProxyConfiguration)

lemma mem_api_keeps: "api_keeps mem_wf mem_api"
proof -
  have op: "mem_wf (mem_apply op now st)" if "mem_wf st" "op_ok op" for op now st
    using mem_wf_step that .
  show ?thesis
    unfolding api_keeps_def mem_api_def
    using op [of _ "OpCreateModem _"] op [of _ "OpUpdateModem _ _"] op [of _ "OpDeleteModem _"]
      op [of _ "OpCreateVpnConnection _"] op [of _ "OpCreateIpRotationLog _"] op [of _ "OpCreateSystemLog _"]
      op [of _ "OpCreateProxyConfiguration _"]
    by (auto split: option.split)
qed

lemma supervised_idle: "supervised idle_os"
  by (simp add: supervised_def idle_os_def daemons_def)

lemma js_split_ne: "js_split c s \<noteq> []"
  by (induction c s rule: js_split.induct) (auto split: list.split)

lemma hd_js_split: "hd (js_split c s) = takeWhile (\<lambda>x. x \<noteq> c) s"
  by (induction c s rule: js_split.induct) (auto simp: js_split_ne split: list.split)

lemma find_Some_mem: "find P xs = Some x \<Longrightarrow> x \<in> set xs"
  by (induction xs) (auto split: if_splits)

lemma js_replace_first_prefix:
  "CHR ''.'' \<notin> set n \<Longrightarrow> js_replace_first ''.ovpn'' [] (n @ rest) = n @ js_replace_first ''.ovpn'' [] rest"
  by (induction n) auto

lemma takeWhile_dash_prefix:
  "takeWhile (\<lambda>x. x \<noteq> CHR ''-'') (n @ CHR ''-'' # r) = takeWhile (\<lambda>x. x \<noteq> CHR ''-'') n"
  by (induction n) auto

lemma download_modem_name_ovpn:
  "CHR ''.'' \<notin> set (m_name m) \<Longrightarrow>
   download_modem_name (ovpn_name m) = takeWhile (\<lambda>x. x \<noteq> CHR ''-'') (m_name m)"
  by (simp add: download_modem_name_def ovpn_name_def js_replace_first_prefix hd_js_split takeWhile_dash_prefix)

lemma download_route_found:
  assumes "api_getModemByName api (download_modem_name f) (sv_store sv) = Inr (Some m)"
    and "str_truthy (openvpnConfigPath m)"
  shows "download_route api w f sv = (Ok (BOpenVpn f (generateOpenVPNConfig m (w_iso w))), sv)"
  using assms by (simp add: download_route_def try_catch_def h_bind_def h_read_def h_ret_def)

lemma download_route_missing:
  assumes "api_getModemByName api (download_modem_name f) (sv_store sv) = Inr None"
  shows "download_route api w f sv = (Err 404 ''OpenVPN configuration not found'', sv)"
  using assms by (simp add: download_route_def try_catch_def h_bind_def h_read_def h_exit_def)

lemma stats_route_rotations:
  assumes "\<forall>s xs. api_getIpRotationLogs api 24 s = Inr xs \<longrightarrow> length xs \<le> 24"
    and "stats_route api sv = (Ok (BStats a b c d), sv')"
  shows "c \<le> 24"
  using assms
  by (auto simp: stats_route_def try_catch_def h_bind_def h_read_def h_ret_def split: sum.splits)

lemmas handler_defs = try_catch_def h_bind_def h_read_def h_write_def h_modem_def h_broadcast_def h_ret_def
  h_exit_def h_throw_def h_proxy_def

lemma delete_referenced_modem_fails:
  assumes "db_wf (sv_store sv)" and "in_int4 k" and "modem_referenced (sv_store sv) k"
  shows "delete_modem_route db_api (int_str k) sv = (Err 500 ''Failed to delete modem'', sv)"
proof -
  obtain c where c: "db_deleteModem (IdVal (JNum k)) (sv_store sv) = (Inl (ForeignKeyViolation c), sv_store sv)"
    using db_deleteModem_spec [OF assms(1,2)] assms(3) by blast
  show ?thesis
    by (simp add: delete_modem_route_def handler_defs param_id_def parseInt_str_int_str arg_of_num_def db_api_def c)
qed

lemma db_createIpRotationLog_Inr:
  "db_createIpRotationLog ins now d = (Inr l, d') \<Longrightarrow>
   db_ipRotationLogs d' = db_ipRotationLogs d @ [l] \<and> log_modemId l = log_modemId (ins (rotation_log_defaults now))"
  by (auto simp: db_createIpRotationLog_def insert_row_def nextval_def commit_def split: if_splits option.splits)

lemma db_ipRotationLogs_kept [simp]:
  "db_ipRotationLogs (snd (db_createSystemLog ins now d)) = db_ipRotationLogs d"
  "db_ipRotationLogs (snd (db_updateModem p u d)) = db_ipRotationLogs d"
  by (auto simp: db_createSystemLog_def db_updateModem_def insert_row_def update_row_def nextval_def commit_def
      split: sum.split option.split prod.split)

lemma db_ipRotationLogs_keptD:
  "db_createSystemLog ins now d = (r, d') \<Longrightarrow> db_ipRotationLogs d' = db_ipRotationLogs d"
  "db_updateModem p u d = (r', d'') \<Longrightarrow> db_ipRotationLogs d'' = db_ipRotationLogs d"
  by (metis db_ipRotationLogs_kept(1) snd_conv) (metis db_ipRotationLogs_kept(2) snd_conv)

lemma rotate_ip_route_logs:
  assumes ok: "fst (rotate_ip_route db_api w p sv) = Ok (BCtl res)" and k: "param_id p = Num k"
  shows "Some k \<in> set (map log_modemId (db_ipRotationLogs (sv_store (snd (rotate_ip_route db_api w p sv)))))"
  using assms
  unfolding rotate_ip_route_def Let_def
  by (auto simp: handler_defs db_api_def num_opt_def dest!: db_createIpRotationLog_Inr db_ipRotationLogs_keptD
      split: prod.split_asm sum.split_asm if_split_asm option.split_asm exit.split_asm)

lemma db_updateModem_Inr:
  "db_updateModem (IdVal (JNum k)) u d = (Inr r, d') \<Longrightarrow>
   db_modems d' = map (\<lambda>m. if m_id m = k then u m else m) (db_modems d)"
  by (auto simp: db_updateModem_def update_row_def commit_def int4_of_def split: if_splits option.splits)

lemma db_createSystemLog_modems:
  "db_createSystemLog ins now d = (r, d') \<Longrightarrow> db_modems d' = db_modems d"
  by (auto simp: db_createSystemLog_def insert_row_def nextval_def commit_def split: sum.splits option.splits if_splits)

lemma first_row_map_id:
  "\<forall>m. m_id (f m) = m_id m \<Longrightarrow>
   first_row (filter (\<lambda>r. m_id r = k) (map f ms)) = map_option f (first_row (filter (\<lambda>r. m_id r = k) ms))"
  by (induction ms) (auto simp: first_row_def)

lemma first_row_filter: "first_row (filter P xs) = Some x \<Longrightarrow> P x"
  by (induction xs) (auto simp: first_row_def split: if_splits)

lemma sample_db_wf: "db_wf sample_db"
  by (simp add: db_wf_def sample_db_def empty_db_def sample_modem_def modem_defaults_def db_violation_def
      refs_ok_def ids_below_def)

lemmas sample_eval = sample_world_def sample_server_def sample_db_def empty_db_def sample_modem_def
  modem_defaults_def param_id_def parseInt_str_def digit_val_def radix_value_def is_ws_def
  db_getModem_def select_id_def arg_of_num_def int4_of_def in_int4_def first_row_def num_opt_def

lemma sample_rotation:
  "fst (rotate_ip_route db_api sample_world ''1'' sample_server) =
     Ok (BCtl \<lparr>success = True, oldIp = Some (JStr ''203.0.113.45''), newIp = Some (JStr ''203.0.113.8''),
               error = None\<rparr>)"
  by (simp add: rotate_ip_route_def Let_def handler_defs db_api_def sample_eval rotateIp_dev controller_eval
      dead_env_def nat_str_def ip_text_def ModemControllerFactory_create_def
      db_createIpRotationLog_def db_createSystemLog_def db_updateModem_def insert_row_def update_row_def
      nextval_def commit_def db_violation_def refs_ok_def)

lemma int_str_1: "int_str 1 = ''1''"
  by (simp add: int_str_def nat_str_def)

lemma sample_reboot:
  "fst (reboot_route db_api sample_world ''1'' sample_server) =
     Ok (BCtl \<lparr>success = True, oldIp = None, newIp = None, error = None\<rparr>)"
  by (simp add: reboot_route_def Let_def handler_defs db_api_def sample_eval controller_eval
      ModemControllerFactory_create_def db_createSystemLog_def db_updateModem_def insert_row_def update_row_def
      nextval_def commit_def db_violation_def refs_ok_def)

subsection \<open>Properties\<close>

text \<open>Served one after another on the database storage, any sequence of
  requests whose PUT bodies leave ids alone and whose clocks print without line
  breaks keeps the database well-formed and the proxy host supervised (one
  3proxy daemon at most, named by the pid file).\<close>

theorem server_invariant:
  assumes "list_all (\<lambda>(w, r). world_ok w \<and> req_ok r) rs"
    and "db_wf (sv_store sv)" and "supervised (sv_os sv)"
  shows "db_wf (sv_store (snd (serve_all db_api rs sv))) \<and> supervised (sv_os (snd (serve_all db_api rs sv)))"
  using serve_all_keeps [OF db_api_keeps assms] .

theorem server_invariant_witness:
  "db_wf (sv_store (snd (serve_all db_api [(sample_world, PostRotateIp ''1''), (sample_world, DeleteModem ''1'')]
     sample_server))) \<and>
   supervised (sv_os (snd (serve_all db_api [(sample_world, PostRotateIp ''1''), (sample_world, DeleteModem ''1'')]
     sample_server)))"
  using server_invariant [of "[(sample_world, PostRotateIp ''1''), (sample_world, DeleteModem ''1'')]" sample_server]
    sample_db_wf supervised_idle
  by (simp add: sample_world_def world_ok_def sample_server_def)

text \<open>C12. When POST /api/modems/:id/rotate-ip finds the modem and answers with a
  controller result, that result is what rotateIp returned for the modem, and
  the one WebSocket message sent is modem_updated carrying the modem as it was
  read before the rotation, not the updated row.\<close>

theorem rotate_ip_route_effect:
  assumes found: "api_getModem api (arg_of_num (param_id p)) (sv_store sv) = Inr (Some m)"
    and ok: "fst (rotate_ip_route api w p sv) = Ok (BCtl res)"
  shows "res = fst (rotateIp (w_dev w) (w_rnd w) (w_net w) (ModemControllerFactory_create m) (sv_trace sv)) \<and>
         sv_outbox (snd (rotate_ip_route api w p sv)) = sv_outbox sv @ [ModemUpdated m]"
  using assms
  unfolding rotate_ip_route_def Let_def
  by (auto simp: handler_defs split: prod.split_asm sum.split_asm if_split_asm)

theorem rotate_ip_route_effect_witness:
  "sv_outbox (snd (rotate_ip_route db_api sample_world ''1'' sample_server)) = [ModemUpdated sample_modem] \<and>
   fst (rotate_ip_route db_api sample_world ''1'' sample_server) =
     Ok (BCtl \<lparr>success = True, oldIp = Some (JStr ''203.0.113.45''), newIp = Some (JStr ''203.0.113.8''),
               error = None\<rparr>)"
  using rotate_ip_route_effect [of db_api "''1''" sample_server sample_modem sample_world, OF _ sample_rotation]
    sample_rotation
  by (simp add: db_api_def sample_eval)

text \<open>C13. On the database storage, once a rotation of modem k has been answered,
  DELETE /api/modems/k fails with 500 and leaves everything unchanged: the
  rotation log row references the modem.\<close>

theorem rotate_then_delete_fails:
  assumes wf: "db_wf (sv_store sv)" and sup: "supervised (sv_os sv)" and w: "world_ok w" and k: "in_int4 k"
    and ok: "fst (rotate_ip_route db_api w (int_str k) sv) = Ok (BCtl res)"
  shows "delete_modem_route db_api (int_str k) (snd (rotate_ip_route db_api w (int_str k) sv)) =
           (Err 500 ''Failed to delete modem'', snd (rotate_ip_route db_api w (int_str k) sv))"
proof -
  let ?sv1 = "snd (rotate_ip_route db_api w (int_str k) sv)"
  have wf1: "db_wf (sv_store ?sv1)"
    using rotate_ip_route_keeps [OF db_api_keeps w, of "int_str k"] wf sup unfolding route_keeps_def by blast
  have "Some k \<in> set (map log_modemId (db_ipRotationLogs (sv_store ?sv1)))"
    using rotate_ip_route_logs [OF ok] by (simp add: param_id_def parseInt_str_int_str)
  then have "modem_referenced (sv_store ?sv1) k" by (simp add: modem_referenced_def)
  then show ?thesis using delete_referenced_modem_fails [OF wf1 k] by blast
qed

theorem rotate_then_delete_fails_witness:
  "delete_modem_route db_api (int_str 1) (snd (rotate_ip_route db_api sample_world (int_str 1) sample_server)) =
     (Err 500 ''Failed to delete modem'', snd (rotate_ip_route db_api sample_world (int_str 1) sample_server))"
proof -
  have wf: "db_wf (sv_store sample_server)" using sample_db_wf by (simp add: sample_server_def)
  have sup: "supervised (sv_os sample_server)" using supervised_idle by (simp add: sample_server_def)
  have w: "world_ok sample_world" by (simp add: sample_world_def world_ok_def)
  have k: "in_int4 1" by (simp add: in_int4_def)
  show ?thesis
    using rotate_then_delete_fails [of sample_server sample_world 1, OF wf sup w k] sample_rotation
    by (simp add: int_str_1)
qed

text \<open>C14. On the database storage, after an answered reboot the modem row has
  status rebooting when the controller succeeded and error otherwise, lastSeen
  and lastReboot both the request time, whether or not the reboot succeeded.\<close>

theorem reboot_route_final_status:
  assumes k: "param_id p = Num k"
    and found: "db_getModem (IdVal (JNum k)) (sv_store sv) = Inr (Some m)"
    and ok: "fst (reboot_route db_api w p sv) = Ok (BCtl res)"
  shows "db_getModem (IdVal (JNum k)) (sv_store (snd (reboot_route db_api w p sv))) =
           Inr (Some (m\<lparr>m_status := (if success res then ''rebooting'' else ''error''),
                        lastReboot := Some (w_now w), lastSeen := Some (w_now w)\<rparr>))"
  using assms
  unfolding reboot_route_def Let_def
  by (auto simp: handler_defs db_api_def arg_of_num_def db_getModem_def select_id_def first_row_map_id
      int4_of_def dest: first_row_filter dest!: db_updateModem_Inr db_createSystemLog_modems
      split: prod.split_asm sum.split_asm if_split_asm option.split_asm exit.split_asm)

theorem reboot_route_final_status_witness:
  "db_getModem (IdVal (JNum 1)) (sv_store (snd (reboot_route db_api sample_world ''1'' sample_server))) =
     Inr (Some (sample_modem\<lparr>m_status := ''rebooting'', lastReboot := Some 0, lastSeen := Some 0\<rparr>))"
  using reboot_route_final_status [of "''1''" 1 sample_server sample_modem sample_world, OF _ _ sample_reboot]
  by (simp add: sample_eval)

lemmas assign_ports_eval = Let_def db_api_def sample_world_def sample_server_def
  sample_db_def empty_db_def sample_modem_def modem_defaults_def sample_ports_def param_id_def
  parseInt_str_def digit_val_def radix_value_def is_ws_def
  db_getModem_def select_id_def arg_of_num_def int4_of_def in_int4_def first_row_def
  db_createProxyConfiguration_def db_updateModem_def db_createVpnConnection_def db_getModems_def
  db_getProxyConfigurations_def insert_row_def update_row_def nextval_def commit_def db_violation_def
  refs_ok_def num_opt_def updateConfiguration_def start_def stop_def restart_def isRunning_def
  writeConfig_def sh_3proxy_def idle_os_def configFile_def pidFile_def configDir_def
  ports_body_of_def col_int4_def col_bool_def col_text_def get_prop_def tmpl_val_def

text \<open>C15. assign-ports does not roll back: on either storage, when the proxy
  configuration row, the modem update and the VPN connection have been written
  and 3proxy then rejects the regenerated configuration, the route answers 500,
  the store keeps all three writes and nothing is broadcast.\<close>

theorem assign_ports_no_rollback:
  assumes found: "api_getModem api (arg_of_num (param_id p)) (sv_store sv) = Inr (Some modem)"
    and body: "ports_body_of body = Inr b"
    and w1: "api_createProxyConfiguration api
        (\<lambda>c. c\<lparr>modemId := num_opt (param_id p), httpPort := b_httpPort b, socksPort := b_socksPort b,
               authentication := b_authentication b, username := b_username b,
               password := b_password b, pc_isActive := True\<rparr>) (w_now w) (sv_store sv) = (Inr pc, s1)"
    and w2: "api_updateModem api (arg_of_num (param_id p))
        (\<lambda>m. m\<lparr>portsAssigned := True, openvpnConfigPath := Some (''/configs/openvpn/'' @ ovpn_name modem),
               openvpnConfigUrl := Some (''https://'' @ w_host w @ ''/download/openvpn/'' @ ovpn_name modem)\<rparr>)
        (w_now w) s1 = (Inr x, s2)"
    and w3: "api_createVpnConnection api
        (\<lambda>c. c\<lparr>vpn_modemId := num_opt (param_id p), clientName := m_name modem @ ''-default'',
               configPath := Some (''/configs/openvpn/'' @ ovpn_name modem), vpn_status := ''active'',
               connectedAt := Some (w_now w)\<rparr>) (w_now w) s2 = (Inr y, s3)"
    and r1: "api_getModems api s3 = Inr ms" and r2: "api_getProxyConfigurations api s3 = Inr pcs"
    and rej: "fst (updateConfiguration (w_accepts w) (w_iso w) ms pcs (sv_os sv)) = Inl e"
  shows "fst (assign_ports_route api w p body sv) = Err 500 ''Failed to assign ports'' \<and>
         sv_store (snd (assign_ports_route api w p body sv)) = s3 \<and>
         sv_outbox (snd (assign_ports_route api w p body sv)) = sv_outbox sv"
proof -
  obtain os' where u: "updateConfiguration (w_accepts w) (w_iso w) ms pcs (sv_os sv) = (Inl e, os')"
    using rej by (cases "updateConfiguration (w_accepts w) (w_iso w) ms pcs (sv_os sv)") simp
  show ?thesis
    unfolding assign_ports_route_def Let_def
    by (simp add: handler_defs found body w1 w2 [simplified] w3 [simplified] r1 r2 u)
qed


theorem assign_ports_no_rollback_witness:
  "fst (assign_ports_route db_api (sample_world\<lparr>w_accepts := (\<lambda>_. False)\<rparr>) ''1'' sample_ports sample_server) =
     Err 500 ''Failed to assign ports'' \<and>
   sv_outbox (snd (assign_ports_route db_api (sample_world\<lparr>w_accepts := (\<lambda>_. False)\<rparr>) ''1'' sample_ports sample_server)) = []"
proof -
  let ?w = "sample_world\<lparr>w_accepts := (\<lambda>_. False)\<rparr>" and ?sv = sample_server and ?p = "''1''"
  let ?b = "projr (ports_body_of sample_ports)"
  let ?C1 = "api_createProxyConfiguration db_api
        (\<lambda>c. c\<lparr>modemId := num_opt (param_id ?p), httpPort := b_httpPort ?b, socksPort := b_socksPort ?b,
               authentication := b_authentication ?b, username := b_username ?b,
               password := b_password ?b, pc_isActive := True\<rparr>) (w_now ?w) (sv_store ?sv)"
  let ?C2 = "api_updateModem db_api (arg_of_num (param_id ?p))
        (\<lambda>m. m\<lparr>portsAssigned := True, openvpnConfigPath := Some (''/configs/openvpn/'' @ ovpn_name sample_modem),
               openvpnConfigUrl := Some (''https://'' @ w_host ?w @ ''/download/openvpn/'' @ ovpn_name sample_modem)\<rparr>)
        (w_now ?w) (snd ?C1)"
  let ?C3 = "api_createVpnConnection db_api
        (\<lambda>c. c\<lparr>vpn_modemId := num_opt (param_id ?p), clientName := m_name sample_modem @ ''-default'',
               configPath := Some (''/configs/openvpn/'' @ ovpn_name sample_modem), vpn_status := ''active'',
               connectedAt := Some (w_now ?w)\<rparr>) (w_now ?w) (snd ?C2)"
  let ?ms = "projr (api_getModems db_api (snd ?C3))" and ?pcs = "projr (api_getProxyConfigurations db_api (snd ?C3))"
  let ?U = "updateConfiguration (w_accepts ?w) (w_iso ?w) ?ms ?pcs (sv_os ?sv)"
  have f: "api_getModem db_api (arg_of_num (param_id ?p)) (sv_store ?sv) = Inr (Some sample_modem)"
    by (simp add: assign_ports_eval)
  have b: "ports_body_of sample_ports = Inr ?b" by (simp add: assign_ports_eval)
  have w1: "?C1 = (Inr (projr (fst ?C1)), snd ?C1)" by (simp add: assign_ports_eval)
  have w2: "?C2 = (Inr (projr (fst ?C2)), snd ?C2)" by (simp add: assign_ports_eval)
  have w3: "?C3 = (Inr (projr (fst ?C3)), snd ?C3)" by (simp add: assign_ports_eval)
  have r1: "api_getModems db_api (snd ?C3) = Inr ?ms" by (simp add: assign_ports_eval)
  have r2: "api_getProxyConfigurations db_api (snd ?C3) = Inr ?pcs" by (simp add: assign_ports_eval)
  have rej: "fst ?U = Inl (projl (fst ?U))" by (simp add: assign_ports_eval)
  have "sv_outbox ?sv = []" by (simp add: sample_server_def)
  then show ?thesis using assign_ports_no_rollback [OF f b w1 w2 w3 r1 r2 rej] by simp
qed

text \<open>C16. The OpenVPN URL that assign-ports publishes downloads the modem profile
  when the modem name has no dash and no dot and the name lookup finds that
  modem.\<close>

theorem download_roundtrip:
  assumes "CHR ''-'' \<notin> set (m_name m)" and "CHR ''.'' \<notin> set (m_name m)"
    and "api_getModemByName api (m_name m) (sv_store sv) = Inr (Some m)"
    and "str_truthy (openvpnConfigPath m)"
  shows "download_route api w (ovpn_name m) sv = (Ok (BOpenVpn (ovpn_name m) (generateOpenVPNConfig m (w_iso w))), sv)"
proof -
  have "download_modem_name (ovpn_name m) = m_name m"
    using assms(1,2) by (auto simp: download_modem_name_ovpn)
  then show ?thesis using assms(3,4) by (intro download_route_found) simp_all
qed

theorem download_roundtrip_witness:
  "download_route db_api sample_world (ovpn_name sample_download_modem)
      (sample_server\<lparr>sv_store := sample_db\<lparr>db_modems := [sample_download_modem]\<rparr>\<rparr>) =
    (Ok (BOpenVpn (ovpn_name sample_download_modem) (generateOpenVPNConfig sample_download_modem (w_iso sample_world))),
     sample_server\<lparr>sv_store := sample_db\<lparr>db_modems := [sample_download_modem]\<rparr>\<rparr>)"
  using download_roundtrip [of sample_download_modem db_api "sample_server\<lparr>sv_store := sample_db\<lparr>db_modems := [sample_download_modem]\<rparr>\<rparr>" sample_world]
  by (simp add: sample_download_modem_def sample_modem_def db_api_def db_getModemByName_def first_row_def)

text \<open>C17. For a modem whose name contains a dash (the seeded names M300z-001 ...),
  the download of its published profile looks up only the part of the name
  before the first dash, and answers 404 when no modem has that name.\<close>

theorem download_dash_name_not_found:
  assumes "CHR ''.'' \<notin> set (m_name m)"
    and "api_getModemByName api (takeWhile (\<lambda>x. x \<noteq> CHR ''-'') (m_name m)) (sv_store sv) = Inr None"
  shows "download_route api w (ovpn_name m) sv = (Err 404 ''OpenVPN configuration not found'', sv)"
  using assms by (intro download_route_missing) (simp add: download_modem_name_ovpn)

theorem download_dash_name_not_found_witness:
  "download_route db_api sample_world (ovpn_name (sample_modem\<lparr>m_name := ''M300z-001''\<rparr>)) sample_server =
     (Err 404 ''OpenVPN configuration not found'', sample_server)"
  using download_dash_name_not_found [of "sample_modem\<lparr>m_name := ''M300z-001''\<rparr>" db_api sample_server sample_world]
  by (simp add: sample_server_def sample_db_def empty_db_def sample_modem_def db_api_def db_getModemByName_def
      first_row_def)

text \<open>C31. A non-numeric id in GET /api/modems/:id answers 500 on the database
  storage (PostgreSQL rejects NaN as an integer) and 404 on the in-memory
  storage.\<close>

theorem get_modem_nan:
  assumes "param_id p = NaN"
  shows "get_modem_route db_api p sv = (Err 500 ''Failed to fetch modem'', sv) \<and>
         get_modem_route mem_api p sv' = (Err 404 ''Modem not found'', sv')"
  using assms
  by (simp add: get_modem_route_def try_catch_def h_bind_def h_read_def h_exit_def db_api_def mem_api_def
      db_getModem_def select_id_def arg_of_num_def mem_key_def)

theorem get_modem_nan_witness:
  "get_modem_route db_api ''abc'' sample_server = (Err 500 ''Failed to fetch modem'', sample_server) \<and>
   get_modem_route mem_api ''abc'' \<lparr>sv_store = initializeDefaultData 0, sv_os = idle_os, sv_trace = [], sv_outbox = []\<rparr> =
     (Err 404 ''Modem not found'', \<lparr>sv_store = initializeDefaultData 0, sv_os = idle_os, sv_trace = [], sv_outbox = []\<rparr>)"
  using get_modem_nan [of "''abc''" sample_server "\<lparr>sv_store = initializeDefaultData 0, sv_os = idle_os, sv_trace = [], sv_outbox = []\<rparr>"]
  by (simp add: param_id_def parseInt_str_def is_ws_def digit_val_def)

text \<open>C32. A negative limit on GET /api/logs is not rejected, and the two storages
  disagree on it: drizzle drops the LIMIT clause, so the database storage
  answers with every log, newest first, while \<open>MemStorage\<close>'s
  \<open>slice(0, n)\<close> leaves out the \<open>-n\<close> oldest.\<close>

theorem logs_negative_limit:
  assumes "query_num q = Num n" and "n < 0"
  shows "logs_route db_api q sv = (Ok (BSystemLogs (desc_nulls_first sl_createdAt (db_systemLogs (sv_store sv)))), sv) \<and>
    logs_route mem_api q sv' =
      (Ok (BSystemLogs (take (length (jsmap_values (st_systemLogs (sv_store sv'))) - nat (- n))
             (newest_first sl_createdAt (jsmap_values (st_systemLogs (sv_store sv')))))), sv')"
  using assms
  by (simp add: logs_route_def try_catch_def h_bind_def h_read_def h_ret_def db_api_def mem_api_def
      db_getSystemLogs_def pg_limit_def getSystemLogs_def js_slice0_def num_or_def newest_first_def)

theorem logs_negative_limit_witness:
  "logs_route db_api (Some ''-1'') sample_server =
     (Ok (BSystemLogs (desc_nulls_first sl_createdAt (db_systemLogs (sv_store sample_server)))), sample_server) \<and>
   logs_route mem_api (Some ''-1'') (\<lparr>sv_store = initializeDefaultData 0, sv_os = idle_os, sv_trace = [], sv_outbox = []\<rparr>) =
     (Ok (BSystemLogs (take (length (jsmap_values (st_systemLogs (initializeDefaultData 0))) - 1)
            (newest_first sl_createdAt (jsmap_values (st_systemLogs (initializeDefaultData 0)))))),
      \<lparr>sv_store = initializeDefaultData 0, sv_os = idle_os, sv_trace = [], sv_outbox = []\<rparr>)"
  using logs_negative_limit [of "Some ''-1''" "-1" sample_server "\<lparr>sv_store = initializeDefaultData 0, sv_os = idle_os, sv_trace = [], sv_outbox = []\<rparr>"]
  by (simp add: query_num_def parseInt_str_def is_ws_def digit_val_def radix_value_def)

text \<open>The totalRotations of GET /api/stats counts at most 24 rotation logs:
  getIpRotationLogs(24) is a row limit, not a 24-hour window.\<close>

theorem stats_rotations_capped:
  "stats_route db_api sv = (Ok (BStats a b c d), sv') \<Longrightarrow> c \<le> 24"
  by (erule stats_route_rotations[rotated]) (simp add: db_api_def db_getIpRotationLogs_def pg_limit_def)

theorem stats_rotations_capped_witness:
  "stats_route db_api sample_server = (Ok (BStats 0 0 0 0), sample_server) \<and> (0::nat) \<le> 24"
proof -
  have s: "stats_route db_api sample_server = (Ok (BStats 0 0 0 0), sample_server)"
    by (simp add: stats_route_def handler_defs db_api_def sample_server_def sample_db_def empty_db_def
        sample_modem_def modem_defaults_def db_getModems_def db_getVpnConnections_def db_getIpRotationLogs_def
        pg_limit_def desc_nulls_first_def int_or_def)
  show ?thesis using stats_rotations_capped [OF s] s by simp
qed

text \<open>DatabaseStorage.updateModem returns the stored row with the payload
  applied and nothing else: unlike MemStorage it does not stamp updatedAt.\<close>

theorem db_updateModem_no_timestamp:
  "fst (db_updateModem p u d) = Inr (Some m') \<Longrightarrow> \<exists>m \<in> set (db_modems d). m' = u m"
  by (auto simp: db_updateModem_def update_row_def commit_def split: sum.splits option.splits
      dest: find_Some_mem)

theorem db_updateModem_no_timestamp_witness:
  "fst (db_updateModem (IdVal (JNum 1)) (\<lambda>m. m\<lparr>m_status := ''error''\<rparr>) sample_db) =
     Inr (Some (sample_modem\<lparr>m_status := ''error''\<rparr>)) \<and>
   (\<exists>m \<in> set (db_modems sample_db). sample_modem\<lparr>m_status := ''error''\<rparr> = m\<lparr>m_status := ''error''\<rparr>)"
proof -
  have u: "fst (db_updateModem (IdVal (JNum 1)) (\<lambda>m. m\<lparr>m_status := ''error''\<rparr>) sample_db) =
     Inr (Some (sample_modem\<lparr>m_status := ''error''\<rparr>))"
    by (simp add: db_updateModem_def update_row_def int4_of_def in_int4_def commit_def db_violation_def
        refs_ok_def sample_db_def empty_db_def sample_modem_def modem_defaults_def)
  show ?thesis using db_updateModem_no_timestamp [OF u] u by simp
qed

end
