(* ===== verification/Http_App.thy ===== *)
theory Http_App
  imports Routes
begin

text \<open>
  The Express application around \<open>registerRoutes\<close>.  Its entry point
  \<open>server/index.ts\<close> and the static-file fallback of \<open>server/vite.ts\<close> are
  in the repository only as the bundle \<^verbatim>\<open>src/dist/index.js\<close> (lines
  1179--1337), which this theory translates: \<open>express.json()\<close> parses the
  body, the request logger records every \<open>/api\<close> request, the routes of
  \<^verbatim>\<open>src/server/routes.ts\<close> are tried in registration order, a request no
  route takes is answered with the client application (\<open>app.use("*")\<close>),
  and the error middleware answers the errors of the body parser.  The routes
  match paths as Express 4 does: case-insensitively, with an optional trailing
  slash, a parameter standing for one non-empty segment.  The bodies reach the
  handlers through the two readers of \<^verbatim>\<open>src/shared/schema.ts\<close> the routes
  use: \<open>insertModemSchema\<close> (zod, line 116) for \<open>POST /api/modems\<close> and
  drizzle's \<open>.set(req.body)\<close> for \<open>PUT /api/modems/:id\<close>, both over the
  column list of the \<open>modems\<close> table (lines 11--44).
\<close>

subsection \<open>The columns of \<open>modems\<close>\<close>

datatype col_kind = KText | KInt | KBool | KTime

text \<open>A value a column takes; a timestamp can only be set to \<open>NULL\<close> from
  JSON (\<open>VNull\<close>).\<close>

datatype colval = VText "string option" | VInt "int option" | VBool bool | VNull

definition null_of :: "col_kind \<Rightarrow> colval" where
  "null_of k = (case k of KText \<Rightarrow> VText None | KInt \<Rightarrow> VInt None | KBool \<Rightarrow> VBool False | KTime \<Rightarrow> VNull)"

definition cv_text :: "colval \<Rightarrow> string option" where
  "cv_text v = (case v of VText t \<Rightarrow> t | _ \<Rightarrow> None)"

definition cv_int :: "colval \<Rightarrow> int option" where
  "cv_int v = (case v of VInt i \<Rightarrow> i | _ \<Rightarrow> None)"

definition cv_bool :: "colval \<Rightarrow> bool" where
  "cv_bool v = (case v of VBool b \<Rightarrow> b | _ \<Rightarrow> False)"

text \<open>A column: its property name, its type, \<open>notNull()\<close>, whether it has a
  default, and how it sets the field of the record.\<close>

type_synonym 'r column = "string \<times> col_kind \<times> bool \<times> bool \<times> (colval \<Rightarrow> 'r \<Rightarrow> 'r)"

definition modem_columns :: "modem column list" where
  "modem_columns =
    [(''id'', KInt, True, True, \<lambda>v m. m\<lparr>m_id := case cv_int v of Some i \<Rightarrow> i | None \<Rightarrow> 0\<rparr>),
     (''name'', KText, True, False, \<lambda>v m. m\<lparr>m_name := case cv_text v of Some s \<Rightarrow> s | None \<Rightarrow> []\<rparr>),
     (''imei'', KText, True, False, \<lambda>v m. m\<lparr>imei := case cv_text v of Some s \<Rightarrow> s | None \<Rightarrow> []\<rparr>),
     (''localIp'', KText, False, True, \<lambda>v m. m\<lparr>localIp := cv_text v\<rparr>),
     (''publicIp'', KText, False, False, \<lambda>v m. m\<lparr>m_publicIp := cv_text v\<rparr>),
     (''status'', KText, True, True, \<lambda>v m. m\<lparr>m_status := case cv_text v of Some s \<Rightarrow> s | None \<Rightarrow> []\<rparr>),
     (''signalStrength'', KInt, False, False, \<lambda>v m. m\<lparr>m_signalStrength := cv_int v\<rparr>),
     (''downloadSpeed'', KInt, False, False, \<lambda>v m. m\<lparr>m_downloadSpeed := cv_int v\<rparr>),
     (''uploadSpeed'', KInt, False, False, \<lambda>v m. m\<lparr>m_uploadSpeed := cv_int v\<rparr>),
     (''provider'', KText, False, False, \<lambda>v m. m\<lparr>m_provider := cv_text v\<rparr>),
     (''connectionType'', KText, False, False, \<lambda>v m. m\<lparr>m_connectionType := cv_text v\<rparr>),
     (''model'', KText, False, True, \<lambda>v m. m\<lparr>model := cv_text v\<rparr>),
     (''firmware'', KText, False, False, \<lambda>v m. m\<lparr>m_firmware := cv_text v\<rparr>),
     (''adminUsername'', KText, False, True, \<lambda>v m. m\<lparr>adminUsername := cv_text v\<rparr>),
     (''adminPassword'', KText, False, True, \<lambda>v m. m\<lparr>adminPassword := cv_text v\<rparr>),
     (''apnName'', KText, False, False, \<lambda>v m. m\<lparr>apnName := cv_text v\<rparr>),
     (''apnUsername'', KText, False, False, \<lambda>v m. m\<lparr>apnUsername := cv_text v\<rparr>),
     (''apnPassword'', KText, False, False, \<lambda>v m. m\<lparr>apnPassword := cv_text v\<rparr>),
     (''autoIpRotation'', KBool, False, True, \<lambda>v m. m\<lparr>autoIpRotation := cv_bool v\<rparr>),
     (''ipRotationInterval'', KInt, False, True, \<lambda>v m. m\<lparr>ipRotationInterval := cv_int v\<rparr>),
     (''portsAssigned'', KBool, False, True, \<lambda>v m. m\<lparr>portsAssigned := cv_bool v\<rparr>),
     (''openvpnConfigPath'', KText, False, False, \<lambda>v m. m\<lparr>openvpnConfigPath := cv_text v\<rparr>),
     (''openvpnConfigUrl'', KText, False, False, \<lambda>v m. m\<lparr>openvpnConfigUrl := cv_text v\<rparr>),
     (''isActive'', KBool, False, True, \<lambda>v m. m\<lparr>m_isActive := cv_bool v\<rparr>),
     (''lastSeen'', KTime, False, True, \<lambda>v m. m\<lparr>lastSeen := None\<rparr>),
     (''lastReboot'', KTime, False, False, \<lambda>v m. m\<lparr>lastReboot := None\<rparr>),
     (''createdAt'', KTime, False, True, \<lambda>v m. m\<lparr>m_createdAt := None\<rparr>),
     (''updatedAt'', KTime, False, True, \<lambda>v m. m\<lparr>m_updatedAt := None\<rparr>)]"

subsection \<open>\<open>insertModemSchema.parse\<close>\<close>

text \<open>drizzle-zod's schema of a column: a \<open>notNull()\<close> column without default
  is required, a nullable column accepts \<open>null\<close>, a text column a string, an
  integer column a number, a boolean column a boolean, a timestamp column a
  \<open>Date\<close>, which JSON never yields.  An integer outside the column type is
  rejected here: PostgreSQL refuses it when it binds the \<open>INSERT\<close>
  parameters, before the row's id is drawn, and the route answers both failures
  alike.\<close>

definition zod_col :: "col_kind \<Rightarrow> bool \<Rightarrow> jsval \<Rightarrow> colval option" where
  "zod_col k nullable v =
     (case v of
        JNull \<Rightarrow> if nullable then Some (null_of k) else None
      | JStr s \<Rightarrow> if k = KText then Some (VText (Some s)) else None
      | JNum n \<Rightarrow> if k = KInt \<and> in_int4 n then Some (VInt (Some n)) else None
      | JBool b \<Rightarrow> if k = KBool then Some (VBool b) else None
      | _ \<Rightarrow> None)"

text \<open>The object schema: each column in turn, unknown properties stripped.\<close>

fun zod_cols :: "'r column list \<Rightarrow> jsval \<Rightarrow> ('r \<Rightarrow> 'r) option" where
  "zod_cols [] b = Some id"
| "zod_cols ((k, kind, notnull, hasdef, upd) # cs) b =
     (case get_prop b k of
        None \<Rightarrow> if notnull \<and> \<not> hasdef then None else zod_cols cs b
      | Some v \<Rightarrow>
          (case zod_col kind (\<not> notnull) v of
             None \<Rightarrow> None
           | Some cv \<Rightarrow> map_option (\<lambda>f. f \<circ> upd cv) (zod_cols cs b)))"

text \<open>\<open>createInsertSchema(modems).omit({ id, createdAt, updatedAt })\<close>.\<close>

definition insertModemSchema_parse :: "jsval \<Rightarrow> (modem \<Rightarrow> modem) option" where
  "insertModemSchema_parse body =
     (case body of
        JObj _ \<Rightarrow> zod_cols (filter (\<lambda>c. fst c \<notin> {''id'', ''createdAt'', ''updatedAt''}) modem_columns) body
      | _ \<Rightarrow> None)"

subsection \<open>drizzle's \<open>update(modems).set(req.body)\<close>\<close>

text \<open>Every property naming a column becomes a parameter of the \<open>SET\<close>; other
  properties are dropped.  \<open>null\<close> in a \<open>notNull()\<close> column violates the
  constraint; a timestamp column encodes its value with \<open>toISOString()\<close>,
  which a JSON string or number does not have; other values convert as in
  \<open>col_text\<close>, \<open>pg_int4\<close> and \<open>col_bool\<close>.  A body naming no column gives
  an empty \<open>SET\<close>, which PostgreSQL rejects.\<close>

definition pg_col :: "col_kind \<Rightarrow> bool \<Rightarrow> jsval \<Rightarrow> db_error + colval" where
  "pg_col k notnull v =
     (if v = JNull then (if notnull then Inl (NotNullViolation ''modems'') else Inr (null_of k))
      else (case k of
              KText \<Rightarrow> Inr (VText (Some (to_string v)))
            | KInt \<Rightarrow> (case pg_int4 (IdVal v) of Inl e \<Rightarrow> Inl e | Inr i \<Rightarrow> Inr (VInt i))
            | KBool \<Rightarrow> (case col_bool (Some v) of Inl e \<Rightarrow> Inl e | Inr b \<Rightarrow> Inr (VBool b))
            | KTime \<Rightarrow> Inl (ValueEncoding ''toISOString'')))"

fun pg_set_cols :: "'r column list \<Rightarrow> jsval \<Rightarrow> db_error + bool \<times> ('r \<Rightarrow> 'r)" where
  "pg_set_cols [] b = Inr (False, id)"
| "pg_set_cols ((k, kind, notnull, hasdef, upd) # cs) b =
     (case get_prop b k of
        None \<Rightarrow> pg_set_cols cs b
      | Some v \<Rightarrow>
          (case pg_col kind notnull v of
             Inl e \<Rightarrow> Inl e
           | Inr cv \<Rightarrow> (case pg_set_cols cs b of Inl e \<Rightarrow> Inl e | Inr (_, f) \<Rightarrow> Inr (True, f \<circ> upd cv))))"

definition modem_set_of :: "jsval \<Rightarrow> db_error + (modem \<Rightarrow> modem)" where
  "modem_set_of body =
     (case pg_set_cols modem_columns body of
        Inl e \<Rightarrow> Inl e
      | Inr (False, _) \<Rightarrow> Inl EmptySet
      | Inr (True, f) \<Rightarrow> Inr f)"

subsection \<open>Requests and responses\<close>

datatype http_method = HGet | HPost | HPut | HDelete | HPatch

text \<open>The body as \<open>express.json()\<close> leaves it: the parsed JSON (an empty
  object when the request carries no JSON), or the parser's error for text that
  is not JSON (status 400) or exceeds the 100kb limit (status 413).  The query
  is the first value of each parameter; a repeated parameter, which \<open>qs\<close>
  turns into an array, is not modelled, nor is the percent-decoding of path
  parameters.  No middleware and no handler reads a request header but
  \<open>Host\<close>, which is the world's \<open>w_host\<close>.\<close>

datatype raw_body = BodyJson jsval | BodyMalformed | BodyTooLarge

record http_req =
  rq_method :: http_method
  rq_path :: string
  rq_query :: "(string \<times> string) list"
  rq_headers :: "(string \<times> string) list"
  rq_body :: raw_body

text \<open>What the application answers: a route's reply, the client application
  (\<open>index.html\<close>, status 200) or the error middleware's
  \<open>res.status(status).json({ message })\<close>.\<close>

datatype app_response = RApi reply | RClientApp | RError nat

subsection \<open>Route matching\<close>

datatype seg = Lit string | Param

text \<open>\<open>req.path\<close> cut at each \<open>/\<close>, one trailing slash ignored (Express's
  non-strict routing).\<close>

definition path_parts :: "string \<Rightarrow> string list" where
  "path_parts path =
     (let ps = js_split (CHR ''/'') (drop 1 path) in
      if 1 < length ps \<and> last ps = [] then butlast ps else ps)"

text \<open>A literal segment matches ignoring case; a parameter matches one
  non-empty segment, which it yields.\<close>

fun match_segs :: "seg list \<Rightarrow> string list \<Rightarrow> string list option" where
  "match_segs [] [] = Some []"
| "match_segs (Lit l # ps) (x # xs) =
     (if map lower_char x = map lower_char l then match_segs ps xs else None)"
| "match_segs (Param # ps) (x # xs) =
     (if x = [] then None else map_option (Cons x) (match_segs ps xs))"
| "match_segs _ _ = None"

text \<open>What a route does with the request: serve a request of the handler
  model, or answer at once (a body the handler cannot store).\<close>

datatype dispatch = NoRoute | Direct reply | Serve request

definition put_modem :: "string \<Rightarrow> jsval \<Rightarrow> dispatch" where
  "put_modem p body =
     (case modem_set_of body of
        Inl _ \<Rightarrow> Direct (Err 500 ''Failed to update modem'')
      | Inr u \<Rightarrow> Serve (PutModem p u))"

type_synonym route = "http_method \<times> seg list \<times> (string list \<Rightarrow> (string \<times> string) list \<Rightarrow> jsval \<Rightarrow> dispatch)"

text \<open>The registrations of \<open>registerRoutes\<close> (\<^verbatim>\<open>src/server/routes.ts\<close>,
  lines 41--551), in order, with the parts of the request each handler reads.\<close>

definition route_table :: "route list" where
  "route_table =
    [(HGet, [Lit ''api'', Lit ''stats''], \<lambda>ps q b. Serve GetStats),
     (HGet, [Lit ''api'', Lit ''modems''], \<lambda>ps q b. Serve GetModems),
     (HGet, [Lit ''api'', Lit ''modems'', Param], \<lambda>ps q b. Serve (GetModem (hd ps))),
     (HPost, [Lit ''api'', Lit ''modems''], \<lambda>ps q b. Serve (PostModem (insertModemSchema_parse b))),
     (HPut, [Lit ''api'', Lit ''modems'', Param], \<lambda>ps q b. put_modem (hd ps) b),
     (HDelete, [Lit ''api'', Lit ''modems'', Param], \<lambda>ps q b. Serve (DeleteModem (hd ps))),
     (HPost, [Lit ''api'', Lit ''modems'', Param, Lit ''rotate-ip''], \<lambda>ps q b. Serve (PostRotateIp (hd ps))),
     (HPost, [Lit ''api'', Lit ''modems'', Param, Lit ''reboot''], \<lambda>ps q b. Serve (PostReboot (hd ps))),
     (HPost, [Lit ''api'', Lit ''modems'', Param, Lit ''rotate''], \<lambda>ps q b. Serve (PostRotate (hd ps))),
     (HGet, [Lit ''api'', Lit ''vpn'', Lit ''connections''], \<lambda>ps q b. Serve GetVpnConnections),
     (HPost, [Lit ''api'', Lit ''vpn'', Lit ''generate''],
        \<lambda>ps q b. Serve (PostVpnGenerate (get_prop b ''modemId'') (get_prop b ''clientName''))),
     (HGet, [Lit ''api'', Lit ''logs''], \<lambda>ps q b. Serve (GetLogs (map_of q ''limit''))),
     (HGet, [Lit ''api'', Lit ''rotation-logs''], \<lambda>ps q b. Serve (GetRotationLogs (map_of q ''limit''))),
     (HGet, [Lit ''api'', Lit ''proxy-configs''], \<lambda>ps q b. Serve GetProxyConfigs),
     (HPost, [Lit ''api'', Lit ''modems'', Param, Lit ''assign-ports''], \<lambda>ps q b. Serve (PostAssignPorts (hd ps) b)),
     (HGet, [Lit ''download'', Lit ''openvpn'', Param], \<lambda>ps q b. Serve (GetOpenVpn (hd ps))),
     (HGet, [Lit ''api'', Lit ''analytics''], \<lambda>ps q b. Serve GetAnalytics),
     (HGet, [Lit ''api'', Lit ''proxy'', Lit ''status''], \<lambda>ps q b. Serve GetProxyStatus),
     (HPost, [Lit ''api'', Lit ''proxy'', Lit ''start''], \<lambda>ps q b. Serve PostProxyStart),
     (HPost, [Lit ''api'', Lit ''proxy'', Lit ''stop''], \<lambda>ps q b. Serve PostProxyStop),
     (HPost, [Lit ''api'', Lit ''proxy'', Lit ''restart''], \<lambda>ps q b. Serve PostProxyRestart),
     (HGet, [Lit ''api'', Lit ''proxy'', Lit ''logs''], \<lambda>ps q b. Serve (GetProxyLogs (map_of q ''lines''))),
     (HPost, [Lit ''api'', Lit ''proxy'', Lit ''test'', Param], \<lambda>ps q b. Serve (PostProxyTest (hd ps) (get_prop b ''type''))),
     (HGet, [Lit ''api'', Lit ''proxy'', Lit ''configurations''], \<lambda>ps q b. Serve GetProxyConfigurations)]"

text \<open>The first registered route of the method whose path matches.\<close>

fun dispatch_in :: "route list \<Rightarrow> http_method \<Rightarrow> string list \<Rightarrow> (string \<times> string) list \<Rightarrow> jsval \<Rightarrow> dispatch" where
  "dispatch_in [] m parts q b = NoRoute"
| "dispatch_in ((m', pat, f) # rt) m parts q b =
     (if m' = m then (case match_segs pat parts of Some ps \<Rightarrow> f ps q b | None \<Rightarrow> dispatch_in rt m parts q b)
      else dispatch_in rt m parts q b)"

text \<open>The application (\<open>server/index.ts\<close>): the body parser, then the
  routes, then \<open>app.use("*")\<close> sending the client application
  (\<open>serveStatic\<close>, or the Vite middleware in development, which answers
  with the same page).\<close>

definition app_handle ::
  "'s storage_api \<Rightarrow> world \<Rightarrow> http_req \<Rightarrow> 's server \<Rightarrow> app_response \<times> 's server" where
  "app_handle api w rq sv =
     (case rq_body rq of
        BodyMalformed \<Rightarrow> (RError 400, sv)
      | BodyTooLarge \<Rightarrow> (RError 413, sv)
      | BodyJson b \<Rightarrow>
          (case dispatch_in route_table (rq_method rq) (path_parts (rq_path rq)) (rq_query rq) b of
             NoRoute \<Rightarrow> (RClientApp, sv)
           | Direct r \<Rightarrow> (RApi r, sv)
           | Serve req \<Rightarrow> (case serve api w req sv of (r, sv') \<Rightarrow> (RApi r, sv'))))"

subsection \<open>The request log\<close>

text \<open>The line the logger writes when an \<open>/api\<close> response finishes:
  method, path, status, duration and the JSON sent, cut to 79 characters and an
  ellipsis when longer than 80.  The ellipsis U+2026 is one UTF-16 code unit;
  it is written as the single character 0x85 (its Windows-1252 code).\<close>

definition ellipsis :: char where
  "ellipsis = CHR 0x85"

definition log_line :: "string \<Rightarrow> string \<Rightarrow> nat \<Rightarrow> nat \<Rightarrow> string option \<Rightarrow> string option" where
  "log_line meth path status duration json =
     (if take 4 path = ''/api'' then
        (let l = meth @ '' '' @ path @ '' '' @ nat_str status @ '' in '' @ nat_str duration @ ''ms'' @
                 (case json of None \<Rightarrow> [] | Some j \<Rightarrow> '' :: '' @ j) in
         Some (if 80 < length l then take 79 l @ [ellipsis] else l))
      else None)"

text \<open>\<open>log(message, source = "express")\<close> of \<open>server/vite.ts\<close> (bundle lines
  1223--1231) prints the local time as \<open>toLocaleTimeString("en-US", { hour:
  "numeric", minute: "2-digit", second: "2-digit", hour12: true })\<close>, then the
  source in brackets, then the message.  The time is given by its hour (0--23),
  minute and second.  The separator before AM/PM is U+202F in current ICU data
  and a space in older data; either is one UTF-16 code unit, written here as a
  space.\<close>

definition two_digit :: "nat \<Rightarrow> string" where
  "two_digit n = (if n < 10 then ''0'' @ nat_str n else nat_str n)"

definition formattedTime :: "nat \<Rightarrow> nat \<Rightarrow> nat \<Rightarrow> string" where
  "formattedTime h mi s =
     nat_str (if h mod 12 = 0 then 12 else h mod 12) @ '':'' @ two_digit mi @ '':'' @ two_digit s @ '' '' @
     (if h < 12 then ''AM'' else ''PM'')"

definition vite_log :: "nat \<Rightarrow> nat \<Rightarrow> nat \<Rightarrow> string \<Rightarrow> string \<Rightarrow> string" where
  "vite_log h mi s src msg = formattedTime h mi s @ '' ['' @ src @ ''] '' @ msg"

subsection \<open>Lemmas: paths and dispatch\<close>

lemma js_split_nosep: "c \<notin> set s \<Longrightarrow> js_split c s = [s]"
  by (induction s) auto

lemma js_split_sep: "c \<notin> set a \<Longrightarrow> js_split c (a @ c # b) = a # js_split c b"
  by (induction a) (auto split: list.split)

lemma nat_str_digit_chars: "set (nat_str n) \<subseteq> set ''0123456789''"
proof
  fix c
  assume "c \<in> set (nat_str n)"
  then obtain d where d: "d \<in> set (nat_digits n)" and c: "c = digit_char d"
    by (auto simp: nat_str_def)
  from d have "d < 10" by (rule nat_digits_lt)
  then show "c \<in> set ''0123456789''"
    unfolding c digit_char_def by (intro nth_mem) simp
qed

lemma int_str_chars: "set (int_str i) \<subseteq> set ''-0123456789''"
proof (cases "i < 0")
  case True
  then have "set (int_str i) = insert (CHR ''-'') (set (nat_str (nat (- i))))"
    by (simp add: int_str_def)
  then show ?thesis
    using nat_str_digit_chars [of "nat (- i)"] by (simp only: list.set(2)) (rule insert_mono)
next
  case False
  then have "set (int_str i) = set (nat_str (nat i))"
    by (simp add: int_str_def)
  then show ?thesis
    using nat_str_digit_chars [of "nat i"] by (simp only: list.set(2)) (rule subset_insertI2)
qed

lemma int_str_no_slash: "CHR ''/'' \<notin> set (int_str i)"
  and int_str_no_qmark: "CHR ''?'' \<notin> set (int_str i)"
proof -
  have "CHR ''/'' \<notin> set ''-0123456789''" "CHR ''?'' \<notin> set ''-0123456789''" by simp_all
  then show "CHR ''/'' \<notin> set (int_str i)" "CHR ''?'' \<notin> set (int_str i)"
    using int_str_chars [of i] by blast+
qed

lemma path_parts_modem_id:
  "path_parts (''/api/modems/'' @ int_str i) = [''api'', ''modems'', int_str i]"
  by (simp add: path_parts_def js_split_nosep int_str_no_slash)

lemma log_line_length: "log_line meth path status duration json = Some l \<Longrightarrow> length l \<le> 80"
  by (auto simp: log_line_def Let_def split: if_splits)

lemma length_nat_str_small: "n < 10 \<Longrightarrow> length (nat_str n) = 1"
  by (simp add: nat_str_def)

lemma length_nat_str_two: "10 \<le> n \<Longrightarrow> n < 100 \<Longrightarrow> length (nat_str n) = 2"
  by (simp add: nat_str_def)

lemma length_two_digit: "n < 100 \<Longrightarrow> length (two_digit n) = 2"
  by (simp add: two_digit_def length_nat_str_small length_nat_str_two)

lemma length_formattedTime: "mi < 60 \<Longrightarrow> s < 60 \<Longrightarrow> length (formattedTime h mi s) \<le> 11"
proof -
  assume m: "mi < 60" and sc: "s < 60"
  let ?h = "if h mod 12 = 0 then 12 else h mod 12"
  have "h mod 12 < 12" by simp
  then have "h mod 12 < 100" by linarith
  then have "?h < 100" by simp
  then have "length (nat_str ?h) \<le> 2"
    by (cases "?h < 10") (simp_all add: length_nat_str_small length_nat_str_two)
  moreover have "length (formattedTime h mi s) = length (nat_str ?h) + 9"
    using m sc by (simp add: formattedTime_def length_two_digit)
  ultimately show ?thesis by linarith
qed

text \<open>C25. The request logger cuts its line to 80 characters, and the console
  line \<open>log\<close> writes from it, with the time and the \<open>[express]\<close> tag in
  front, is at most 102 characters, however long the JSON response it reports.\<close>

theorem log_line_bounded:
  assumes "log_line meth path status duration json = Some l" and "mi < 60" and "s < 60"
  shows "length (vite_log h mi s ''express'' l) \<le> 102"
  using log_line_length [OF assms(1)] length_formattedTime [OF assms(2,3), of h]
  by (simp add: vite_log_def)

theorem log_line_bounded_witness:
  "log_line ''GET'' ''/api/modems'' 200 3 (Some (replicate 60 (CHR ''x''))) =
     Some (take 79 (''GET /api/modems 200 in 3ms :: '' @ replicate 60 (CHR ''x'')) @ [ellipsis]) \<and>
   length (vite_log 12 59 59 ''express'' (take 79 (''GET /api/modems 200 in 3ms :: '' @ replicate 60 (CHR ''x'')) @ [ellipsis])) \<le> 102"
  using log_line_bounded [of "''GET''" "''/api/modems''" 200 3 "Some (replicate 60 (CHR ''x''))"
      "take 79 (''GET /api/modems 200 in 3ms :: '' @ replicate 60 (CHR ''x'')) @ [ellipsis]" 59 59 12]
  by (simp add: log_line_def nat_str_def)

text \<open>C23. PUT /api/modems/:id with a timestamp column set to a string (as any
  JSON client writes a date) answers 500 and changes nothing: drizzle cannot
  encode the value, so the update never runs.\<close>

theorem put_modem_timestamp_rejected:
  "app_handle api w \<lparr>rq_method = HPut, rq_path = ''/api/modems/'' @ int_str i, rq_query = q, rq_headers = h,
      rq_body = BodyJson (JObj [(''lastSeen'', JStr s)])\<rparr> sv =
   (RApi (Err 500 ''Failed to update modem''), sv)"
  by (simp only: app_handle_def http_req.simps raw_body.case path_parts_modem_id)
     (simp add: route_table_def lower_char_def put_modem_def modem_set_of_def modem_columns_def pg_col_def)

end
