(* ===== verification/Client.thy ===== *)
theory Client
  imports Http_App
begin

text \<open>
  The web client (\<^verbatim>\<open>src/client/src\<close>) as far as it decides what reaches the
  server and what the user is told.  Every page calls \<open>apiRequest\<close> from
  \<open>@/lib/queryClient\<close>, a module the repository does not contain; the call
  sites use two argument orders (\<open>apiRequest(url, { method, body })\<close> and
  \<open>apiRequest(method, url, data)\<close>), and each call is modelled by the request
  it evidently describes: a method, a URL and a JSON body.  The body is the
  value after \<open>JSON.stringify\<close> and \<open>express.json()\<close>: \<open>NaN\<close> becomes
  \<open>null\<close>.  A mutation settles by the HTTP status: 2xx resolves (\<open>onSuccess\<close>),
  anything else rejects (\<open>onError\<close>).
\<close>

subsection \<open>Requests from the client\<close>

record client_call =
  cc_method :: http_method
  cc_url :: string
  cc_body :: "jsval option"

text \<open>\<open>JSON.stringify\<close> of a number from \<open>parseInt\<close>.\<close>

definition json_num :: "jsnum \<Rightarrow> jsval" where
  "json_num n = (case n of NaN \<Rightarrow> JNull | Num i \<Rightarrow> JNum i)"

text \<open>The query string \<open>k=v&k=v\<close> as Express reads it.\<close>

definition query_of :: "string \<Rightarrow> (string \<times> string) list" where
  "query_of s =
     map (\<lambda>kv. (takeWhile (\<lambda>c. c \<noteq> CHR ''='') kv, drop 1 (dropWhile (\<lambda>c. c \<noteq> CHR ''='') kv)))
       (filter (\<lambda>kv. kv \<noteq> []) (js_split (CHR ''&'') s))"

text \<open>The request the server receives: the path before \<open>?\<close>, the query after
  it, a JSON content type and no credentials, and the body, \<open>{}\<close> when the
  call sends none.\<close>

definition to_http :: "client_call \<Rightarrow> http_req" where
  "to_http c =
     \<lparr>rq_method = cc_method c, rq_path = takeWhile (\<lambda>ch. ch \<noteq> CHR ''?'') (cc_url c),
      rq_query = query_of (drop 1 (dropWhile (\<lambda>ch. ch \<noteq> CHR ''?'') (cc_url c))),
      rq_headers = [(''Content-Type'', ''application/json'')],
      rq_body = BodyJson (case cc_body c of None \<Rightarrow> JObj [] | Some b \<Rightarrow> b)\<rparr>"

text \<open>Whether the mutation resolves: a 2xx status.\<close>

fun call_ok :: "app_response \<Rightarrow> bool" where
  "call_ok (RApi (Ok _)) = True"
| "call_ok (RApi (Err _ _)) = False"
| "call_ok RClientApp = True"
| "call_ok (RError _) = False"

text \<open>A call served by the application.\<close>

definition send ::
  "'s storage_api \<Rightarrow> world \<Rightarrow> client_call \<Rightarrow> 's server \<Rightarrow> app_response \<times> 's server" where
  "send api w c sv = app_handle api w (to_http c) sv"

text \<open>What a page does besides changing its own state.\<close>

datatype effect =
    Send client_call
  | Invalidate string
  | Toast string
  | OpenWindow string

subsection \<open>Modem management (\<^verbatim>\<open>pages/modem-management.tsx\<close>)\<close>

text \<open>The Stage 1 form (lines 49--57) and its JSON (\<open>JSON.stringify(stage1Form)\<close>).\<close>

record stage1_form =
  s1_name :: string
  s1_imei :: string
  s1_apnName :: string
  s1_apnUsername :: string
  s1_apnPassword :: string
  s1_autoIpRotation :: bool
  s1_ipRotationInterval :: int

definition stage1_initial :: stage1_form where
  "stage1_initial =
     \<lparr>s1_name = [], s1_imei = [], s1_apnName = [], s1_apnUsername = [], s1_apnPassword = [],
      s1_autoIpRotation = False, s1_ipRotationInterval = 30\<rparr>"

definition stage1_json :: "stage1_form \<Rightarrow> jsval" where
  "stage1_json f =
     JObj [(''name'', JStr (s1_name f)), (''imei'', JStr (s1_imei f)), (''apnName'', JStr (s1_apnName f)),
           (''apnUsername'', JStr (s1_apnUsername f)), (''apnPassword'', JStr (s1_apnPassword f)),
           (''autoIpRotation'', JBool (s1_autoIpRotation f)),
           (''ipRotationInterval'', JNum (s1_ipRotationInterval f))]"

text \<open>The Stage 2 form (lines 58--76): every field a string, number or boolean
  as the inputs keep them.\<close>

record stage2_form =
  s2_httpPort :: string
  s2_socksPort :: string
  s2_authentication :: bool
  s2_username :: string
  s2_password :: string
  s2_maxConnections :: int
  s2_connectionTimeout :: int
  s2_keepAlive :: bool
  s2_allowedIps :: string
  s2_blockedIps :: string
  s2_bandwidthLimit :: string
  s2_dailyTrafficLimit :: string
  s2_protocol :: string
  s2_sslEnabled :: bool
  s2_logLevel :: string
  s2_rotateOnDisconnect :: bool
  s2_customHeaders :: string

definition stage2_initial :: stage2_form where
  "stage2_initial =
     \<lparr>s2_httpPort = [], s2_socksPort = [], s2_authentication = False, s2_username = [], s2_password = [],
      s2_maxConnections = 100, s2_connectionTimeout = 30, s2_keepAlive = True, s2_allowedIps = [],
      s2_blockedIps = [], s2_bandwidthLimit = [], s2_dailyTrafficLimit = [], s2_protocol = ''both'',
      s2_sslEnabled = False, s2_logLevel = ''info'', s2_rotateOnDisconnect = False, s2_customHeaders = []\<rparr>"

text \<open>\<open>s.split(',').map(ip => ip.trim()).filter(ip => ip)\<close> (lines 229--230).\<close>

definition ip_list :: "string \<Rightarrow> string list" where
  "ip_list s = filter (\<lambda>ip. ip \<noteq> []) (map js_trim (js_split (CHR '','') s))"

text \<open>\<open>s ? parseInt(s) : null\<close> (lines 231--232).\<close>

definition limit_json :: "string \<Rightarrow> jsval" where
  "limit_json s = (if s = [] then JNull else json_num (parseInt_str s))"

text \<open>The body of the assign-ports call: \<open>{ modemId, ...data }\<close> takes
  \<open>modemId\<close> off, and \<open>data\<close> keeps the keys of the form in their order, the
  overridden ones in place (lines 220--234, 127--131).\<close>

definition stage2_json :: "stage2_form \<Rightarrow> jsval" where
  "stage2_json f =
     JObj [(''httpPort'', json_num (parseInt_str (s2_httpPort f))),
           (''socksPort'', json_num (parseInt_str (s2_socksPort f))),
           (''authentication'', JBool (s2_authentication f)),
           (''username'', JStr (s2_username f)), (''password'', JStr (s2_password f)),
           (''maxConnections'', JNum (s2_maxConnections f)),
           (''connectionTimeout'', JNum (s2_connectionTimeout f)),
           (''keepAlive'', JBool (s2_keepAlive f)),
           (''allowedIps'', JArr (map JStr (ip_list (s2_allowedIps f)))),
           (''blockedIps'', JArr (map JStr (ip_list (s2_blockedIps f)))),
           (''bandwidthLimit'', limit_json (s2_bandwidthLimit f)),
           (''dailyTrafficLimit'', limit_json (s2_dailyTrafficLimit f)),
           (''protocol'', JStr (s2_protocol f)), (''sslEnabled'', JBool (s2_sslEnabled f)),
           (''logLevel'', JStr (s2_logLevel f)), (''rotateOnDisconnect'', JBool (s2_rotateOnDisconnect f)),
           (''customHeaders'', JStr (s2_customHeaders f))]"

definition modem_url :: "int \<Rightarrow> string \<Rightarrow> string" where
  "modem_url i action = ''/api/modems/'' @ int_str i @ action"

text \<open>The page state (lines 46--77).\<close>

record mm_page =
  show1 :: bool
  show2 :: bool
  selected :: "modem option"
  form1 :: stage1_form
  form2 :: stage2_form

definition mm_initial :: mm_page where
  "mm_initial = \<lparr>show1 = False, show2 = False, selected = None, form1 = stage1_initial, form2 = stage2_initial\<rparr>"

text \<open>What the user does and how the mutations settle.\<close>

text \<open>The browser's constraint validation, which blocks the submit event before
  \<open>onSubmit\<close> runs: Stage 1 requires the name and the IMEI (lines 273, 283) and,
  when auto rotation is on (the interval input is rendered only then), an
  interval in 1..1440 (lines 330--331); Stage 2 requires both ports (lines 363,
  374) and bounds maxConnections to 1..1000 and connectionTimeout to 1..300
  (lines 421--422, 433--434).  A number input holds what the browser's value
  sanitization leaves, a number or the empty string; its step check, which
  refuses a fractional port, is not modelled.\<close>

definition stage1_valid :: "stage1_form \<Rightarrow> bool" where
  "stage1_valid f \<longleftrightarrow>
     s1_name f \<noteq> [] \<and> s1_imei f \<noteq> [] \<and>
     (if s1_autoIpRotation f then 1 \<le> s1_ipRotationInterval f \<and> s1_ipRotationInterval f \<le> 1440 else True)"

definition stage2_valid :: "stage2_form \<Rightarrow> bool" where
  "stage2_valid f \<longleftrightarrow>
     s2_httpPort f \<noteq> [] \<and> s2_socksPort f \<noteq> [] \<and>
     1 \<le> s2_maxConnections f \<and> s2_maxConnections f \<le> 1000 \<and>
     1 \<le> s2_connectionTimeout f \<and> s2_connectionTimeout f \<le> 300"

datatype mm_event =
    OpenStage1
  | EditStage1 stage1_form
  | SubmitStage1
  | Stage1Settled bool
  | OpenStage2 modem
  | EditStage2 stage2_form
  | SubmitStage2
  | Stage2Settled bool
  | RotateIp modem
  | RotateSettled bool
  | Reboot modem
  | RebootSettled bool
  | Download modem

text \<open>The handlers and the mutations' callbacks (lines 89--245): registration
  (\<open>registerModemMutation\<close>), port assignment (\<open>assignPortsMutation\<close>), IP
  rotation and reboot, whose callbacks only toast, and the profile download.\<close>

fun mm_step :: "mm_page \<Rightarrow> mm_event \<Rightarrow> mm_page \<times> effect list" where
  "mm_step p OpenStage1 = (p\<lparr>show1 := True\<rparr>, [])"
| "mm_step p (EditStage1 f) = (p\<lparr>form1 := f\<rparr>, [])"
| "mm_step p SubmitStage1 =
     (if stage1_valid (form1 p)
      then (p, [Send \<lparr>cc_method = HPost, cc_url = ''/api/modems'', cc_body = Some (stage1_json (form1 p))\<rparr>])
      else (p, []))"
| "mm_step p (Stage1Settled ok) =
     (if ok then (p\<lparr>show1 := False, form1 := stage1_initial\<rparr>, [Toast ''Modem Registered'', Invalidate ''/api/modems''])
      else (p, [Toast ''Registration Failed'']))"
| "mm_step p (OpenStage2 m) = (p\<lparr>selected := Some m, show2 := True\<rparr>, [])"
| "mm_step p (EditStage2 f) = (p\<lparr>form2 := f\<rparr>, [])"
| "mm_step p SubmitStage2 =
     (if stage2_valid (form2 p) then
        (case selected p of
           None \<Rightarrow> (p, [])
         | Some m \<Rightarrow>
             (p, [Send \<lparr>cc_method = HPost, cc_url = modem_url (m_id m) ''/assign-ports'',
                        cc_body = Some (stage2_json (form2 p))\<rparr>]))
      else (p, []))"
| "mm_step p (Stage2Settled ok) =
     (if ok then (p\<lparr>show2 := False, form2 := stage2_initial\<rparr>,
                  [Toast ''Ports Assigned'', Invalidate ''/api/modems'', Invalidate ''/api/proxy-configs''])
      else (p, [Toast ''Port Assignment Failed'']))"
| "mm_step p (RotateIp m) =
     (p, [Send \<lparr>cc_method = HPost, cc_url = modem_url (m_id m) ''/rotate-ip'', cc_body = None\<rparr>])"
| "mm_step p (RotateSettled ok) = (p, if ok then [Toast ''IP Rotation Started''] else [])"
| "mm_step p (Reboot m) =
     (p, [Send \<lparr>cc_method = HPost, cc_url = modem_url (m_id m) ''/reboot'', cc_body = None\<rparr>])"
| "mm_step p (RebootSettled ok) = (p, if ok then [Toast ''Modem Rebooting''] else [])"
| "mm_step p (Download m) =
     (p, case openvpnConfigUrl m of Some u \<Rightarrow> if u \<noteq> [] then [OpenWindow u] else [] | None \<Rightarrow> [])"

text \<open>The proxy configurations shown for a modem (line 200) and the colour of
  a status (lines 204--213).\<close>

definition proxyConfigsForModem :: "proxy_configuration list \<Rightarrow> int \<Rightarrow> proxy_configuration list" where
  "proxyConfigsForModem cs mid = filter (\<lambda>c. modemId c = Some mid \<and> pc_isActive c) cs"

definition mm_status_color :: "string \<Rightarrow> string" where
  "mm_status_color st =
     (let s = map lower_char st in
      if s = ''connected'' then ''#d4edda''
      else if s = ''disconnected'' then ''#f8d7da''
      else if s = ''reconnecting'' then ''#fff3cd''
      else if s = ''error'' then ''#f8d7da''
      else if s = ''rebooting'' then ''#e2e3e5''
      else ''#f8f9fa'')"

subsection \<open>The proxy configuration editor (\<^verbatim>\<open>pages/proxy-config-editor.tsx\<close>)\<close>

text \<open>The editor works on the configurations as \<open>GET /api/proxy-configs\<close>
  returned them (JSON objects): the selected one and the form, an object whose
  properties \<open>updateFormData\<close> overwrites (lines 45--46).\<close>

record editor =
  ed_selected :: "jsval option"
  ed_form :: "(string \<times> jsval) list"

definition editor_initial :: editor where
  "editor_initial = \<lparr>ed_selected = None, ed_form = []\<rparr>"

definition obj_props :: "jsval \<Rightarrow> (string \<times> jsval) list" where
  "obj_props v = (case v of JObj kvs \<Rightarrow> kvs | _ \<Rightarrow> [])"

text \<open>\<open>v.toString()\<close> of a port: \<open>None\<close> where it throws, on \<open>null\<close> and
  \<open>undefined\<close>.\<close>

definition port_text :: "jsval option \<Rightarrow> string option" where
  "port_text v = (case v of None \<Rightarrow> None | Some JNull \<Rightarrow> None | Some x \<Rightarrow> Some (to_string x))"

text \<open>\<open>configs.find(c => c.httpPort.toString() === portNumber ||
  c.socksPort.toString() === portNumber)\<close> (lines 85--88): \<open>None\<close> when it
  throws.\<close>

fun find_port :: "string \<Rightarrow> jsval list \<Rightarrow> jsval option option" where
  "find_port pn [] = Some None"
| "find_port pn (c # cs) =
     (case port_text (get_prop c ''httpPort'') of
        None \<Rightarrow> None
      | Some h \<Rightarrow>
          if h = pn then Some (Some c)
          else (case port_text (get_prop c ''socksPort'') of
                  None \<Rightarrow> None
                | Some s \<Rightarrow> if s = pn then Some (Some c) else find_port pn cs))"

text \<open>The effect that loads the configurations (lines 81--99); \<open>None\<close> when it
  throws, which unmounts the page.\<close>

definition editor_load :: "string option \<Rightarrow> jsval list \<Rightarrow> editor \<Rightarrow> editor option" where
  "editor_load portNumber configs e =
     (if configs = [] then Some e
      else (case portNumber of
              Some pn \<Rightarrow>
                if pn \<noteq> [] then
                  (case find_port pn configs of
                     None \<Rightarrow> None
                   | Some None \<Rightarrow> Some e
                   | Some (Some c) \<Rightarrow> Some \<lparr>ed_selected = Some c, ed_form = obj_props c\<rparr>)
                else Some \<lparr>ed_selected = Some (hd configs), ed_form = obj_props (hd configs)\<rparr>
            | None \<Rightarrow> Some \<lparr>ed_selected = Some (hd configs), ed_form = obj_props (hd configs)\<rparr>))"

text \<open>\<open>handleConfigSelect\<close> (lines 106--112).\<close>

definition editor_select :: "jsval list \<Rightarrow> int \<Rightarrow> editor \<Rightarrow> editor" where
  "editor_select configs cid e =
     (case find (\<lambda>c. get_prop c ''id'' = Some (JNum cid)) configs of
        None \<Rightarrow> e
      | Some c \<Rightarrow> \<lparr>ed_selected = Some c, ed_form = obj_props c\<rparr>)"

text \<open>\<open>updateFormData\<close> (lines 114--116): \<open>{ ...prev, [field]: value }\<close>
  keeps the key's place when it is present and appends it otherwise.\<close>

definition editor_update :: "string \<Rightarrow> jsval \<Rightarrow> editor \<Rightarrow> editor" where
  "editor_update k v e = e\<lparr>ed_form := jsmap_set k v (ed_form e)\<rparr>"

text \<open>\<open>handleSave\<close> and the mutation (lines 56--79, 101--104): a \<open>PUT\<close> of
  the form to \<open>/api/proxy-configs/:id\<close> of the selected configuration.\<close>

definition editor_save :: "editor \<Rightarrow> client_call option" where
  "editor_save e =
     (case ed_selected e of
        None \<Rightarrow> None
      | Some c \<Rightarrow>
          Some \<lparr>cc_method = HPut, cc_url = ''/api/proxy-configs/'' @ tmpl_val (get_prop c ''id''),
                cc_body = Some (JObj (ed_form e))\<rparr>)"

definition editor_settled :: "bool \<Rightarrow> effect list" where
  "editor_settled ok =
     (if ok then [Toast ''Configuration Updated'', Invalidate ''/api/proxy-configs''] else [Toast ''Update Failed''])"

text \<open>The states of the modem management page the user can reach.\<close>

inductive mm_reach :: "mm_page \<Rightarrow> bool" where
  start: "mm_reach mm_initial"
| step: "mm_reach p \<Longrightarrow> mm_reach (fst (mm_step p e))"


subsection \<open>Sample pages\<close>

definition stage2_sample_page :: mm_page where
  "stage2_sample_page =
     mm_initial\<lparr>selected := Some sample_modem, show2 := True,
                form2 := stage2_initial\<lparr>s2_httpPort := ''8080'', s2_socksPort := ''1080''\<rparr>\<rparr>"

definition sample_editor :: editor where
  "sample_editor = \<lparr>ed_selected = Some (JObj [(''id'', JNum 1), (''httpPort'', JNum 8080)]),
                    ed_form = [(''id'', JNum 1), (''httpPort'', JNum 8081)]\<rparr>"

subsection \<open>Lemmas: from a call to its handler\<close>

lemma to_http_plain:
  assumes "CHR ''?'' \<notin> set u"
  shows "to_http \<lparr>cc_method = m, cc_url = u, cc_body = b\<rparr> =
     \<lparr>rq_method = m, rq_path = u, rq_query = [], rq_headers = [(''Content-Type'', ''application/json'')],
      rq_body = BodyJson (case b of None \<Rightarrow> JObj [] | Some x \<Rightarrow> x)\<rparr>"
proof -
  from assms have d: "dropWhile (\<lambda>ch. ch \<noteq> CHR ''?'') u = []"
    and t: "takeWhile (\<lambda>ch. ch \<noteq> CHR ''?'') u = u"
    by (auto simp: dropWhile_eq_Nil_conv takeWhile_eq_all_conv)
  show ?thesis by (simp add: to_http_def query_of_def d t)
qed

lemma modem_url_no_qmark: "CHR ''?'' \<notin> set a \<Longrightarrow> CHR ''?'' \<notin> set (modem_url i a)"
  by (simp add: modem_url_def int_str_no_qmark)

lemma path_parts_modem_url:
  assumes "CHR ''/'' \<notin> set a" "a \<noteq> []"
  shows "path_parts (modem_url i (CHR ''/'' # a)) = [''api'', ''modems'', int_str i, a]"
  using assms by (simp add: modem_url_def path_parts_def js_split_sep js_split_nosep int_str_no_slash)

lemma send_modem_post:
  assumes "CHR ''/'' \<notin> set a" "CHR ''?'' \<notin> set a" "a \<noteq> []"
  shows "send api w \<lparr>cc_method = HPost, cc_url = modem_url i (CHR ''/'' # a), cc_body = b\<rparr> sv =
    (case dispatch_in route_table HPost [''api'', ''modems'', int_str i, a] []
            (case b of None \<Rightarrow> JObj [] | Some x \<Rightarrow> x) of
       NoRoute \<Rightarrow> (RClientApp, sv)
     | Direct r \<Rightarrow> (RApi r, sv)
     | Serve req \<Rightarrow> (case serve api w req sv of (r, sv') \<Rightarrow> (RApi r, sv')))"
  using assms by (simp add: send_def app_handle_def to_http_plain modem_url_no_qmark path_parts_modem_url)

lemma send_assign_ports:
  "send api w \<lparr>cc_method = HPost, cc_url = modem_url i ''/assign-ports'', cc_body = Some b\<rparr> sv =
     (case assign_ports_route api w (int_str i) b sv of (r, sv') \<Rightarrow> (RApi r, sv'))"
  by (subst send_modem_post) (simp_all add: route_table_def lower_char_def)

lemma send_rotate_ip:
  "send api w \<lparr>cc_method = HPost, cc_url = modem_url i ''/rotate-ip'', cc_body = None\<rparr> sv =
     (case rotate_ip_route api w (int_str i) sv of (r, sv') \<Rightarrow> (RApi r, sv'))"
  by (subst send_modem_post) (simp_all add: route_table_def lower_char_def)

lemma send_reboot:
  "send api w \<lparr>cc_method = HPost, cc_url = modem_url i ''/reboot'', cc_body = None\<rparr> sv =
     (case reboot_route api w (int_str i) sv of (r, sv') \<Rightarrow> (RApi r, sv'))"
  by (subst send_modem_post) (simp_all add: route_table_def lower_char_def)

lemma ports_body_of_cong:
  assumes "get_prop b1 ''httpPort'' = get_prop b2 ''httpPort''" "get_prop b1 ''socksPort'' = get_prop b2 ''socksPort''"
    "get_prop b1 ''authentication'' = get_prop b2 ''authentication''"
    "get_prop b1 ''username'' = get_prop b2 ''username''" "get_prop b1 ''password'' = get_prop b2 ''password''"
  shows "ports_body_of b1 = ports_body_of b2"
  unfolding ports_body_of_def assms by (rule refl)

lemma assign_ports_route_body_cong:
  assumes "ports_body_of b1 = ports_body_of b2" "get_prop b1 ''httpPort'' = get_prop b2 ''httpPort''"
    "get_prop b1 ''socksPort'' = get_prop b2 ''socksPort''"
  shows "assign_ports_route api w p b1 = assign_ports_route api w p b2"
  unfolding assign_ports_route_def assms by (rule refl)

lemma stage2_json_ports:
  assumes "s2_httpPort f = s2_httpPort g" "s2_socksPort f = s2_socksPort g"
    "s2_authentication f = s2_authentication g" "s2_username f = s2_username g"
    "s2_password f = s2_password g"
  shows "ports_body_of (stage2_json f) = ports_body_of (stage2_json g) \<and>
    get_prop (stage2_json f) ''httpPort'' = get_prop (stage2_json g) ''httpPort'' \<and>
    get_prop (stage2_json f) ''socksPort'' = get_prop (stage2_json g) ''socksPort''"
proof -
  have h: "get_prop (stage2_json f) ''httpPort'' = get_prop (stage2_json g) ''httpPort''"
    "get_prop (stage2_json f) ''socksPort'' = get_prop (stage2_json g) ''socksPort''"
    "get_prop (stage2_json f) ''authentication'' = get_prop (stage2_json g) ''authentication''"
    "get_prop (stage2_json f) ''username'' = get_prop (stage2_json g) ''username''"
    "get_prop (stage2_json f) ''password'' = get_prop (stage2_json g) ''password''"
    by (simp_all add: stage2_json_def assms)
  then show ?thesis using ports_body_of_cong [OF h] by blast
qed

text \<open>C18. Submitting the Stage 2 dialog for the selected modem sends a request
  whose effect on the server depends only on the HTTP and SOCKS ports, the
  authentication flag, the user name and the password: two forms that pass the
  browser's validation and agree on these five fields, but differ in the
  protocol, IP lists, limits, log level or any other field, are both sent and
  give the same reply and the same server state.\<close>

theorem stage2_only_port_fields_reach_server:
  assumes sel: "selected p = Some m" and v: "stage2_valid (form2 p)" "stage2_valid g"
    and "s2_httpPort (form2 p) = s2_httpPort g" "s2_socksPort (form2 p) = s2_socksPort g"
    "s2_authentication (form2 p) = s2_authentication g" "s2_username (form2 p) = s2_username g"
    "s2_password (form2 p) = s2_password g"
  shows "\<exists>c c'. mm_step p SubmitStage2 = (p, [Send c]) \<and>
           mm_step (p\<lparr>form2 := g\<rparr>) SubmitStage2 = (p\<lparr>form2 := g\<rparr>, [Send c']) \<and>
           send api w c sv = send api w c' sv"
proof -
  have eq: "assign_ports_route api w (int_str (m_id m)) (stage2_json (form2 p)) =
        assign_ports_route api w (int_str (m_id m)) (stage2_json g)"
    using stage2_json_ports [OF assms(4-8)] by (blast intro: assign_ports_route_body_cong)
  have e1: "mm_step p SubmitStage2 = (p, [Send \<lparr>cc_method = HPost,
      cc_url = modem_url (m_id m) ''/assign-ports'', cc_body = Some (stage2_json (form2 p))\<rparr>])"
    using sel v(1) by simp
  have e2: "mm_step (p\<lparr>form2 := g\<rparr>) SubmitStage2 = (p\<lparr>form2 := g\<rparr>, [Send \<lparr>cc_method = HPost,
      cc_url = modem_url (m_id m) ''/assign-ports'', cc_body = Some (stage2_json g)\<rparr>])"
    using sel v(2) by simp
  show ?thesis
    by (rule exI, rule exI, intro conjI, rule e1, rule e2) (simp only: send_assign_ports eq)
qed

theorem stage2_only_port_fields_reach_server_witness:
  "\<exists>c c'. mm_step stage2_sample_page SubmitStage2 = (stage2_sample_page, [Send c]) \<and>
     mm_step (stage2_sample_page\<lparr>form2 := form2 stage2_sample_page\<lparr>s2_protocol := ''http'',
                s2_allowedIps := ''10.0.0.1'', s2_bandwidthLimit := ''512''\<rparr>\<rparr>) SubmitStage2 =
       (stage2_sample_page\<lparr>form2 := form2 stage2_sample_page\<lparr>s2_protocol := ''http'',
                s2_allowedIps := ''10.0.0.1'', s2_bandwidthLimit := ''512''\<rparr>\<rparr>, [Send c']) \<and>
     send db_api sample_world c sample_server = send db_api sample_world c' sample_server"
proof (rule stage2_only_port_fields_reach_server)
  show "selected stage2_sample_page = Some sample_modem"
    by (simp add: stage2_sample_page_def mm_initial_def)
qed (simp_all add: stage2_valid_def stage2_sample_page_def stage2_initial_def)

text \<open>C22. The rotate and reboot buttons of the modem management page send
  requests that the application routes to the rotate-ip and reboot handlers of
  that modem's id, whatever the id.\<close>

theorem mm_buttons_reach_handlers:
  "(\<exists>c. mm_step p (RotateIp m) = (p, [Send c]) \<and>
        send api w c sv = (case rotate_ip_route api w (int_str (m_id m)) sv of (r, sv') \<Rightarrow> (RApi r, sv'))) \<and>
   (\<exists>c. mm_step p (Reboot m) = (p, [Send c]) \<and>
        send api w c sv = (case reboot_route api w (int_str (m_id m)) sv of (r, sv') \<Rightarrow> (RApi r, sv')))"
  by (simp add: send_rotate_ip send_reboot)

lemma path_parts_proxy_configs:
  "take 2 (path_parts (''/api/proxy-configs/'' @ y)) = [''api'', ''proxy-configs'']"
proof -
  have "js_split CHR ''/'' (drop 1 (''/api/proxy-configs/'' @ y)) = ''api'' # ''proxy-configs'' # js_split CHR ''/'' y"
    by simp
  moreover have "js_split CHR ''/'' y \<noteq> []" by (rule js_split_ne)
  ultimately show ?thesis
    by (auto simp: path_parts_def Let_def butlast_append neq_Nil_conv)
qed

lemma app_handle_put_proxy_configs:
  assumes "rq_method rq = HPut" "rq_body rq = BodyJson b"
    and "take 2 (path_parts (rq_path rq)) = [''api'', ''proxy-configs'']"
  shows "app_handle api w rq sv = (RClientApp, sv)"
proof -
  from assms(3) obtain r where p: "path_parts (rq_path rq) = ''api'' # ''proxy-configs'' # r"
    by (cases "path_parts (rq_path rq)" rule: list.exhaust; cases "tl (path_parts (rq_path rq))"; auto)
  show ?thesis using assms(1,2) by (simp add: app_handle_def p route_table_def lower_char_def)
qed

lemma rq_path_editor:
  "rq_path (to_http \<lparr>cc_method = m, cc_url = ''/api/proxy-configs/'' @ x, cc_body = b\<rparr>) =
     ''/api/proxy-configs/'' @ takeWhile (\<lambda>ch. ch \<noteq> CHR ''?'') x"
  by (simp add: to_http_def)

text \<open>C19. Saving in the proxy configuration editor stores nothing: the
  \<open>PUT /api/proxy-configs/:id\<close> it sends matches no route of the server, the
  application answers it with the client page and status 200, the server state
  is unchanged, and the editor reports "Configuration Updated".\<close>

theorem editor_save_not_stored:
  assumes "editor_save e = Some c"
  shows "send api w c sv = (RClientApp, sv) \<and>
    editor_settled (call_ok (fst (send api w c sv))) = [Toast ''Configuration Updated'', Invalidate ''/api/proxy-configs'']"
proof -
  from assms obtain x b where c: "c = \<lparr>cc_method = HPut, cc_url = ''/api/proxy-configs/'' @ x, cc_body = Some b\<rparr>"
    by (auto simp: editor_save_def split: option.splits)
  have "send api w c sv = (RClientApp, sv)"
    unfolding send_def c
    apply (rule app_handle_put_proxy_configs)
      apply (simp add: to_http_def)
     apply (simp add: to_http_def)
    apply (subst rq_path_editor)
    apply (rule path_parts_proxy_configs)
    done
  then show ?thesis by (simp add: editor_settled_def)
qed

theorem editor_save_not_stored_witness:
  "send db_api sample_world (the (editor_save sample_editor)) sample_server = (RClientApp, sample_server) \<and>
   editor_settled (call_ok (fst (send db_api sample_world (the (editor_save sample_editor)) sample_server))) =
     [Toast ''Configuration Updated'', Invalidate ''/api/proxy-configs'']"
proof -
  have "editor_save sample_editor = Some (the (editor_save sample_editor))"
    by (simp add: editor_save_def sample_editor_def)
  then show ?thesis by (rule editor_save_not_stored)
qed

lemma mm_reach_show2_selected: "mm_reach p \<Longrightarrow> show2 p \<Longrightarrow> selected p \<noteq> None"
proof (induction rule: mm_reach.induct)
  case start
  then show ?case by (simp add: mm_initial_def)
next
  case (step p e)
  then show ?case by (cases e) (auto split: if_splits option.splits)
qed

text \<open>C20. In every state of the modem management page the user can reach, an
  open Stage 2 dialog has a selected modem, so submitting it with a form that
  passes the browser's validation always sends the assign-ports request.\<close>

theorem mm_stage2_dialog_sends:
  assumes "mm_reach p" and "show2 p" and "stage2_valid (form2 p)"
  shows "\<exists>c. mm_step p SubmitStage2 = (p, [Send c])"
  using mm_reach_show2_selected [OF assms(1,2)] assms(3) by auto

theorem mm_stage2_dialog_sends_witness:
  "\<exists>c. mm_step (fst (mm_step (fst (mm_step mm_initial (OpenStage2 sample_modem)))
          (EditStage2 (stage2_initial\<lparr>s2_httpPort := ''8080'', s2_socksPort := ''1080''\<rparr>)))) SubmitStage2 =
        (fst (mm_step (fst (mm_step mm_initial (OpenStage2 sample_modem)))
          (EditStage2 (stage2_initial\<lparr>s2_httpPort := ''8080'', s2_socksPort := ''1080''\<rparr>))), [Send c])"
proof (rule mm_stage2_dialog_sends)
  show "mm_reach (fst (mm_step (fst (mm_step mm_initial (OpenStage2 sample_modem)))
          (EditStage2 (stage2_initial\<lparr>s2_httpPort := ''8080'', s2_socksPort := ''1080''\<rparr>))))"
    by (rule mm_reach.step, rule mm_reach.step, rule mm_reach.start)
qed (simp_all add: stage2_valid_def stage2_initial_def)

text \<open>C24. The Stage 1 registration JSON always passes the server's validation
  when its rotation interval is an integer of the column type: the schema itself
  accepts an empty name or IMEI (which the form's required inputs keep from the
  page, but not from a direct API call), and the empty APN fields are stored as
  empty strings rather than NULL.\<close>

theorem stage1_form_registered:
  assumes "in_int4 (s1_ipRotationInterval f)"
  shows "\<exists>u. insertModemSchema_parse (stage1_json f) = Some u \<and> m_name (u m) = s1_name f \<and>
    imei (u m) = s1_imei f \<and> apnName (u m) = Some (s1_apnName f) \<and> apnPassword (u m) = Some (s1_apnPassword f)"
  using assms by (simp add: insertModemSchema_parse_def stage1_json_def modem_columns_def zod_col_def cv_text_def)

theorem stage1_form_registered_witness:
  "\<exists>u. insertModemSchema_parse (stage1_json stage1_initial) = Some u \<and> m_name (u sample_modem) = [] \<and>
    imei (u sample_modem) = [] \<and> apnName (u sample_modem) = Some [] \<and> apnPassword (u sample_modem) = Some []"
  using stage1_form_registered [of stage1_initial sample_modem]
  by (simp add: stage1_initial_def in_int4_def)

end
