(* ===== verification/Client_Views.thy ===== *)
theory Client_Views
  imports Client
begin

text \<open>
  The other pages and components of the web client: the proxy dashboard, the
  3proxy status page, the log pages, the modem status table, the OpenVPN and IP
  rotation pages, the API pages and the WebSocket provider.  What is modelled is
  the logic each one runs: the filters, the colour and label choices, the
  counters, the requests the buttons send and what the mutations do when they
  settle.  The markup around them is not.  \<open>toLowerCase\<close> is modelled on ASCII
  letters (\<open>lower_char\<close>); dates are numbers of milliseconds.
\<close>

subsection \<open>Shared helpers\<close>

text \<open>\<open>s.includes(t)\<close>.\<close>

fun js_includes :: "string \<Rightarrow> string \<Rightarrow> bool" where
  "js_includes [] t = (t = [])"
| "js_includes (c # cs) t = (take (length t) (c # cs) = t \<or> js_includes cs t)"

definition lower :: "string \<Rightarrow> string" where
  "lower s = map lower_char s"

text \<open>\<open>x.toLowerCase().includes(term.toLowerCase())\<close>.\<close>

definition matches_term :: "string \<Rightarrow> string \<Rightarrow> bool" where
  "matches_term x term = js_includes (lower x) (lower term)"

text \<open>\<open>modems?.find(m => m.id === modemId)?.name || `Modem-${modemId}`\<close>
  (\<^verbatim>\<open>pages/openvpn.tsx\<close> lines 61--63, \<^verbatim>\<open>pages/ip-rotation.tsx\<close> lines
  53--55).\<close>

definition modem_name_of :: "modem list \<Rightarrow> int \<Rightarrow> string" where
  "modem_name_of ms mid =
     (case find (\<lambda>m. m_id m = mid) ms of
        Some m \<Rightarrow> if m_name m \<noteq> [] then m_name m else ''Modem-'' @ int_str mid
      | None \<Rightarrow> ''Modem-'' @ int_str mid)"

subsection \<open>The proxy dashboard (\<^verbatim>\<open>pages/proxy-dashboard.tsx\<close>)\<close>

text \<open>The page state (lines 8--10): the search term, whether the events log is
  shown, and the seconds since the data last changed.\<close>

record dash =
  d_search :: string
  d_events :: bool
  d_refreshed :: nat

definition dash_initial :: dash where
  "dash_initial = \<lparr>d_search = [], d_events = False, d_refreshed = 0\<rparr>"

datatype dash_event =
    Tick
  | DataChanged
  | SetSearch string
  | ClearSearch
  | ToggleEvents
  | DashRotate int
  | DashReboot int
  | DashSettled bool

text \<open>The one-second timer (lines 35--40), the reset when modems, logs or
  stats change (lines 43--45), the search box (lines 90--92), and the rotate
  and reboot mutations, which refresh the modems and the logs when they succeed
  (lines 60--88).\<close>

fun dash_step :: "dash \<Rightarrow> dash_event \<Rightarrow> dash \<times> effect list" where
  "dash_step d Tick = (d\<lparr>d_refreshed := d_refreshed d + 1\<rparr>, [])"
| "dash_step d DataChanged = (d\<lparr>d_refreshed := 0\<rparr>, [])"
| "dash_step d (SetSearch s) = (d\<lparr>d_search := s\<rparr>, [])"
| "dash_step d ClearSearch = (d\<lparr>d_search := []\<rparr>, [])"
| "dash_step d ToggleEvents = (d\<lparr>d_events := \<not> d_events d\<rparr>, [])"
| "dash_step d (DashRotate i) =
     (d, [Send \<lparr>cc_method = HPost, cc_url = modem_url i ''/rotate-ip'', cc_body = None\<rparr>])"
| "dash_step d (DashReboot i) =
     (d, [Send \<lparr>cc_method = HPost, cc_url = modem_url i ''/reboot'', cc_body = None\<rparr>])"
| "dash_step d (DashSettled ok) = (d, if ok then [Invalidate ''/api/modems'', Invalidate ''/api/logs''] else [])"

text \<open>The search over name, IMEI, status and public IP (lines 48--53).\<close>

definition dash_filter :: "string \<Rightarrow> modem list \<Rightarrow> modem list" where
  "dash_filter term ms =
     filter (\<lambda>m. matches_term (m_name m) term \<or> matches_term (imei m) term \<or> matches_term (m_status m) term \<or>
                 (case m_publicIp m of Some ip \<Rightarrow> ip \<noteq> [] \<and> matches_term ip term | None \<Rightarrow> False)) ms"

definition dash_status_color :: "string \<Rightarrow> string" where
  "dash_status_color s =
     (if s = ''connected'' then ''#90EE90''
      else if s = ''disconnected'' then ''#FFB6C1''
      else if s = ''reconnecting'' then ''#FFD700''
      else if s = ''rebooting'' then ''#FFA500''
      else if s = ''error'' then ''#FF6347''
      else ''#FFFFFF'')"

text \<open>\<open>getSignalStrengthColor\<close> (lines 105--110): \<open>!strength\<close> holds for
  \<open>null\<close> and for 0.\<close>

definition dash_signal_color :: "int option \<Rightarrow> string" where
  "dash_signal_color st =
     (if \<not> int_truthy st then ''#FFFFFF''
      else if - 60 < the st then ''#90EE90''
      else if - 80 < the st then ''#FFD700''
      else ''#FFB6C1'')"

subsection \<open>The 3proxy status page (\<^verbatim>\<open>pages/3proxy-status.tsx\<close>)\<close>

record ps_page =
  ps_logs :: string
  ps_lines :: jsnum

definition ps_initial :: ps_page where
  "ps_initial = \<lparr>ps_logs = [], ps_lines = Num 100\<rparr>"

datatype ps_event =
    SetLines string
  | LogsFetched "string option"
  | ProxyStart
  | ProxyStop
  | ProxyRestart
  | ProxySettled string bool

text \<open>The log query (lines 30--38) fetches \<open>/api/proxy/logs?lines=${logLines}\<close>.\<close>

definition ps_logs_call :: "ps_page \<Rightarrow> client_call" where
  "ps_logs_call p = \<lparr>cc_method = HGet, cc_url = ''/api/proxy/logs?lines='' @ num_text (ps_lines p), cc_body = None\<rparr>"

text \<open>The line count input (\<open>parseInt(e.target.value)\<close>, line 208), the
  effect copying fetched logs when there are any (lines 40--44), and the start,
  stop and restart mutations (lines 46--125).\<close>

fun ps_step :: "ps_page \<Rightarrow> ps_event \<Rightarrow> ps_page \<times> effect list" where
  "ps_step p (SetLines s) = (p\<lparr>ps_lines := parseInt_str s\<rparr>, [])"
| "ps_step p (LogsFetched l) =
     (case l of Some t \<Rightarrow> if t \<noteq> [] then (p\<lparr>ps_logs := t\<rparr>, []) else (p, []) | None \<Rightarrow> (p, []))"
| "ps_step p ProxyStart = (p, [Send \<lparr>cc_method = HPost, cc_url = ''/api/proxy/start'', cc_body = None\<rparr>])"
| "ps_step p ProxyStop = (p, [Send \<lparr>cc_method = HPost, cc_url = ''/api/proxy/stop'', cc_body = None\<rparr>])"
| "ps_step p ProxyRestart = (p, [Send \<lparr>cc_method = HPost, cc_url = ''/api/proxy/restart'', cc_body = None\<rparr>])"
| "ps_step p (ProxySettled what ok) =
     (p, if ok then [Toast (''3proxy '' @ what), Invalidate ''/api/proxy/status''] else [Toast (what @ '' Failed'')])"

text \<open>The buttons' \<open>disabled\<close> conditions (lines 127--147): start while
  not pending and not running, stop while not pending and running, restart
  while not pending.\<close>

definition ps_start_enabled :: "bool \<Rightarrow> bool \<Rightarrow> bool" where
  "ps_start_enabled pending is_running \<longleftrightarrow> \<not> pending \<and> \<not> is_running"

definition ps_stop_enabled :: "bool \<Rightarrow> bool \<Rightarrow> bool" where
  "ps_stop_enabled pending is_running \<longleftrightarrow> \<not> pending \<and> is_running"

subsection \<open>Logs (\<^verbatim>\<open>pages/logs.tsx\<close>, \<^verbatim>\<open>components/recent-logs.tsx\<close>)\<close>

text \<open>The filter of the logs page (lines 50--59).\<close>

definition log_visible :: "string \<Rightarrow> string \<Rightarrow> system_log \<Rightarrow> bool" where
  "log_visible term levelFilter l \<longleftrightarrow>
     (term = [] \<or> matches_term (message l) term \<or>
      (case details l of Some d \<Rightarrow> matches_term d term | None \<Rightarrow> False) \<or>
      (case source l of Some s \<Rightarrow> matches_term s term | None \<Rightarrow> False)) \<and>
     (levelFilter = ''all'' \<or> level l = levelFilter)"

definition filtered_logs :: "string \<Rightarrow> string \<Rightarrow> system_log list \<Rightarrow> system_log list" where
  "filtered_logs term levelFilter ls = filter (log_visible term levelFilter) ls"

text \<open>The badge of a level (lines 31--44): the level itself when unknown.\<close>

definition level_badge :: "string \<Rightarrow> string" where
  "level_badge lv =
     (if lv = ''error'' then ''Error'' else if lv = ''warn'' then ''Warning''
      else if lv = ''info'' then ''Info'' else if lv = ''debug'' then ''Debug'' else lv)"

text \<open>\<open>getLogColor\<close> and \<open>formatTimeAgo\<close> of the recent activity list
  (\<^verbatim>\<open>components/recent-logs.tsx\<close>, lines 13--39), on the difference
  \<open>now - date\<close> in milliseconds.\<close>

definition log_color :: "string \<Rightarrow> string" where
  "log_color lv =
     (if lv = ''info'' then ''bg-success'' else if lv = ''warn'' then ''bg-warning''
      else if lv = ''error'' then ''bg-error'' else ''bg-primary'')"

definition formatTimeAgo :: "int \<Rightarrow> string" where
  "formatTimeAgo diffMs =
     (let diffMins = diffMs div 60000 in
      if diffMins < 1 then ''just now''
      else if diffMins < 60 then int_str diffMins @ '' minutes ago''
      else (let diffHours = diffMins div 60 in
            if diffHours < 24 then int_str diffHours @ '' hours ago''
            else int_str (diffHours div 24) @ '' days ago''))"

subsection \<open>The modem status table (\<^verbatim>\<open>components/modem-status-table.tsx\<close>)\<close>

definition status_badge :: "string \<Rightarrow> string" where
  "status_badge s =
     (if s = ''connected'' then ''Connected'' else if s = ''reconnecting'' then ''Reconnecting''
      else if s = ''disconnected'' then ''Disconnected'' else ''Unknown'')"

text \<open>The VPN column shows \<open>Active\<close> exactly when the modem is connected,
  whatever the VPN connections are (lines 50--59, 152).\<close>

definition vpn_badge :: "modem \<Rightarrow> string" where
  "vpn_badge m = (if m_status m = ''connected'' then ''Active'' else ''Inactive'')"

text \<open>The signal bar (lines 61--65) of \<open>modem.signalStrength || -100\<close>
  (line 117).\<close>

definition signal_bar :: "int \<Rightarrow> string" where
  "signal_bar st = (if - 70 \<le> st then ''85%'' else if - 85 \<le> st then ''60%'' else ''25%'')"

definition table_signal_bar :: "modem \<Rightarrow> string" where
  "table_signal_bar m = signal_bar (if int_truthy (m_signalStrength m) then the (m_signalStrength m) else - 100)"

subsection \<open>OpenVPN and IP rotation pages\<close>

text \<open>\<open>handleGenerateConfig\<close> (\<^verbatim>\<open>pages/openvpn.tsx\<close> lines 47--59): the
  first connected modem, \<open>vpn-client-${Date.now()}\<close> as the client name; a
  toast when no modem is connected (or its id is 0, which is falsy).\<close>

definition vpn_generate_click :: "modem list \<Rightarrow> nat \<Rightarrow> effect list" where
  "vpn_generate_click ms now =
     (case find (\<lambda>m. m_status m = ''connected'') ms of
        Some m \<Rightarrow>
          if m_id m \<noteq> 0 then
            [Send \<lparr>cc_method = HPost, cc_url = ''/api/vpn/generate'',
                   cc_body = Some (JObj [(''modemId'', JNum (m_id m)), (''clientName'', JStr (''vpn-client-'' @ nat_str now))])\<rparr>]
          else [Toast ''No connected modems available'']
      | None \<Rightarrow> [Toast ''No connected modems available''])"

definition vpn_status_badge :: "string \<Rightarrow> string" where
  "vpn_status_badge s =
     (if s = ''active'' then ''Active'' else if s = ''inactive'' then ''Inactive''
      else if s = ''error'' then ''Error'' else ''Unknown'')"

text \<open>The IP rotation page (\<^verbatim>\<open>pages/ip-rotation.tsx\<close>): the quick rotation
  list shows the connected modems (line 73); its button posts the legacy
  \<open>/rotate\<close> route and refreshes modems and rotation logs on success (lines
  25--47).\<close>

definition quick_rotation_modems :: "modem list \<Rightarrow> modem list" where
  "quick_rotation_modems ms = filter (\<lambda>m. m_status m = ''connected'') ms"

definition quick_rotate_click :: "int \<Rightarrow> effect list" where
  "quick_rotate_click i = [Send \<lparr>cc_method = HPost, cc_url = modem_url i ''/rotate'', cc_body = None\<rparr>]"

definition quick_rotate_settled :: "bool \<Rightarrow> effect list" where
  "quick_rotate_settled ok =
     (if ok then [Toast ''IP rotation completed successfully'', Invalidate ''/api/modems'', Invalidate ''/api/rotation-logs'']
      else [Toast ''Failed to rotate IP address''])"

subsection \<open>The API pages\<close>

text \<open>The endpoints the API documentation lists (\<^verbatim>\<open>pages/api.tsx\<close>, lines
  20--66), \<open>{id}\<close> standing for a modem id, and the quick actions of
  \<^verbatim>\<open>components/api-endpoints.tsx\<close> (lines 33--58), whose Test button calls
  \<open>apiRequest(method, path, testData)\<close> (lines 11--31).  The documentation
  says every request needs a Bearer token.\<close>

definition api_doc_endpoints :: "(http_method \<times> string) list" where
  "api_doc_endpoints =
     [(HGet, ''/api/modems''), (HPost, ''/api/modems/{id}/rotate''), (HGet, ''/api/stats''),
      (HPost, ''/api/vpn/generate'')]"

definition api_quick_actions :: "(http_method \<times> string \<times> jsval option) list" where
  "api_quick_actions =
     [(HPost, ''/api/modems/1/rotate'', None), (HGet, ''/api/modems'', None),
      (HPost, ''/api/vpn/generate'', Some (JObj [(''modemId'', JNum 1), (''clientName'', JStr ''test-client'')])),
      (HGet, ''/api/analytics'', None)]"

definition test_endpoint :: "http_method \<times> string \<times> jsval option \<Rightarrow> client_call" where
  "test_endpoint a = (case a of (m, path, d) \<Rightarrow> \<lparr>cc_method = m, cc_url = path, cc_body = d\<rparr>)"

subsection \<open>The WebSocket provider (\<^verbatim>\<open>lib/websocket.tsx\<close>)\<close>

text \<open>The provider opens one socket when it mounts (lines 28--53) and keeps
  \<open>connected\<close> and \<open>socket\<close>; the socket moves from connecting to open to
  closed; nothing opens another one.\<close>

datatype ws_phase = WsConnecting | WsOpen | WsClosed

record ws_client =
  wc_phase :: ws_phase
  wc_connected :: bool
  wc_socket :: bool

definition ws_initial :: ws_client where
  "ws_initial = \<lparr>wc_phase = WsConnecting, wc_connected = False, wc_socket = False\<rparr>"

datatype ws_event = WsOnOpen | WsOnClose | WsOnError | WsSend jsval

text \<open>\<open>onopen\<close>, \<open>onclose\<close>, \<open>onerror\<close> and \<open>sendMessage\<close> (lines 34--59);
  a message goes out only when there is a socket and \<open>connected\<close> holds.\<close>

fun ws_step :: "ws_client \<Rightarrow> ws_event \<Rightarrow> ws_client \<times> jsval list" where
  "ws_step c WsOnOpen =
     (if wc_phase c = WsConnecting then (c\<lparr>wc_phase := WsOpen, wc_connected := True, wc_socket := True\<rparr>, [])
      else (c, []))"
| "ws_step c WsOnClose =
     (if wc_phase c = WsClosed then (c, []) else (c\<lparr>wc_phase := WsClosed, wc_connected := False, wc_socket := False\<rparr>, []))"
| "ws_step c WsOnError = (c, [])"
| "ws_step c (WsSend m) = (c, if wc_socket c \<and> wc_connected c then [m] else [])"

fun ws_run :: "ws_client \<Rightarrow> ws_event list \<Rightarrow> ws_client \<times> jsval list" where
  "ws_run c [] = (c, [])"
| "ws_run c (e # es) =
     (case ws_step c e of (c', out) \<Rightarrow> (case ws_run c' es of (c'', out') \<Rightarrow> (c'', out @ out')))"

text \<open>Connected, with a socket, exactly while the socket is open.\<close>

definition ws_inv :: "ws_client \<Rightarrow> bool" where
  "ws_inv c \<longleftrightarrow> (wc_connected c \<longleftrightarrow> wc_phase c = WsOpen) \<and> (wc_socket c \<longleftrightarrow> wc_phase c = WsOpen)"

subsection \<open>Lemmas and properties\<close>

lemma ws_step_inv: "ws_inv c \<Longrightarrow> ws_inv (fst (ws_step c e))"
  by (cases e) (auto simp: ws_inv_def)

lemma ws_run_inv: "ws_inv c \<Longrightarrow> ws_inv (fst (ws_run c es))"
proof (induction es arbitrary: c)
  case (Cons e es)
  obtain c' out where s: "ws_step c e = (c', out)" by (cases "ws_step c e")
  have "ws_inv c'" using ws_step_inv [OF Cons.prems, of e] s by simp
  then have "ws_inv (fst (ws_run c' es))" by (rule Cons.IH)
  then show ?case using s by (cases "ws_run c' es") simp
qed simp

lemma ws_closed_step: "wc_phase c = WsClosed \<Longrightarrow> ws_inv c \<Longrightarrow> ws_step c e = (c, [])"
  by (cases e) (auto simp: ws_inv_def)

lemma ws_closed_run: "wc_phase c = WsClosed \<Longrightarrow> ws_inv c \<Longrightarrow> ws_run c es = (c, [])"
  by (induction es) (simp_all add: ws_closed_step)

text \<open>C21. Once the client's WebSocket has closed (the server restarted, the
  network dropped), the client stays disconnected and sends nothing, whatever
  happens next: the provider never opens another socket.\<close>

theorem ws_never_reconnects:
  assumes "wc_phase (fst (ws_run ws_initial es1)) = WsClosed"
  shows "snd (ws_run (fst (ws_run ws_initial es1)) es2) = [] \<and>
         \<not> wc_connected (fst (ws_run (fst (ws_run ws_initial es1)) es2))"
proof -
  have i: "ws_inv (fst (ws_run ws_initial es1))"
    by (rule ws_run_inv) (simp add: ws_inv_def ws_initial_def)
  show ?thesis using ws_closed_run [OF assms i] assms i by (simp add: ws_inv_def)
qed

theorem ws_never_reconnects_witness:
  "snd (ws_run (fst (ws_run ws_initial [WsOnOpen, WsOnClose])) [WsOnOpen, WsSend JNull]) = [] \<and>
   \<not> wc_connected (fst (ws_run (fst (ws_run ws_initial [WsOnOpen, WsOnClose])) [WsOnOpen, WsSend JNull]))"
  by (rule ws_never_reconnects) (simp add: ws_initial_def)

text \<open>The recent activity list says "just now" exactly for entries less
  than a minute old, including every entry dated in the future.\<close>

theorem formatTimeAgo_just_now: "formatTimeAgo d = ''just now'' \<longleftrightarrow> d < 60000"
proof
  assume "d < 60000"
  then have "d div 60000 < 1" by simp
  then show "formatTimeAgo d = ''just now''" by (simp add: formatTimeAgo_def)
next
  assume j: "formatTimeAgo d = ''just now''"
  show "d < 60000"
  proof (rule ccontr)
    assume "\<not> d < 60000"
    then have "\<not> d div 60000 < 1" by simp
    then have "length (formatTimeAgo d) \<ge> 9"
      by (auto simp: formatTimeAgo_def Let_def)
    with j show False by simp
  qed
qed

text \<open>Emptying the line count of the 3proxy page sends \<open>lines=NaN\<close>,
  which the server reads as its default of 100 lines.\<close>

lemma ps_logs_nan:
  "send api w (ps_logs_call (fst (ps_step p (SetLines [])))) sv = (RApi (Ok (BLogs (getLogs 100 (sv_os sv)))), sv)"
  by (simp add: send_def ps_logs_call_def num_text_def to_http_def query_of_def app_handle_def path_parts_def
      route_table_def lower_char_def proxy_logs_route_def query_num_def num_or_def parseInt_str_def
      digit_val_def radix_value_def is_ws_def)

end
