(* ===== verification/Spec2Isabelle.thy ===== *)
theory Spec2Isabelle
  imports Client_Views
begin

text \<open>
  A verification development of the 4G proxy server: the modem/proxy
  orchestration core (\<^verbatim>\<open>src/server\<close>, \<^verbatim>\<open>src/shared\<close>), the Express
  application around it (\<^verbatim>\<open>src/dist/index.js\<close>) and the web client
  (\<^verbatim>\<open>src/client/src\<close>).

  \<^bold>\<open>The program.\<close>  The browser client sends HTTP requests to the Express
  application; its routes (\<^verbatim>\<open>routes.ts\<close>) read and write the PostgreSQL
  database through \<open>IStorage\<close> (\<^verbatim>\<open>storage.ts\<close>), drive the Vodafone M300z
  modems over their HTTP management interface (\<^verbatim>\<open>modem-controller.ts\<close>) and
  regenerate and restart the 3proxy daemon (\<^verbatim>\<open>proxy-manager.ts\<close>); they
  broadcast changes to the clients over a WebSocket.

  \<^bold>\<open>Theories, leaves first.\<close>
  \<^item> \<open>Prelude\<close>: theorem collections, text as newline-terminated lines,
    association-list lemmas.
  \<^item> \<open>Js\<close>: the JavaScript semantics the code relies on: JSON values, property
    access, truthiness, \<open>===\<close>, \<open>String(v)\<close>, integer rendering, \<open>parseInt\<close>.
  \<^item> \<open>Schema\<close>: the row records of \<^verbatim>\<open>src/shared/schema.ts\<close>.
  \<^item> \<open>Storage\<close>: \<open>MemStorage\<close> (\<^verbatim>\<open>storage.ts\<close> 51--427) over seven insertion-ordered
    maps and the shared id counter, with its invariant (keys are row ids, ids
    below the counter) preserved by every method.
  \<^item> \<open>Db_Storage\<close>: \<open>DatabaseStorage\<close> (\<^verbatim>\<open>storage.ts\<close> 430--600) over a model of
    the tables: sequences, defaults, key and foreign-key constraints with
    statement rollback, the int4 input of PostgreSQL (blanks, sign, decimal
    digits), \<open>ORDER BY ... DESC\<close> and drizzle's \<open>.limit(n)\<close>, which omits
    the clause for a negative count.
  \<^item> \<open>Status_Parser\<close>: \<open>parseStatusResponse\<close> and its field-by-field
    specification (refinement).
  \<^item> \<open>Modem_Controller\<close>: the endpoint-probing loop, \<open>getStatus\<close>,
    \<open>rotateIp\<close>, \<open>reboot\<close>, \<open>ModemControllerFactory.create\<close> against an
    oracle \<open>env\<close> for the modem network; every request and sleep is recorded in
    an event trace, so order and number of hardware requests are theorems.
  \<^item> \<open>Proxy_Config\<close>: \<open>generateConfig\<close> as string concatenation, refined to a
    listener list and its rendering; properties over all inputs: protocol
    gating, skipped entries, egress through \<open>null\<close>, credential injection.
  \<^item> \<open>Proxy_Supervisor\<close>: \<open>writeConfig\<close>, \<open>start\<close>, \<open>stop\<close>, \<open>isRunning\<close>,
    \<open>updateConfiguration\<close>, \<open>getLogs\<close> over a machine of files and processes;
    interleavings of two updates as sequences of micro-steps.  Pids are
    allocated least-free; only the interleaving exhibit depends on that.
  \<^item> \<open>Routes\<close>: one handler per route of \<open>registerRoutes\<close>, written once over the
    \<open>storage_api\<close> interface and instantiated by \<open>db_api\<close> and \<open>mem_api\<close>;
    a server invariant (store well-formed, 3proxy supervised) kept by every
    handler, and the effects of rotate, reboot, assign-ports and download.
  \<^item> \<open>Http_App\<close>: \<open>server/index.ts\<close> and \<open>server/vite.ts\<close> as compiled into
    \<^verbatim>\<open>dist/index.js\<close> 1179--1337: body parsing, the request logger, Express
    path matching over the route table in registration order, the client-app
    fallback; the console line of \<open>log()\<close> (en-US time, source tag);
    \<open>insertModemSchema\<close> and drizzle's SET builder over the \<open>modems\<close>
    columns.
  \<^item> \<open>Client\<close>: each client request as the HTTP request the application
    receives (\<open>to_http\<close>, \<open>send\<close>); the modem-management page and its two
    dialogs as a step function \<open>mm_step\<close> with reachable states
    \<open>mm_reach\<close>, the submits guarded by the browser's constraint validation
    of the forms (required and min/max inputs); the proxy-config editor.
  \<^item> \<open>Client_Views\<close>: the dashboard, 3proxy status, logs, OpenVPN, IP rotation
    and API pages, the status table and the WebSocket provider \<open>ws_step\<close>.

  \<^bold>\<open>What the lemmas show.\<close>  Refinement of the parser and of the configuration
  generator to their specifications; soundness of a reported rotation and the
  exact request sequence on each failure path; a bound of 20 requests and
  220 s on every rotation; the
  results and errors of the storage methods on both implementations; the
  effects of each orchestration route, including the missing rollback of
  assign-ports on either storage, the foreign keys that block deleting a
  rotated modem and the storages' disagreement on a negative log limit; the
  pid file that \<open>stop\<close> trusts and never removes; the
  round trip of the OpenVPN download; the length of a request log line; from
  the client: which fields of a valid Stage 2 form reach the server, that the
  editor's save hits no route yet reports success, that an open dialog always
  has a modem, that the WebSocket never reconnects.  Store invariants (the
  server invariant, well-formedness of both storages) are lemmas: the database
  one holds by the statement rollback of the model.

  \<^bold>\<open>Oracles and bounds.\<close>  The clock, \<open>NODE_ENV\<close>, \<open>Math.random\<close>, the modem
  network, the 3proxy binary and \<open>curl\<close> are parameters (the \<open>world\<close> of a
  request), so every theorem holds for all their behaviours.  There is no
  fuel: every loop of the code runs over a finite list (the endpoint lists,
  the rows, the events) and is structural recursion; the one non-structural
  loop, \<open>run_micro\<close>, has a termination proof.  Integers are unbounded
  except the int4 columns, whose range is checked as PostgreSQL does.

  \<^bold>\<open>Not modelled.\<close>  The WebSocket transport (a broadcast is a message
  appended to a list), JSON serialisation beyond \<open>NaN\<close> to \<open>null\<close>, React
  markup and styling, the pages that only render fetched data (stats grid,
  analytics, configuration, dashboard, modems), the module
  \<open>@/lib/queryClient\<close>, which the repository does not contain (each call is
  modelled by the request it describes), the static-file server and Vite
  middleware, fractional numbers, the step check of number inputs, the JSON
  encoding node-postgres applies to object values of text columns (values are
  rendered with \<open>String(v)\<close>), and the concurrency of request handlers
  (each request runs to completion; the interleaving of two proxy updates is
  modelled separately in \<open>Proxy_Supervisor\<close>).
\<close>

end
